(* ===== verification/Prelude.thy ===== *)
theory Prelude
  imports Main
begin

text \<open>
  Shared vocabulary of the development: results of fallible code, tables of rows as the
  control plane keeps them (arrays searched by a predicate, rows replaced by their key),
  instants and the time strings the code stores, JavaScript truthiness of nullable strings,
  and the two locales through which the components prove their invariants.

  The collections \<open>result_simps\<close>, \<open>row_simps\<close> and \<open>time_simps\<close> carry the lemmas that the
  component proofs pass to the simplifier.
\<close>

named_theorems result_simps \<open>results of fallible operations\<close>
named_theorems row_simps \<open>tables of rows\<close>
named_theorems time_simps \<open>instants and time strings\<close>

section \<open>Results of fallible code\<close>

text \<open>
  A thrown error is \<open>Inl\<close>, a returned value \<open>Inr\<close>. \<open>bindE\<close> is the sequencing of two
  statements the first of which may throw, and \<open>ensure\<close> a guard that throws.
\<close>

type_synonym ('e, 'a) result = "'e + 'a"

fun bindE :: "('e, 'a) result \<Rightarrow> ('a \<Rightarrow> ('e, 'b) result) \<Rightarrow> ('e, 'b) result" where
  "bindE (Inl e) f = Inl e"
| "bindE (Inr x) f = f x"

definition ensure :: "bool \<Rightarrow> 'e \<Rightarrow> ('e, unit) result" where
  "ensure b e = (if b then Inr () else Inl e)"

definition from_option :: "'e \<Rightarrow> 'a option \<Rightarrow> ('e, 'a) result" where
  "from_option e v = (case v of None \<Rightarrow> Inl e | Some x \<Rightarrow> Inr x)"

definition map_err :: "('e \<Rightarrow> 'f) \<Rightarrow> ('e, 'a) result \<Rightarrow> ('f, 'a) result" where
  "map_err f r = (case r of Inl e \<Rightarrow> Inl (f e) | Inr x \<Rightarrow> Inr x)"

text \<open>The value of a call that returned; the comparison of two functions up to their errors.\<close>

definition ok_value :: "('e, 'a) result \<Rightarrow> 'a option" where
  "ok_value r = (case r of Inl _ \<Rightarrow> None | Inr x \<Rightarrow> Some x)"

lemma ok_value_simps [simp]:
  "ok_value (Inl e) = None" "ok_value (Inr x) = Some x" "ok_value (from_option e m) = m"
  by (auto simp: ok_value_def from_option_def split: option.split)

lemma ok_value_bindE: "ok_value (bindE m f) = Option.bind (ok_value m) (\<lambda>x. ok_value (f x))"
  by (cases m) auto

lemma bindE_Inr_iff [result_simps]:
  "bindE m f = Inr y \<longleftrightarrow> (\<exists>x. m = Inr x \<and> f x = Inr y)"
  by (cases m) auto

lemma bindE_Inl_iff [result_simps]:
  "bindE m f = Inl e \<longleftrightarrow> m = Inl e \<or> (\<exists>x. m = Inr x \<and> f x = Inl e)"
  by (cases m) auto

lemma ensure_Inr_iff [result_simps]: "ensure b e = Inr u \<longleftrightarrow> b"
  by (simp add: ensure_def)

lemma ensure_Inl_iff [result_simps]: "ensure b e = Inl e' \<longleftrightarrow> \<not> b \<and> e' = e"
  by (auto simp: ensure_def)

lemma map_err_Inr_iff [result_simps]: "map_err f r = Inr x \<longleftrightarrow> r = Inr x"
  by (cases r) (auto simp: map_err_def)

lemma map_err_simps [simp]: "map_err f (Inl e) = Inl (f e)" "map_err f (Inr x) = Inr x"
  by (simp_all add: map_err_def)

lemma ensure_True [simp]: "ensure True e = Inr ()"
  by (simp add: ensure_def)

lemma ensure_False [simp]: "ensure False e = Inl e"
  by (simp add: ensure_def)

lemma from_option_Inr_iff [result_simps]: "from_option e v = Inr x \<longleftrightarrow> v = Some x"
  by (auto simp: from_option_def split: option.splits)

lemma from_option_Inl_iff [result_simps]: "from_option e v = Inl e' \<longleftrightarrow> v = None \<and> e' = e"
  by (auto simp: from_option_def split: option.splits)

lemma from_option_simps [simp]: "from_option e None = Inl e" "from_option e (Some x) = Inr x"
  by (simp_all add: from_option_def)

fun mapE :: "('a \<Rightarrow> ('e, 'b) result) \<Rightarrow> 'a list \<Rightarrow> ('e, 'b list) result" where
  "mapE f [] = Inr []"
| "mapE f (x # xs) = bindE (f x) (\<lambda>y. bindE (mapE f xs) (\<lambda>ys. Inr (y # ys)))"

lemma mapE_Inr_iff [result_simps]: "mapE f xs = Inr ys \<longleftrightarrow> list_all2 (\<lambda>x y. f x = Inr y) xs ys"
  by (induction xs arbitrary: ys) (auto simp: bindE_Inr_iff list_all2_Cons1)

section \<open>Stateful operations\<close>

text \<open>
  An operation that changes the state and may throw: it gives the value or the error, and the
  state it leaves. A throw does not undo what the operation wrote before.
\<close>

type_synonym ('s, 'e, 'a) act = "'s \<Rightarrow> ('e, 'a) result \<times> 's"

definition ret :: "'a \<Rightarrow> ('s, 'e, 'a) act" where
  "ret x = (\<lambda>s. (Inr x, s))"

definition fail :: "'e \<Rightarrow> ('s, 'e, 'a) act" where
  "fail e = (\<lambda>s. (Inl e, s))"

definition bindA :: "('s, 'e, 'a) act \<Rightarrow> ('a \<Rightarrow> ('s, 'e, 'b) act) \<Rightarrow> ('s, 'e, 'b) act" where
  "bindA m f = (\<lambda>s. case m s of (Inl e, t) \<Rightarrow> (Inl e, t) | (Inr x, t) \<Rightarrow> f x t)"

definition read :: "('s \<Rightarrow> 'a) \<Rightarrow> ('s, 'e, 'a) act" where
  "read f = (\<lambda>s. (Inr (f s), s))"

definition change :: "('s \<Rightarrow> 's) \<Rightarrow> ('s, 'e, unit) act" where
  "change f = (\<lambda>s. (Inr (), f s))"

definition lift :: "('e, 'a) result \<Rightarrow> ('s, 'e, 'a) act" where
  "lift r = (\<lambda>s. (r, s))"

definition guard :: "bool \<Rightarrow> 'e \<Rightarrow> ('s, 'e, unit) act" where
  "guard b e = lift (ensure b e)"

definition read_or :: "'e \<Rightarrow> ('s \<Rightarrow> 'a option) \<Rightarrow> ('s, 'e, 'a) act" where
  "read_or e f = (\<lambda>s. (from_option e (f s), s))"

definition get_state :: "('s, 'e, 's) act" where
  "get_state = read (\<lambda>s. s)"

definition whenA :: "bool \<Rightarrow> ('s, 'e, 'a) act \<Rightarrow> ('s, 'e, unit) act" where
  "whenA b m = (if b then bindA m (\<lambda>_. ret ()) else ret ())"

text \<open>\<open>try m catch { restore; rethrow }\<close>\<close>

definition on_error :: "('s, 'e, 'a) act \<Rightarrow> ('s \<Rightarrow> 's) \<Rightarrow> ('s, 'e, 'a) act" where
  "on_error m restore = (\<lambda>s. case m s of (Inl e, t) \<Rightarrow> (Inl e, restore t) | (Inr x, t) \<Rightarrow> (Inr x, t))"

lemmas act_defs = ret_def fail_def bindA_def read_def change_def lift_def guard_def read_or_def

lemma act_apply [simp]:
  "ret x s = (Inr x, s)" "fail e s = (Inl e, s)" "read f s = (Inr (f s), s)"
  "change g s = (Inr (), g s)" "lift r s = (r, s)" "guard b e s = (ensure b e, s)"
  "read_or e h s = (from_option e (h s), s)" "get_state s = (Inr s, s)"
  by (simp_all add: act_defs get_state_def)

lemma bindA_apply [simp]:
  "m s = (Inl e, t) \<Longrightarrow> bindA m k s = (Inl e, t)" "m s = (Inr x, t) \<Longrightarrow> bindA m k s = k x t"
  by (simp_all add: act_defs)

lemma returned: "\<not> isl (fst r) \<Longrightarrow> \<exists>x. r = (Inr x, snd r)"
  by (cases r) (metis fst_conv isl_def snd_conv sum.exhaust)

lemma threw: "isl (fst r) \<Longrightarrow> \<exists>e. r = (Inl e, snd r)"
  by (cases r) (auto simp: isl_def)

named_theorems run_simps \<open>running an operation statement by statement\<close>
named_theorems run_elims \<open>the ways a statement can go\<close>

lemma bindA_assoc [run_simps]: "bindA (bindA m k) h = bindA m (\<lambda>x. bindA (k x) h)"
  by (auto simp: bindA_def split: prod.splits sum.splits)

lemma run_bind [run_simps]:
  "bindA (read f) k s = k (f s) s" "bindA get_state k1 s = k1 s s" "bindA (change g) k2 s = k2 () (g s)"
  "bindA (ret x) k s = k x s" "bindA (fail e) k s = (Inl e, s)"
  "bindA (lift r) k s = (case r of Inl e' \<Rightarrow> (Inl e', s) | Inr x \<Rightarrow> k x s)"
  "bindA (guard b e) k2 s = (if b then k2 () s else (Inl e, s))"
  "bindA (read_or e h) k s = (case h s of None \<Rightarrow> (Inl e, s) | Some x \<Rightarrow> k x s)"
  by (simp_all add: bindA_def ensure_def from_option_def split: sum.split option.split)

lemma run_readE [run_elims]:
  assumes "bindA (read f) k s = (r, t)"
  obtains "k (f s) s = (r, t)"
  using assms by (simp add: run_bind)

lemma run_get_stateE [run_elims]:
  assumes "bindA get_state k s = (r, t)"
  obtains "k s s = (r, t)"
  using assms by (simp add: run_bind)

lemma run_changeE [run_elims]:
  assumes "bindA (change g) k s = (r, t)"
  obtains "k () (g s) = (r, t)"
  using assms by (simp add: run_bind)

lemma run_liftE [run_elims]:
  assumes "bindA (lift v) k s = (r, t)"
  obtains e where "v = Inl e" "r = Inl e" "t = s" | x where "v = Inr x" "k x s = (r, t)"
  using assms by (cases v) (auto simp: run_bind)

lemma run_guardE [run_elims]:
  assumes "bindA (guard b e) k s = (r, t)"
  obtains "\<not> b" "r = Inl e" "t = s" | "b" "k () s = (r, t)"
  using assms by (auto simp: run_bind split: if_splits)

lemma run_read_orE [run_elims]:
  assumes "bindA (read_or e f) k s = (r, t)"
  obtains "f s = None" "r = Inl e" "t = s" | x where "f s = Some x" "k x s = (r, t)"
  using assms by (auto simp: run_bind split: option.splits)

lemma bindA_whenA: "bindA (whenA b m) k = (if b then bindA m (\<lambda>_. k ()) else k ())"
  by (auto simp: whenA_def bindA_def ret_def split: prod.splits sum.splits)

text \<open>
  \<open>keeps I m\<close>: the operation keeps the invariant \<open>I\<close>, whether it returns or throws.
  \<open>leads P m I\<close>: from a state with \<open>P\<close> it leaves a state with \<open>I\<close>, whether it returns or throws.
  The rules follow the statements of an operation: what was read is remembered in \<open>P\<close> up to the
  statement that changes the state.
\<close>

definition keeps :: "('s \<Rightarrow> bool) \<Rightarrow> ('s, 'e, 'a) act \<Rightarrow> bool" where
  "keeps I m \<longleftrightarrow> (\<forall>s. I s \<longrightarrow> I (snd (m s)))"

definition leads :: "('s \<Rightarrow> bool) \<Rightarrow> ('s, 'e, 'a) act \<Rightarrow> ('s \<Rightarrow> bool) \<Rightarrow> bool" where
  "leads P m I \<longleftrightarrow> (\<forall>s. P s \<longrightarrow> I (snd (m s)))"

named_theorems leads_rules \<open>rules that follow the statements of an operation\<close>
named_theorems keeps_rules \<open>operations that keep an invariant\<close>

lemma keepsD: "keeps I m \<Longrightarrow> I s \<Longrightarrow> I (snd (m s))"
  by (simp add: keeps_def)

lemma keeps_leads: "keeps I m \<longleftrightarrow> leads I m I"
  by (simp add: leads_def keeps_def)

lemma leads_keeps: "keeps I m \<Longrightarrow> (\<And>s. P s \<Longrightarrow> I s) \<Longrightarrow> leads P m I"
  by (simp add: leads_def keeps_def)

lemma snd_bindA: "snd (bindA m k s) = (case m s of (Inl e, t) \<Rightarrow> t | (Inr x, t) \<Rightarrow> snd (k x t))"
  by (simp add: bindA_def split: prod.split sum.split)

lemma leads_bind_read [leads_rules]:
  "(\<And>x. leads (\<lambda>s. P s \<and> f s = x) (k x) I) \<Longrightarrow> leads P (bindA (read f) k) I"
  "(\<And>x. leads (\<lambda>s. P s \<and> s = x) (k' x) I) \<Longrightarrow> leads P (bindA get_state k') I"
  by (auto simp: leads_def)

lemma leads_bind_lift [leads_rules]:
  "(\<And>s. P s \<Longrightarrow> I s) \<Longrightarrow> (\<And>x. r = Inr x \<Longrightarrow> leads P (k x) I) \<Longrightarrow> leads P (bindA (lift r) k) I"
  "(\<And>s. P s \<Longrightarrow> I s) \<Longrightarrow> (b \<Longrightarrow> leads P (k' ()) I) \<Longrightarrow> leads P (bindA (guard b e) k') I"
  by (auto simp: leads_def snd_bindA ensure_def split: sum.split)

lemma leads_bind_read_or [leads_rules]:
  "(\<And>s. P s \<Longrightarrow> I s) \<Longrightarrow> (\<And>x. leads (\<lambda>s. P s \<and> f s = Some x) (k x) I) \<Longrightarrow>
   leads P (bindA (read_or e f) k) I"
  by (auto simp: leads_def snd_bindA from_option_def split: sum.split option.split)

lemma leads_bind_same:
  "(\<And>s. snd (m s) = s) \<Longrightarrow> (\<And>s. P s \<Longrightarrow> I s) \<Longrightarrow> (\<And>x. leads P (k x) I) \<Longrightarrow> leads P (bindA m k) I"
  by (auto simp: leads_def snd_bindA split: prod.splits sum.splits) (metis snd_conv)+

lemma leads_bind_change [leads_rules]:
  "(\<And>s. P s \<Longrightarrow> I (g s)) \<Longrightarrow> keeps I (k ()) \<Longrightarrow> leads P (bindA (change g) k) I"
  by (simp add: leads_def keeps_def snd_bindA)

lemma leads_end [leads_rules]:
  "(\<And>s. P s \<Longrightarrow> I s) \<Longrightarrow> leads P (ret x) I"
  "(\<And>s. P s \<Longrightarrow> I s) \<Longrightarrow> leads P (fail e) I"
  "(\<And>s. P s \<Longrightarrow> I (g s)) \<Longrightarrow> leads P (change g) I"
  "(\<And>s. P s \<Longrightarrow> I s) \<Longrightarrow> leads P (lift r) I"
  by (auto simp: leads_def)

lemma leads_if [leads_rules]:
  "(b \<Longrightarrow> leads P m I) \<Longrightarrow> (\<not> b \<Longrightarrow> leads P n I) \<Longrightarrow> leads P (if b then m else n) I"
  by simp

lemma leads_option [leads_rules]:
  "(v = None \<Longrightarrow> leads P m I) \<Longrightarrow> (\<And>x. v = Some x \<Longrightarrow> leads P (n x) I) \<Longrightarrow>
   leads P (case v of None \<Rightarrow> m | Some x \<Rightarrow> n x) I"
  by (cases v) auto

lemma keeps_bind [keeps_rules]:
  assumes "keeps I m" and "\<And>x. keeps I (k x)"
  shows "keeps I (bindA m k)"
  using assms by (fastforce simp: keeps_def snd_bindA split: prod.split sum.split)

lemma keeps_basic [keeps_rules]:
  "keeps I (ret x)" "keeps I (fail e)" "keeps I (read f)" "keeps I get_state" "keeps I (lift r)"
  "keeps I (guard b e)" "keeps I (read_or e' h)"
  by (auto simp: keeps_def)

lemma keeps_change [keeps_rules]: "(\<And>s. I s \<Longrightarrow> I (g s)) \<Longrightarrow> keeps I (change g)"
  by (auto simp: keeps_def)

lemma keeps_if [keeps_rules]: "keeps I m \<Longrightarrow> keeps I n \<Longrightarrow> keeps I (if b then m else n)"
  by simp

lemma keeps_option [keeps_rules]:
  "keeps I m \<Longrightarrow> (\<And>x. keeps I (n x)) \<Longrightarrow> keeps I (case v of None \<Rightarrow> m | Some x \<Rightarrow> n x)"
  by (cases v) auto

lemma keeps_whenA [keeps_rules]: "keeps I m \<Longrightarrow> keeps I (whenA b m)"
  unfolding whenA_def by (intro keeps_rules)

section \<open>Maps with insertion order\<close>

text \<open>
  A JavaScript \<open>Map\<close> or object: the entries in the order of their first insertion. Setting a key
  that is present keeps its place. \<open>map_of\<close> is the lookup.
\<close>

fun map_put :: "'k \<Rightarrow> 'v \<Rightarrow> ('k \<times> 'v) list \<Rightarrow> ('k \<times> 'v) list" where
  "map_put k v [] = [(k, v)]"
| "map_put k v (e # m) = (if fst e = k then (k, v) # m else e # map_put k v m)"

definition map_delete :: "'k \<Rightarrow> ('k \<times> 'v) list \<Rightarrow> ('k \<times> 'v) list" where
  "map_delete k m = filter (\<lambda>e. fst e \<noteq> k) m"

lemma map_of_put [row_simps, simp]: "map_of (map_put k v m) = (map_of m)(k \<mapsto> v)"
  by (induction m) auto

lemma map_of_delete [row_simps, simp]: "map_of (map_delete k m) = (map_of m)(k := None)"
  by (induction m) (auto simp: map_delete_def)

lemma keys_put [row_simps]:
  "map fst (map_put k v m) = (if k \<in> fst ` set m then map fst m else map fst m @ [k])"
  by (induction m) auto

lemma distinct_keys_put: "distinct (map fst m) \<Longrightarrow> distinct (map fst (map_put k v m))"
  by (auto simp: keys_put)

lemma in_map_put: "e \<in> set (map_put k v m) \<Longrightarrow> e = (k, v) \<or> e \<in> set m"
  by (induction m) (auto split: if_splits)

section \<open>Tables of rows\<close>

text \<open>
  \<open>find P rows\<close> of the list library is \<open>Array.prototype.find\<close>. \<open>put_row key r rows\<close> is the
  idiom \<open>rows.map(row => row.id === r.id ? r : row)\<close>, \<open>update_first P f rows\<close> is
  \<open>rows[rows.findIndex(P)] = f(row)\<close>, and \<open>remove_first P rows\<close> is
  \<open>rows.splice(rows.findIndex(P), 1)\<close> on an index that was found.
\<close>

definition put_row :: "('r \<Rightarrow> 'k) \<Rightarrow> 'r \<Rightarrow> 'r list \<Rightarrow> 'r list" where
  "put_row key r rows = map (\<lambda>row. if key row = key r then r else row) rows"

fun update_first :: "('r \<Rightarrow> bool) \<Rightarrow> ('r \<Rightarrow> 'r) \<Rightarrow> 'r list \<Rightarrow> 'r list" where
  "update_first P f [] = []"
| "update_first P f (row # rows) =
     (if P row then f row # rows else row # update_first P f rows)"

fun remove_first :: "('r \<Rightarrow> bool) \<Rightarrow> 'r list \<Rightarrow> 'r list" where
  "remove_first P [] = []"
| "remove_first P (row # rows) = (if P row then rows else row # remove_first P rows)"

lemma find_SomeD: "find P xs = Some x \<Longrightarrow> x \<in> set xs \<and> P x"
  by (auto simp: find_Some_iff)

lemma find_Some_in [dest]: "find P xs = Some x \<Longrightarrow> x \<in> set xs"
  by (auto simp: find_Some_iff)

lemma find_Some_sat: "find P xs = Some x \<Longrightarrow> P x"
  by (auto simp: find_Some_iff)

lemma find_append: "find P (xs @ ys) = (case find P xs of None \<Rightarrow> find P ys | Some x \<Rightarrow> Some x)"
  by (induction xs) auto

lemma find_unique:
  assumes "x \<in> set xs" and "P x" and "\<And>y. y \<in> set xs \<Longrightarrow> P y \<Longrightarrow> y = x"
  shows "find P xs = Some x"
proof (cases "find P xs")
  case None
  with assms(1,2) show ?thesis by (simp add: find_None_iff)
next
  case (Some y)
  then have "y = x" by (intro assms(3)) (auto dest: find_SomeD)
  with Some show ?thesis by simp
qed

lemma find_key:
  assumes "distinct (map key xs)" and "x \<in> set xs"
  shows "find (\<lambda>row. key row = key x) xs = Some x"
  using assms by (intro find_unique) (auto simp: distinct_map inj_on_def)

lemma distinct_key_eq:
  assumes "distinct (map key xs)" "x \<in> set xs" "y \<in> set xs" "key x = key y"
  shows "x = y"
  using assms by (auto simp: distinct_map inj_on_def)

lemma length_put_row [row_simps, simp]: "length (put_row key r rows) = length rows"
  by (simp add: put_row_def)

lemma map_key_put_row [row_simps, simp]: "map key (put_row key r rows) = map key rows"
  by (simp add: put_row_def)

lemma map_put_row [row_simps]:
  assumes "\<And>row. row \<in> set rows \<Longrightarrow> key row = key r \<Longrightarrow> f row = f r"
  shows "map f (put_row key r rows) = map f rows"
  using assms by (simp add: put_row_def)

lemma in_put_row_iff [row_simps]:
  "x \<in> set (put_row key r rows) \<longleftrightarrow>
     (x \<in> set rows \<and> key x \<noteq> key r) \<or> (x = r \<and> (\<exists>row \<in> set rows. key row = key r))"
  unfolding put_row_def
proof (induction rows)
  case (Cons a rows)
  then show ?case by (cases "key a = key r") auto
qed simp

lemma put_row_cases:
  assumes "x \<in> set (put_row key r rows)"
  obtains "x = r" | "x \<in> set rows" "key x \<noteq> key r"
  using assms unfolding in_put_row_iff by blast

lemma in_put_row_other: "x \<in> set rows \<Longrightarrow> key x \<noteq> key r \<Longrightarrow> x \<in> set (put_row key r rows)"
  by (simp add: in_put_row_iff)

lemma in_put_row_self: "x \<in> set rows \<Longrightarrow> key x = key r \<Longrightarrow> r \<in> set (put_row key r rows)"
  by (simp add: in_put_row_iff) blast

lemma find_put_row_self:
  assumes "k = key r" and "k \<in> key ` set rows"
  shows "find (\<lambda>row. key row = k) (put_row key r rows) = Some r"
  using assms(2) unfolding assms(1) by (induction rows) (auto simp: put_row_def)

lemma find_put_row_other:
  "k \<noteq> key r \<Longrightarrow> find (\<lambda>row. key row = k) (put_row key r rows) = find (\<lambda>row. key row = k) rows"
  by (induction rows) (auto simp: put_row_def)

lemma length_update_first [row_simps, simp]: "length (update_first P f rows) = length rows"
  by (induction rows) auto

lemma map_update_first [row_simps]:
  assumes "\<And>row. row \<in> set rows \<Longrightarrow> P row \<Longrightarrow> g (f row) = g row"
  shows "map g (update_first P f rows) = map g rows"
  using assms by (induction rows) auto

lemma in_update_first:
  "x \<in> set (update_first P f rows) \<Longrightarrow> x \<in> set rows \<or> (\<exists>y. find P rows = Some y \<and> x = f y)"
  by (induction rows) (auto split: if_splits)

lemma update_first_split:
  assumes "find P rows = Some r"
  shows "\<exists>us vs. rows = us @ r # vs \<and> P r \<and> (\<forall>u \<in> set us. \<not> P u) \<and>
           update_first P f rows = us @ f r # vs \<and> remove_first P rows = us @ vs"
  using assms
proof (induction rows)
  case Nil
  then show ?case by simp
next
  case (Cons x xs)
  show ?case
  proof (cases "P x")
    case True
    with Cons.prems have "x = r" by simp
    then show ?thesis using True by (intro exI [of _ "[]"] exI [of _ xs]) simp
  next
    case False
    with Cons.prems have "find P xs = Some r" by simp
    then obtain us vs where "xs = us @ r # vs" "P r" "\<forall>u \<in> set us. \<not> P u"
      "update_first P f xs = us @ f r # vs" "remove_first P xs = us @ vs"
      using Cons.IH by blast
    then show ?thesis using False by (intro exI [of _ "x # us"] exI [of _ vs]) simp
  qed
qed

lemma update_first_none: "find P rows = None \<Longrightarrow> update_first P f rows = rows"
  by (induction rows) (auto split: if_splits)

lemma remove_first_subset: "set (remove_first P rows) \<subseteq> set rows"
  by (induction rows) auto

lemma in_remove_first_other: "x \<in> set rows \<Longrightarrow> \<not> P x \<Longrightarrow> x \<in> set (remove_first P rows)"
  by (induction rows) auto

lemma distinct_remove_first: "distinct (map g rows) \<Longrightarrow> distinct (map g (remove_first P rows))"
  by (induction rows) (auto dest: set_mp [OF remove_first_subset])

lemma count_update_first:
  assumes "find P rows = Some r"
  shows "int (length (filter Q (update_first P f rows))) =
    int (length (filter Q rows)) - of_bool (Q r) + of_bool (Q (f r))"
  using update_first_split [OF assms, of f] by auto

lemma count_remove_first:
  assumes "find P rows = Some r"
  shows "int (length (filter Q (remove_first P rows))) = int (length (filter Q rows)) - of_bool (Q r)"
  using update_first_split [OF assms, of "\<lambda>x. x"] by auto

section \<open>Nullable strings\<close>

text \<open>A nullable string is truthy in JavaScript when it is neither \<open>null\<close> nor empty.\<close>

definition truthy :: "string option \<Rightarrow> bool" where
  "truthy v = (case v of None \<Rightarrow> False | Some s \<Rightarrow> s \<noteq> [])"

lemma truthy_simps [simp]: "\<not> truthy None" "truthy (Some s) \<longleftrightarrow> s \<noteq> []"
  by (simp_all add: truthy_def)

lemma truthyE: "truthy v \<Longrightarrow> (\<And>s. v = Some s \<Longrightarrow> s \<noteq> [] \<Longrightarrow> P) \<Longrightarrow> P"
  by (cases v) auto

section \<open>Instants and time strings\<close>

text \<open>
  An instant is a number of milliseconds since the epoch (\<open>Date.now()\<close>). The control plane
  stores times as strings; what its code can tell apart of such a string is whether it is an
  instant with a zone (\<open>toISOString\<close> output, \<open>Instant\<close>), a wall-clock time without a zone, as
  PostgreSQL \<open>TIMESTAMP(3)\<close> columns print it (\<open>WallClock\<close>, holding the milliseconds it denotes
  when it is read as UTC), or not a date at all (\<open>NotADate\<close>, for which \<open>Date.parse\<close> is
  \<open>NaN\<close>). \<open>Date.parse\<close> reads a zone-less time in the local zone of the process, whose offset
  in milliseconds is the first argument of \<open>dateParse\<close>.

  A number that may be \<open>NaN\<close> is an \<open>ms option\<close>; every comparison with \<open>NaN\<close> is false.
\<close>

type_synonym ms = int

datatype time_text = Instant ms | WallClock ms | NotADate

definition toISOString :: "ms \<Rightarrow> time_text" where
  "toISOString t = Instant t"

fun dateParse :: "ms \<Rightarrow> time_text \<Rightarrow> ms option" where
  "dateParse zone (Instant t) = Some t"
| "dateParse zone (WallClock t) = Some (t - zone)"
| "dateParse zone NotADate = None"

definition le_ms :: "ms option \<Rightarrow> ms option \<Rightarrow> bool" where
  "le_ms a b = (case (a, b) of (Some x, Some y) \<Rightarrow> x \<le> y | _ \<Rightarrow> False)"

definition lt_ms :: "ms option \<Rightarrow> ms option \<Rightarrow> bool" where
  "lt_ms a b = (case (a, b) of (Some x, Some y) \<Rightarrow> x < y | _ \<Rightarrow> False)"

definition plus_ms :: "ms option \<Rightarrow> ms \<Rightarrow> ms option" where
  "plus_ms a d = map_option (\<lambda>x. x + d) a"

lemma dateParse_toISOString [time_simps, simp]: "dateParse zone (toISOString t) = Some t"
  by (simp add: toISOString_def)

lemma le_ms_Some [time_simps, simp]: "le_ms (Some a) (Some b) \<longleftrightarrow> a \<le> b"
  by (simp add: le_ms_def)

lemma lt_ms_Some [time_simps, simp]: "lt_ms (Some a) (Some b) \<longleftrightarrow> a < b"
  by (simp add: lt_ms_def)

lemma ms_NaN [simp]: "\<not> le_ms None b" "\<not> le_ms a None" "\<not> lt_ms None b" "\<not> lt_ms a None"
  by (cases a, simp_all add: le_ms_def lt_ms_def)+

lemma plus_ms_simps [time_simps, simp]: "plus_ms None d = None" "plus_ms (Some a) d = Some (a + d)"
  by (simp_all add: plus_ms_def)

section \<open>Invariants of step relations\<close>

text \<open>
  A component with state gives a step relation and an invariant that every step keeps; the
  invariant then holds after any number of steps. A component also gives measures that no step
  lowers: versions, attempt counters and token numbers.
\<close>

locale step_invariant =
  fixes step :: "'s \<Rightarrow> 's \<Rightarrow> bool"
    and inv :: "'s \<Rightarrow> bool"
  assumes step_keeps: "step s t \<Longrightarrow> inv s \<Longrightarrow> inv t"
begin

lemma steps_keep: "step\<^sup>*\<^sup>* s t \<Longrightarrow> inv s \<Longrightarrow> inv t"
  by (induction rule: rtranclp_induct) (auto intro: step_keeps)

end

locale step_monotone =
  fixes step :: "'s \<Rightarrow> 's \<Rightarrow> bool"
    and inv :: "'s \<Rightarrow> bool"
    and rel :: "'s \<Rightarrow> 's \<Rightarrow> bool"
  assumes mono_inv: "step s t \<Longrightarrow> inv s \<Longrightarrow> inv t"
    and mono_step: "step s t \<Longrightarrow> inv s \<Longrightarrow> rel s t"
    and rel_refl: "rel s s"
    and rel_trans: "rel s t \<Longrightarrow> rel t u \<Longrightarrow> rel s u"
begin

sublocale step_invariant step inv
  by unfold_locales (rule mono_inv)

lemma steps_mono: "step\<^sup>*\<^sup>* s t \<Longrightarrow> inv s \<Longrightarrow> rel s t"
proof (induction rule: rtranclp_induct)
  case base
  show ?case by (rule rel_refl)
next
  case (step t u)
  then have "inv t" by (blast intro: steps_keep)
  with step show ?case by (blast intro: rel_trans mono_step)
qed

end

end
