(* ===== verification/JsRegex.thy ===== *)
theory JsRegex
  imports Prelude
begin

text \<open>
  The anchored regular expressions (\<open>/^...$/\<close>) that the sources validate input with, as a
  datatype whose constructors are the operators they use: a character class, a class with
  bounded repetition \<open>{lo,hi}\<close>, sequence, alternative and star. \<open>matches\<close> runs an expression by
  derivatives, and \<open>matches_lang\<close> shows that it decides the language of the expression; the
  characterisations of class repetitions give the components bounds on the length and the
  alphabet of accepted strings.
\<close>

named_theorems regex_simps \<open>languages of regular expressions\<close>

section \<open>Character classes\<close>

definition code_unit :: "char \<Rightarrow> nat" where
  "code_unit c = of_char c"

definition char_range :: "char \<Rightarrow> char \<Rightarrow> char \<Rightarrow> bool" where
  "char_range a b c \<longleftrightarrow> code_unit a \<le> code_unit c \<and> code_unit c \<le> code_unit b"

text \<open>
  Code units are compared bit by bit, from the most significant one, when the model is
  evaluated.
\<close>

primrec code_bits :: "char \<Rightarrow> bool list" where
  "code_bits (Char b0 b1 b2 b3 b4 b5 b6 b7) = [b7, b6, b5, b4, b3, b2, b1, b0]"

fun bits_le :: "bool list \<Rightarrow> bool list \<Rightarrow> bool" where
  "bits_le (x # xs) (y # ys) = (if x = y then bits_le xs ys else y)"
| "bits_le _ _ = True"

primrec bits_val :: "bool list \<Rightarrow> nat" where
  "bits_val [] = 0"
| "bits_val (b # bs) = of_bool b * 2 ^ length bs + bits_val bs"

lemma code_unit_bits: "code_unit c = bits_val (code_bits c)"
  by (cases c) (simp add: code_unit_def of_char_def)

lemma bits_val_less: "bits_val bs < 2 ^ length bs"
  by (induction bs) auto

lemma bits_le_val: "length xs = length ys \<Longrightarrow> bits_le xs ys \<longleftrightarrow> bits_val xs \<le> bits_val ys"
proof (induction xs ys rule: list_induct2)
  case (Cons x xs y ys)
  then show ?case
    using bits_val_less [of xs] bits_val_less [of ys] by (cases x; cases y) auto
qed simp

lemma code_unit_le [code_unfold]:
  "code_unit a \<le> code_unit b \<longleftrightarrow> bits_le (code_bits a) (code_bits b)"
proof -
  have "length (code_bits a) = length (code_bits b)" by (cases a; cases b) simp
  then show ?thesis by (simp add: code_unit_bits bits_le_val)
qed

lemma char_range_code [code]:
  "char_range a b c \<longleftrightarrow>
     bits_le (code_bits a) (code_bits c) \<and> bits_le (code_bits c) (code_bits b)"
  by (simp add: char_range_def code_unit_le)

definition lower :: "char \<Rightarrow> bool" where "lower = char_range CHR ''a'' CHR ''z''"

definition upper :: "char \<Rightarrow> bool" where "upper = char_range CHR ''A'' CHR ''Z''"

definition digit :: "char \<Rightarrow> bool" where "digit = char_range CHR ''0'' CHR ''9''"

definition hex :: "char \<Rightarrow> bool" where
  "hex c \<longleftrightarrow> digit c \<or> char_range CHR ''a'' CHR ''f'' c"

definition alnum :: "char \<Rightarrow> bool" where
  "alnum c \<longleftrightarrow> upper c \<or> lower c \<or> digit c"

definition lower_alnum :: "char \<Rightarrow> bool" where
  "lower_alnum c \<longleftrightarrow> lower c \<or> digit c"

definition one_of :: "string \<Rightarrow> char \<Rightarrow> bool" where
  "one_of cs c \<longleftrightarrow> c \<in> set cs"

lemmas char_class_defs =
  code_unit_def char_range_def lower_def upper_def digit_def hex_def alnum_def
  lower_alnum_def one_of_def

section \<open>Expressions and their matcher\<close>

datatype regex =
    Zero
  | Eps
  | Cls "char \<Rightarrow> bool"
  | Rep "char \<Rightarrow> bool" nat nat
  | Seq regex regex
  | Alt regex regex
  | Star regex

primrec nullable :: "regex \<Rightarrow> bool" where
  "nullable Zero = False"
| "nullable Eps = True"
| "nullable (Cls P) = False"
| "nullable (Rep P lo hi) = (lo = 0)"
| "nullable (Seq r s) = (nullable r \<and> nullable s)"
| "nullable (Alt r s) = (nullable r \<or> nullable s)"
| "nullable (Star r) = True"

text \<open>The derivative drops the parts that cannot match any more, so that it stays small.\<close>

fun seq_of :: "regex \<Rightarrow> regex \<Rightarrow> regex" where
  "seq_of Zero s = Zero"
| "seq_of Eps s = s"
| "seq_of r s = Seq r s"

fun alt_of :: "regex \<Rightarrow> regex \<Rightarrow> regex" where
  "alt_of Zero s = s"
| "alt_of r Zero = r"
| "alt_of r s = Alt r s"

primrec deriv :: "char \<Rightarrow> regex \<Rightarrow> regex" where
  "deriv c Zero = Zero"
| "deriv c Eps = Zero"
| "deriv c (Cls P) = (if P c then Eps else Zero)"
| "deriv c (Rep P lo hi) = (if 0 < hi \<and> lo \<le> hi \<and> P c then Rep P (lo - 1) (hi - 1) else Zero)"
| "deriv c (Seq r s) =
     (if nullable r then alt_of (seq_of (deriv c r) s) (deriv c s) else seq_of (deriv c r) s)"
| "deriv c (Alt r s) = alt_of (deriv c r) (deriv c s)"
| "deriv c (Star r) = seq_of (deriv c r) (Star r)"

fun matches :: "regex \<Rightarrow> string \<Rightarrow> bool" where
  "matches r [] = nullable r"
| "matches r (c # cs) = matches (deriv c r) cs"

text \<open>Derived operators: \<open>P+\<close>, \<open>(r)?\<close> and a literal.\<close>

definition plus_of :: "(char \<Rightarrow> bool) \<Rightarrow> regex" where
  "plus_of P = Seq (Cls P) (Star (Cls P))"

definition opt :: "regex \<Rightarrow> regex" where
  "opt r = Alt Eps r"

fun lit :: "string \<Rightarrow> regex" where
  "lit [] = Eps"
| "lit (c # cs) = Seq (Cls ((=) c)) (lit cs)"

section \<open>Languages\<close>

definition conc :: "string set \<Rightarrow> string set \<Rightarrow> string set" where
  "conc A B = {u @ v | u v. u \<in> A \<and> v \<in> B}"

definition star :: "string set \<Rightarrow> string set" where
  "star A = {concat ws | ws. set ws \<subseteq> A}"

primrec lang :: "regex \<Rightarrow> string set" where
  "lang Zero = {}"
| "lang Eps = {[]}"
| "lang (Cls P) = {[c] | c. P c}"
| "lang (Rep P lo hi) = (if lo \<le> hi then {s. lo \<le> length s \<and> length s \<le> hi \<and> (\<forall>c \<in> set s. P c)} else {})"
| "lang (Seq r s) = conc (lang r) (lang s)"
| "lang (Alt r s) = lang r \<union> lang s"
| "lang (Star r) = star (lang r)"

lemma Nil_in_conc: "[] \<in> conc A B \<longleftrightarrow> [] \<in> A \<and> [] \<in> B"
  by (auto simp: conc_def)

lemma Nil_in_star: "[] \<in> star A"
  by (auto simp: star_def intro: exI [of _ "[]"])

lemma Cons_in_conc:
  "c # w \<in> conc A B \<longleftrightarrow> (\<exists>u v. w = u @ v \<and> c # u \<in> A \<and> v \<in> B) \<or> ([] \<in> A \<and> c # w \<in> B)"
  by (auto simp: conc_def Cons_eq_append_conv)

lemma Cons_in_star: "c # w \<in> star A \<longleftrightarrow> (\<exists>u v. w = u @ v \<and> c # u \<in> A \<and> v \<in> star A)"
proof
  assume "c # w \<in> star A"
  then obtain ws where ws: "set ws \<subseteq> A" "c # w = concat ws" by (auto simp: star_def)
  then show "\<exists>u v. w = u @ v \<and> c # u \<in> A \<and> v \<in> star A"
  proof (induction ws)
    case Nil
    then show ?case by simp
  next
    case (Cons x xs)
    show ?case
    proof (cases x)
      case Nil
      with Cons show ?thesis by simp
    next
      case (Cons d ds)
      with Cons.prems have "w = ds @ concat xs" "c # ds \<in> A" "concat xs \<in> star A"
        by (auto simp: star_def)
      then show ?thesis by blast
    qed
  qed
next
  assume "\<exists>u v. w = u @ v \<and> c # u \<in> A \<and> v \<in> star A"
  then obtain u ws where "w = u @ concat ws" "c # u \<in> A" "set ws \<subseteq> A"
    by (auto simp: star_def)
  then show "c # w \<in> star A"
    by (auto simp: star_def intro!: exI [of _ "(c # u) # ws"])
qed

lemma nullable_lang: "nullable r \<longleftrightarrow> [] \<in> lang r"
  by (induction r) (auto simp: Nil_in_conc Nil_in_star)

lemma lang_seq_of [simp]: "lang (seq_of r s) = conc (lang r) (lang s)"
  by (induction r s rule: seq_of.induct) (auto simp: conc_def)

lemma lang_alt_of [simp]: "lang (alt_of r s) = lang r \<union> lang s"
  by (induction r s rule: alt_of.induct) auto

lemma deriv_lang: "w \<in> lang (deriv c r) \<longleftrightarrow> c # w \<in> lang r"
proof (induction r arbitrary: w)
  case (Seq r s)
  have "w \<in> conc (lang (deriv c r)) (lang s) \<longleftrightarrow>
      (\<exists>u v. w = u @ v \<and> c # u \<in> lang r \<and> v \<in> lang s)"
    by (auto simp: conc_def Seq.IH(1))
  then show ?case by (simp add: Cons_in_conc nullable_lang Seq.IH(2))
next
  case (Star r)
  show ?case
    by (simp add: Cons_in_star) (auto simp: conc_def Star.IH)
qed auto

theorem matches_lang: "matches r w \<longleftrightarrow> w \<in> lang r"
  by (induction w arbitrary: r) (simp_all add: nullable_lang deriv_lang)

section \<open>Characterisations used by the components\<close>

lemma star_cls: "star {[c] | c. P c} = {s. \<forall>c \<in> set s. P c}"
proof (intro set_eqI)
  fix s
  show "s \<in> star {[c] | c. P c} \<longleftrightarrow> s \<in> {s. \<forall>c \<in> set s. P c}"
    by (induction s) (auto simp: Nil_in_star Cons_in_star)
qed

lemma conc_cls [regex_simps]:
  "s \<in> conc {[c] | c. P c} B \<longleftrightarrow> (\<exists>c t. s = c # t \<and> P c \<and> t \<in> B)"
  "s \<in> conc A {[c] | c. P c} \<longleftrightarrow> (\<exists>t c. s = t @ [c] \<and> t \<in> A \<and> P c)"
  by (auto simp: conc_def) (metis append_Cons append_Nil)

lemma matches_Rep [regex_simps]:
  "lo \<le> hi \<Longrightarrow> matches (Rep P lo hi) s \<longleftrightarrow> lo \<le> length s \<and> length s \<le> hi \<and> (\<forall>c \<in> set s. P c)"
  by (simp add: matches_lang)

lemma matches_plus_of [regex_simps]:
  "matches (plus_of P) s \<longleftrightarrow> s \<noteq> [] \<and> (\<forall>c \<in> set s. P c)"
  by (cases s) (auto simp: matches_lang plus_of_def Nil_in_conc Cons_in_conc star_cls)

lemma lang_lit [regex_simps, simp]: "lang (lit s) = {s}"
  by (induction s) (auto simp: conc_def)

lemma conc_length:
  assumes "s \<in> conc A B"
    and "\<And>u. u \<in> A \<Longrightarrow> length u \<le> m" and "\<And>v. v \<in> B \<Longrightarrow> length v \<le> n"
  shows "length s \<le> m + n"
proof -
  from assms(1) obtain u v where "s = u @ v" "u \<in> A" "v \<in> B" by (auto simp: conc_def)
  then show ?thesis using assms(2,3) by (simp add: add_mono)
qed

text \<open>
  The alphabet of an expression bounds the characters of what it accepts: every character of a
  matched string satisfies any predicate that all the classes of the expression imply.
\<close>

primrec within :: "(char \<Rightarrow> bool) \<Rightarrow> regex \<Rightarrow> bool" where
  "within Q Zero = True"
| "within Q Eps = True"
| "within Q (Cls P) = (\<forall>c. P c \<longrightarrow> Q c)"
| "within Q (Rep P lo hi) = (\<forall>c. P c \<longrightarrow> Q c)"
| "within Q (Seq r s) = (within Q r \<and> within Q s)"
| "within Q (Alt r s) = (within Q r \<and> within Q s)"
| "within Q (Star r) = within Q r"

lemma lang_within: "within Q r \<Longrightarrow> w \<in> lang r \<Longrightarrow> c \<in> set w \<Longrightarrow> Q c"
proof (induction r arbitrary: w)
  case (Seq r s)
  then show ?case by (fastforce simp: conc_def)
next
  case (Star r)
  then show ?case by (fastforce simp: star_def)
qed (auto split: if_splits)

lemma matches_within: "within Q r \<Longrightarrow> matches r w \<Longrightarrow> c \<in> set w \<Longrightarrow> Q c"
  using lang_within matches_lang by blast

end
