(* ===== verification/JsValue.thy ===== *)
theory JsValue
  imports JsRegex
begin

text \<open>
  JavaScript values of unknown type, as the sources receive them in request bodies and JSON
  columns, and the string functions of the language that the sources use.

  A string is a list of code units below 256 (the type \<open>char\<close>), so the case mappings and the
  white space are those of ASCII and Latin-1; the three Latin-1 letters whose upper-case form
  lies outside that range are left as they are, except for the sharp s, which becomes two
  letters. A number that is an integer is \<open>JInt\<close>; every other number (a fraction, an infinity,
  \<open>NaN\<close>) is \<open>JNum\<close> with the text that \<open>String\<close> gives for it.
\<close>

datatype js =
    JUndef
  | JNull
  | JBool bool
  | JInt int
  | JNum string
  | JStr string
  | JArr "js list"
  | JObj "(string \<times> js) list"

type_synonym js_fields = "(string \<times> js) list"

section \<open>Objects\<close>

definition js_get :: "js_fields \<Rightarrow> string \<Rightarrow> js" where
  "js_get fields k = (case map_of fields k of None \<Rightarrow> JUndef | Some v \<Rightarrow> v)"

definition js_keys :: "js_fields \<Rightarrow> string list" where
  "js_keys fields = map fst fields"

fun as_object :: "js \<Rightarrow> js_fields option" where
  "as_object (JObj fields) = Some fields"
| "as_object _ = None"

fun as_string :: "js \<Rightarrow> string option" where
  "as_string (JStr s) = Some s"
| "as_string _ = None"

definition safe_integer :: "js \<Rightarrow> bool" where
  "safe_integer v = (case v of JInt n \<Rightarrow> \<bar>n\<bar> \<le> 9007199254740991 | _ \<Rightarrow> False)"

fun nullish :: "js \<Rightarrow> bool" where
  "nullish JUndef = True"
| "nullish JNull = True"
| "nullish _ = False"

fun js_truthy :: "js \<Rightarrow> bool" where
  "js_truthy JUndef = False"
| "js_truthy JNull = False"
| "js_truthy (JBool b) = b"
| "js_truthy (JInt n) = (n \<noteq> 0)"
| "js_truthy (JNum t) = (t \<noteq> ''NaN'')"
| "js_truthy (JStr s) = (s \<noteq> [])"
| "js_truthy _ = True"

lemma js_get_put: "js_get (map_put k v fields) k' = (if k = k' then v else js_get fields k')"
  by (auto simp: js_get_def)

section \<open>Strings\<close>

fun digits_of :: "nat \<Rightarrow> string" where
  "digits_of n =
     (if n < 10 then [char_of (48 + n)] else digits_of (n div 10) @ [char_of (48 + n mod 10)])"

declare digits_of.simps [simp del]

definition int_text :: "int \<Rightarrow> string" where
  "int_text i = (if i < 0 then CHR ''-'' # digits_of (nat (- i)) else digits_of (nat i))"

definition white_space :: "char \<Rightarrow> bool" where
  "white_space c \<longleftrightarrow> c \<in> set [CHR '' '', CHR 0x09, CHR 0x0A, CHR 0x0B, CHR 0x0C, CHR 0x0D, CHR 0xA0]"

definition trim :: "string \<Rightarrow> string" where
  "trim s = rev (dropWhile white_space (rev (dropWhile white_space s)))"

text \<open>
  The two cases of an ASCII or Latin-1 letter differ in bit 5 of the code unit: it is clear in
  the upper-case letter and set in the lower-case one.
\<close>

primrec with_bit5 :: "bool \<Rightarrow> char \<Rightarrow> char" where
  "with_bit5 b (Char b0 b1 b2 b3 b4 b5 b6 b7) = Char b0 b1 b2 b3 b4 b b6 b7"

definition upper_letter :: "char \<Rightarrow> bool" where
  "upper_letter c \<longleftrightarrow>
     char_range CHR ''A'' CHR ''Z'' c \<or> (char_range CHR 0xC0 CHR 0xDE c \<and> c \<noteq> CHR 0xD7)"

definition lower_letter :: "char \<Rightarrow> bool" where
  "lower_letter c \<longleftrightarrow>
     char_range CHR ''a'' CHR ''z'' c \<or> (char_range CHR 0xE0 CHR 0xFE c \<and> c \<noteq> CHR 0xF7)"

definition lower_char :: "char \<Rightarrow> char" where
  "lower_char c = (if upper_letter c then with_bit5 True c else c)"

definition toLowerCase :: "string \<Rightarrow> string" where
  "toLowerCase s = map lower_char s"

definition upper_char :: "char \<Rightarrow> string" where
  "upper_char c = (if lower_letter c then [with_bit5 False c] else if c = CHR 0xDF then ''SS'' else [c])"

definition toUpperCase :: "string \<Rightarrow> string" where
  "toUpperCase s = concat (map upper_char s)"

definition utf8_length :: "string \<Rightarrow> nat" where
  "utf8_length s = sum_list (map (\<lambda>c. if code_unit c < 128 then 1 else 2) s)"

fun join :: "string \<Rightarrow> string list \<Rightarrow> string" where
  "join sep [] = []"
| "join sep [x] = x"
| "join sep (x # y # xs) = x @ sep @ join sep (y # xs)"

text \<open>\<open>s.replace(/[...]+/g, r)\<close>: each maximal run of characters of a class becomes one character.\<close>

fun replace_runs :: "(char \<Rightarrow> bool) \<Rightarrow> char \<Rightarrow> string \<Rightarrow> string" where
  "replace_runs P r [] = []"
| "replace_runs P r [c] = (if P c then [r] else [c])"
| "replace_runs P r (c # d # cs) =
     (if P c then (if P d then replace_runs P r (d # cs) else r # replace_runs P r (d # cs))
      else c # replace_runs P r (d # cs))"

text \<open>\<open>s.replace(/^c+|c+$/g, '')\<close>\<close>

definition strip_char :: "char \<Rightarrow> string \<Rightarrow> string" where
  "strip_char c s = rev (dropWhile ((=) c) (rev (dropWhile ((=) c) s)))"

text \<open>\<open>String(value)\<close>; null and undefined elements of an array print as the empty string.\<close>

fun js_text :: "js \<Rightarrow> string" where
  "js_text JUndef = ''undefined''"
| "js_text JNull = ''null''"
| "js_text (JBool b) = (if b then ''true'' else ''false'')"
| "js_text (JInt n) = int_text n"
| "js_text (JNum t) = t"
| "js_text (JStr s) = s"
| "js_text (JArr vs) = join '','' (map (\<lambda>v. if nullish v then [] else js_text v) vs)"
| "js_text (JObj fields) = ''[object Object]''"

fun has_infix :: "string \<Rightarrow> string \<Rightarrow> bool" where
  "has_infix needle [] = (needle = [])"
| "has_infix needle (c # cs) = (take (length needle) (c # cs) = needle \<or> has_infix needle cs)"

definition starts_with :: "string \<Rightarrow> string \<Rightarrow> bool" where
  "starts_with s prefix \<longleftrightarrow> take (length prefix) s = prefix"

definition ends_with :: "string \<Rightarrow> string \<Rightarrow> bool" where
  "ends_with s suffix \<longleftrightarrow> length suffix \<le> length s \<and> drop (length s - length suffix) s = suffix"

lemma starts_with_iff: "starts_with s p \<longleftrightarrow> (\<exists>t. s = p @ t)"
proof
  assume "starts_with s p"
  then have "s = p @ drop (length p) s"
    unfolding starts_with_def by (metis append_take_drop_id)
  then show "\<exists>t. s = p @ t" ..
qed (auto simp: starts_with_def)

lemma ends_with_iff: "ends_with s p \<longleftrightarrow> (\<exists>t. s = t @ p)"
proof
  assume "ends_with s p"
  then have "s = take (length s - length p) s @ p"
    unfolding ends_with_def by (metis append_take_drop_id)
  then show "\<exists>t. s = t @ p" ..
qed (auto simp: ends_with_def)

lemma has_infix_iff: "has_infix needle s \<longleftrightarrow> (\<exists>us vs. s = us @ needle @ vs)"
proof (induction s)
  case Nil
  then show ?case by simp
next
  case (Cons c cs)
  have "take (length needle) (c # cs) = needle \<longleftrightarrow> (\<exists>vs. c # cs = needle @ vs)"
    using starts_with_iff [of "c # cs" needle] by (simp add: starts_with_def)
  moreover have "(\<exists>us vs. c # cs = us @ needle @ vs) \<longleftrightarrow>
      (\<exists>vs. c # cs = needle @ vs) \<or> (\<exists>us vs. cs = us @ needle @ vs)"
    by (auto simp: Cons_eq_append_conv)
  ultimately show ?case using Cons by simp
qed

lemma length_le_utf8: "length s \<le> utf8_length s"
  unfolding utf8_length_def by (induction s) auto

lemma utf8_length_ascii: "(\<And>c. c \<in> set s \<Longrightarrow> code_unit c < 128) \<Longrightarrow> utf8_length s = length s"
  unfolding utf8_length_def by (induction s) auto

end
