(* ===== verification/Ids.thy ===== *)
theory Ids
  imports JsValue
begin

text \<open>
  Identifiers and slugs (\<open>packages/core/src/ids.ts\<close>). \<open>slugify\<close> keeps lower-case letters and
  digits, turns everything else into single hyphens and cuts the result at 63 characters;
  \<open>stableId\<close> joins the slugs of its parts behind a prefix and slugifies again, so an identifier
  is readable and stable, but two different inputs can have the same one.
\<close>

definition slug_char :: "char \<Rightarrow> bool" where
  "slug_char c \<longleftrightarrow> lower_alnum c \<or> c = CHR ''-''"

definition not_alnum :: "char \<Rightarrow> bool" where
  "not_alnum c \<longleftrightarrow> \<not> lower_alnum c"

definition slugify :: "js \<Rightarrow> string \<Rightarrow> string" where
  "slugify value fallback =
     (let slug = take 63 (strip_char CHR ''-''
                   (replace_runs not_alnum CHR ''-''
                     (toLowerCase (trim (if nullish value then [] else js_text value)))))
      in if slug = [] then fallback else slug)"

definition stableId :: "string \<Rightarrow> js list \<Rightarrow> string" where
  "stableId prefix parts =
     (let base = join ''-'' (map (\<lambda>part. slugify part ''x'') parts)
      in slugify (JStr (prefix @ ''-'' @ base)) prefix)"

section \<open>The shape of a slug\<close>

lemma set_replace_runs: "c \<in> set (replace_runs P r s) \<Longrightarrow> c = r \<or> (c \<in> set s \<and> \<not> P c)"
  by (induction P r s rule: replace_runs.induct) (auto split: if_splits)

lemma set_strip_char: "set (strip_char c s) \<subseteq> set s"
  unfolding strip_char_def by (auto dest!: set_dropWhileD)

lemma slugify_cases:
  "slugify v f = f \<or> (slugify v f \<noteq> [] \<and> length (slugify v f) \<le> 63 \<and> list_all slug_char (slugify v f))"
proof -
  define body where "body = strip_char CHR ''-'' (replace_runs not_alnum CHR ''-''
      (toLowerCase (trim (if nullish v then [] else js_text v))))"
  have "slug_char c" if "c \<in> set body" for c
    using that set_strip_char set_replace_runs
    unfolding body_def slug_char_def not_alnum_def by blast
  then have "list_all slug_char (take 63 body)"
    by (auto simp: list_all_iff dest: in_set_takeD)
  then show ?thesis by (simp add: slugify_def Let_def flip: body_def)
qed

section \<open>Slugs that are kept\<close>

text \<open>
  A string is clean if it has only lower-case letters, digits and hyphens, no hyphen at either
  end and no two hyphens in a row. \<open>slugify\<close> only cuts such a string.
\<close>

definition clean_slug :: "string \<Rightarrow> bool" where
  "clean_slug s \<longleftrightarrow> s \<noteq> [] \<and> list_all slug_char s \<and> hd s \<noteq> CHR ''-'' \<and> last s \<noteq> CHR ''-'' \<and>
     \<not> has_infix ''--'' s"

lemma slug_char_not_upper: "slug_char c \<Longrightarrow> \<not> upper_letter c \<and> \<not> white_space c"
  by (cases c)
    (auto simp: slug_char_def lower_alnum_def lower_def digit_def upper_letter_def white_space_def
      char_range_code split: if_splits)

lemma toLowerCase_slug: "list_all slug_char s \<Longrightarrow> toLowerCase s = s"
  by (induction s) (auto simp: toLowerCase_def lower_char_def slug_char_not_upper)

lemma trim_slug: "list_all slug_char s \<Longrightarrow> trim s = s"
proof -
  have none: "list_all slug_char x \<Longrightarrow> dropWhile white_space x = x" for x
    by (cases x) (auto simp: slug_char_not_upper)
  assume "list_all slug_char s"
  then show ?thesis by (simp add: trim_def none list_all_iff)
qed

lemma strip_char_id: "s \<noteq> [] \<Longrightarrow> hd s \<noteq> c \<Longrightarrow> last s \<noteq> c \<Longrightarrow> strip_char c s = s"
proof -
  assume s: "s \<noteq> []" "hd s \<noteq> c" "last s \<noteq> c"
  then have "dropWhile ((=) c) s = s" by (cases s) auto
  moreover from s have "dropWhile ((=) c) (rev s) = rev s" by (cases s rule: rev_cases) auto
  ultimately show ?thesis by (simp add: strip_char_def)
qed

lemma replace_runs_id:
  "list_all (\<lambda>c. P c \<longrightarrow> c = r) s \<Longrightarrow> \<not> has_infix [r, r] s \<Longrightarrow> replace_runs P r s = s"
  by (induction P r s rule: replace_runs.induct) auto

lemma slugify_clean: "clean_slug s \<Longrightarrow> slugify (JStr s) f = take 63 s"
proof -
  assume s: "clean_slug s"
  then have "replace_runs not_alnum CHR ''-'' s = s"
    by (intro replace_runs_id) (auto simp: clean_slug_def not_alnum_def slug_char_def list_all_iff)
  with s show ?thesis
    by (simp add: slugify_def clean_slug_def trim_slug toLowerCase_slug strip_char_id Let_def)
qed

lemma has_double_append:
  "\<not> has_infix [r, r] p \<Longrightarrow> \<not> has_infix [r, r] t \<Longrightarrow> p = [] \<or> t = [] \<or> last p \<noteq> r \<or> hd t \<noteq> r \<Longrightarrow>
   \<not> has_infix [r, r] (p @ t)"
proof (induction p)
  case (Cons c p)
  then have "\<not> has_infix [r, r] (p @ t)" by (auto split: if_splits)
  with Cons.prems show ?case by (cases p; cases t) auto
qed simp

lemma clean_slug_prefix:
  assumes "clean_slug p" and "clean_slug s"
  shows "clean_slug (p @ ''-'' @ s)"
proof -
  have "\<not> has_infix ''--'' (''-'' @ s)"
    using assms(2) by (intro has_double_append) (auto simp: clean_slug_def)
  then have "\<not> has_infix ''--'' (p @ ''-'' @ s)"
    by (rule has_double_append [rotated]) (use assms(1) in \<open>auto simp: clean_slug_def\<close>)
  then show ?thesis
    using assms by (auto simp: clean_slug_def slug_char_def hd_append)
qed

text \<open>
  The identifier made of one clean slug of at most 63 characters: the prefix, a hyphen, and as
  much of the slug as fits into 63 characters.
\<close>

lemma stableId_clean:
  assumes "clean_slug prefix" and "clean_slug s" and "length s \<le> 63"
  shows "stableId prefix [JStr s] = take 63 (prefix @ ''-'' @ s)"
  using assms slugify_clean [OF clean_slug_prefix [OF assms(1,2)]]
  by (simp add: stableId_def slugify_clean)

end
