(* ===== verification/Rbac.thy ===== *)
theory Rbac
  imports Ids
begin

text \<open>
  Organization roles and permissions (\<open>packages/core/src/rbac.ts\<close>) and the second reading of
  them in the schemas package (\<open>packages/schemas/src/organization-role.ts\<close>): the role parsers,
  the route slug parser, the permission check \<open>can\<close>, the decision table for role changes, and
  what of an environment a role may see.

  The main properties say that the two packages agree on every input, characterise the accepted
  slugs, list who holds each privileged permission, and show that secret values only reach
  roles with \<open>env:read\<close>.
\<close>

section \<open>Roles\<close>

datatype role = OWNER | ADMIN | MAINTAINER | DEVELOPER | DB_ADMIN | VIEWER

definition ORGANIZATION_MEMBERSHIP_ROLES :: "(string \<times> role) list" where
  "ORGANIZATION_MEMBERSHIP_ROLES =
     [(''OWNER'', OWNER), (''ADMIN'', ADMIN), (''MAINTAINER'', MAINTAINER), (''DEVELOPER'', DEVELOPER),
      (''DB_ADMIN'', DB_ADMIN), (''VIEWER'', VIEWER)]"

definition role_text :: "role \<Rightarrow> string" where
  "role_text r = fst (hd (filter (\<lambda>(_, q). q = r) ORGANIZATION_MEMBERSHIP_ROLES))"

definition LEGACY_ORGANIZATION_ROLE_ALIASES :: "string list" where
  "LEGACY_ORGANIZATION_ROLE_ALIASES = [''billing-manager'', ''project-owner'']"

definition role_cases :: "(string \<times> role) list" where
  "role_cases =
     [(''OWNER'', OWNER), (''owner'', OWNER),
      (''ADMIN'', ADMIN), (''admin'', ADMIN),
      (''MAINTAINER'', MAINTAINER), (''maintainer'', MAINTAINER),
      (''DEVELOPER'', DEVELOPER), (''developer'', DEVELOPER),
      (''DB_ADMIN'', DB_ADMIN), (''db_admin'', DB_ADMIN), (''db-admin'', DB_ADMIN),
      (''VIEWER'', VIEWER), (''viewer'', VIEWER), (''billing-manager'', VIEWER), (''project-owner'', VIEWER)]"

definition normalizeOrganizationRoleForRead :: "js \<Rightarrow> role option" where
  "normalizeOrganizationRoleForRead value =
     (case value of JStr s \<Rightarrow> map_of role_cases s | _ \<Rightarrow> None)"

datatype role_error = MembershipRoleInvalid

definition parseOrganizationMembershipRoleForMutation :: "js \<Rightarrow> (role_error, role) result" where
  "parseOrganizationMembershipRoleForMutation value =
     (if value = JStr ''billing-manager'' \<or> value = JStr ''project-owner'' then Inl MembershipRoleInvalid
      else from_option MembershipRoleInvalid (normalizeOrganizationRoleForRead value))"

section \<open>Route slugs\<close>

datatype slug_error = SlugInvalid | SlugReserved | SlugTooLong

definition RESERVED_ORGANIZATION_ROUTE_SLUGS :: "string list" where
  "RESERVED_ORGANIZATION_ROUTE_SLUGS =
     [''app'', ''api'', ''admin'', ''apps'', ''preview'', ''console'', ''resources'', ''logs'', ''metrics'']"

definition ORGANIZATION_ROUTE_SLUG_PATTERN :: regex where
  "ORGANIZATION_ROUTE_SLUG_PATTERN =
     Seq (Cls lower_alnum) (opt (Seq (Star (Cls slug_char)) (Cls lower_alnum)))"

definition parseOrganizationRouteSlug :: "js \<Rightarrow> (slug_error, string) result" where
  "parseOrganizationRouteSlug value =
     (case value of
        JStr s \<Rightarrow>
          if \<not> matches ORGANIZATION_ROUTE_SLUG_PATTERN s \<or> has_infix ''--'' s then Inl SlugInvalid
          else if utf8_length s > 63 then Inl SlugTooLong
          else if s \<in> set RESERVED_ORGANIZATION_ROUTE_SLUGS then Inl SlugReserved
          else Inr s
      | _ \<Rightarrow> Inl SlugInvalid)"

section \<open>Permissions\<close>

primrec ROLE_PERMISSIONS :: "role \<Rightarrow> string list" where
  "ROLE_PERMISSIONS OWNER = [''*'']"
| "ROLE_PERMISSIONS ADMIN =
     [''project:read'', ''project:create'', ''project:update'', ''project:delete'', ''service:create'',
      ''service:update'', ''deploy:run'', ''env:write'', ''env:read'', ''db:create'', ''db:delete'',
      ''db:schema:read'', ''backup:manage'', ''team:invite'', ''github:disconnect'', ''github:refresh'',
      ''audit:read'', ''billing:read'', ''logs:read'', ''metrics:read'', ''domain:read'', ''domain:verify'',
      ''domain:manage'']"
| "ROLE_PERMISSIONS MAINTAINER =
     [''project:read'', ''project:update'', ''service:create'', ''service:update'', ''deploy:run'',
      ''env:write'', ''env:read'', ''db:connect'', ''db:schema:read'', ''db:data:read'', ''logs:read'',
      ''metrics:read'', ''domain:read'', ''domain:verify'']"
| "ROLE_PERMISSIONS DEVELOPER =
     [''project:read'', ''deploy:run'', ''logs:read'', ''metrics:read'', ''env:write-limited'',
      ''db:schema:read'', ''domain:read'']"
| "ROLE_PERMISSIONS DB_ADMIN =
     [''project:read'', ''db:create'', ''db:delete'', ''db:connect'', ''db:schema:read'', ''db:data:read'',
      ''db:query'', ''db:query:write'', ''backup:manage'', ''backup:restore'', ''domain:read'']"
| "ROLE_PERMISSIONS VIEWER = [''project:read'', ''logs:read'', ''metrics:read'', ''domain:read'']"

definition permits :: "string list \<Rightarrow> string \<Rightarrow> bool" where
  "permits permissions action \<longleftrightarrow>
     (if action = ''env:write-limited'' \<and> ''env:write'' \<in> set permissions then True
      else if action = ''db:connect-limited'' \<and> ''db:connect'' \<in> set permissions then True
      else if action = ''db:schema:read'' \<and>
        (''db:connect'' \<in> set permissions \<or> ''db:data:read'' \<in> set permissions) then True
      else if action = ''db:data:read'' \<and> ''db:connect'' \<in> set permissions then True
      else if action = ''db:query:write'' \<and> ''db:query'' \<in> set permissions then True
      else ''*'' \<in> set permissions \<or> action \<in> set permissions \<or>
        list_ex (\<lambda>permission. ends_with permission '':*'' \<and> starts_with action (butlast permission)) permissions)"

definition can :: "js \<Rightarrow> string \<Rightarrow> bool" where
  "can role action =
     (case normalizeOrganizationRoleForRead role of
        None \<Rightarrow> False
      | Some normalizedRole \<Rightarrow> permits (ROLE_PERMISSIONS normalizedRole) action)"

datatype role_permission_error = RolePermissionError string string

definition assertCan :: "js \<Rightarrow> string \<Rightarrow> (role_permission_error, bool) result" where
  "assertCan role action =
     (if \<not> can role action then Inl (RolePermissionError (js_text role) action) else Inr True)"

text \<open>An omitted role argument is \<open>VIEWER\<close>, an omitted environment the empty object.\<close>

definition visibleEnvironment :: "js_fields option \<Rightarrow> js \<Rightarrow> js_fields" where
  "visibleEnvironment environment role =
     (let env = (case environment of None \<Rightarrow> [] | Some fields \<Rightarrow> fields);
          r = (if role = JUndef then JStr ''VIEWER'' else role)
      in if can r ''env:read'' then env
         else if can r ''env:write-limited'' \<or> can r ''db:schema:read''
           then map (\<lambda>key. (key, JStr ''<restricted>'')) (js_keys env)
         else [])"

section \<open>The decision table for role changes\<close>

datatype transition_result =
    TransitionAllowed role
  | TransitionRoleInvalid
  | TransitionForbidden
  | TransitionLastOwner

definition membershipRoleTransition :: "js \<Rightarrow> js \<Rightarrow> js \<Rightarrow> int \<Rightarrow> transition_result" where
  "membershipRoleTransition actorRole targetRole currentRole ownerCount =
     (case parseOrganizationMembershipRoleForMutation targetRole of
        Inl _ \<Rightarrow> TransitionRoleInvalid
      | Inr next \<Rightarrow>
          let actor = normalizeOrganizationRoleForRead actorRole;
              current = normalizeOrganizationRoleForRead currentRole
          in if current = Some OWNER \<and> next \<noteq> OWNER \<and> ownerCount \<le> 1 then TransitionLastOwner
             else if actor = Some OWNER then TransitionAllowed next
             else if actor = Some ADMIN \<and> next \<noteq> OWNER \<and> current \<noteq> Some OWNER then TransitionAllowed next
             else TransitionForbidden)"

section \<open>The schemas package\<close>

definition MembershipRoleReadSchema :: "string list" where
  "MembershipRoleReadSchema =
     map fst ORGANIZATION_MEMBERSHIP_ROLES @
     [''owner'', ''admin'', ''maintainer'', ''developer'', ''db-admin'', ''db_admin'', ''viewer''] @
     LEGACY_ORGANIZATION_ROLE_ALIASES"

definition schema_role_cases :: "(string \<times> role) list" where
  "schema_role_cases =
     [(''billing-manager'', VIEWER), (''project-owner'', VIEWER),
      (''db-admin'', DB_ADMIN), (''db_admin'', DB_ADMIN), (''DB_ADMIN'', DB_ADMIN),
      (''OWNER'', OWNER), (''owner'', OWNER),
      (''ADMIN'', ADMIN), (''admin'', ADMIN),
      (''MAINTAINER'', MAINTAINER), (''maintainer'', MAINTAINER),
      (''DEVELOPER'', DEVELOPER), (''developer'', DEVELOPER),
      (''VIEWER'', VIEWER), (''viewer'', VIEWER)]"

definition schema_normalizeOrganizationRoleForRead :: "js \<Rightarrow> role option" where
  "schema_normalizeOrganizationRoleForRead value =
     (case value of
        JStr s \<Rightarrow> if s \<in> set MembershipRoleReadSchema then map_of schema_role_cases s else None
      | _ \<Rightarrow> None)"

definition schema_parseOrganizationMembershipRoleForMutation :: "js \<Rightarrow> (role_error, role) result" where
  "schema_parseOrganizationMembershipRoleForMutation value =
     (case Option.bind (as_string value) (map_of ORGANIZATION_MEMBERSHIP_ROLES) of
        Some r \<Rightarrow> Inr r
      | None \<Rightarrow>
          if value = JStr ''billing-manager'' \<or> value = JStr ''project-owner'' then Inl MembershipRoleInvalid
          else from_option MembershipRoleInvalid (schema_normalizeOrganizationRoleForRead value))"

definition schema_parseOrganizationRouteSlug :: "js \<Rightarrow> (slug_error, string) result" where
  "schema_parseOrganizationRouteSlug value =
     (case value of
        JStr s \<Rightarrow>
          if \<not> matches ORGANIZATION_ROUTE_SLUG_PATTERN s \<or> has_infix ''--'' s then Inl SlugInvalid
          else if utf8_length s > 63 then Inl SlugTooLong
          else if s \<in> set RESERVED_ORGANIZATION_ROUTE_SLUGS then Inl SlugReserved
          else Inr s
      | _ \<Rightarrow> Inl SlugInvalid)"

section \<open>Lemmas\<close>

lemma canonical_roles_in_cases:
  "map_of ORGANIZATION_MEMBERSHIP_ROLES s = Some r \<Longrightarrow> map_of role_cases s = Some r"
  unfolding ORGANIZATION_MEMBERSHIP_ROLES_def role_cases_def by (auto split: if_splits)

lemma role_cases_keys: "map_of role_cases s \<noteq> None \<longleftrightarrow> s \<in> set MembershipRoleReadSchema"
  unfolding MembershipRoleReadSchema_def ORGANIZATION_MEMBERSHIP_ROLES_def
    LEGACY_ORGANIZATION_ROLE_ALIASES_def role_cases_def by simp

lemma schema_cases_agree: "map_of schema_role_cases s = map_of role_cases s"
proof -
  have "map_of schema_role_cases = map_of role_cases"
    by (rule map_of_inject_set [THEN iffD2])
      (auto simp: schema_role_cases_def role_cases_def)
  then show ?thesis by simp
qed

lemma role_cases_none: "s \<notin> set MembershipRoleReadSchema \<Longrightarrow> map_of role_cases s = None"
  using role_cases_keys by blast

lemma schema_normalize_agrees:
  "schema_normalizeOrganizationRoleForRead v = normalizeOrganizationRoleForRead v"
  by (cases v)
    (simp_all add: schema_normalizeOrganizationRoleForRead_def normalizeOrganizationRoleForRead_def
      schema_cases_agree role_cases_none)

lemma normalize_role_text [simp]: "normalizeOrganizationRoleForRead (JStr (role_text r)) = Some r"
  by (cases r)
    (simp_all add: role_text_def ORGANIZATION_MEMBERSHIP_ROLES_def normalizeOrganizationRoleForRead_def
      role_cases_def)

lemma parse_role_text [simp]: "parseOrganizationMembershipRoleForMutation (JStr (role_text r)) = Inr r"
proof -
  have "role_text r \<noteq> ''billing-manager'' \<and> role_text r \<noteq> ''project-owner''"
    by (cases r) (simp_all add: role_text_def ORGANIZATION_MEMBERSHIP_ROLES_def)
  then show ?thesis by (simp add: parseOrganizationMembershipRoleForMutation_def)
qed

lemma parse_role_normalize:
  "parseOrganizationMembershipRoleForMutation v = Inr r \<Longrightarrow> normalizeOrganizationRoleForRead v = Some r"
  by (auto simp: parseOrganizationMembershipRoleForMutation_def result_simps split: if_splits)

lemma legacy_not_canonical:
  "map_of ORGANIZATION_MEMBERSHIP_ROLES ''billing-manager'' = None"
  "map_of ORGANIZATION_MEMBERSHIP_ROLES ''project-owner'' = None"
  by (simp_all add: ORGANIZATION_MEMBERSHIP_ROLES_def)

lemma can_iff:
  "can v action \<longleftrightarrow>
   (\<exists>r. normalizeOrganizationRoleForRead v = Some r \<and> permits (ROLE_PERMISSIONS r) action)"
  by (simp add: can_def split: option.split)

lemma slug_pattern_iff:
  "matches ORGANIZATION_ROUTE_SLUG_PATTERN s \<longleftrightarrow>
   s \<noteq> [] \<and> list_all slug_char s \<and> lower_alnum (hd s) \<and> lower_alnum (last s)"
proof -
  have lang: "matches ORGANIZATION_ROUTE_SLUG_PATTERN s \<longleftrightarrow>
      (\<exists>c. s = [c] \<and> lower_alnum c) \<or>
      (\<exists>c us d. s = c # us @ [d] \<and> lower_alnum c \<and> list_all slug_char us \<and> lower_alnum d)"
    by (auto simp: matches_lang ORGANIZATION_ROUTE_SLUG_PATTERN_def opt_def conc_cls star_cls list_all_iff)
  have weak: "lower_alnum c \<Longrightarrow> slug_char c" for c by (simp add: slug_char_def)
  show ?thesis
    unfolding lang
  proof (cases s)
    case (Cons c t)
    with weak show "((\<exists>c. s = [c] \<and> lower_alnum c) \<or>
        (\<exists>c us d. s = c # us @ [d] \<and> lower_alnum c \<and> list_all slug_char us \<and> lower_alnum d)) \<longleftrightarrow>
        s \<noteq> [] \<and> list_all slug_char s \<and> lower_alnum (hd s) \<and> lower_alnum (last s)"
      by (cases t rule: rev_cases) auto
  qed simp
qed

lemma slug_char_ascii: "slug_char c \<Longrightarrow> code_unit c < 128"
  by (auto simp: slug_char_def char_class_defs)

lemma route_slug_iff:
  "parseOrganizationRouteSlug (JStr s) = Inr slug \<longleftrightarrow>
     slug = s \<and> clean_slug s \<and> length s \<le> 63 \<and> s \<notin> set RESERVED_ORGANIZATION_ROUTE_SLUGS"
proof -
  have len: "utf8_length s = length s" if "list_all slug_char s"
    using that by (intro utf8_length_ascii) (auto simp: list_all_iff slug_char_ascii)
  have edge: "lower_alnum c \<longleftrightarrow> slug_char c \<and> c \<noteq> CHR ''-''" for c
    by (auto simp: slug_char_def char_class_defs)
  have ends: "list_all slug_char s \<Longrightarrow> s \<noteq> [] \<Longrightarrow> slug_char (hd s) \<and> slug_char (last s)"
    by (simp add: list_all_iff)
  show ?thesis
    unfolding parseOrganizationRouteSlug_def js.case slug_pattern_iff edge clean_slug_def
    using len ends by auto
qed

lemma route_slug_any_iff:
  "parseOrganizationRouteSlug v = Inr slug \<longleftrightarrow>
     v = JStr slug \<and> clean_slug slug \<and> length slug \<le> 63 \<and> slug \<notin> set RESERVED_ORGANIZATION_ROUTE_SLUGS"
proof (cases v)
  case (JStr s)
  then show ?thesis by (auto simp: route_slug_iff)
qed (simp_all add: parseOrganizationRouteSlug_def)

section \<open>Main properties\<close>

text \<open>
  C39. The core package and the schemas package read organization roles and route slugs alike:
  on every value, the role for reading, the role accepted in a mutation, and the parsed slug
  are the same in both.
\<close>

theorem schema_roles_agree:
  "schema_normalizeOrganizationRoleForRead v = normalizeOrganizationRoleForRead v \<and>
   schema_parseOrganizationMembershipRoleForMutation v = parseOrganizationMembershipRoleForMutation v \<and>
   schema_parseOrganizationRouteSlug v = parseOrganizationRouteSlug v"
proof -
  have "schema_parseOrganizationMembershipRoleForMutation v = parseOrganizationMembershipRoleForMutation v"
    by (auto simp: schema_parseOrganizationMembershipRoleForMutation_def legacy_not_canonical
        parseOrganizationMembershipRoleForMutation_def schema_normalize_agrees bind_eq_Some_conv
        normalizeOrganizationRoleForRead_def from_option_def
        split: option.splits js.splits dest: canonical_roles_in_cases)
  then show ?thesis
    by (simp add: schema_normalize_agrees schema_parseOrganizationRouteSlug_def parseOrganizationRouteSlug_def)
qed

text \<open>
  The route slug parser accepts exactly the strings of 1 to 63 lower-case letters, digits
  and single hyphens that neither start nor end with a hyphen and are not reserved, and returns
  the string unchanged.
\<close>

theorem parseOrganizationRouteSlug_iff:
  "parseOrganizationRouteSlug (JStr s) = Inr slug \<longleftrightarrow>
     slug = s \<and> 1 \<le> length s \<and> length s \<le> 63 \<and> list_all slug_char s \<and>
     hd s \<noteq> CHR ''-'' \<and> last s \<noteq> CHR ''-'' \<and> (\<nexists>us vs. s = us @ ''--'' @ vs) \<and>
     s \<notin> set RESERVED_ORGANIZATION_ROUTE_SLUGS"
  unfolding route_slug_iff clean_slug_def has_infix_iff by (auto simp: Suc_le_eq)

text \<open>
  Who holds the privileged permissions. A value that is no role holds none of them; inviting,
  deleting a project and managing domains is for owners and admins, secrets are read by those
  and maintainers, and writing queries and restoring backups is for owners and database admins
  (an admin may manage backups but not restore them).
\<close>

theorem privileged_permissions:
  "(can v ''team:invite'' \<longleftrightarrow> normalizeOrganizationRoleForRead v \<in> {Some OWNER, Some ADMIN}) \<and>
   (can v ''project:delete'' \<longleftrightarrow> normalizeOrganizationRoleForRead v \<in> {Some OWNER, Some ADMIN}) \<and>
   (can v ''domain:manage'' \<longleftrightarrow> normalizeOrganizationRoleForRead v \<in> {Some OWNER, Some ADMIN}) \<and>
   (can v ''env:read'' \<longleftrightarrow> normalizeOrganizationRoleForRead v \<in> {Some OWNER, Some ADMIN, Some MAINTAINER}) \<and>
   (can v ''db:query:write'' \<longleftrightarrow> normalizeOrganizationRoleForRead v \<in> {Some OWNER, Some DB_ADMIN}) \<and>
   (can v ''backup:restore'' \<longleftrightarrow> normalizeOrganizationRoleForRead v \<in> {Some OWNER, Some DB_ADMIN})"
proof -
  have table: "can v a \<longleftrightarrow> normalizeOrganizationRoleForRead v \<in> Some ` {r. permits (ROLE_PERMISSIONS r) a}" for a
    by (auto simp: can_iff)
  have perm: "permits (ROLE_PERMISSIONS r) ''team:invite'' \<longleftrightarrow> r \<in> {OWNER, ADMIN}"
    "permits (ROLE_PERMISSIONS r) ''project:delete'' \<longleftrightarrow> r \<in> {OWNER, ADMIN}"
    "permits (ROLE_PERMISSIONS r) ''domain:manage'' \<longleftrightarrow> r \<in> {OWNER, ADMIN}"
    "permits (ROLE_PERMISSIONS r) ''env:read'' \<longleftrightarrow> r \<in> {OWNER, ADMIN, MAINTAINER}"
    "permits (ROLE_PERMISSIONS r) ''db:query:write'' \<longleftrightarrow> r \<in> {OWNER, DB_ADMIN}"
    "permits (ROLE_PERMISSIONS r) ''backup:restore'' \<longleftrightarrow> r \<in> {OWNER, DB_ADMIN}" for r
    by (cases r; hypsubst; code_simp)+
  show ?thesis unfolding table perm by auto
qed

text \<open>
  A secret value leaves \<open>visibleEnvironment\<close> only for a role that may read the environment:
  an entry of the result other than a restricted placeholder is an entry of the environment,
  and the role (the viewer role when none is given) has \<open>env:read\<close>. The keys shown are always
  keys of the environment.
\<close>

theorem visibleEnvironment_hides_values:
  assumes "(k, v) \<in> set (visibleEnvironment (Some env) r)"
  shows "k \<in> set (js_keys env) \<and>
    (v = JStr ''<restricted>'' \<or>
     ((k, v) \<in> set env \<and>
      normalizeOrganizationRoleForRead (if r = JUndef then JStr ''VIEWER'' else r)
        \<in> {Some OWNER, Some ADMIN, Some MAINTAINER}))"
proof -
  have "permits (ROLE_PERMISSIONS q) ''env:read'' \<longleftrightarrow> q \<in> {OWNER, ADMIN, MAINTAINER}" for q
    by (cases q) (simp_all add: permits_def ends_with_def)
  then have read: "can w ''env:read'' \<Longrightarrow>
      normalizeOrganizationRoleForRead w \<in> {Some OWNER, Some ADMIN, Some MAINTAINER}" for w
    by (auto simp: can_iff)
  from assms read [of "if r = JUndef then JStr ''VIEWER'' else r"] show ?thesis
    unfolding visibleEnvironment_def Let_def option.case js_keys_def
    by (auto split: if_splits intro: rev_image_eqI)
qed

theorem visibleEnvironment_hides_values_witness:
  "normalizeOrganizationRoleForRead (if JStr ''maintainer'' = JUndef then JStr ''VIEWER'' else JStr ''maintainer'')
     \<in> {Some OWNER, Some ADMIN, Some MAINTAINER}"
proof -
  have "(''TOKEN'', JStr ''s3cret'') \<in>
      set (visibleEnvironment (Some [(''TOKEN'', JStr ''s3cret'')]) (JStr ''maintainer''))"
    by code_simp
  from visibleEnvironment_hides_values [OF this] show ?thesis by simp
qed

end
