(* ===== verification/Secrets.thy ===== *)
theory Secrets
  imports JsValue
begin

text \<open>
  Masking of secrets in logs and audit rows (\<open>packages/core/src/secrets.ts\<close>): which keys are
  secret, how a secret value is shown, and the masking of whole JSON values, in which connection
  URLs are masked inside strings too. The case-insensitive expressions of the source compare
  lower-case forms here. Sealing with AES-GCM is not modelled.
\<close>

section \<open>Secret keys\<close>

definition opt_sep :: "string \<Rightarrow> string \<Rightarrow> string list" where
  "opt_sep a b = [a @ b, a @ ''_'' @ b, a @ ''-'' @ b]"

definition SECRET_KEY_RE :: "string list" where
  "SECRET_KEY_RE =
     [''secret'', ''password'', ''token'', ''private'', ''credential''] @ opt_sep ''api'' ''key'' @
     opt_sep ''access'' ''key'' @ opt_sep ''database'' ''url'' @ opt_sep ''connection'' ''url'' @
     opt_sep ''mongodb'' ''uri'' @ opt_sep ''redis'' ''url'' @ opt_sep ''mysql'' ''url'' @
     opt_sep ''mariadb'' ''url'' @ opt_sep ''postgres'' ''url'' @ opt_sep ''postgresql'' ''url'' @ [''dsn'']"

definition count_suffixes :: "string list" where
  "count_suffixes =
     [w @ plural @ sep @ ''count''. w \<leftarrow> [''secret'', ''password'', ''token'', ''credential''],
        plural \<leftarrow> [[], ''s''], sep \<leftarrow> [[], ''_'', ''-'']]"

definition count_key :: "string \<Rightarrow> bool" where
  "count_key v \<longleftrightarrow>
     list_ex (\<lambda>suffix. ends_with v suffix \<and>
        (let before = take (length v - length suffix) v
         in before = [] \<or> last before = CHR ''_'' \<or> last before = CHR ''-'')) count_suffixes"

definition isSecretKey :: "string \<Rightarrow> bool" where
  "isSecretKey key =
     (let value = toLowerCase key
      in if count_key value \<or> has_infix ''secretcount'' value \<or> has_infix ''plaincount'' value then False
         else list_ex (\<lambda>word. has_infix word value) SECRET_KEY_RE)"

definition isSafeSecretMetadataKey :: "string \<Rightarrow> bool" where
  "isSafeSecretMetadataKey key \<longleftrightarrow>
     toLowerCase (trim key) \<in> set [''secretname'', ''connectionsecretname'', ''credentialsecretuid'']"

section \<open>Masked values\<close>

definition mask_text :: "string \<Rightarrow> string" where
  "mask_text text =
     (if length text \<le> 4 then ''****'' else take 2 text @ ''****'' @ drop (length text - 2) text)"

definition maskSecretValue :: "js \<Rightarrow> js" where
  "maskSecretValue value = (if nullish value then value else JStr (mask_text (js_text value)))"

definition word_char :: "char \<Rightarrow> bool" where
  "word_char c \<longleftrightarrow> alnum c \<or> c = CHR ''_''"

definition url_stop :: "char \<Rightarrow> bool" where
  "url_stop c \<longleftrightarrow> white_space c \<or> c \<in> set [CHR 0x27, CHR 0x22, CHR '','', CHR '')'']"

definition secret_url_schemes :: "string list" where
  "secret_url_schemes =
     [''postgres'', ''postgresql'', ''mysql'', ''mariadb'', ''mongodb'', ''mongodb+srv'', ''redis'',
      ''rediss'', ''nats'', ''amqp'', ''amqps'', ''s3'']"

text \<open>
  \<open>secret_url_at s\<close> is the match of the URL expression at the start of \<open>s\<close>: a scheme, \<open>://\<close> and
  the longest non-empty run of characters that do not end a URL.
\<close>

definition secret_url_at :: "string \<Rightarrow> string option" where
  "secret_url_at s =
     map_option
       (\<lambda>scheme. let n = length scheme + 3 in take n s @ takeWhile (\<lambda>c. \<not> url_stop c) (drop n s))
       (find (\<lambda>scheme. starts_with (toLowerCase s) (scheme @ ''://'') \<and>
           (case drop (length scheme + 3) s of [] \<Rightarrow> False | c # _ \<Rightarrow> \<not> url_stop c)) secret_url_schemes)"

lemma secret_url_at_nonempty: "secret_url_at s = Some m \<Longrightarrow> m \<noteq> []"
  unfolding secret_url_at_def Let_def
  by (auto dest!: find_Some_sat split: list.splits)

function mask_urls :: "bool \<Rightarrow> string \<Rightarrow> string" where
  "mask_urls after_word [] = []"
| "mask_urls after_word (c # cs) =
     (case (if after_word then None else secret_url_at (c # cs)) of
        None \<Rightarrow> c # mask_urls (word_char c) cs
      | Some m \<Rightarrow> mask_text m @ mask_urls (word_char (last m)) (drop (length m) (c # cs)))"
  by pat_completeness auto

termination
  by (relation "measure (\<lambda>(_, s). length s)")
    (auto split: if_splits dest!: secret_url_at_nonempty)

definition maskSecretLikeString :: "string \<Rightarrow> string" where
  "maskSecretLikeString value = mask_urls False value"

fun primitive_value :: "js \<Rightarrow> bool" where
  "primitive_value JUndef = False"
| "primitive_value JNull = False"
| "primitive_value (JArr _) = False"
| "primitive_value (JObj _) = False"
| "primitive_value _ = True"

fun maskSecrets :: "js \<Rightarrow> js" where
  "maskSecrets (JArr vs) = JArr (map maskSecrets vs)"
| "maskSecrets (JStr s) = JStr (maskSecretLikeString s)"
| "maskSecrets (JObj fields) =
     JObj (map (\<lambda>(key, value).
       (key, if \<not> isSafeSecretMetadataKey key \<and> isSecretKey key \<and> primitive_value value
             then maskSecretValue value else maskSecrets value)) fields)"
| "maskSecrets v = v"

definition mask_fields :: "js_fields \<Rightarrow> js_fields" where
  "mask_fields fields = (case maskSecrets (JObj fields) of JObj masked \<Rightarrow> masked | _ \<Rightarrow> [])"

lemma keys_mask_fields: "map fst (mask_fields fields) = map fst fields"
  by (simp add: mask_fields_def) (induction fields; auto)

lemma mask_text_ends:
  assumes "4 < length v" "4 < length w" "take 2 v = take 2 w"
    "drop (length v - 2) v = drop (length w - 2) w"
  shows "mask_text v = mask_text w"
  using assms by (simp add: mask_text_def)

section \<open>Main properties\<close>

text \<open>
  C40. A masked secret reveals at most its first two and last two characters: replacing the
  string under a secret key by another one of more than four characters with the same ends does
  not change the masked object, and a secret of at most four characters is shown as four
  asterisks whatever it is.
\<close>

theorem maskSecrets_reveals_ends_only:
  assumes "isSecretKey k" and "\<not> isSafeSecretMetadataKey k"
    and "(4 < length v \<and> 4 < length w \<and> take 2 v = take 2 w \<and>
          drop (length v - 2) v = drop (length w - 2) w) \<or> (length v \<le> 4 \<and> length w \<le> 4)"
  shows "maskSecrets (JObj (us @ (k, JStr v) # vs)) = maskSecrets (JObj (us @ (k, JStr w) # vs))"
proof -
  have "mask_text v = mask_text w"
    using assms(3) mask_text_ends [of v w] by (auto simp: mask_text_def)
  with assms(1,2) show ?thesis by (simp add: maskSecretValue_def)
qed

theorem maskSecrets_reveals_ends_only_witness:
  "maskSecrets (JObj ([] @ (''DB_PASSWORD'', JStr ''hunter22'') # [])) =
   maskSecrets (JObj ([] @ (''DB_PASSWORD'', JStr ''huxxxxxxx22'') # []))"
proof (rule maskSecrets_reveals_ends_only)
  show "isSecretKey ''DB_PASSWORD''" by code_simp
  show "\<not> isSafeSecretMetadataKey ''DB_PASSWORD''" by code_simp
qed simp

end
