(* ===== verification/Lifecycle.thy ===== *)
theory Lifecycle
  imports JsValue
begin

text \<open>
  The shared lifecycle contract (\<open>lifecycle-v1.json\<close>, read by \<open>packages/core/src/lifecycle.ts\<close>
  and \<open>packages/schemas/src/lifecycle.ts\<close>): the status machines of deployments, workflow jobs,
  resource backups and restores, the parsers of stored status strings, and the transition
  predicates of \<open>packages/core/src/deployments.ts\<close>.

  \<open>lifecycle_machine\<close> is the interface the components use of a machine: its successor lists.
  Its lemma says that a set of statuses closed under the successors is never left; the
  interpretations instantiate it with the machines of the contract.
\<close>

section \<open>Statuses\<close>

datatype deployment_status =
    D_queued | D_BUILDING | D_IMAGE_READY | D_DEPLOYING | D_READY | D_BUILD_FAILED | D_FAILED
  | D_CANCELLED | D_PREVIEW_CLEANUP_REQUESTED | D_ROLLBACK_REQUESTED | D_CLEANED_UP

datatype workflow_status = W_queued | W_running | W_succeeded | W_failed | W_cancelled

datatype backup_status =
    B_QUEUED | B_RUNNING | B_VERIFYING | B_READY | B_FAILED | B_EXPIRED | B_DELETING | B_DELETED

datatype restore_status =
    R_QUEUED | R_RUNNING | R_VERIFYING | R_READY | R_FAILED | R_CANCELLED

section \<open>The machines of the contract\<close>

fun deployment_next :: "deployment_status \<Rightarrow> deployment_status list" where
  "deployment_next D_queued = [D_BUILDING, D_CANCELLED, D_FAILED]"
| "deployment_next D_BUILDING = [D_IMAGE_READY, D_BUILD_FAILED, D_FAILED, D_CANCELLED]"
| "deployment_next D_IMAGE_READY = [D_DEPLOYING, D_READY, D_FAILED, D_CANCELLED]"
| "deployment_next D_DEPLOYING = [D_READY, D_FAILED, D_CLEANED_UP]"
| "deployment_next D_READY = [D_PREVIEW_CLEANUP_REQUESTED, D_ROLLBACK_REQUESTED]"
| "deployment_next D_BUILD_FAILED = [D_BUILDING, D_PREVIEW_CLEANUP_REQUESTED]"
| "deployment_next D_FAILED = [D_BUILDING, D_PREVIEW_CLEANUP_REQUESTED, D_ROLLBACK_REQUESTED]"
| "deployment_next D_CANCELLED = [D_PREVIEW_CLEANUP_REQUESTED]"
| "deployment_next D_PREVIEW_CLEANUP_REQUESTED = [D_DEPLOYING, D_CLEANED_UP, D_FAILED]"
| "deployment_next D_ROLLBACK_REQUESTED = [D_DEPLOYING, D_FAILED]"
| "deployment_next D_CLEANED_UP = []"

fun deployment_terminal :: "deployment_status \<Rightarrow> bool" where
  "deployment_terminal D_READY = True"
| "deployment_terminal D_BUILD_FAILED = True"
| "deployment_terminal D_FAILED = True"
| "deployment_terminal D_CANCELLED = True"
| "deployment_terminal D_CLEANED_UP = True"
| "deployment_terminal _ = False"

definition deployment_states :: "(string \<times> deployment_status) list" where
  "deployment_states =
     [(''queued'', D_queued), (''BUILDING'', D_BUILDING), (''IMAGE_READY'', D_IMAGE_READY),
      (''DEPLOYING'', D_DEPLOYING), (''READY'', D_READY), (''BUILD_FAILED'', D_BUILD_FAILED),
      (''FAILED'', D_FAILED), (''CANCELLED'', D_CANCELLED),
      (''PREVIEW_CLEANUP_REQUESTED'', D_PREVIEW_CLEANUP_REQUESTED),
      (''ROLLBACK_REQUESTED'', D_ROLLBACK_REQUESTED), (''CLEANED_UP'', D_CLEANED_UP)]"

definition deployment_aliases :: "(string \<times> string) list" where
  "deployment_aliases =
     [(''pending'', ''queued''), (''build_queued'', ''queued''), (''build'', ''BUILDING''),
      (''imageready'', ''IMAGE_READY''), (''deploy_ready'', ''IMAGE_READY''),
      (''rollout'', ''DEPLOYING''), (''succeeded'', ''READY''), (''success'', ''READY''),
      (''buildfailed'', ''BUILD_FAILED''), (''error'', ''FAILED''), (''canceled'', ''CANCELLED''),
      (''cleanup_requested'', ''PREVIEW_CLEANUP_REQUESTED'')]"

definition deployment_name :: "deployment_status \<Rightarrow> string" where
  "deployment_name st = fst (hd (filter (\<lambda>(_, s). s = st) deployment_states))"

fun workflow_next :: "workflow_status \<Rightarrow> workflow_status list" where
  "workflow_next W_queued = [W_running, W_cancelled]"
| "workflow_next W_running = [W_queued, W_succeeded, W_failed, W_cancelled]"
| "workflow_next _ = []"

fun workflow_terminal :: "workflow_status \<Rightarrow> bool" where
  "workflow_terminal W_succeeded = True"
| "workflow_terminal W_failed = True"
| "workflow_terminal W_cancelled = True"
| "workflow_terminal _ = False"

definition workflow_states :: "(string \<times> workflow_status) list" where
  "workflow_states =
     [(''queued'', W_queued), (''running'', W_running), (''succeeded'', W_succeeded),
      (''failed'', W_failed), (''cancelled'', W_cancelled)]"

definition workflow_aliases :: "(string \<times> string) list" where
  "workflow_aliases =
     [(''completed'', ''succeeded''), (''complete'', ''succeeded''), (''success'', ''succeeded''),
      (''pending'', ''queued''), (''retrying'', ''queued'')]"

fun backup_next :: "backup_status \<Rightarrow> backup_status list" where
  "backup_next B_QUEUED = [B_RUNNING, B_FAILED]"
| "backup_next B_RUNNING = [B_VERIFYING, B_FAILED]"
| "backup_next B_VERIFYING = [B_READY, B_FAILED]"
| "backup_next B_READY = [B_EXPIRED, B_DELETING]"
| "backup_next B_FAILED = [B_DELETING]"
| "backup_next B_EXPIRED = [B_DELETING]"
| "backup_next B_DELETING = [B_DELETED, B_FAILED]"
| "backup_next B_DELETED = []"

fun restore_next :: "restore_status \<Rightarrow> restore_status list" where
  "restore_next R_QUEUED = [R_RUNNING, R_FAILED, R_CANCELLED]"
| "restore_next R_RUNNING = [R_VERIFYING, R_FAILED, R_CANCELLED]"
| "restore_next R_VERIFYING = [R_READY, R_FAILED, R_CANCELLED]"
| "restore_next R_READY = []"
| "restore_next R_FAILED = []"
| "restore_next R_CANCELLED = []"

locale lifecycle_machine =
  fixes succ :: "'st \<Rightarrow> 'st list"
begin

definition moves :: "'st \<Rightarrow> 'st \<Rightarrow> bool" where
  "moves s t \<longleftrightarrow> t \<in> set (succ s)"

lemma closed_never_left:
  assumes "\<And>s. s \<in> S \<Longrightarrow> set (succ s) \<subseteq> S" and "moves\<^sup>*\<^sup>* s t" and "s \<in> S"
  shows "t \<in> S"
  using assms(2,3) by (induction rule: rtranclp_induct) (use assms(1) in \<open>auto simp: moves_def\<close>)

lemma final_never_left: "succ s = [] \<Longrightarrow> moves\<^sup>*\<^sup>* s t \<Longrightarrow> t = s"
  using closed_never_left [of "{s}" s t] by simp

end

interpretation deployment_machine: lifecycle_machine deployment_next .

interpretation workflow_machine: lifecycle_machine workflow_next .

interpretation backup_machine: lifecycle_machine backup_next .

interpretation restore_machine: lifecycle_machine restore_next .

section \<open>Parsing stored status strings\<close>

datatype lifecycle_error =
    LifecycleStatusError string string
  | DeploymentTransitionError deployment_status deployment_status

text \<open>\<open>replace(/[\s-]+/g, '_')\<close>: each run of white space and hyphens becomes one underscore.\<close>

definition gap :: "char \<Rightarrow> bool" where
  "gap c \<longleftrightarrow> white_space c \<or> c = CHR ''-''"

definition squash_gaps :: "string \<Rightarrow> string" where
  "squash_gaps s = replace_runs gap CHR ''_'' s"

definition parseDeploymentStatus :: "js \<Rightarrow> (lifecycle_error, deployment_status) result" where
  "parseDeploymentStatus input =
     (let key = squash_gaps (toLowerCase (trim (if nullish input then ''queued'' else js_text input)));
          value = (case map_of deployment_aliases key of
                     Some alias \<Rightarrow> alias
                   | None \<Rightarrow> if key = ''queued'' \<or> key = [] then ''queued'' else toUpperCase key)
      in from_option (LifecycleStatusError ''deployment'' value) (map_of deployment_states value))"

definition parseWorkflowStatus :: "js \<Rightarrow> (lifecycle_error, workflow_status) result" where
  "parseWorkflowStatus input =
     (let key = toLowerCase (trim (if nullish input then ''queued'' else js_text input));
          value = (case map_of workflow_aliases key of
                     Some alias \<Rightarrow> alias
                   | None \<Rightarrow> if key = [] then ''queued'' else key)
      in from_option (LifecycleStatusError ''workflow'' value) (map_of workflow_states value))"

text \<open>
  \<open>terminalLifecycleInputs(states, aliases)\<close>: every spelling of a terminal status that an SQL
  boundary may meet. The result is the list with duplicates removed, in the order of first
  occurrence.
\<close>

fun nub :: "'a list \<Rightarrow> 'a list" where
  "nub [] = []"
| "nub (x # xs) = x # filter (\<lambda>y. y \<noteq> x) (nub xs)"

definition terminalLifecycleInputs ::
  "(string \<times> 'st) list \<Rightarrow> ('st \<Rightarrow> bool) \<Rightarrow> (string \<times> string) list \<Rightarrow> string list" where
  "terminalLifecycleInputs states terminal aliases =
     (let canonical = map fst (filter (\<lambda>(_, st). terminal st) states);
          legacy = map fst (filter (\<lambda>(_, status). case map_of states status of
                                        None \<Rightarrow> False | Some st \<Rightarrow> terminal st) aliases)
      in nub (concat (map (\<lambda>status. [status, toLowerCase status, toUpperCase status])
                          (canonical @ legacy))))"

text \<open>
  The parsers of the schemas package look an alias up without \<open>Object.hasOwn\<close>, so they also
  see the properties that every object inherits; only two of those have a lower-case name.
  The inherited value is no status, and the enum schema rejects it, as it rejects every
  other unknown name.
\<close>

datatype zod_error = ZodError

definition inherited_key :: "string \<Rightarrow> bool" where
  "inherited_key k \<longleftrightarrow> k = ''constructor'' \<or> k = ''__proto__''"

definition schema_parseDeploymentStatus :: "js \<Rightarrow> (zod_error, deployment_status) result" where
  "schema_parseDeploymentStatus input =
     (let key = squash_gaps (toLowerCase (trim (if nullish input then ''queued'' else js_text input)))
      in case map_of deployment_aliases key of
           Some alias \<Rightarrow> from_option ZodError (map_of deployment_states alias)
         | None \<Rightarrow>
             if inherited_key key then Inl ZodError
             else from_option ZodError
               (map_of deployment_states
                  (if key = ''queued'' \<or> key = [] then ''queued'' else toUpperCase key)))"

definition schema_parseWorkflowStatus :: "js \<Rightarrow> (zod_error, workflow_status) result" where
  "schema_parseWorkflowStatus input =
     (let key = toLowerCase (trim (if nullish input then ''queued'' else js_text input))
      in case map_of workflow_aliases key of
           Some alias \<Rightarrow> from_option ZodError (map_of workflow_states alias)
         | None \<Rightarrow>
             if inherited_key key then Inl ZodError
             else from_option ZodError
               (map_of workflow_states (if key = [] then ''queued'' else key)))"

section \<open>Deployment transitions\<close>

definition canTransitionDeployment :: "js \<Rightarrow> js \<Rightarrow> (lifecycle_error, bool) result" where
  "canTransitionDeployment from to =
     bindE (parseDeploymentStatus from) (\<lambda>current.
     bindE (parseDeploymentStatus to) (\<lambda>next.
       Inr (current = next \<or> next \<in> set (deployment_next current))))"

definition assertDeploymentTransition :: "js \<Rightarrow> js \<Rightarrow> (lifecycle_error, bool) result" where
  "assertDeploymentTransition from to =
     bindE (parseDeploymentStatus from) (\<lambda>current.
     bindE (parseDeploymentStatus to) (\<lambda>next.
     bindE (canTransitionDeployment (JStr (deployment_name current)) (JStr (deployment_name next)))
       (\<lambda>allowed. if allowed then Inr True else Inl (DeploymentTransitionError current next))))"

definition canCancelDeployment :: "js \<Rightarrow> (lifecycle_error, bool) result" where
  "canCancelDeployment status =
     bindE (parseDeploymentStatus status) (\<lambda>st. Inr (D_CANCELLED \<in> set (deployment_next st)))"

definition isDeploymentTerminal :: "js \<Rightarrow> (lifecycle_error, bool) result" where
  "isDeploymentTerminal status =
     bindE (parseDeploymentStatus status) (\<lambda>st. Inr (deployment_terminal st))"

section \<open>Properties\<close>

lemma set_nub [simp]: "set (nub xs) = set xs"
  by (induction xs) auto

lemma distinct_nub: "distinct (nub xs)"
  by (induction xs) auto

lemma white_space_lower_char: "white_space (lower_char c) \<longleftrightarrow> white_space c"
proof (cases "upper_letter c")
  case True
  then have "\<not> white_space c" by (auto simp: white_space_def upper_letter_def char_range_code)
  moreover from True have "\<not> white_space (with_bit5 True c)"
    by (cases c) (auto simp: white_space_def upper_letter_def char_range_code split: if_splits)
  ultimately show ?thesis using True by (simp add: lower_char_def)
qed (simp add: lower_char_def)

lemma dropWhile_lower: "dropWhile white_space (toLowerCase s) = toLowerCase (dropWhile white_space s)"
  unfolding toLowerCase_def by (induction s) (simp_all add: white_space_lower_char)

lemma trim_toLowerCase: "trim (toLowerCase s) = toLowerCase (trim s)"
proof -
  have rev_lower: "rev (toLowerCase x) = toLowerCase (rev x)" for x
    by (simp add: toLowerCase_def rev_map)
  show ?thesis by (simp add: trim_def dropWhile_lower rev_lower)
qed

lemma toLowerCase_idem: "toLowerCase (toLowerCase s) = toLowerCase s"
proof -
  have "lower_char (lower_char c) = lower_char c" for c
  proof (cases "upper_letter c")
    case True
    then have "\<not> upper_letter (with_bit5 True c)"
      by (cases c) (auto simp: upper_letter_def char_range_code split: if_splits)
    then show ?thesis by (simp add: lower_char_def)
  qed (simp add: lower_char_def)
  then show ?thesis by (simp add: toLowerCase_def)
qed

lemma trim_padding:
  assumes "list_all white_space us" and "list_all white_space vs"
  shows "trim (us @ s @ vs) = trim s"
proof -
  have skip: "dropWhile white_space (ws @ x) = dropWhile white_space x" if "list_all white_space ws" for ws x
    using that by (induction ws) auto
  have tail: "dropWhile white_space (s @ vs) = (if list_all white_space s then [] else dropWhile white_space s @ vs)"
    using assms(2) by (induction s) (auto simp: dropWhile_eq_Nil_conv list_all_iff)
  have "list_all white_space (rev vs)" using assms(2) by (simp add: list_all_iff)
  then have body: "dropWhile white_space (rev vs @ x) = dropWhile white_space x" for x
    by (rule skip)
  show ?thesis
  proof (cases "list_all white_space s")
    case True
    then have "dropWhile white_space s = []" by (simp add: dropWhile_eq_Nil_conv list_all_iff)
    with True show ?thesis
      by (simp only: trim_def skip [OF assms(1)] tail if_True rev.simps dropWhile.simps)
  next
    case False
    with assms(1) show ?thesis by (simp add: trim_def skip tail body)
  qed
qed

lemma deployment_names_parse:
  "list_all (\<lambda>(n, st). list_all (\<lambda>x. parseDeploymentStatus (JStr x) = Inr st)
      (nub [n, toLowerCase n, toUpperCase n])) deployment_states"
  by code_simp

lemma deployment_name_state: "(deployment_name st, st) \<in> set deployment_states"
  by (cases st) (simp_all add: deployment_name_def deployment_states_def)

lemma parse_deployment_name:
  "x \<in> {deployment_name st, toLowerCase (deployment_name st), toUpperCase (deployment_name st)} \<Longrightarrow>
   parseDeploymentStatus (JStr x) = Inr st"
proof -
  assume x: "x \<in> {deployment_name st, toLowerCase (deployment_name st), toUpperCase (deployment_name st)}"
  have "list_all (\<lambda>x. parseDeploymentStatus (JStr x) = Inr st)
      (nub [deployment_name st, toLowerCase (deployment_name st), toUpperCase (deployment_name st)])"
    using bspec [OF deployment_names_parse [unfolded list_all_iff] deployment_name_state] by simp
  with x show ?thesis by (simp only: list_all_iff set_nub) auto
qed

lemma terminal_inputs_parse:
  "list_all (\<lambda>x. case parseDeploymentStatus (JStr x) of Inl _ \<Rightarrow> False | Inr st \<Rightarrow> deployment_terminal st)
     (terminalLifecycleInputs deployment_states deployment_terminal deployment_aliases)"
  by code_simp

lemma workflow_terminal_inputs_parse:
  "list_all (\<lambda>x. case parseWorkflowStatus (JStr x) of Inl _ \<Rightarrow> False | Inr st \<Rightarrow> workflow_terminal st)
     (terminalLifecycleInputs workflow_states workflow_terminal workflow_aliases)"
  by code_simp

lemma deployment_name_terminal:
  "deployment_name st \<in> set (map fst (filter (\<lambda>(_, s). deployment_terminal s) deployment_states)) \<longleftrightarrow>
   deployment_terminal st"
  by (cases st) (simp_all add: deployment_name_def deployment_states_def)

lemma inherited_no_state:
  "inherited_key k \<Longrightarrow> map_of deployment_states (toUpperCase k) = None"
  "inherited_key k \<Longrightarrow> map_of workflow_states k = None"
proof -
  have "map_of deployment_states (toUpperCase ''constructor'') = None"
    "map_of deployment_states (toUpperCase ''__proto__'') = None"
    by code_simp+
  then show "inherited_key k \<Longrightarrow> map_of deployment_states (toUpperCase k) = None"
    by (auto simp: inherited_key_def)
  show "inherited_key k \<Longrightarrow> map_of workflow_states k = None"
    by (auto simp: inherited_key_def workflow_states_def)
qed

lemma inherited_nonempty: "inherited_key k \<Longrightarrow> k \<noteq> [] \<and> k \<noteq> ''queued''"
  by (auto simp: inherited_key_def)

lemma key_lookup_agrees:
  "ok_value (case map_of deployment_aliases k of Some alias \<Rightarrow> from_option ZodError (map_of deployment_states alias)
     | None \<Rightarrow> if inherited_key k then Inl ZodError
               else from_option ZodError (map_of deployment_states
                 (if k = ''queued'' \<or> k = [] then ''queued'' else toUpperCase k))) =
   map_of deployment_states (case map_of deployment_aliases k of Some alias \<Rightarrow> alias
     | None \<Rightarrow> if k = ''queued'' \<or> k = [] then ''queued'' else toUpperCase k)"
  "ok_value (case map_of workflow_aliases k of Some alias \<Rightarrow> from_option ZodError (map_of workflow_states alias)
     | None \<Rightarrow> if inherited_key k then Inl ZodError
               else from_option ZodError (map_of workflow_states (if k = [] then ''queued'' else k))) =
   map_of workflow_states (case map_of workflow_aliases k of Some alias \<Rightarrow> alias
     | None \<Rightarrow> if k = [] then ''queued'' else k)"
  using inherited_no_state [of k] inherited_nonempty [of k] by (simp_all split: option.split)

lemma parse_canonical [simp]: "parseDeploymentStatus (JStr (deployment_name st)) = Inr st"
  by (simp add: parse_deployment_name)

lemma canTransition_iff:
  "canTransitionDeployment a b = Inr True \<longleftrightarrow>
   (\<exists>s t. parseDeploymentStatus a = Inr s \<and> parseDeploymentStatus b = Inr t \<and>
      (s = t \<or> deployment_machine.moves s t))"
  by (auto simp: canTransitionDeployment_def deployment_machine.moves_def bindE_Inr_iff)

section \<open>Main properties\<close>

text \<open>
  Reading a stored deployment status is insensitive to case and padding: each of the
  canonical name, its lower-case and its upper-case form, with white space around it, parses
  to the status it names.
\<close>

theorem deployment_status_spellings:
  assumes "x \<in> {deployment_name st, toLowerCase (deployment_name st), toUpperCase (deployment_name st)}"
    and "list_all white_space us" and "list_all white_space vs"
  shows "parseDeploymentStatus (JStr (us @ x @ vs)) = Inr st"
proof -
  have "parseDeploymentStatus (JStr (us @ x @ vs)) = parseDeploymentStatus (JStr x)"
    using assms(2,3) by (simp add: parseDeploymentStatus_def trim_padding)
  with assms(1) show ?thesis by (simp add: parse_deployment_name)
qed

theorem deployment_status_spellings_witness:
  "parseDeploymentStatus (JStr ('' '' @ toLowerCase (deployment_name D_IMAGE_READY) @ ''  '')) = Inr D_IMAGE_READY"
  by (rule deployment_status_spellings) (simp_all add: white_space_def)

text \<open>
  The status parsers of the core package and of the schemas package accept the same
  inputs and give the same statuses, for deployments and for workflow jobs.
\<close>

theorem schema_parsers_agree:
  "ok_value (schema_parseDeploymentStatus v) = ok_value (parseDeploymentStatus v) \<and>
   ok_value (schema_parseWorkflowStatus v) = ok_value (parseWorkflowStatus v)"
  by (simp add: schema_parseDeploymentStatus_def parseDeploymentStatus_def Let_def
      schema_parseWorkflowStatus_def parseWorkflowStatus_def key_lookup_agrees)

text \<open>
  The spellings handed to SQL as terminal statuses are right: each of them parses to a
  terminal deployment status, and a canonical name is among them only if its status is
  terminal, and then always.
\<close>

theorem terminal_inputs_exact:
  "list_all (\<lambda>x. isDeploymentTerminal (JStr x) = Inr True)
     (terminalLifecycleInputs deployment_states deployment_terminal deployment_aliases) \<and>
   (deployment_name st \<in> set (terminalLifecycleInputs deployment_states deployment_terminal deployment_aliases)
     \<longleftrightarrow> deployment_terminal st)"
proof -
  let ?in = "terminalLifecycleInputs deployment_states deployment_terminal deployment_aliases"
  have parses: "\<exists>s. parseDeploymentStatus (JStr x) = Inr s \<and> deployment_terminal s" if "x \<in> set ?in" for x
    using bspec [OF terminal_inputs_parse [unfolded list_all_iff] that] by (auto split: sum.splits)
  then have "list_all (\<lambda>x. isDeploymentTerminal (JStr x) = Inr True) ?in"
    by (fastforce simp: list_all_iff isDeploymentTerminal_def)
  moreover have "deployment_terminal st" if "deployment_name st \<in> set ?in"
    using parses [OF that] parse_deployment_name [of "deployment_name st" st] by simp
  moreover have "deployment_name st \<in> set ?in" if "deployment_terminal st"
    using deployment_name_terminal [of st] that
    unfolding terminalLifecycleInputs_def Let_def set_nub set_concat set_map set_append by fastforce
  ultimately show ?thesis by blast
qed

text \<open>
  A cleaned-up deployment stays cleaned up: no sequence of transitions that
  \<open>canTransitionDeployment\<close> accepts leads from a spelling of \<open>CLEANED_UP\<close> to another status.
\<close>

theorem cleaned_up_absorbing:
  assumes "(\<lambda>a b. canTransitionDeployment a b = Inr True)\<^sup>*\<^sup>* from to"
    and "parseDeploymentStatus from = Inr D_CLEANED_UP"
  shows "parseDeploymentStatus to = Inr D_CLEANED_UP"
  using assms
proof (induction rule: rtranclp_induct)
  case (step y z)
  then show ?case by (auto simp: canTransition_iff deployment_machine.moves_def)
qed

theorem cleaned_up_absorbing_witness:
  "parseDeploymentStatus (JStr ''CLEANED_UP'') = Inr D_CLEANED_UP"
proof (rule cleaned_up_absorbing [of "JStr ''cleaned-up''"])
  show "(\<lambda>a b. canTransitionDeployment a b = Inr True)\<^sup>*\<^sup>* (JStr ''cleaned-up'') (JStr ''CLEANED_UP'')"
  proof (rule r_into_rtranclp)
    show "canTransitionDeployment (JStr ''cleaned-up'') (JStr ''CLEANED_UP'') = Inr True" by code_simp
  qed
  show "parseDeploymentStatus (JStr ''cleaned-up'') = Inr D_CLEANED_UP" by code_simp
qed

text \<open>
  \<open>assertDeploymentTransition\<close> throws exactly where \<open>canTransitionDeployment\<close> does not say
  yes: an unknown status gives its status error, and a transition the contract does not list
  gives the transition error with the two parsed statuses.
\<close>

theorem assertDeploymentTransition_spec:
  "assertDeploymentTransition a b =
     bindE (canTransitionDeployment a b) (\<lambda>allowed.
       if allowed then Inr True
       else bindE (parseDeploymentStatus a) (\<lambda>s. bindE (parseDeploymentStatus b) (\<lambda>t.
         Inl (DeploymentTransitionError s t))))"
  by (cases "parseDeploymentStatus a"; cases "parseDeploymentStatus b")
    (simp_all add: assertDeploymentTransition_def canTransitionDeployment_def)

end
