(* ===== verification/Store.thy ===== *)
theory Store
  imports Rbac Secrets Lifecycle
begin

text \<open>
  The accounts part of the in-memory control plane (\<open>class ControlPlaneStore\<close> of
  \<open>packages/core/src/store.ts\<close>): organizations, users, memberships, and the audit log, with
  the input checks of \<open>organization-creation.ts\<close> and the account types of \<open>identity.ts\<close>.

  The state is the record \<open>store\<close>; its \<open>Map\<close> fields are lists of entries in insertion order. An
  operation is an \<open>act\<close>: it gives a value or an error and the state it leaves, also when it
  throws after a change. Every error of the sources carries a message and an HTTP status. The
  clock is read once per operation; it, the local time zone and the hash function of
  \<open>node:crypto\<close> are in the \<open>env\<close> argument.
  \<open>deepClone\<close> of a returned row is the row itself, since values are not shared here.
\<close>

section \<open>State\<close>

datatype http_error = HttpError string nat

record env =
  now :: ms
  zone :: ms
  sha256_hex :: "string \<Rightarrow> string"
  sha256_base64url :: "string \<Rightarrow> string"

definition nowIso :: "env \<Rightarrow> time_text" where
  "nowIso e = toISOString (now e)"

record org_row =
  org_id :: string
  org_name :: js
  org_slug :: string
  org_plan :: js
  org_createdAt :: time_text

record user_row =
  usr_id :: string
  usr_name :: js
  usr_studentId :: js
  usr_clubMemberClaim :: bool
  usr_email :: string
  usr_avatarUrl :: "string option"
  usr_githubId :: "string option"
  usr_passwordHash :: "string option"
  usr_role :: string
  usr_accountType :: string
  usr_approvalStatus :: string
  usr_sessionVersion :: int
  usr_bannedAt :: "time_text option"
  usr_banExpiresAt :: "time_text option"
  usr_banReason :: "string option"
  usr_bannedByUserId :: "string option"
  usr_emailVerifiedAt :: "time_text option"
  usr_createdAt :: time_text
  usr_updatedAt :: time_text

record member_row =
  mb_organizationId :: string
  mb_userId :: string
  mb_role :: string
  mb_createdAt :: "time_text option"
  mb_updatedAt :: "time_text option"
  mb_version :: "int option"

record invite_row =
  inv_id :: string
  inv_organizationId :: string
  inv_email :: string
  inv_role :: role
  inv_tokenHash :: string
  inv_tokenVersion :: int
  inv_invitedByUserId :: string
  inv_expiresAt :: ms
  inv_acceptedAt :: "ms option"
  inv_revokedAt :: "ms option"
  inv_createdAt :: ms

record audit_row =
  aud_id :: string
  aud_actorUserId :: string
  aud_action :: string
  aud_targetType :: string
  aud_targetId :: string
  aud_metadata :: js_fields
  aud_createdAt :: time_text

record code_row =
  evc_id :: string
  evc_userId :: "string option"
  evc_email :: string
  evc_purpose :: string
  evc_payload :: js
  evc_codeHash :: string
  evc_codeSalt :: string
  evc_expiresAt :: time_text
  evc_sentAt :: time_text
  evc_consumedAt :: "time_text option"
  evc_attempts :: int
  evc_createdAt :: time_text
  evc_updatedAt :: time_text

record delivery_row =
  eml_id :: string
  eml_from :: "string option"
  eml_to :: string
  eml_subject :: string
  eml_text :: string
  eml_purpose :: string
  eml_deliveryMode :: string
  eml_messageId :: "string option"
  eml_sentAt :: time_text
  eml_createdAt :: time_text

record rate_row =
  rl_key :: string
  rl_count :: int
  rl_windowStartedAt :: ms
  rl_expiresAt :: ms

record store =
  organizations :: "(string \<times> org_row) list"
  users :: "(string \<times> user_row) list"
  members :: "member_row list"
  organizationInvites :: "invite_row list"
  auditLogs :: "audit_row list"
  emailVerificationCodes :: "code_row list"
  emailDeliveries :: "delivery_row list"
  authRateLimits :: "(string \<times> rate_row) list"

definition empty_store :: store where
  "empty_store = \<lparr>organizations = [], users = [], members = [], organizationInvites = [], auditLogs = [],
     emailVerificationCodes = [], emailDeliveries = [], authRateLimits = []\<rparr>"

type_synonym 'a op = "(store, http_error, 'a) act"

section \<open>Audit log\<close>

definition audited :: "env \<Rightarrow> string \<Rightarrow> string \<Rightarrow> string \<Rightarrow> string \<Rightarrow> js_fields \<Rightarrow> store \<Rightarrow> store" where
  "audited e actorUserId action targetType targetId metadata s =
     s\<lparr>auditLogs := auditLogs s @
       [\<lparr>aud_id = stableId ''aud'' [JStr action, JStr targetId, JInt (now e), JInt (int (length (auditLogs s)))],
         aud_actorUserId = actorUserId, aud_action = action, aud_targetType = targetType,
         aud_targetId = targetId, aud_metadata = mask_fields metadata, aud_createdAt = nowIso e\<rparr>]\<rparr>"

definition audit :: "env \<Rightarrow> string \<Rightarrow> string \<Rightarrow> string \<Rightarrow> string \<Rightarrow> js_fields \<Rightarrow> (store, 'e, unit) act" where
  "audit e actorUserId action targetType targetId metadata =
     change (audited e actorUserId action targetType targetId metadata)"

section \<open>Users\<close>

definition redactUser :: "user_row \<Rightarrow> user_row" where
  "redactUser user = user\<lparr>usr_passwordHash := None, usr_bannedByUserId := None\<rparr>"

definition ACCOUNT_TYPE_ALIASES :: "(string \<times> string) list" where
  "ACCOUNT_TYPE_ALIASES =
     [(''CLUB'', ''CLUB_MEMBER''), (''CLUB_MEMBER'', ''CLUB_MEMBER''), (''CLUBMEMBER'', ''CLUB_MEMBER''),
      (''NON_CLUB'', ''NON_CLUB''), (''NONCLUB'', ''NON_CLUB''), (''NON_MEMBER'', ''NON_CLUB''),
      (''NONMEMBER'', ''NON_CLUB'')]"

definition normalizeAccountType :: "js \<Rightarrow> string \<Rightarrow> (http_error, string) result" where
  "normalizeAccountType value fallback =
     (let raw = (if nullish value \<or> trim (js_text value) = [] then JStr fallback else value);
          normalized = squash_gaps (toUpperCase (trim (if js_truthy raw then js_text raw else fallback)))
      in from_option (HttpError ''accountType must be CLUB_MEMBER or NON_CLUB'' 400)
           (map_of ACCOUNT_TYPE_ALIASES normalized))"

record new_user =
  nu_name :: js
  nu_studentId :: js
  nu_clubMemberClaim :: js
  nu_email :: js
  nu_githubId :: "string option"
  nu_passwordHash :: "string option"
  nu_role :: string
  nu_accountType :: js
  nu_approvalStatus :: string
  nu_avatarUrl :: "string option"
  nu_emailVerifiedAt :: "time_text option option"
  nu_bannedAt :: "time_text option"
  nu_banExpiresAt :: "time_text option"
  nu_banReason :: "string option"
  nu_bannedByUserId :: "string option"

text \<open>
  \<open>nu_emailVerifiedAt\<close> is \<open>None\<close> for an omitted argument and \<open>Some None\<close> for an explicit null;
  the other arguments hold the default of the source when they are omitted. \<open>orElse\<close> is the
  operator \<open>??\<close>.
\<close>

definition orElse :: "'a option \<Rightarrow> 'a option \<Rightarrow> 'a option" where
  "orElse a b = (case a of None \<Rightarrow> b | Some _ \<Rightarrow> a)"

definition text_or_empty :: "js \<Rightarrow> string" where
  "text_or_empty v = (if js_truthy v then js_text v else [])"

definition createUser :: "env \<Rightarrow> new_user \<Rightarrow> user_row op" where
  "createUser e u =
     (let timestamp = nowIso e;
          uid = stableId ''usr'' [if js_truthy (nu_email u) then nu_email u else nu_name u];
          email = toLowerCase (text_or_empty (nu_email u))
      in bindA (read (\<lambda>s. map_of (users s) uid)) (\<lambda>existing.
         bindA (guard (case existing of None \<Rightarrow> True | Some x \<Rightarrow> usr_email x = email) (HttpError ''user_identity_collision'' 409)) (\<lambda>_.
         bindA (lift (normalizeAccountType (nu_accountType u) ''NON_CLUB'')) (\<lambda>accountType.
         let passwordChanged = (case existing of None \<Rightarrow> False
               | Some x \<Rightarrow> truthy (nu_passwordHash u) \<and> nu_passwordHash u \<noteq> usr_passwordHash x);
             user = \<lparr>usr_id = uid, usr_name = nu_name u, usr_studentId = nu_studentId u,
               usr_clubMemberClaim = js_truthy (nu_clubMemberClaim u), usr_email = email,
               usr_avatarUrl = nu_avatarUrl u, usr_githubId = nu_githubId u,
               usr_passwordHash = nu_passwordHash u, usr_role = nu_role u, usr_accountType = accountType,
               usr_approvalStatus = nu_approvalStatus u,
               usr_sessionVersion = (case existing of None \<Rightarrow> 0 | Some x \<Rightarrow> usr_sessionVersion x) +
                 (if passwordChanged then 1 else 0),
               usr_bannedAt = orElse (Option.bind existing usr_bannedAt) (nu_bannedAt u),
               usr_banExpiresAt = orElse (Option.bind existing usr_banExpiresAt) (nu_banExpiresAt u),
               usr_banReason = orElse (Option.bind existing usr_banReason) (nu_banReason u),
               usr_bannedByUserId = orElse (Option.bind existing usr_bannedByUserId) (nu_bannedByUserId u),
               usr_emailVerifiedAt = (case nu_emailVerifiedAt u of None \<Rightarrow> Some timestamp | Some v \<Rightarrow> v),
               usr_createdAt = timestamp, usr_updatedAt = timestamp\<rparr>
         in bindA (change (\<lambda>s. s\<lparr>users := map_put uid user (users s)\<rparr>)) (\<lambda>_.
            ret (redactUser user))))))"

definition findUserByEmail :: "js \<Rightarrow> store \<Rightarrow> user_row option" where
  "findUserByEmail email s =
     (let normalized = toLowerCase (text_or_empty email)
      in find (\<lambda>candidate. usr_email candidate = normalized) (map snd (users s)))"

definition countUsers :: "int \<Rightarrow> store \<Rightarrow> int" where
  "countUsers limit s =
     (let boundedLimit = (if \<bar>limit\<bar> \<le> 9007199254740991 then max 1 (min limit 100) else 1)
      in min (int (length (users s))) boundedLimit)"

definition findUserById :: "string \<Rightarrow> store \<Rightarrow> user_row option" where
  "findUserById userId s = map_of (users s) userId"

definition incrementSessionVersion :: "env \<Rightarrow> string \<Rightarrow> user_row op" where
  "incrementSessionVersion e userId =
     bindA (read_or (HttpError (''user not found: '' @ userId) 404) (\<lambda>s. map_of (users s) userId)) (\<lambda>user.
     let user' = user\<lparr>usr_sessionVersion := usr_sessionVersion user + 1, usr_updatedAt := nowIso e\<rparr>
     in bindA (change (\<lambda>s. s\<lparr>users := map_put userId user' (users s)\<rparr>)) (\<lambda>_. ret (redactUser user')))"

definition markUserEmailVerified :: "env \<Rightarrow> string \<Rightarrow> time_text \<Rightarrow> user_row op" where
  "markUserEmailVerified e userId verifiedAt =
     bindA (read_or (HttpError (''user not found: '' @ userId) 404) (\<lambda>s. map_of (users s) userId)) (\<lambda>user.
     let user' = user\<lparr>usr_emailVerifiedAt := Some verifiedAt, usr_updatedAt := verifiedAt\<rparr>
     in bindA (change (\<lambda>s. s\<lparr>users := map_put userId user' (users s)\<rparr>)) (\<lambda>_.
        bindA (audit e userId ''user.email:verify'' ''user'' userId []) (\<lambda>_.
        ret (redactUser user'))))"

definition findUserByGitHubId :: "string \<Rightarrow> store \<Rightarrow> user_row option" where
  "findUserByGitHubId githubId s =
     (let gid = trim githubId
      in if gid = [] then None
         else find (\<lambda>candidate. (case usr_githubId candidate of None \<Rightarrow> [] | Some g \<Rightarrow> g) = gid)
                (map snd (users s)))"

definition opt_js :: "string option \<Rightarrow> js" where
  "opt_js v = (case v of None \<Rightarrow> JNull | Some s \<Rightarrow> JStr s)"

definition opt_js_nonempty :: "string option \<Rightarrow> js" where
  "opt_js_nonempty v = (if truthy v then opt_js v else JNull)"

definition given :: "string option \<Rightarrow> bool" where
  "given v \<longleftrightarrow> (case v of None \<Rightarrow> False | Some s \<Rightarrow> trim s \<noteq> [])"

definition linkGitHubUser ::
  "env \<Rightarrow> string \<Rightarrow> string option \<Rightarrow> string option \<Rightarrow> string option \<Rightarrow> string \<Rightarrow> string option \<Rightarrow> user_row op" where
  "linkGitHubUser e userId githubId avatarUrl name actorUserId githubLogin =
     bindA (read_or (HttpError (''user not found: '' @ userId) 404) (\<lambda>s. map_of (users s) userId)) (\<lambda>user.
     bindA (read (\<lambda>s. if truthy githubId then findUserByGitHubId (the githubId) s else None)) (\<lambda>existing.
     bindA (guard (case existing of None \<Rightarrow> True | Some x \<Rightarrow> usr_id x = userId)
       (HttpError ''github account is already linked to another user'' 403)) (\<lambda>_.
     let user' = user\<lparr>usr_githubId := (if given githubId then githubId else usr_githubId user),
                      usr_avatarUrl := (if given avatarUrl then avatarUrl else usr_avatarUrl user),
                      usr_name := (if given name then JStr (the name) else usr_name user),
                      usr_updatedAt := nowIso e\<rparr>
     in bindA (change (\<lambda>s. s\<lparr>users := map_put userId user' (users s)\<rparr>)) (\<lambda>_.
        bindA (audit e actorUserId ''user.github:link'' ''user'' userId
          [(''githubId'', opt_js_nonempty (usr_githubId user')), (''githubLogin'', opt_js_nonempty githubLogin)]) (\<lambda>_.
        ret (redactUser user'))))))"

section \<open>What an operation of the store leaves alone\<close>

lemma keeps_audit [keeps_rules]:
  "(\<And>s x. I s \<Longrightarrow> I (s\<lparr>auditLogs := x\<rparr>)) \<Longrightarrow> keeps I (audit e actor action ttype tid metadata)"
  unfolding audit_def by (intro keeps_rules) (simp add: audited_def)

lemma keeps_incrementSessionVersion [keeps_rules]:
  "(\<And>s x. I s \<Longrightarrow> I (s\<lparr>users := x\<rparr>)) \<Longrightarrow> keeps I (incrementSessionVersion e userId)"
  unfolding incrementSessionVersion_def Let_def by (intro keeps_rules) simp

lemma run_audit [run_simps]:
  "audit e actor action ttype tid metadata s = (Inr (), audited e actor action ttype tid metadata s)"
  "bindA (audit e actor action ttype tid metadata) k s = k () (audited e actor action ttype tid metadata s)"
  by (simp_all add: audit_def run_simps)

lemma audited_frame [simp]:
  "organizations (audited e actor action ttype tid metadata s) = organizations s"
  "users (audited e actor action ttype tid metadata s) = users s"
  "members (audited e actor action ttype tid metadata s) = members s"
  "organizationInvites (audited e actor action ttype tid metadata s) = organizationInvites s"
  by (simp_all add: audited_def)

definition bumped :: "env \<Rightarrow> user_row \<Rightarrow> user_row" where
  "bumped e user = user\<lparr>usr_sessionVersion := usr_sessionVersion user + 1, usr_updatedAt := nowIso e\<rparr>"

lemma run_incrementSessionVersion [run_simps]:
  "incrementSessionVersion e userId s =
     (case map_of (users s) userId of
        None \<Rightarrow> (Inl (HttpError (''user not found: '' @ userId) 404), s)
      | Some user \<Rightarrow> (Inr (redactUser (bumped e user)), s\<lparr>users := map_put userId (bumped e user) (users s)\<rparr>))"
  by (simp add: incrementSessionVersion_def run_simps bumped_def Let_def split: option.split)

end
