(* ===== verification/Organizations.thy ===== *)
theory Organizations
  imports Store
begin

text \<open>
  Organizations and plain membership changes of \<open>ControlPlaneStore\<close> (\<open>store.ts\<close>), with the checks
  of \<open>organization-creation.ts\<close>.

  The main properties: an organization that a user creates has that user as its owner, the
  signed-in sessions of the user end, and nothing happens when the request is refused; the last
  owner of an organization is never demoted or removed by \<open>addMember\<close> and \<open>removeMember\<close>; and, as
  a defect, two different slugs that agree on their first 59 characters share an identifier, so
  creating the second organization takes the first one over.
\<close>

section \<open>Input checks (\<open>organization-creation.ts\<close>)\<close>

record org_create_input =
  oc_actorUserId :: string
  oc_name :: string
  oc_slug :: string

fun slug_error_code :: "slug_error \<Rightarrow> string" where
  "slug_error_code SlugInvalid = ''organization_route_slug_invalid''"
| "slug_error_code SlugReserved = ''organization_route_slug_reserved''"
| "slug_error_code SlugTooLong = ''organization_route_slug_too_long''"

definition parseAuthenticatedOrganizationCreateInput ::
  "js_fields \<Rightarrow> (http_error, org_create_input) result" where
  "parseAuthenticatedOrganizationCreateInput input =
     bindE (ensure (list_all (\<lambda>key. key \<in> set [''actorUserId'', ''name'', ''slug'']) (js_keys input))
       (HttpError ''organization_creation_input_invalid'' 400)) (\<lambda>_.
     let actorUserId = trim (text_or_empty (js_get input ''actorUserId'')) in
     bindE (ensure (actorUserId \<noteq> []) (HttpError ''organization_creation_auth_required'' 401)) (\<lambda>_.
     let name = trim (text_or_empty (js_get input ''name'')) in
     bindE (ensure (name \<noteq> [] \<and> length name \<le> 128 \<and> utf8_length name \<le> 256)
       (HttpError ''organization_name_invalid'' 400)) (\<lambda>_.
     bindE (map_err (\<lambda>code. HttpError (slug_error_code code) 400)
       (parseOrganizationRouteSlug (js_get input ''slug''))) (\<lambda>slug.
     Inr \<lparr>oc_actorUserId = actorUserId, oc_name = name, oc_slug = slug\<rparr>))))"

definition assertOrganizationCreatorEligible :: "env \<Rightarrow> user_row option \<Rightarrow> (http_error, bool) result" where
  "assertOrganizationCreatorEligible e user =
     bindE (from_option (HttpError ''organization_creation_auth_required'' 401) user) (\<lambda>u.
     bindE (ensure (usr_emailVerifiedAt u \<noteq> None) (HttpError ''email_not_verified'' 403)) (\<lambda>_.
     bindE (ensure (toUpperCase (if usr_approvalStatus u = [] then ''PENDING'' else usr_approvalStatus u) = ''APPROVED'')
       (HttpError ''account_not_approved'' 403)) (\<lambda>_.
     bindE (ensure (case usr_bannedAt u of None \<Rightarrow> True
         | Some _ \<Rightarrow> (case usr_banExpiresAt u of None \<Rightarrow> False
             | Some t \<Rightarrow> (case dateParse (zone e) t of None \<Rightarrow> False | Some expiresAt \<Rightarrow> expiresAt \<le> now e)))
       (HttpError ''account_banned'' 403)) (\<lambda>_.
     Inr True))))"

definition assertInteractiveOrganizationCreator :: "js_fields \<Rightarrow> (http_error, string) result" where
  "assertInteractiveOrganizationCreator subject =
     (let claims = (case js_get subject ''claims'' of JObj obj \<Rightarrow> obj | _ \<Rightarrow> [])
      in if js_get subject ''authMode'' \<noteq> JStr ''jwt'' \<or> js_get claims ''system'' = JBool True \<or>
           trim (text_or_empty (js_get subject ''id'')) = []
         then Inl (HttpError ''organization_creation_auth_required'' 401)
         else Inr (js_text (js_get subject ''id'')))"

section \<open>Organizations\<close>

definition organizationSlugForCreate :: "js_fields \<Rightarrow> (http_error, string) result" where
  "organizationSlugForCreate input =
     (if ''slug'' \<notin> set (js_keys input) then Inr (slugify (js_get input ''name'') ''item'')
      else map_err (\<lambda>code. HttpError (slug_error_code code) 400) (parseOrganizationRouteSlug (js_get input ''slug'')))"

definition createOrganization :: "env \<Rightarrow> js_fields \<Rightarrow> org_row op" where
  "createOrganization e input =
     (let plan = (if js_get input ''plan'' = JUndef then JStr ''free'' else js_get input ''plan'') in
      bindA (lift (organizationSlugForCreate input)) (\<lambda>slug.
      let org = \<lparr>org_id = stableId ''org'' [if slug \<noteq> [] then JStr slug else js_get input ''name''],
                 org_name = js_get input ''name'', org_slug = slug, org_plan = plan, org_createdAt = nowIso e\<rparr> in
      bindA (read (\<lambda>s. map_of (organizations s) (org_id org))) (\<lambda>existing.
      bindA (guard (case existing of None \<Rightarrow> True | Some x \<Rightarrow> org_slug x = slug)
        (HttpError ''organization_identity_collision'' 409)) (\<lambda>_.
      bindA (change (\<lambda>s. s\<lparr>organizations := map_put (org_id org) org (organizations s)\<rparr>)) (\<lambda>_.
      bindA (audit e ''system'' ''organization:create'' ''organization'' (org_id org)
        [(''slug'', JStr slug), (''plan'', plan)]) (\<lambda>_.
      ret org))))))"

definition created_organization :: "env \<Rightarrow> org_create_input \<Rightarrow> org_row" where
  "created_organization e parsed =
     \<lparr>org_id = stableId ''org'' [JStr (oc_slug parsed)], org_name = JStr (oc_name parsed),
      org_slug = oc_slug parsed, org_plan = JStr ''free'', org_createdAt = nowIso e\<rparr>"

definition owner_membership :: "env \<Rightarrow> string \<Rightarrow> string \<Rightarrow> member_row" where
  "owner_membership e organizationId userId =
     \<lparr>mb_organizationId = organizationId, mb_userId = userId, mb_role = ''OWNER'',
      mb_createdAt = Some (nowIso e), mb_updatedAt = None, mb_version = None\<rparr>"

definition createOrganizationForUser :: "env \<Rightarrow> js_fields \<Rightarrow> (org_row \<times> member_row) op" where
  "createOrganizationForUser e input =
     bindA (lift (parseAuthenticatedOrganizationCreateInput input)) (\<lambda>parsed.
     bindA (read (\<lambda>s. map_of (users s) (oc_actorUserId parsed))) (\<lambda>found.
     bindA (lift (assertOrganizationCreatorEligible e found)) (\<lambda>_.
     bindA (read (\<lambda>s. list_ex (\<lambda>organization. org_slug organization = oc_slug parsed) (map snd (organizations s)))) (\<lambda>taken.
     bindA (guard (\<not> taken) (HttpError ''organization_slug_already_exists'' 409)) (\<lambda>_.
     bindA get_state (\<lambda>before.
     let organization = created_organization e parsed;
         membership = owner_membership e (org_id organization) (oc_actorUserId parsed);
         user = the found;
         user' = user\<lparr>usr_sessionVersion := usr_sessionVersion user + 1, usr_updatedAt := nowIso e\<rparr>
     in on_error
       (bindA (change (\<lambda>s. s\<lparr>organizations := map_put (org_id organization) organization (organizations s)\<rparr>)) (\<lambda>_.
        bindA (change (\<lambda>s. s\<lparr>members := members s @ [membership]\<rparr>)) (\<lambda>_.
        bindA (change (\<lambda>s. s\<lparr>users := map_put (oc_actorUserId parsed) user' (users s)\<rparr>)) (\<lambda>_.
        bindA (audit e (oc_actorUserId parsed) ''organization:create'' ''organization'' (org_id organization)
          [(''slug'', JStr (oc_slug parsed))]) (\<lambda>_.
        ret (organization, membership))))))
       (\<lambda>s. s\<lparr>organizations := organizations before, members := members before, auditLogs := auditLogs before,
              users := map_put (oc_actorUserId parsed) user (users s)\<rparr>)))))))"

definition findOrganizationBySlug :: "js \<Rightarrow> store \<Rightarrow> org_row option" where
  "findOrganizationBySlug slug s =
     find (\<lambda>candidate. org_slug candidate = slugify slug ''item'') (map snd (organizations s))"

section \<open>Memberships\<close>

definition is_membership :: "string \<Rightarrow> string \<Rightarrow> member_row \<Rightarrow> bool" where
  "is_membership organizationId userId row \<longleftrightarrow> mb_organizationId row = organizationId \<and> mb_userId row = userId"

definition is_owner_of :: "string \<Rightarrow> member_row \<Rightarrow> bool" where
  "is_owner_of organizationId row \<longleftrightarrow>
     mb_organizationId row = organizationId \<and> normalizeOrganizationRoleForRead (JStr (mb_role row)) = Some OWNER"

definition ownerCount :: "store \<Rightarrow> string \<Rightarrow> int" where
  "ownerCount s organizationId = int (length (filter (is_owner_of organizationId) (members s)))"

text \<open>The role text that is stored: a lower-case spelling is kept, any other becomes canonical.\<close>

definition stored_role :: "js \<Rightarrow> role \<Rightarrow> string" where
  "stored_role given_role canonical =
     (case given_role of
        JStr text \<Rightarrow> if text = toLowerCase text then text else role_text canonical
      | _ \<Rightarrow> role_text canonical)"

definition addMember :: "env \<Rightarrow> string \<Rightarrow> string \<Rightarrow> js \<Rightarrow> js \<Rightarrow> member_row op" where
  "addMember e organizationId userId role actorRole =
     (let given_role = (if role = JUndef then JStr ''DEVELOPER'' else role) in
      bindA (lift (map_err (\<lambda>_. HttpError ''membership_role_invalid'' 400)
        (parseOrganizationMembershipRoleForMutation given_role))) (\<lambda>canonical.
      let storedRole = stored_role given_role canonical in
      bindA (read (\<lambda>s. find (is_membership organizationId userId) (members s))) (\<lambda>existing.
      let currentRole = (case existing of None \<Rightarrow> JUndef | Some row \<Rightarrow> JStr (mb_role row));
          protectCanonicalOwner = (normalizeOrganizationRoleForRead currentRole = Some OWNER \<and> canonical \<noteq> OWNER) in
      bindA (read (\<lambda>s. if protectCanonicalOwner \<or> actorRole \<noteq> JUndef then ownerCount s organizationId else 0)) (\<lambda>owners.
      bindA (if actorRole = JUndef then ret ()
             else (case membershipRoleTransition actorRole (JStr (role_text canonical))
                       (if js_truthy currentRole then currentRole else JStr ''VIEWER'') owners of
                     TransitionRoleInvalid \<Rightarrow> fail (HttpError ''membership_role_invalid'' 400)
                   | TransitionForbidden \<Rightarrow> fail (HttpError ''membership_role_transition_forbidden'' 403)
                   | TransitionLastOwner \<Rightarrow> fail (HttpError ''membership_last_owner'' 409)
                   | TransitionAllowed _ \<Rightarrow> ret ())) (\<lambda>_.
      case existing of
        Some row \<Rightarrow>
          bindA (guard (\<not> (protectCanonicalOwner \<and> owners \<le> 1)) (HttpError ''membership_last_owner'' 409)) (\<lambda>_.
          if mb_role row \<noteq> storedRole then
            let row' = row\<lparr>mb_role := storedRole, mb_updatedAt := Some (nowIso e)\<rparr> in
            bindA (change (\<lambda>s. s\<lparr>members := update_first (is_membership organizationId userId) (\<lambda>_. row') (members s)\<rparr>)) (\<lambda>_.
            bindA (read (\<lambda>s. map_of (users s) userId \<noteq> None)) (\<lambda>known.
            bindA (whenA known (incrementSessionVersion e userId)) (\<lambda>_.
            bindA (audit e userId ''organization.member:role-change'' ''organization'' organizationId
              [(''role'', JStr storedRole)]) (\<lambda>_.
            ret row'))))
          else ret row)
      | None \<Rightarrow>
          let member = \<lparr>mb_organizationId = organizationId, mb_userId = userId, mb_role = storedRole,
                mb_createdAt = Some (nowIso e), mb_updatedAt = None, mb_version = None\<rparr> in
          bindA (change (\<lambda>s. s\<lparr>members := members s @ [member]\<rparr>)) (\<lambda>_.
          bindA (audit e userId ''organization.member:add'' ''organization'' organizationId
            [(''role'', JStr storedRole)]) (\<lambda>_.
          ret member)))))))"

definition removeMember :: "env \<Rightarrow> string \<Rightarrow> string \<Rightarrow> member_row option op" where
  "removeMember e organizationId userId =
     bindA (read (\<lambda>s. find (is_membership organizationId userId) (members s))) (\<lambda>found.
     case found of
       None \<Rightarrow> ret None
     | Some member \<Rightarrow>
         bindA (read (\<lambda>s. ownerCount s organizationId)) (\<lambda>owners.
         bindA (guard (\<not> (normalizeOrganizationRoleForRead (JStr (mb_role member)) = Some OWNER \<and> owners \<le> 1))
           (HttpError ''membership_last_owner'' 409)) (\<lambda>_.
         bindA (change (\<lambda>s. s\<lparr>members := remove_first (is_membership organizationId userId) (members s)\<rparr>)) (\<lambda>_.
         bindA (read (\<lambda>s. map_of (users s) userId \<noteq> None)) (\<lambda>known.
         bindA (whenA known (incrementSessionVersion e userId)) (\<lambda>_.
         bindA (audit e userId ''organization.member:remove'' ''organization'' organizationId
           [(''role'', JStr (mb_role member))]) (\<lambda>_.
         ret (Some member))))))))"

definition listMembershipsForUser :: "string \<Rightarrow> store \<Rightarrow> member_row list" where
  "listMembershipsForUser userId s = filter (\<lambda>member. mb_userId member = userId) (members s)"

section \<open>Owners\<close>

text \<open>
  \<open>owned org\<close> is the property that the organization has an owner. It depends on the membership
  rows only.
\<close>

definition owned :: "string \<Rightarrow> store \<Rightarrow> bool" where
  "owned org s \<longleftrightarrow> 0 < ownerCount s org"

lemma owned_frame [simp]:
  "owned org (s\<lparr>auditLogs := a\<rparr>) = owned org s" "owned org (s\<lparr>users := b\<rparr>) = owned org s"
  "owned org (s\<lparr>organizations := c\<rparr>) = owned org s" "owned org (s\<lparr>organizationInvites := d\<rparr>) = owned org s"
  by (simp_all add: owned_def ownerCount_def)

lemma owned_append: "owned org s \<Longrightarrow> owned org (s\<lparr>members := members s @ [m]\<rparr>)"
  by (simp add: owned_def ownerCount_def)

lemma owned_remove_first:
  assumes "owned org s" and "find P (members s) = Some m"
    and "is_owner_of org m \<Longrightarrow> 1 < ownerCount s org"
  shows "owned org (s\<lparr>members := remove_first P (members s)\<rparr>)"
  using assms(1,3) count_remove_first [OF assms(2), of "is_owner_of org"]
  by (cases "is_owner_of org m") (auto simp: owned_def ownerCount_def)

lemma owned_update_first:
  assumes "owned org s" and "find P (members s) = Some m"
    and "is_owner_of org m \<Longrightarrow> \<not> is_owner_of org m' \<Longrightarrow> 1 < ownerCount s org"
  shows "owned org (s\<lparr>members := update_first P (\<lambda>_. m') (members s)\<rparr>)"
  using assms(1,3) count_update_first [OF assms(2), of "is_owner_of org" "\<lambda>_. m'"]
  by (cases "is_owner_of org m"; cases "is_owner_of org m'") (auto simp: owned_def ownerCount_def)

lemma is_membership_org: "find (is_membership g u) ms = Some m \<Longrightarrow> mb_organizationId m = g"
  by (auto simp: is_membership_def dest: find_Some_sat)

lemma owned_removeMember [keeps_rules]: "keeps (owned org) (removeMember e organizationId userId)"
  unfolding removeMember_def keeps_leads
  apply (intro leads_rules keeps_rules)
  by (auto intro!: owned_remove_first simp: is_owner_of_def dest: is_membership_org)

lemma normalize_stored_role:
  "parseOrganizationMembershipRoleForMutation v = Inr r \<Longrightarrow>
   normalizeOrganizationRoleForRead (JStr (stored_role v r)) = Some r"
  using parse_role_normalize [of v r] by (cases v) (simp_all add: stored_role_def)

lemma owned_change_role:
  assumes "owned org s" and "find (is_membership g u) (members s) = Some row"
    and "normalizeOrganizationRoleForRead (JStr text) = Some r"
    and "normalizeOrganizationRoleForRead (JStr (mb_role row)) = Some OWNER \<Longrightarrow> r \<noteq> OWNER \<Longrightarrow> 1 < ownerCount s g"
  shows "owned org (s\<lparr>members := update_first (is_membership g u)
    (\<lambda>_. row\<lparr>mb_role := text, mb_updatedAt := t\<rparr>) (members s)\<rparr>)"
  using assms by (intro owned_update_first) (auto simp: is_owner_of_def dest!: is_membership_org)

lemma owned_addMember [keeps_rules]: "keeps (owned org) (addMember e organizationId userId role actorRole)"
  unfolding addMember_def keeps_leads Let_def
  apply (intro leads_rules keeps_rules leads_bind_same)
  apply (simp_all add: result_simps owned_append split: transition_result.split)
  by (auto elim!: owned_change_role intro: normalize_stored_role split: if_splits)

lemma owned_createOrganization [keeps_rules]: "keeps (owned org) (createOrganization e input)"
  unfolding createOrganization_def Let_def by (intro keeps_rules) simp_all

lemma keeps_on_error [keeps_rules]: "keeps I m \<Longrightarrow> (\<And>s. I s \<Longrightarrow> I (restore s)) \<Longrightarrow> keeps I (on_error m restore)"
  by (auto simp: keeps_def on_error_def split: prod.splits sum.splits)

lemma createOrganizationForUser_ok:
  assumes "createOrganizationForUser e input s = (Inr (organization, membership), t)"
  shows "\<exists>parsed user. parseAuthenticatedOrganizationCreateInput input = Inr parsed \<and>
    map_of (users s) (oc_actorUserId parsed) = Some user \<and>
    assertOrganizationCreatorEligible e (Some user) = Inr True \<and>
    organization = created_organization e parsed \<and>
    membership = owner_membership e (org_id organization) (oc_actorUserId parsed) \<and>
    list_all (\<lambda>x. org_slug x \<noteq> oc_slug parsed) (map snd (organizations s)) \<and>
    organizations t = map_put (org_id organization) organization (organizations s) \<and>
    members t = members s @ [membership] \<and>
    users t = map_put (oc_actorUserId parsed)
      (user\<lparr>usr_sessionVersion := usr_sessionVersion user + 1, usr_updatedAt := nowIso e\<rparr>) (users s)"
  using assms
  by (auto simp: createOrganizationForUser_def bindA_def Let_def on_error_def run_simps ensure_def
      list_all_iff list_ex_iff assertOrganizationCreatorEligible_def
      result_simps split: sum.splits option.splits if_splits)

lemma createOrganizationForUser_error:
  assumes "createOrganizationForUser e input s = (Inl err, t)"
  shows "t = s"
  using assms
  by (auto simp: createOrganizationForUser_def bindA_def Let_def on_error_def run_simps ensure_def
      split: sum.splits if_splits)

lemma owned_createOrganizationForUser [keeps_rules]: "keeps (owned org) (createOrganizationForUser e input)"
proof -
  have "owned org (snd (createOrganizationForUser e input s))" if "owned org s" for s
  proof (cases "createOrganizationForUser e input s")
    case (Pair r t)
    show ?thesis
    proof (cases r)
      case (Inl err)
      with Pair that show ?thesis using createOrganizationForUser_error by fastforce
    next
      case (Inr v)
      with Pair have "\<exists>m. members t = members s @ [m]"
        using createOrganizationForUser_ok [of e input s "fst v" "snd v" t] by auto
      with Pair that show ?thesis by (auto simp: owned_def ownerCount_def)
    qed
  qed
  then show ?thesis by (simp add: keeps_def)
qed

lemma normalize_OWNER [simp]: "normalizeOrganizationRoleForRead (JStr ''OWNER'') = Some OWNER"
  by (simp add: normalizeOrganizationRoleForRead_def role_cases_def)

lemma parsed_slug:
  "parseAuthenticatedOrganizationCreateInput input = Inr parsed \<Longrightarrow>
   clean_slug (oc_slug parsed) \<and> length (oc_slug parsed) \<le> 63"
  by (auto simp: parseAuthenticatedOrganizationCreateInput_def Let_def result_simps route_slug_any_iff)

lemma org_identifier:
  "clean_slug s \<Longrightarrow> length s \<le> 63 \<Longrightarrow> stableId ''org'' [JStr s] = ''org-'' @ take 59 s"
  by (subst stableId_clean) (auto simp: clean_slug_def slug_char_def char_class_defs)

section \<open>Main properties\<close>


text \<open>
  C38. Two slugs that agree on their first 59 characters have the same organization identifier,
  and \<open>createOrganizationForUser\<close> compares slugs only: whoever creates an organization under such
  a slug replaces the existing organization and becomes an owner of its identifier.
\<close>

theorem organization_identifier_takeover:
  assumes "createOrganizationForUser e input s = (Inr (organization, membership), t)"
    and "map_of (organizations s) (org_id victim) = Some victim"
    and "org_id victim = stableId ''org'' [JStr (org_slug victim)]"
    and "parseOrganizationRouteSlug (JStr (org_slug victim)) = Inr (org_slug victim)"
    and "take 59 (org_slug organization) = take 59 (org_slug victim)"
  shows "org_slug organization \<noteq> org_slug victim \<and>
    map_of (organizations t) (org_id victim) = Some organization \<and>
    membership \<in> set (members t) \<and> is_owner_of (org_id victim) membership"
proof -
  obtain parsed where parsed: "parseAuthenticatedOrganizationCreateInput input = Inr parsed"
    and org: "organization = created_organization e parsed"
    and mem: "membership = owner_membership e (org_id organization) (oc_actorUserId parsed)"
    and free: "list_all (\<lambda>x. org_slug x \<noteq> oc_slug parsed) (map snd (organizations s))"
    and t: "organizations t = map_put (org_id organization) organization (organizations s)"
      "members t = members s @ [membership]"
    using createOrganizationForUser_ok [OF assms(1)] by auto
  have "victim \<in> set (map snd (organizations s))"
    using assms(2) by (force dest: map_of_SomeD)
  with free org have "org_slug organization \<noteq> org_slug victim"
    by (auto simp: list_all_iff created_organization_def)
  moreover have "org_id organization = org_id victim"
    using parsed_slug [OF parsed] assms(3-5) org
    by (simp add: created_organization_def org_identifier route_slug_iff)
  ultimately show ?thesis
    using mem t by (simp add: owner_membership_def is_owner_of_def)
qed

definition sample_user :: "string \<Rightarrow> user_row" where
  "sample_user uid = \<lparr>usr_id = uid, usr_name = JStr ''Kim'', usr_studentId = JStr [], usr_clubMemberClaim = False,
     usr_email = ''kim@raibit.kr'', usr_avatarUrl = None, usr_githubId = None, usr_passwordHash = None,
     usr_role = ''USER'', usr_accountType = ''NON_CLUB'', usr_approvalStatus = ''APPROVED'',
     usr_sessionVersion = 0, usr_bannedAt = None, usr_banExpiresAt = None, usr_banReason = None,
     usr_bannedByUserId = None, usr_emailVerifiedAt = Some (Instant 0), usr_createdAt = Instant 0,
     usr_updatedAt = Instant 0\<rparr>"

definition sample_env :: env where
  "sample_env = \<lparr>now = 1000, zone = 0, sha256_hex = (\<lambda>s. s), sha256_base64url = (\<lambda>s. s)\<rparr>"

definition long_slug :: "char \<Rightarrow> string" where
  "long_slug c = replicate 59 CHR ''a'' @ [c]"

definition long_slug_org :: "char \<Rightarrow> string \<Rightarrow> org_row" where
  "long_slug_org c name = created_organization sample_env
     \<lparr>oc_actorUserId = ''u'', oc_name = name, oc_slug = long_slug c\<rparr>"

definition two_users :: store where
  "two_users = empty_store\<lparr>users := [(''u1'', sample_user ''u1''), (''u2'', sample_user ''u2'')],
     organizations := [(org_id (long_slug_org CHR ''b'' ''First''), long_slug_org CHR ''b'' ''First'')]\<rparr>"

definition second_request :: js_fields where
  "second_request = [(''actorUserId'', JStr ''u2''), (''name'', JStr ''Second''), (''slug'', JStr (long_slug CHR ''c''))]"

lemma clean_long_slug: "lower_alnum c \<Longrightarrow> c \<noteq> CHR ''-'' \<Longrightarrow> clean_slug (long_slug c)"
proof -
  assume c: "lower_alnum c" "c \<noteq> CHR ''-''"
  have "lower_alnum CHR ''a''" by code_simp
  with c have "list_all slug_char (long_slug c)"
    by (auto simp: long_slug_def list_all_iff slug_char_def)
  moreover have "CHR ''-'' \<notin> set (long_slug c)" using c by (simp add: long_slug_def)
  then have "\<not> has_infix ''--'' (long_slug c)" by (auto simp: has_infix_iff)
  ultimately show ?thesis using c by (simp add: clean_slug_def long_slug_def)
qed

lemma long_slug_accepted:
  "parseOrganizationRouteSlug (JStr (long_slug CHR ''b'')) = Inr (long_slug CHR ''b'')"
  "parseOrganizationRouteSlug (JStr (long_slug CHR ''c'')) = Inr (long_slug CHR ''c'')"
proof -
  have "lower_alnum CHR ''b''" "lower_alnum CHR ''c''" by code_simp+
  moreover have "length r < 60" if "r \<in> set RESERVED_ORGANIZATION_ROUTE_SLUGS" for r
    using that by (auto simp: RESERVED_ORGANIZATION_ROUTE_SLUGS_def)
  from this [of "long_slug c" for c] have "long_slug c \<notin> set RESERVED_ORGANIZATION_ROUTE_SLUGS" for c
    by (auto simp: long_slug_def)
  ultimately show "parseOrganizationRouteSlug (JStr (long_slug CHR ''b'')) = Inr (long_slug CHR ''b'')"
    "parseOrganizationRouteSlug (JStr (long_slug CHR ''c'')) = Inr (long_slug CHR ''c'')"
    by (simp_all add: route_slug_iff clean_long_slug) (simp_all add: long_slug_def)
qed

lemma second_request_parsed:
  "parseAuthenticatedOrganizationCreateInput second_request =
   Inr \<lparr>oc_actorUserId = ''u2'', oc_name = ''Second'', oc_slug = long_slug CHR ''c''\<rparr>"
proof -
  have "trim ''u2'' = ''u2''" "trim ''Second'' = ''Second''" "utf8_length ''Second'' = 6" by code_simp+
  then show ?thesis
    by (simp add: parseAuthenticatedOrganizationCreateInput_def second_request_def js_keys_def js_get_def
        text_or_empty_def long_slug_accepted)
qed

lemma second_request_result:
  "fst (createOrganizationForUser sample_env second_request two_users) =
   Inr (long_slug_org CHR ''c'' ''Second'',
        owner_membership sample_env (org_id (long_slug_org CHR ''c'' ''Second'')) ''u2'')"
proof -
  have "map_of (users two_users) ''u2'' = Some (sample_user ''u2'')" by (simp add: two_users_def)
  moreover have "assertOrganizationCreatorEligible sample_env (Some (sample_user ''u2'')) = Inr True" by code_simp
  moreover have "\<not> list_ex (\<lambda>organization. org_slug organization = long_slug CHR ''c'') (map snd (organizations two_users))"
    by (simp add: two_users_def long_slug_org_def created_organization_def long_slug_def)
  ultimately show ?thesis
    by (simp add: createOrganizationForUser_def second_request_parsed on_error_def run_simps Let_def)
      (simp add: long_slug_org_def created_organization_def)
qed

theorem organization_identifier_takeover_witness:
  "is_owner_of (org_id (long_slug_org CHR ''b'' ''First''))
     (owner_membership sample_env (org_id (long_slug_org CHR ''c'' ''Second'')) ''u2'')"
proof -
  let ?r = "createOrganizationForUser sample_env second_request two_users"
  have run: "?r = (Inr (long_slug_org CHR ''c'' ''Second'',
      owner_membership sample_env (org_id (long_slug_org CHR ''c'' ''Second'')) ''u2''), snd ?r)"
    by (rule prod_eqI) (simp_all add: second_request_result)
  show ?thesis
    using organization_identifier_takeover [OF run, of "long_slug_org CHR ''b'' ''First''"] long_slug_accepted
    by (simp add: two_users_def long_slug_org_def created_organization_def) (simp add: long_slug_def)
qed

end
