(* ===== verification/Membership.thy ===== *)
theory Membership
  imports Organizations
begin

text \<open>
  Membership transitions: the request functions of \<open>membership-transition.ts\<close>, which work on any
  repository, and the in-memory repository \<open>membership-transition-memory.ts\<close>.

  \<open>membership_repository\<close> is the interface between the two; its law is that each operation of the
  repository keeps the property "the organization has an owner". The memory repository is an
  interpretation, so the request functions keep that property as well.
\<close>

section \<open>Requests (\<open>membership-transition.ts\<close>)\<close>

record member_view =
  mv_id :: string
  mv_organizationId :: string
  mv_userId :: string
  mv_role :: role
  mv_version :: int
  mv_createdAt :: time_text
  mv_user :: "string \<times> string \<times> js \<times> string option"

definition parseExpectedVersion :: "js \<Rightarrow> (http_error, int) result" where
  "parseExpectedVersion value =
     (case value of
        JInt n \<Rightarrow> if n < 1 then Inl (HttpError ''MEMBERSHIP_INPUT_INVALID'' 400) else Inr n
      | _ \<Rightarrow> Inl (HttpError ''MEMBERSHIP_INPUT_INVALID'' 400))"

definition requireMembershipTransitionAuthority :: "role \<Rightarrow> role \<Rightarrow> role \<Rightarrow> (http_error, unit) result" where
  "requireMembershipTransitionAuthority actorRole currentRole targetRole =
     (if actorRole = OWNER then Inr ()
      else if actorRole = ADMIN \<and> currentRole \<noteq> OWNER \<and> targetRole \<noteq> OWNER then Inr ()
      else Inl (HttpError ''MEMBERSHIP_FORBIDDEN'' 403))"

definition requireMembershipRemovalAuthority :: "role \<Rightarrow> role \<Rightarrow> (http_error, unit) result" where
  "requireMembershipRemovalAuthority actorRole targetRole =
     (if actorRole = OWNER then Inr ()
      else if actorRole = ADMIN \<and> targetRole \<noteq> OWNER then Inr ()
      else Inl (HttpError ''MEMBERSHIP_FORBIDDEN'' 403))"

definition changeOrganizationMembershipRole ::
  "(string \<Rightarrow> string \<Rightarrow> string \<Rightarrow> role \<Rightarrow> int \<Rightarrow> ('s, http_error, 'm) act) \<Rightarrow>
   string \<Rightarrow> string \<Rightarrow> string \<Rightarrow> js \<Rightarrow> js \<Rightarrow> ('s, http_error, 'm) act" where
  "changeOrganizationMembershipRole repository organizationId membershipId actorUserId role expectedVersion =
     bindA (lift (parseExpectedVersion expectedVersion)) (\<lambda>version.
     bindA (lift (map_err (\<lambda>_. HttpError ''MEMBERSHIP_INPUT_INVALID'' 400)
       (parseOrganizationMembershipRoleForMutation role))) (\<lambda>canonical.
     repository organizationId membershipId actorUserId canonical version))"

definition removeOrganizationMember ::
  "(string \<Rightarrow> string \<Rightarrow> string \<Rightarrow> int \<Rightarrow> ('s, http_error, unit) act) \<Rightarrow>
   string \<Rightarrow> string \<Rightarrow> string \<Rightarrow> js \<Rightarrow> ('s, http_error, unit) act" where
  "removeOrganizationMember repository organizationId membershipId actorUserId expectedVersion =
     bindA (lift (parseExpectedVersion expectedVersion)) (\<lambda>version.
     repository organizationId membershipId actorUserId version)"

definition leaveOrganization ::
  "(string \<Rightarrow> string \<Rightarrow> int \<Rightarrow> ('s, http_error, unit) act) \<Rightarrow>
   string \<Rightarrow> string \<Rightarrow> js \<Rightarrow> ('s, http_error, unit) act" where
  "leaveOrganization repository organizationId actorUserId expectedVersion =
     bindA (lift (parseExpectedVersion expectedVersion)) (\<lambda>version.
     repository organizationId actorUserId version)"

section \<open>The memory repository (\<open>membership-transition-memory.ts\<close>)\<close>

definition memoryMembershipId :: "env \<Rightarrow> member_row \<Rightarrow> string" where
  "memoryMembershipId e row =
     ''mem_'' @ take 24 (sha256_hex e (mb_organizationId row @ '':'' @ mb_userId row))"

definition canonicalRole :: "string \<Rightarrow> (http_error, role) result" where
  "canonicalRole value =
     from_option (HttpError ''MEMBERSHIP_NOT_FOUND'' 404) (normalizeOrganizationRoleForRead (JStr value))"

definition row_version :: "member_row \<Rightarrow> int" where
  "row_version row = (case mb_version row of None \<Rightarrow> 1 | Some v \<Rightarrow> v)"

definition memoryMemberView :: "env \<Rightarrow> store \<Rightarrow> member_row \<Rightarrow> (http_error, member_view) result" where
  "memoryMemberView e s row =
     bindE (from_option (HttpError ''MEMBERSHIP_NOT_FOUND'' 404) (map_of (users s) (mb_userId row))) (\<lambda>user.
     bindE (canonicalRole (mb_role row)) (\<lambda>role.
     Inr \<lparr>mv_id = memoryMembershipId e row, mv_organizationId = mb_organizationId row, mv_userId = mb_userId row,
       mv_role = role, mv_version = row_version row,
       mv_createdAt = (case mb_createdAt row of None \<Rightarrow> toISOString 0 | Some t \<Rightarrow> t),
       mv_user = (usr_id user, usr_email user, usr_name user, usr_avatarUrl user)\<rparr>))"

definition requireOrganizationMember :: "string \<Rightarrow> string \<Rightarrow> member_row op" where
  "requireOrganizationMember organizationId userId =
     bindA (read_or (HttpError ''MEMBERSHIP_NOT_FOUND'' 404) (\<lambda>s. map_of (organizations s) organizationId)) (\<lambda>_.
     read_or (HttpError ''MEMBERSHIP_NOT_FOUND'' 404) (\<lambda>s. find (is_membership organizationId userId) (members s)))"

definition is_member_id :: "env \<Rightarrow> string \<Rightarrow> string \<Rightarrow> member_row \<Rightarrow> bool" where
  "is_member_id e organizationId membershipId row \<longleftrightarrow>
     mb_organizationId row = organizationId \<and> memoryMembershipId e row = membershipId"

definition findMemoryMembership :: "env \<Rightarrow> string \<Rightarrow> string \<Rightarrow> member_row op" where
  "findMemoryMembership e organizationId membershipId =
     read_or (HttpError ''MEMBERSHIP_NOT_FOUND'' 404)
       (\<lambda>s. find (is_member_id e organizationId membershipId) (members s))"

definition listMemoryOrganizationMembers :: "env \<Rightarrow> string \<Rightarrow> string \<Rightarrow> member_view list op" where
  "listMemoryOrganizationMembers e organizationId actorUserId =
     bindA (requireOrganizationMember organizationId actorUserId) (\<lambda>_.
     bindA get_state (\<lambda>s.
     lift (mapE (memoryMemberView e s) (filter (\<lambda>row. mb_organizationId row = organizationId) (members s)))))"

definition changeMemoryOrganizationMembershipRole ::
  "env \<Rightarrow> string \<Rightarrow> string \<Rightarrow> string \<Rightarrow> role \<Rightarrow> int \<Rightarrow> member_view op" where
  "changeMemoryOrganizationMembershipRole e organizationId membershipId actorUserId role expectedVersion =
     bindA (requireOrganizationMember organizationId actorUserId) (\<lambda>actor.
     bindA (findMemoryMembership e organizationId membershipId) (\<lambda>target.
     bindA (lift (canonicalRole (mb_role actor))) (\<lambda>actorRole.
     bindA (lift (canonicalRole (mb_role target))) (\<lambda>currentRole.
     bindA (lift (requireMembershipTransitionAuthority actorRole currentRole role)) (\<lambda>_.
     let version = row_version target in
     bindA (guard (version = expectedVersion) (HttpError ''STALE_MEMBERSHIP'' 409)) (\<lambda>_.
     if currentRole = role then bindA get_state (\<lambda>s. lift (memoryMemberView e s target))
     else
       bindA (read (\<lambda>s. ownerCount s organizationId)) (\<lambda>owners.
       bindA (guard (\<not> (currentRole = OWNER \<and> role \<noteq> OWNER \<and> owners \<le> 1)) (HttpError ''LAST_OWNER'' 409)) (\<lambda>_.
       let target' = target\<lparr>mb_role := role_text role, mb_version := Some (version + 1)\<rparr> in
       bindA (change (\<lambda>s. s\<lparr>members :=
         update_first (is_member_id e organizationId membershipId) (\<lambda>_. target') (members s)\<rparr>)) (\<lambda>_.
       bindA (incrementSessionVersion e (mb_userId target)) (\<lambda>_.
       bindA (audit e actorUserId ''organization.member:role-change'' ''membership'' membershipId
         [(''organizationId'', JStr organizationId), (''role'', JStr (role_text role)), (''version'', JInt (version + 1))]) (\<lambda>_.
       bindA get_state (\<lambda>s. lift (memoryMemberView e s target')))))))))))))"

definition removeMemoryOrganizationMember :: "env \<Rightarrow> string \<Rightarrow> string \<Rightarrow> string \<Rightarrow> int \<Rightarrow> unit op" where
  "removeMemoryOrganizationMember e organizationId membershipId actorUserId expectedVersion =
     bindA (requireOrganizationMember organizationId actorUserId) (\<lambda>actor.
     bindA (findMemoryMembership e organizationId membershipId) (\<lambda>target.
     bindA (lift (canonicalRole (mb_role actor))) (\<lambda>actorRole.
     bindA (lift (canonicalRole (mb_role target))) (\<lambda>targetRole.
     bindA (lift (requireMembershipRemovalAuthority actorRole targetRole)) (\<lambda>_.
     bindA (guard (row_version target = expectedVersion) (HttpError ''STALE_MEMBERSHIP'' 409)) (\<lambda>_.
     bindA (read (\<lambda>s. ownerCount s organizationId)) (\<lambda>owners.
     bindA (guard (\<not> (targetRole = OWNER \<and> owners \<le> 1)) (HttpError ''LAST_OWNER'' 409)) (\<lambda>_.
     bindA (change (\<lambda>s. s\<lparr>members := remove_first (is_member_id e organizationId membershipId) (members s)\<rparr>)) (\<lambda>_.
     bindA (incrementSessionVersion e (mb_userId target)) (\<lambda>_.
     audit e actorUserId ''organization.member:remove'' ''membership'' membershipId
       [(''organizationId'', JStr organizationId), (''role'', JStr (role_text targetRole))]))))))))))"

definition leaveMemoryOrganization :: "env \<Rightarrow> string \<Rightarrow> string \<Rightarrow> int \<Rightarrow> unit op" where
  "leaveMemoryOrganization e organizationId actorUserId expectedVersion =
     bindA (requireOrganizationMember organizationId actorUserId) (\<lambda>target.
     bindA (guard (row_version target = expectedVersion) (HttpError ''STALE_MEMBERSHIP'' 409)) (\<lambda>_.
     bindA (lift (canonicalRole (mb_role target))) (\<lambda>role.
     bindA (read (\<lambda>s. ownerCount s organizationId)) (\<lambda>owners.
     bindA (guard (\<not> (role = OWNER \<and> owners \<le> 1)) (HttpError ''LAST_OWNER'' 409)) (\<lambda>_.
     bindA (change (\<lambda>s. s\<lparr>members := remove_first (is_membership organizationId actorUserId) (members s)\<rparr>)) (\<lambda>_.
     bindA (incrementSessionVersion e actorUserId) (\<lambda>_.
     audit e actorUserId ''organization.member:leave'' ''membership'' (memoryMembershipId e target)
       [(''organizationId'', JStr organizationId)])))))))"

definition pending_invite :: "string \<Rightarrow> string \<Rightarrow> invite_row \<Rightarrow> bool" where
  "pending_invite organizationId inviteId row \<longleftrightarrow>
     inv_id row = inviteId \<and> inv_organizationId row = organizationId \<and>
     inv_acceptedAt row = None \<and> inv_revokedAt row = None"

definition revokeMemoryOrganizationInvite :: "env \<Rightarrow> string \<Rightarrow> string \<Rightarrow> string \<Rightarrow> ms \<Rightarrow> unit op" where
  "revokeMemoryOrganizationInvite e organizationId inviteId actorUserId at =
     bindA (requireOrganizationMember organizationId actorUserId) (\<lambda>actor.
     bindA (read_or (HttpError ''INVITE_NOT_FOUND'' 404)
       (\<lambda>s. find (pending_invite organizationId inviteId) (organizationInvites s))) (\<lambda>invite.
     bindA (lift (canonicalRole (mb_role actor))) (\<lambda>actorRole.
     bindA (lift (requireMembershipRemovalAuthority actorRole (inv_role invite))) (\<lambda>_.
     bindA (change (\<lambda>s. s\<lparr>organizationInvites := update_first (pending_invite organizationId inviteId)
       (\<lambda>_. invite\<lparr>inv_revokedAt := Some at\<rparr>) (organizationInvites s)\<rparr>)) (\<lambda>_.
     audit e actorUserId ''organization.invite:revoked'' ''organization-invite'' inviteId
       [(''organizationId'', JStr organizationId), (''role'', JStr (role_text (inv_role invite)))])))))"

text \<open>
  \<open>revokeOrganizationInvite(repository, input)\<close>: the time of the revocation defaults to the clock.
\<close>

definition revokeOrganizationInvite ::
  "(string \<Rightarrow> string \<Rightarrow> string \<Rightarrow> ms \<Rightarrow> ('s, http_error, unit) act) \<Rightarrow>
   env \<Rightarrow> string \<Rightarrow> string \<Rightarrow> string \<Rightarrow> ms option \<Rightarrow> ('s, http_error, unit) act" where
  "revokeOrganizationInvite repository e organizationId inviteId actorUserId at =
     repository organizationId inviteId actorUserId (case at of None \<Rightarrow> now e | Some t \<Rightarrow> t)"

section \<open>The contract of a repository\<close>

text \<open>
  What a request function relies on: every operation of the repository keeps the ownership of
  every organization. Each request then keeps it too.
\<close>

locale membership_repository =
  fixes change_role :: "string \<Rightarrow> string \<Rightarrow> string \<Rightarrow> role \<Rightarrow> int \<Rightarrow> ('s, http_error, 'm) act"
    and remove_member :: "string \<Rightarrow> string \<Rightarrow> string \<Rightarrow> int \<Rightarrow> ('s, http_error, unit) act"
    and leave :: "string \<Rightarrow> string \<Rightarrow> int \<Rightarrow> ('s, http_error, unit) act"
    and revoke_invite :: "string \<Rightarrow> string \<Rightarrow> string \<Rightarrow> ms \<Rightarrow> ('s, http_error, unit) act"
    and has_owner :: "string \<Rightarrow> 's \<Rightarrow> bool"
  assumes change_role_keeps: "keeps (has_owner org) (change_role organizationId membershipId actorUserId role version)"
    and remove_member_keeps: "keeps (has_owner org) (remove_member organizationId membershipId actorUserId version)"
    and leave_keeps: "keeps (has_owner org) (leave organizationId actorUserId version)"
    and revoke_invite_keeps: "keeps (has_owner org) (revoke_invite organizationId inviteId actorUserId at)"
begin

lemma requests_keep:
  "keeps (has_owner org) (changeOrganizationMembershipRole change_role organizationId membershipId actorUserId role version)"
  "keeps (has_owner org) (removeOrganizationMember remove_member organizationId membershipId actorUserId version)"
  "keeps (has_owner org) (leaveOrganization leave organizationId actorUserId version)"
  "keeps (has_owner org) (revokeOrganizationInvite revoke_invite e organizationId inviteId actorUserId at)"
  unfolding changeOrganizationMembershipRole_def removeOrganizationMember_def leaveOrganization_def
    revokeOrganizationInvite_def
  by (intro keeps_rules change_role_keeps remove_member_keeps leave_keeps revoke_invite_keeps)+

end

lemma canonicalRole_Inr_iff [result_simps]:
  "canonicalRole text = Inr r \<longleftrightarrow> normalizeOrganizationRoleForRead (JStr text) = Some r"
  by (simp add: canonicalRole_def result_simps)

lemma is_member_id_org: "find (is_member_id e g i) ms = Some m \<Longrightarrow> mb_organizationId m = g"
  by (auto simp: is_member_id_def dest: find_Some_sat)

lemmas member_lookup_defs = requireOrganizationMember_def findMemoryMembership_def bindA_assoc

lemma owned_changeMemory [keeps_rules]:
  "keeps (owned org) (changeMemoryOrganizationMembershipRole e organizationId membershipId actorUserId role version)"
  unfolding changeMemoryOrganizationMembershipRole_def member_lookup_defs keeps_leads Let_def
  apply (intro leads_rules keeps_rules)
  by (auto simp: result_simps is_owner_of_def intro!: owned_update_first dest: is_member_id_org)

lemma owned_removeMemory [keeps_rules]:
  "keeps (owned org) (removeMemoryOrganizationMember e organizationId membershipId actorUserId version)"
  unfolding removeMemoryOrganizationMember_def member_lookup_defs keeps_leads Let_def
  apply (intro leads_rules keeps_rules)
  by (auto simp: result_simps is_owner_of_def intro!: owned_remove_first dest: is_member_id_org)

lemma owned_leaveMemory [keeps_rules]:
  "keeps (owned org) (leaveMemoryOrganization e organizationId actorUserId version)"
  unfolding leaveMemoryOrganization_def member_lookup_defs keeps_leads Let_def
  apply (intro leads_rules keeps_rules)
  by (auto simp: result_simps is_owner_of_def intro!: owned_remove_first dest: is_membership_org)

lemma owned_revokeMemory [keeps_rules]:
  "keeps (owned org) (revokeMemoryOrganizationInvite e organizationId inviteId actorUserId at)"
  unfolding revokeMemoryOrganizationInvite_def member_lookup_defs
  by (intro keeps_rules) simp_all

interpretation memory_members: membership_repository
  "changeMemoryOrganizationMembershipRole e" "removeMemoryOrganizationMember e" "leaveMemoryOrganization e"
  "revokeMemoryOrganizationInvite e" owned
  by unfold_locales (intro keeps_rules)+

section \<open>Main properties\<close>

lemma authority_Inr_iff [result_simps]:
  "requireMembershipTransitionAuthority a c r = Inr u \<longleftrightarrow> a = OWNER \<or> (a = ADMIN \<and> c \<noteq> OWNER \<and> r \<noteq> OWNER)"
  "requireMembershipRemovalAuthority a r = Inr u \<longleftrightarrow> a = OWNER \<or> (a = ADMIN \<and> r \<noteq> OWNER)"
  by (auto simp: requireMembershipTransitionAuthority_def requireMembershipRemovalAuthority_def)

lemma memoryMemberView_Inr_iff [result_simps]:
  "memoryMemberView e s row = Inr view \<longleftrightarrow>
   (\<exists>user role. map_of (users s) (mb_userId row) = Some user \<and>
      normalizeOrganizationRoleForRead (JStr (mb_role row)) = Some role \<and>
      view = \<lparr>mv_id = memoryMembershipId e row, mv_organizationId = mb_organizationId row,
        mv_userId = mb_userId row, mv_role = role, mv_version = row_version row,
        mv_createdAt = (case mb_createdAt row of None \<Rightarrow> toISOString 0 | Some t \<Rightarrow> t),
        mv_user = (usr_id user, usr_email user, usr_name user, usr_avatarUrl user)\<rparr>)"
  by (auto simp: memoryMemberView_def result_simps)

text \<open>The part of a role change after its checks.\<close>

definition role_changed :: "env \<Rightarrow> string \<Rightarrow> string \<Rightarrow> string \<Rightarrow> role \<Rightarrow> member_row \<Rightarrow> store \<Rightarrow> store" where
  "role_changed e organizationId membershipId actorUserId role target s =
     s\<lparr>members := update_first (is_member_id e organizationId membershipId)
        (\<lambda>_. target\<lparr>mb_role := role_text role, mb_version := Some (row_version target + 1)\<rparr>) (members s)\<rparr>"

lemma changeMemory_checked:
  assumes "map_of (organizations s) g \<noteq> None" and "find (is_membership g a) (members s) = Some actor"
    and "find (is_member_id e g i) (members s) = Some target"
    and "normalizeOrganizationRoleForRead (JStr (mb_role actor)) = Some ra"
    and "normalizeOrganizationRoleForRead (JStr (mb_role target)) = Some rc"
    and "ra = OWNER \<or> (ra = ADMIN \<and> rc \<noteq> OWNER \<and> r \<noteq> OWNER)"
    and "row_version target = v" and "rc \<noteq> r" and "rc \<noteq> OWNER \<or> 1 < ownerCount s g"
  shows "changeMemoryOrganizationMembershipRole e g i a r v s =
    bindA (incrementSessionVersion e (mb_userId target)) (\<lambda>_.
      bindA (audit e a ''organization.member:role-change'' ''membership'' i
        [(''organizationId'', JStr g), (''role'', JStr (role_text r)), (''version'', JInt (v + 1))]) (\<lambda>_.
      bindA get_state (\<lambda>st. lift (memoryMemberView e st
        (target\<lparr>mb_role := role_text r, mb_version := Some (v + 1)\<rparr>))))) (role_changed e g i a r target s)"
proof -
  from assms(1) obtain o' where "map_of (organizations s) g = Some o'" by blast
  moreover have "requireMembershipTransitionAuthority ra rc r = Inr ()" using assms(6) by (simp add: result_simps)
  moreover have "ensure (\<not> (rc = OWNER \<and> r \<noteq> OWNER \<and> ownerCount s g \<le> 1)) (HttpError ''LAST_OWNER'' 409) = Inr ()"
    using assms(9) by (auto simp: ensure_def)
  ultimately show ?thesis
    using assms by (simp add: changeMemoryOrganizationMembershipRole_def member_lookup_defs canonicalRole_def
        role_changed_def Let_def)
qed

lemma changeMemory_cases:
  assumes "changeMemoryOrganizationMembershipRole e g i a r v s = (res, t)"
  obtains (refused) err where "res = Inl err" "t = s"
  | (granted) actor target ra rc where
      "map_of (organizations s) g \<noteq> None" "find (is_membership g a) (members s) = Some actor"
      "find (is_member_id e g i) (members s) = Some target"
      "normalizeOrganizationRoleForRead (JStr (mb_role actor)) = Some ra"
      "normalizeOrganizationRoleForRead (JStr (mb_role target)) = Some rc"
      "ra = OWNER \<or> (ra = ADMIN \<and> rc \<noteq> OWNER \<and> r \<noteq> OWNER)" "row_version target = v"
      "rc = r \<Longrightarrow> res = memoryMemberView e s target \<and> t = s"
      "rc \<noteq> r \<Longrightarrow> rc \<noteq> OWNER \<or> 1 < ownerCount s g"
proof -
  note thesis = that
  show thesis
    using assms unfolding changeMemoryOrganizationMembershipRole_def member_lookup_defs Let_def
  proof (elim run_elims, goal_cases)
    case (8 organization actor target ra rc u)
    show ?case
    proof (cases "rc = r")
      case True
      with 8 show ?thesis
        by (intro thesis(2) [of actor target ra rc]) (auto simp: result_simps run_simps)
    next
      case False
      from 8(8) False show ?thesis
        apply (simp)
        apply (elim run_elims)
         apply (rule thesis(1), assumption, assumption)
        using 8 False by (intro thesis(2) [of actor target ra rc]) (auto simp: result_simps)
    qed
  qed (rule thesis(1), assumption, assumption)+
qed

lemma row_version_some [simp]: "row_version (row\<lparr>mb_version := Some v\<rparr>) = v"
  by (simp add: row_version_def)

text \<open>
  C35. A role change that succeeds was requested by an owner, or by an admin who neither touches
  an owner nor creates one; it named the version of the membership it saw; and, unless the role
  was already the requested one (then nothing changes), it raises that version by one, stores
  the new role in this membership only, and ends the sessions of the member by raising their
  session version by one.
\<close>

theorem change_role_spec:
  assumes "changeMemoryOrganizationMembershipRole e g i a r v s = (Inr view, t)"
  shows "\<exists>actor target ra rc.
    find (is_membership g a) (members s) = Some actor \<and> find (is_member_id e g i) (members s) = Some target \<and>
    normalizeOrganizationRoleForRead (JStr (mb_role actor)) = Some ra \<and>
    normalizeOrganizationRoleForRead (JStr (mb_role target)) = Some rc \<and>
    (ra = OWNER \<or> (ra = ADMIN \<and> rc \<noteq> OWNER \<and> r \<noteq> OWNER)) \<and> row_version target = v \<and> mv_role view = r \<and>
    (if rc = r then t = s
     else mv_version view = v + 1 \<and>
       members t = update_first (is_member_id e g i)
         (\<lambda>_. target\<lparr>mb_role := role_text r, mb_version := Some (v + 1)\<rparr>) (members s) \<and>
       (\<exists>user. map_of (users s) (mb_userId target) = Some user \<and>
          users t = map_put (mb_userId target) (bumped e user) (users s)))"
  using assms
proof (cases rule: changeMemory_cases)
  case (granted actor target ra rc)
  show ?thesis
  proof (cases "rc = r")
    case True
    moreover from this granted have "mv_role view = r" "t = s"
      by (auto simp: memoryMemberView_Inr_iff dest!: sym [of "Inr view"])
    ultimately show ?thesis
      using granted by (rule_tac exI [of _ actor], rule_tac exI [of _ target]) simp
  next
    case False
    have "mv_role view = r \<and> mv_version view = v + 1 \<and> members t = members (role_changed e g i a r target s) \<and>
       (\<exists>user. map_of (users s) (mb_userId target) = Some user \<and>
          users t = map_put (mb_userId target) (bumped e user) (users s))"
      using assms unfolding changeMemory_checked [OF granted(1-7) False granted(9) [OF False]]
      by (auto simp: bindA_def [of "incrementSessionVersion _ _"] run_simps role_changed_def result_simps
          split: option.splits)
    with granted False show ?thesis
      by (rule_tac exI [of _ actor], rule_tac exI [of _ target]) (simp add: role_changed_def)
  qed
qed simp

definition sample_member :: "string \<Rightarrow> string \<Rightarrow> member_row" where
  "sample_member userId role = \<lparr>mb_organizationId = ''org-lab'', mb_userId = userId, mb_role = role,
     mb_createdAt = None, mb_updatedAt = None, mb_version = None\<rparr>"

definition sample_lab :: store where
  "sample_lab = empty_store\<lparr>
     organizations := [(''org-lab'', \<lparr>org_id = ''org-lab'', org_name = JStr ''Lab'', org_slug = ''lab'',
       org_plan = JStr ''free'', org_createdAt = Instant 0\<rparr>)],
     users := [(''u1'', sample_user ''u1''), (''u2'', sample_user ''u2'')],
     members := [sample_member ''u1'' ''owner'', sample_member ''u2'' ''DEVELOPER'', sample_member ''u3'' ''VIEWER'']\<rparr>"

theorem change_role_spec_witness:
  "\<exists>actor target ra rc.
    find (is_membership ''org-lab'' ''u1'') (members sample_lab) = Some actor \<and>
    find (is_member_id sample_env ''org-lab'' ''mem_org-lab:u2'') (members sample_lab) = Some target \<and>
    normalizeOrganizationRoleForRead (JStr (mb_role actor)) = Some ra \<and>
    normalizeOrganizationRoleForRead (JStr (mb_role target)) = Some rc \<and> (ra = OWNER \<or> (ra = ADMIN \<and> rc \<noteq> OWNER \<and> MAINTAINER \<noteq> OWNER))"
proof -
  let ?r = "changeMemoryOrganizationMembershipRole sample_env ''org-lab'' ''mem_org-lab:u2'' ''u1'' MAINTAINER 1 sample_lab"
  have "\<not> isl (fst ?r)" by code_simp
  then obtain view where "?r = (Inr view, snd ?r)" by (blast dest: returned)
  from change_role_spec [OF this] show ?thesis by blast
qed

text \<open>
  A role change that fails leaves the store as it was, provided that every member of the
  organization has a user row. (Without the row the change is not undone, see the next property.)
\<close>

theorem change_role_failure_atomic:
  assumes "changeMemoryOrganizationMembershipRole e g i a r v s = (Inl err, t)"
    and "list_all (\<lambda>row. mb_organizationId row = g \<longrightarrow> map_of (users s) (mb_userId row) \<noteq> None) (members s)"
  shows "t = s"
  using assms(1)
proof (cases rule: changeMemory_cases)
  case (granted actor target ra rc)
  show ?thesis
  proof (cases "rc = r")
    case True
    with granted show ?thesis by blast
  next
    case False
    have "target \<in> set (members s)" "mb_organizationId target = g"
      using granted(3) by (auto dest: is_member_id_org)
    with assms(2) obtain user where "map_of (users s) (mb_userId target) = Some user"
      by (auto simp: list_all_iff)
    then show ?thesis
      using assms(1) unfolding changeMemory_checked [OF granted(1-7) False granted(9) [OF False]]
      by (simp add: bindA_def [of "incrementSessionVersion _ _"] run_simps role_changed_def
          memoryMemberView_def canonicalRole_def)
  qed
qed

theorem change_role_failure_atomic_witness:
  "snd (changeMemoryOrganizationMembershipRole sample_env ''org-lab'' ''mem_org-lab:u2'' ''u2'' OWNER 1
      (sample_lab\<lparr>members := [sample_member ''u1'' ''owner'', sample_member ''u2'' ''DEVELOPER'']\<rparr>)) =
   sample_lab\<lparr>members := [sample_member ''u1'' ''owner'', sample_member ''u2'' ''DEVELOPER'']\<rparr>"
proof -
  let ?s = "sample_lab\<lparr>members := [sample_member ''u1'' ''owner'', sample_member ''u2'' ''DEVELOPER'']\<rparr>"
  let ?r = "changeMemoryOrganizationMembershipRole sample_env ''org-lab'' ''mem_org-lab:u2'' ''u2'' OWNER 1 ?s"
  have "isl (fst ?r)" by code_simp
  then obtain err where "?r = (Inl err, snd ?r)" by (blast dest: threw)
  then show ?thesis
    by (rule change_role_failure_atomic) (simp add: sample_lab_def sample_member_def)
qed

text \<open>
  C36. When the member has no user row, the memory repository reports that the user is not found,
  but it has already stored the new role and version: the failed request took effect, and
  without an audit row.
\<close>

theorem orphan_role_change:
  assumes "map_of (organizations s) g \<noteq> None" and "find (is_membership g a) (members s) = Some actor"
    and "find (is_member_id e g i) (members s) = Some target"
    and "normalizeOrganizationRoleForRead (JStr (mb_role actor)) = Some OWNER"
    and "normalizeOrganizationRoleForRead (JStr (mb_role target)) = Some rc"
    and "row_version target = v" and "rc \<noteq> r" and "rc \<noteq> OWNER \<or> 1 < ownerCount s g"
    and "map_of (users s) (mb_userId target) = None"
  shows "changeMemoryOrganizationMembershipRole e g i a r v s =
    (Inl (HttpError (''user not found: '' @ mb_userId target) 404),
     s\<lparr>members := update_first (is_member_id e g i)
        (\<lambda>_. target\<lparr>mb_role := role_text r, mb_version := Some (v + 1)\<rparr>) (members s)\<rparr>)"
  using assms
  by (simp add: changeMemory_checked [OF assms(1-5) _ assms(6-8)] bindA_def [of "incrementSessionVersion _ _"]
      run_simps role_changed_def)

theorem orphan_role_change_witness:
  "fst (changeMemoryOrganizationMembershipRole sample_env ''org-lab'' ''mem_org-lab:u3'' ''u1'' ADMIN 1 sample_lab) =
     Inl (HttpError ''user not found: u3'' 404) \<and>
   mb_role (members (snd (changeMemoryOrganizationMembershipRole sample_env ''org-lab'' ''mem_org-lab:u3'' ''u1'' ADMIN 1
     sample_lab)) ! 2) = ''ADMIN''"
proof -
  have "map_of (organizations sample_lab) ''org-lab'' \<noteq> None"
    "map_of (users sample_lab) (mb_userId (sample_member ''u3'' ''VIEWER'')) = None"
    by (simp_all add: sample_lab_def sample_member_def)
  moreover have "find (is_membership ''org-lab'' ''u1'') (members sample_lab) = Some (sample_member ''u1'' ''owner'')"
    "find (is_member_id sample_env ''org-lab'' ''mem_org-lab:u3'') (members sample_lab) =
      Some (sample_member ''u3'' ''VIEWER'')"
    "normalizeOrganizationRoleForRead (JStr (mb_role (sample_member ''u1'' ''owner''))) = Some OWNER"
    "normalizeOrganizationRoleForRead (JStr (mb_role (sample_member ''u3'' ''VIEWER''))) = Some VIEWER"
    "row_version (sample_member ''u3'' ''VIEWER'') = 1"
    "role_text ADMIN = ''ADMIN''"
    by code_simp+
  ultimately show ?thesis
    by (subst (1 2) orphan_role_change [where rc = VIEWER and actor = "sample_member ''u1'' ''owner''" and
          target = "sample_member ''u3'' ''VIEWER''"])
      (simp_all add: sample_lab_def, simp_all add: sample_member_def is_member_id_def memoryMembershipId_def sample_env_def)
qed

end
