(* ===== verification/Invites.thy ===== *)
theory Invites
  imports Membership
begin

text \<open>
  Organization invites: the request functions of \<open>organization-invite.ts\<close> and the in-memory
  repository \<open>organization-invite-memory.ts\<close>.

  Tokens and identifiers come from \<open>node:crypto\<close> and are arguments. Time strings of invites are
  outputs of \<open>toISOString\<close>, so an instant stands for its string and the comparison of two strings
  is that of the instants. The parser of URLs, the mail transport and the sender address are
  arguments; the fixed wording of the mail is left out.
\<close>

section \<open>The memory repository (\<open>organization-invite-memory.ts\<close>)\<close>

datatype invite_acceptance = Accepted string role | AlreadyMember

definition open_invite :: "invite_row \<Rightarrow> bool" where
  "open_invite row \<longleftrightarrow> inv_acceptedAt row = None \<and> inv_revokedAt row = None"

definition same_invitee :: "string \<Rightarrow> string \<Rightarrow> invite_row \<Rightarrow> bool" where
  "same_invitee organizationId email row \<longleftrightarrow> inv_organizationId row = organizationId \<and> inv_email row = email"

definition requireInviter :: "string \<Rightarrow> string \<Rightarrow> role option \<Rightarrow> unit op" where
  "requireInviter organizationId actorUserId targetRole =
     bindA (read_or (HttpError ''organization_invite_forbidden'' 403) (\<lambda>s. map_of (organizations s) organizationId)) (\<lambda>_.
     bindA (read (\<lambda>s. find (is_membership organizationId actorUserId) (members s))) (\<lambda>membership.
     let actorRole = normalizeOrganizationRoleForRead
           (case membership of None \<Rightarrow> JUndef | Some row \<Rightarrow> JStr (mb_role row)) in
     guard (\<not> ((actorRole \<noteq> Some OWNER \<and> actorRole \<noteq> Some ADMIN) \<or>
                (actorRole = Some ADMIN \<and> targetRole = Some OWNER)))
       (HttpError ''organization_invite_forbidden'' 403)))"

text \<open>The fields of the new invite are those of the input, a row without version and outcome.\<close>

record invite_input =
  ii_id :: string
  ii_organizationId :: string
  ii_email :: string
  ii_role :: role
  ii_tokenHash :: string
  ii_invitedByUserId :: string
  ii_expiresAt :: ms
  ii_createdAt :: ms

definition next_token_version :: "string \<Rightarrow> string \<Rightarrow> store \<Rightarrow> int" where
  "next_token_version organizationId email s =
     (let versions = map inv_tokenVersion (filter (same_invitee organizationId email) (organizationInvites s))
      in (if versions = [] then 0 else Max (set versions)) + 1)"

definition replaceMemoryOrganizationInvite :: "env \<Rightarrow> invite_input \<Rightarrow> invite_row op" where
  "replaceMemoryOrganizationInvite e input =
     bindA (requireInviter (ii_organizationId input) (ii_invitedByUserId input) (Some (ii_role input))) (\<lambda>_.
     bindA (read (next_token_version (ii_organizationId input) (ii_email input))) (\<lambda>tokenVersion.
     let invite = \<lparr>inv_id = ii_id input, inv_organizationId = ii_organizationId input, inv_email = ii_email input,
           inv_role = ii_role input, inv_tokenHash = ii_tokenHash input, inv_tokenVersion = tokenVersion,
           inv_invitedByUserId = ii_invitedByUserId input, inv_expiresAt = ii_expiresAt input,
           inv_acceptedAt = None, inv_revokedAt = None, inv_createdAt = ii_createdAt input\<rparr> in
     bindA (change (\<lambda>s. s\<lparr>organizationInvites :=
       map (\<lambda>row. if same_invitee (ii_organizationId input) (ii_email input) row \<and> open_invite row
                  then row\<lparr>inv_revokedAt := Some (ii_createdAt input)\<rparr> else row) (organizationInvites s)\<rparr>)) (\<lambda>_.
     bindA (change (\<lambda>s. s\<lparr>organizationInvites := organizationInvites s @ [invite]\<rparr>)) (\<lambda>_.
     bindA (audit e (ii_invitedByUserId input) ''organization.invite:created'' ''organization-invite'' (ii_id input)
       [(''organizationId'', JStr (ii_organizationId input)), (''role'', JStr (role_text (ii_role input))),
        (''tokenVersion'', JInt tokenVersion)]) (\<lambda>_.
     ret invite)))))"

definition revokeMemoryOrganizationInviteAfterDeliveryFailure :: "env \<Rightarrow> string \<Rightarrow> ms \<Rightarrow> unit op" where
  "revokeMemoryOrganizationInviteAfterDeliveryFailure e inviteId revokedAt =
     bindA (read (\<lambda>s. find (\<lambda>row. inv_id row = inviteId \<and> open_invite row) (organizationInvites s))) (\<lambda>found.
     case found of
       None \<Rightarrow> ret ()
     | Some invite \<Rightarrow>
         bindA (change (\<lambda>s. s\<lparr>organizationInvites :=
           update_first (\<lambda>row. inv_id row = inviteId \<and> open_invite row)
             (\<lambda>_. invite\<lparr>inv_revokedAt := Some revokedAt\<rparr>) (organizationInvites s)\<rparr>)) (\<lambda>_.
         audit e (inv_invitedByUserId invite) ''organization.invite:delivery-failed'' ''organization-invite'' inviteId
           [(''organizationId'', JStr (inv_organizationId invite))]))"

definition acceptable_invite :: "string \<Rightarrow> ms \<Rightarrow> invite_row \<Rightarrow> bool" where
  "acceptable_invite tokenHash at row \<longleftrightarrow>
     inv_tokenHash row = tokenHash \<and> open_invite row \<and> at < inv_expiresAt row"

definition acceptMemoryOrganizationInvite ::
  "env \<Rightarrow> string \<Rightarrow> string \<Rightarrow> ms \<Rightarrow> invite_acceptance option op" where
  "acceptMemoryOrganizationInvite e tokenHash userId at =
     bindA (read (\<lambda>s. find (acceptable_invite tokenHash at) (organizationInvites s))) (\<lambda>found.
     bindA (read (\<lambda>s. map_of (users s) userId)) (\<lambda>account.
     case (found, account) of
       (Some invite, Some user) \<Rightarrow>
         if usr_emailVerifiedAt user = None \<or> usr_email user \<noteq> inv_email invite then ret None
         else
           bindA (change (\<lambda>s. s\<lparr>organizationInvites := update_first (acceptable_invite tokenHash at)
             (\<lambda>_. invite\<lparr>inv_acceptedAt := Some at\<rparr>) (organizationInvites s)\<rparr>)) (\<lambda>_.
           bindA (read (\<lambda>s. find (is_membership (inv_organizationId invite) userId) (members s))) (\<lambda>existing.
           case existing of
             Some _ \<Rightarrow>
               bindA (audit e userId ''organization.invite:accepted-existing-member'' ''organization-invite'' (inv_id invite)
                 [(''organizationId'', JStr (inv_organizationId invite))]) (\<lambda>_.
               ret (Some AlreadyMember))
           | None \<Rightarrow>
               bindA (change (\<lambda>s. s\<lparr>members := members s @
                 [\<lparr>mb_organizationId = inv_organizationId invite, mb_userId = userId,
                   mb_role = role_text (inv_role invite), mb_createdAt = Some (toISOString at),
                   mb_updatedAt = None, mb_version = None\<rparr>]\<rparr>)) (\<lambda>_.
               bindA (change (\<lambda>s. s\<lparr>users := map_put userId
                 (user\<lparr>usr_sessionVersion := usr_sessionVersion user + 1\<rparr>) (users s)\<rparr>)) (\<lambda>_.
               bindA (audit e userId ''organization.invite:accepted'' ''organization-invite'' (inv_id invite)
                 [(''organizationId'', JStr (inv_organizationId invite)), (''role'', JStr (role_text (inv_role invite)))]) (\<lambda>_.
               ret (Some (Accepted (inv_organizationId invite) (inv_role invite))))))))
     | _ \<Rightarrow> ret None))"

definition listMemoryOrganizationInvites :: "string \<Rightarrow> string \<Rightarrow> invite_row list op" where
  "listMemoryOrganizationInvites organizationId actorUserId =
     bindA (requireInviter organizationId actorUserId None) (\<lambda>_.
     read (\<lambda>s. filter (\<lambda>row. inv_organizationId row = organizationId) (organizationInvites s)))"

section \<open>Requests (\<open>organization-invite.ts\<close>)\<close>

definition ORGANIZATION_INVITE_TTL_MS :: ms where
  "ORGANIZATION_INVITE_TTL_MS = 7 * 24 * 60 * 60 * 1000"

definition hashOrganizationInviteToken :: "env \<Rightarrow> string \<Rightarrow> string" where
  "hashOrganizationInviteToken e token = sha256_base64url e token"

definition email_part :: "char \<Rightarrow> bool" where
  "email_part c \<longleftrightarrow> \<not> white_space c \<and> c \<noteq> CHR 0x40"

definition EMAIL_RE :: regex where
  "EMAIL_RE = Seq (plus_of email_part) (Seq (lit [CHR 0x40]) (Seq (plus_of email_part)
     (Seq (lit ''.'') (plus_of email_part))))"

definition normalizeEmail :: "string \<Rightarrow> (http_error, string) result" where
  "normalizeEmail email =
     (let value = toLowerCase (trim email)
      in if matches EMAIL_RE value then Inr value else Inl (HttpError ''valid email is required'' 400))"

definition parseInviteRole :: "js \<Rightarrow> (http_error, role) result" where
  "parseInviteRole value =
     map_err (\<lambda>_. HttpError ''organization_invite_input_invalid'' 400) (parseOrganizationMembershipRoleForMutation value)"

record url =
  url_protocol :: string
  url_hostname :: string
  url_username :: string
  url_password :: string
  url_search :: string
  url_hash :: string

text \<open>
  \<open>organizationInviteAcceptanceUrl(token, env)\<close> with the URL parser of the runtime and the printing
  of the URL with its new path and token as arguments; \<open>nodeEnv\<close> and \<open>appUrl\<close> are the two
  variables of the environment that it reads.
\<close>

definition organizationInviteAcceptanceUrl ::
  "(string \<Rightarrow> url option) \<Rightarrow> (url \<Rightarrow> string \<Rightarrow> string) \<Rightarrow> string option \<Rightarrow> string option \<Rightarrow> string \<Rightarrow>
   (http_error, string) result" where
  "organizationInviteAcceptanceUrl parseUrl href nodeEnv appUrl token =
     bindE (ensure (\<not> (nodeEnv = Some ''production'' \<and> \<not> truthy appUrl)) (HttpError ''organization_invite_url_invalid'' 400)) (\<lambda>_.
     bindE (from_option (HttpError ''organization_invite_url_invalid'' 400)
       (parseUrl (case appUrl of None \<Rightarrow> ''http://localhost:3000'' | Some u \<Rightarrow> u))) (\<lambda>base.
     let local = (url_hostname base \<in> set [''localhost'', ''127.0.0.1'', ''::1'']);
         localDevelopmentUrl = (nodeEnv \<noteq> Some ''production'' \<and> url_protocol base = ''http:'' \<and> local) in
     bindE (ensure (\<not> ((url_protocol base \<noteq> ''https:'' \<and> \<not> localDevelopmentUrl) \<or> url_username base \<noteq> [] \<or>
         url_password base \<noteq> [] \<or> url_search base \<noteq> [] \<or> url_hash base \<noteq> []))
       (HttpError ''organization_invite_url_invalid'' 400)) (\<lambda>_.
     Inr (href base token))))"

text \<open>\<open>publicOrganizationInvite\<close>: the view leaves the hash of the token out.\<close>

record invite_view =
  vw_id :: string
  vw_organizationId :: string
  vw_email :: string
  vw_role :: role
  vw_tokenVersion :: int
  vw_invitedByUserId :: string
  vw_expiresAt :: ms
  vw_acceptedAt :: "ms option"
  vw_revokedAt :: "ms option"
  vw_createdAt :: ms

definition publicOrganizationInvite :: "invite_row \<Rightarrow> invite_view" where
  "publicOrganizationInvite invite =
     \<lparr>vw_id = inv_id invite, vw_organizationId = inv_organizationId invite, vw_email = inv_email invite,
      vw_role = inv_role invite, vw_tokenVersion = inv_tokenVersion invite,
      vw_invitedByUserId = inv_invitedByUserId invite, vw_expiresAt = inv_expiresAt invite,
      vw_acceptedAt = inv_acceptedAt invite, vw_revokedAt = inv_revokedAt invite, vw_createdAt = inv_createdAt invite\<rparr>"

text \<open>
  \<open>issueOrganizationInvite\<close>: \<open>inviteUrl\<close> builds the acceptance URL, \<open>deliver\<close> says whether the mail
  for an address and URL is built and accepted by the transport, and \<open>failedAt\<close> is the clock when a
  failure is recorded. An error of the URL check is rethrown, any other one becomes the
  delivery error.
\<close>

definition issueOrganizationInvite ::
  "(invite_input \<Rightarrow> ('s, http_error, invite_row) act) \<Rightarrow> (string \<Rightarrow> ms \<Rightarrow> ('s, http_error, unit) act) \<Rightarrow>
   (string \<Rightarrow> (http_error, string) result) \<Rightarrow> (string \<Rightarrow> string \<Rightarrow> bool) \<Rightarrow> env \<Rightarrow> ms \<Rightarrow> string \<Rightarrow> string \<Rightarrow>
   string \<Rightarrow> js \<Rightarrow> js \<Rightarrow> string \<Rightarrow> ('s, http_error, invite_view) act" where
  "issueOrganizationInvite replace revoke inviteUrl deliver e failedAt uuid token organizationId email role actorUserId =
     bindA (lift (parseInviteRole role)) (\<lambda>canonical.
     bindA (lift (from_option (HttpError ''organization_invite_input_invalid'' 400) (as_string email))) (\<lambda>text.
     bindA (lift (normalizeEmail text)) (\<lambda>address.
     bindA (replace \<lparr>ii_id = uuid, ii_organizationId = organizationId, ii_email = address, ii_role = canonical,
       ii_tokenHash = hashOrganizationInviteToken e token, ii_invitedByUserId = actorUserId,
       ii_expiresAt = now e + ORGANIZATION_INVITE_TTL_MS, ii_createdAt = now e\<rparr>) (\<lambda>invite.
     case inviteUrl token of
       Inl err \<Rightarrow> bindA (revoke (inv_id invite) failedAt) (\<lambda>_. fail err)
     | Inr acceptanceUrl \<Rightarrow>
         if deliver address acceptanceUrl then ret (publicOrganizationInvite invite)
         else bindA (revoke (inv_id invite) failedAt) (\<lambda>_.
              fail (HttpError ''organization_invite_delivery_failed'' 502))))))"

definition token_char :: "char \<Rightarrow> bool" where
  "token_char c \<longleftrightarrow> alnum c \<or> c = CHR ''_'' \<or> c = CHR ''-''"

definition acceptOrganizationInvite ::
  "(string \<Rightarrow> string \<Rightarrow> ms \<Rightarrow> ('s, http_error, invite_acceptance option) act) \<Rightarrow>
   env \<Rightarrow> js \<Rightarrow> string \<Rightarrow> ms option \<Rightarrow> ('s, http_error, invite_acceptance) act" where
  "acceptOrganizationInvite repository e token userId at =
     (case token of
        JStr text \<Rightarrow>
          bindA (guard (matches (Rep token_char 43 43) text) (HttpError ''organization_invite_invalid'' 403)) (\<lambda>_.
          bindA (repository (hashOrganizationInviteToken e text) userId (case at of None \<Rightarrow> now e | Some t \<Rightarrow> t)) (\<lambda>accepted.
          lift (from_option (HttpError ''organization_invite_invalid'' 403) accepted)))
      | _ \<Rightarrow> fail (HttpError ''organization_invite_invalid'' 403))"

definition listOrganizationInvites ::
  "(string \<Rightarrow> string \<Rightarrow> ('s, http_error, invite_row list) act) \<Rightarrow> string \<Rightarrow> string \<Rightarrow>
   ('s, http_error, invite_view list) act" where
  "listOrganizationInvites repository organizationId actorUserId =
     bindA (repository organizationId actorUserId) (\<lambda>rows. ret (map publicOrganizationInvite rows))"

end
