(* ===== verification/Account_Safety.thy ===== *)
theory Account_Safety
  imports Invites
begin

text \<open>
  Safety of accounts, memberships and invites under any sequence of operations.

  \<open>account_step used\<close> is one operation of the store, with any arguments and at any time, whether
  it returns or throws; \<open>used\<close> is a set of token hashes that no later invite has, which is what
  random tokens and a collision-free hash promise. Each invariant is an interpretation of
  \<open>step_invariant\<close>: an organization keeps an owner, there is one open invite per invitee, token
  versions ascend, a spent token stays spent, and session versions never fall.
\<close>

section \<open>Steps\<close>

inductive account_step :: "string set \<Rightarrow> store \<Rightarrow> store \<Rightarrow> bool" for used where
  createOrganization: "account_step used s (snd (createOrganization e input s))"
| createOrganizationForUser: "account_step used s (snd (createOrganizationForUser e input s))"
| createUser: "account_step used s (snd (createUser e u s))"
| incrementSessionVersion: "account_step used s (snd (incrementSessionVersion e userId s))"
| markUserEmailVerified: "account_step used s (snd (markUserEmailVerified e userId verifiedAt s))"
| linkGitHubUser: "account_step used s (snd (linkGitHubUser e userId githubId avatarUrl name actor login s))"
| addMember: "account_step used s (snd (addMember e organizationId userId role actorRole s))"
| removeMember: "account_step used s (snd (removeMember e organizationId userId s))"
| changeRole: "account_step used s (snd (changeOrganizationMembershipRole
    (changeMemoryOrganizationMembershipRole e) organizationId membershipId actor newRole version s))"
| removeOther: "account_step used s (snd (removeOrganizationMember
    (removeMemoryOrganizationMember e) organizationId membershipId actor version s))"
| leave: "account_step used s (snd (leaveOrganization (leaveMemoryOrganization e) organizationId actor version s))"
| revokeInvite: "account_step used s (snd (revokeOrganizationInvite
    (revokeMemoryOrganizationInvite e) e organizationId inviteId actor at s))"
| issueInvite: "hashOrganizationInviteToken e token \<notin> used \<Longrightarrow>
    account_step used s (snd (issueOrganizationInvite (replaceMemoryOrganizationInvite e)
      (revokeMemoryOrganizationInviteAfterDeliveryFailure e) inviteUrl deliver e failedAt uuid token
      organizationId email newRole actor s))"
| acceptInvite: "account_step used s (snd (acceptOrganizationInvite (acceptMemoryOrganizationInvite e) e
    givenToken userId acceptedAt s))"

section \<open>What the operations keep\<close>

text \<open>
  The operations on users and on invites write to few fields of the store; a predicate that does
  not depend on those fields is kept.
\<close>

lemma keeps_user_ops:
  assumes "\<And>s x. I s \<Longrightarrow> I (s\<lparr>auditLogs := x\<rparr>)" and "\<And>s x. I s \<Longrightarrow> I (s\<lparr>users := x\<rparr>)"
  shows "keeps I (createUser e u)" "keeps I (markUserEmailVerified e userId verifiedAt)"
    "keeps I (linkGitHubUser e userId githubId avatarUrl name actor login)"
  unfolding createUser_def markUserEmailVerified_def linkGitHubUser_def Let_def
  by (intro keeps_rules assms; simp)+

lemma keeps_requireInviter [keeps_rules]: "keeps I (requireInviter organizationId actor role)"
  unfolding requireInviter_def Let_def by (intro keeps_rules)

lemma keeps_invite_ops:
  assumes "\<And>s x. I s \<Longrightarrow> I (s\<lparr>auditLogs := x\<rparr>)" and "\<And>s x. I s \<Longrightarrow> I (s\<lparr>organizationInvites := x\<rparr>)"
  shows "keeps I (replaceMemoryOrganizationInvite e input)"
    "keeps I (revokeMemoryOrganizationInviteAfterDeliveryFailure e inviteId revokedAt)"
    "keeps I (revokeMemoryOrganizationInvite e organizationId inviteId actor at)"
  unfolding replaceMemoryOrganizationInvite_def revokeMemoryOrganizationInviteAfterDeliveryFailure_def
    revokeMemoryOrganizationInvite_def member_lookup_defs Let_def
  by (intro keeps_rules assms; simp)+

lemma keeps_member_ops:
  assumes "\<And>s x. I s \<Longrightarrow> I (s\<lparr>auditLogs := x\<rparr>)" and "\<And>s x. I s \<Longrightarrow> I (s\<lparr>users := x\<rparr>)"
    and "\<And>s x. I s \<Longrightarrow> I (s\<lparr>members := x\<rparr>)" and "\<And>s x. I s \<Longrightarrow> I (s\<lparr>organizations := x\<rparr>)"
  shows "keeps I (createOrganization e input)" "keeps I (createOrganizationForUser e input)"
    "keeps I (addMember e organizationId userId role actorRole)" "keeps I (removeMember e organizationId userId)"
    "keeps I (changeMemoryOrganizationMembershipRole e organizationId membershipId actor newRole version)"
    "keeps I (removeMemoryOrganizationMember e organizationId membershipId actor version)"
    "keeps I (leaveMemoryOrganization e organizationId actor version)"
  unfolding createOrganization_def createOrganizationForUser_def addMember_def removeMember_def
    changeMemoryOrganizationMembershipRole_def removeMemoryOrganizationMember_def leaveMemoryOrganization_def
    member_lookup_defs Let_def
  by (intro keeps_rules assms; simp split: transition_result.split add: keeps_rules assms)+

lemma keeps_requests [keeps_rules]:
  "(\<And>role version. keeps I (change_role g i a role version)) \<Longrightarrow>
     keeps I (changeOrganizationMembershipRole change_role g i a newRole v)"
  "(\<And>version. keeps I (remove g i a version)) \<Longrightarrow> keeps I (removeOrganizationMember remove g i a v)"
  "(\<And>version. keeps I (leave_org g a version)) \<Longrightarrow> keeps I (leaveOrganization leave_org g a v)"
  "(\<And>t. keeps I (revoke g i a t)) \<Longrightarrow> keeps I (revokeOrganizationInvite revoke e g i a at)"
  unfolding changeOrganizationMembershipRole_def removeOrganizationMember_def leaveOrganization_def
    revokeOrganizationInvite_def
  by (intro keeps_rules; simp)+

lemma keeps_issue [keeps_rules]:
  assumes "\<And>input. ii_tokenHash input = hashOrganizationInviteToken e token \<Longrightarrow> keeps I (replace input)"
    and "\<And>i t. keeps I (revoke i t)"
  shows "keeps I (issueOrganizationInvite replace revoke inviteUrl deliver e failedAt uuid token g email role actor)"
  unfolding issueOrganizationInvite_def
  by (intro keeps_rules assms; simp split: sum.split add: assms keeps_rules)

lemma keeps_accept [keeps_rules]:
  assumes "\<And>h t. keeps I (accept h u t)"
  shows "keeps I (acceptOrganizationInvite accept e token u at)"
  unfolding acceptOrganizationInvite_def by (cases token; simp; intro keeps_rules assms)

text \<open>
  The shape of an invariant of the accounts: it is enough that it is kept by the operations of the
  store; the requests follow.
\<close>

lemma account_step_keeps:
  assumes "account_step used s t" and "I s"
    and users: "\<And>e u. keeps I (createUser e u)" "\<And>e u. keeps I (incrementSessionVersion e u)"
      "\<And>e u v. keeps I (markUserEmailVerified e u v)" "\<And>e u h a n ac l. keeps I (linkGitHubUser e u h a n ac l)"
    and orgs: "\<And>e i. keeps I (createOrganization e i)" "\<And>e i. keeps I (createOrganizationForUser e i)"
    and members: "\<And>e g u r a. keeps I (addMember e g u r a)" "\<And>e g u. keeps I (removeMember e g u)"
      "\<And>e g i a r v. keeps I (changeMemoryOrganizationMembershipRole e g i a r v)"
      "\<And>e g i a v. keeps I (removeMemoryOrganizationMember e g i a v)"
      "\<And>e g a v. keeps I (leaveMemoryOrganization e g a v)"
    and invites: "\<And>e g i a t. keeps I (revokeMemoryOrganizationInvite e g i a t)"
      "\<And>e i t. keeps I (revokeMemoryOrganizationInviteAfterDeliveryFailure e i t)"
      "\<And>e h u t. keeps I (acceptMemoryOrganizationInvite e h u t)"
      "\<And>e input. ii_tokenHash input \<notin> used \<Longrightarrow> keeps I (replaceMemoryOrganizationInvite e input)"
  shows "I t"
  using assms(1)
  by cases (hypsubst, rule keepsD [where I = I],
      (intro users orgs members invites keeps_requests keeps_issue keeps_accept; simp), rule assms(2))+

lemma list_ex_find: "list_ex P xs \<longleftrightarrow> find P xs \<noteq> None"
  by (auto simp: list_ex_iff find_None_iff)

subsection \<open>Owners\<close>

lemma owned_accept: "keeps (owned org) (acceptMemoryOrganizationInvite e h u at)"
  unfolding acceptMemoryOrganizationInvite_def prod.case
  by (intro keeps_rules; simp add: owned_append)

interpretation owner_steps: step_invariant "account_step used" "owned org"
proof
  fix s t assume "account_step used s t" "owned org s"
  then show "owned org t"
    by (rule account_step_keeps)
      (intro keeps_rules keeps_user_ops keeps_invite_ops owned_accept; simp)+
qed

subsection \<open>Sessions\<close>

definition session_at_least :: "string \<Rightarrow> int \<Rightarrow> store \<Rightarrow> bool" where
  "session_at_least u n s \<longleftrightarrow> (case map_of (users s) u of None \<Rightarrow> False | Some x \<Rightarrow> n \<le> usr_sessionVersion x)"

lemma session_frame [simp]:
  "session_at_least u n (s\<lparr>auditLogs := a\<rparr>) = session_at_least u n s"
  "session_at_least u n (s\<lparr>members := b\<rparr>) = session_at_least u n s"
  "session_at_least u n (s\<lparr>organizations := c\<rparr>) = session_at_least u n s"
  "session_at_least u n (s\<lparr>organizationInvites := d\<rparr>) = session_at_least u n s"
  "session_at_least u n (audited e actor action ttype tid metadata s) = session_at_least u n s"
  by (simp_all add: session_at_least_def)

lemma session_put:
  assumes "session_at_least u n s"
    and "\<And>x. map_of (users s) w = Some x \<Longrightarrow> usr_sessionVersion x \<le> usr_sessionVersion y"
  shows "session_at_least u n (s\<lparr>users := map_put w y (users s)\<rparr>)"
  using assms by (fastforce simp: session_at_least_def split: option.splits)

lemma session_user_ops [keeps_rules]:
  "keeps (session_at_least u n) (createUser e nu)"
  "keeps (session_at_least u n) (incrementSessionVersion e w)"
  "keeps (session_at_least u n) (markUserEmailVerified e w v)"
  "keeps (session_at_least u n) (linkGitHubUser e w h a nm ac l)"
  unfolding keeps_leads createUser_def incrementSessionVersion_def markUserEmailVerified_def linkGitHubUser_def Let_def
  by (intro leads_rules keeps_rules; (auto intro!: session_put)?)+

lemma session_create [keeps_rules]: "keeps (session_at_least u n) (createOrganizationForUser e input)"
  unfolding keeps_def
proof (intro allI impI)
  fix s assume s: "session_at_least u n s"
  obtain r t where run: "createOrganizationForUser e input s = (r, t)" by (cases "createOrganizationForUser e input s")
  show "session_at_least u n (snd (createOrganizationForUser e input s))"
  proof (cases r)
    case (Inl err)
    with run s show ?thesis by (auto dest: createOrganizationForUser_error)
  next
    case (Inr v)
    then obtain w x where "map_of (users s) w = Some x"
      "users t = map_put w (x\<lparr>usr_sessionVersion := usr_sessionVersion x + 1, usr_updatedAt := nowIso e\<rparr>) (users s)"
      using createOrganizationForUser_ok [of e input s "fst v" "snd v" t] run by auto
    with run s show ?thesis by (fastforce simp: session_at_least_def split: option.splits)
  qed
qed

lemma session_member_ops [keeps_rules]:
  "keeps (session_at_least u n) (createOrganization e input)"
  "keeps (session_at_least u n) (addMember e g w r a)" "keeps (session_at_least u n) (removeMember e g w)"
  "keeps (session_at_least u n) (changeMemoryOrganizationMembershipRole e g i b r' v)"
  "keeps (session_at_least u n) (removeMemoryOrganizationMember e g i b v)"
  "keeps (session_at_least u n) (leaveMemoryOrganization e g b v)"
  unfolding createOrganization_def addMember_def removeMember_def changeMemoryOrganizationMembershipRole_def
    removeMemoryOrganizationMember_def leaveMemoryOrganization_def member_lookup_defs Let_def
  by (intro keeps_rules; simp split: transition_result.split add: keeps_rules)+

lemma session_accept [keeps_rules]: "keeps (session_at_least u n) (acceptMemoryOrganizationInvite e h w at)"
  unfolding keeps_def acceptMemoryOrganizationInvite_def
  by (auto simp: run_simps session_at_least_def split: option.splits if_splits)

interpretation session_steps: step_invariant "account_step used" "session_at_least u n"
proof
  fix s t assume "account_step used s t" "session_at_least u n s"
  then show "session_at_least u n t"
    by (rule account_step_keeps) (intro keeps_rules keeps_invite_ops; simp)+
qed

subsection \<open>Invites\<close>

definition open_for :: "string \<Rightarrow> string \<Rightarrow> invite_row \<Rightarrow> bool" where
  "open_for g email row \<longleftrightarrow> same_invitee g email row \<and> open_invite row"

definition single_open :: "string \<Rightarrow> string \<Rightarrow> store \<Rightarrow> bool" where
  "single_open g email s \<longleftrightarrow> length (filter (open_for g email) (organizationInvites s)) \<le> 1"

definition ascending :: "string \<Rightarrow> string \<Rightarrow> store \<Rightarrow> bool" where
  "ascending g email s \<longleftrightarrow>
     sorted_wrt (<) (map inv_tokenVersion (filter (same_invitee g email) (organizationInvites s)))"

definition spent :: "string \<Rightarrow> store \<Rightarrow> bool" where
  "spent h s \<longleftrightarrow> list_all (\<lambda>row. inv_tokenHash row = h \<longrightarrow> \<not> open_invite row) (organizationInvites s)"

lemma invite_frame [simp]:
  "single_open g m (s\<lparr>auditLogs := a\<rparr>) = single_open g m s" "ascending g m (s\<lparr>auditLogs := a\<rparr>) = ascending g m s"
  "spent h (s\<lparr>auditLogs := a\<rparr>) = spent h s"
  "single_open g m (s\<lparr>members := b\<rparr>) = single_open g m s" "ascending g m (s\<lparr>members := b\<rparr>) = ascending g m s"
  "spent h (s\<lparr>members := b\<rparr>) = spent h s"
  "single_open g m (s\<lparr>users := c\<rparr>) = single_open g m s" "ascending g m (s\<lparr>users := c\<rparr>) = ascending g m s"
  "spent h (s\<lparr>users := c\<rparr>) = spent h s"
  "single_open g m (s\<lparr>organizations := d\<rparr>) = single_open g m s" "ascending g m (s\<lparr>organizations := d\<rparr>) = ascending g m s"
  "spent h (s\<lparr>organizations := d\<rparr>) = spent h s"
  by (simp_all add: single_open_def ascending_def spent_def)

text \<open>Closing the first invite with some property: revocation and acceptance.\<close>

definition closes :: "invite_row \<Rightarrow> invite_row \<Rightarrow> bool" where
  "closes row row' \<longleftrightarrow> \<not> open_invite row' \<and> inv_organizationId row' = inv_organizationId row \<and>
     inv_email row' = inv_email row \<and> inv_tokenVersion row' = inv_tokenVersion row \<and>
     inv_tokenHash row' = inv_tokenHash row"

lemma closes_simps [simp]:
  "closes row (row\<lparr>inv_revokedAt := Some t\<rparr>)" "closes row (row\<lparr>inv_acceptedAt := Some t\<rparr>)"
  by (simp_all add: closes_def open_invite_def)

lemma close_invite:
  assumes "find P (organizationInvites s) = Some row" and "closes row row'"
  shows "single_open g m s \<Longrightarrow> single_open g m (s\<lparr>organizationInvites := update_first P (\<lambda>_. row') (organizationInvites s)\<rparr>)"
    and "ascending g m s \<Longrightarrow> ascending g m (s\<lparr>organizationInvites := update_first P (\<lambda>_. row') (organizationInvites s)\<rparr>)"
    and "spent h s \<Longrightarrow> spent h (s\<lparr>organizationInvites := update_first P (\<lambda>_. row') (organizationInvites s)\<rparr>)"
proof -
  obtain us vs where rows: "organizationInvites s = us @ row # vs"
    "update_first P (\<lambda>_. row') (organizationInvites s) = us @ row' # vs"
    using update_first_split [OF assms(1), of "\<lambda>_. row'"] by auto
  then have upd: "organizationInvites (s\<lparr>organizationInvites := update_first P (\<lambda>_. row') (organizationInvites s)\<rparr>) =
      us @ row' # vs" by simp
  have same: "same_invitee g m row' = same_invitee g m row"
    using assms(2) by (simp add: closes_def same_invitee_def)
  show "single_open g m s \<Longrightarrow> single_open g m (s\<lparr>organizationInvites := update_first P (\<lambda>_. row') (organizationInvites s)\<rparr>)"
    using assms(2) unfolding single_open_def upd unfolding rows(1) by (auto simp: open_for_def closes_def split: if_splits)
  show "ascending g m s \<Longrightarrow> ascending g m (s\<lparr>organizationInvites := update_first P (\<lambda>_. row') (organizationInvites s)\<rparr>)"
    using assms(2) unfolding ascending_def upd unfolding rows(1)
    by (auto simp: same closes_def split: if_splits)
  show "spent h s \<Longrightarrow> spent h (s\<lparr>organizationInvites := update_first P (\<lambda>_. row') (organizationInvites s)\<rparr>)"
    using assms(2) unfolding spent_def upd unfolding rows(1) by (simp add: closes_def)
qed

definition revoke_for :: "invite_input \<Rightarrow> invite_row \<Rightarrow> invite_row" where
  "revoke_for input row =
     (if same_invitee (ii_organizationId input) (ii_email input) row \<and> open_invite row
      then row\<lparr>inv_revokedAt := Some (ii_createdAt input)\<rparr> else row)"

definition new_invite :: "invite_input \<Rightarrow> int \<Rightarrow> invite_row" where
  "new_invite input version =
     \<lparr>inv_id = ii_id input, inv_organizationId = ii_organizationId input, inv_email = ii_email input,
      inv_role = ii_role input, inv_tokenHash = ii_tokenHash input, inv_tokenVersion = version,
      inv_invitedByUserId = ii_invitedByUserId input, inv_expiresAt = ii_expiresAt input,
      inv_acceptedAt = None, inv_revokedAt = None, inv_createdAt = ii_createdAt input\<rparr>"

lemma requireInviter_cases:
  "requireInviter g a r s = (v, t) \<Longrightarrow> t = s \<and>
     (v = Inr () \<longrightarrow> (\<exists>row. find (is_membership g a) (members s) = Some row \<and>
        (normalizeOrganizationRoleForRead (JStr (mb_role row)) = Some OWNER \<or>
         (normalizeOrganizationRoleForRead (JStr (mb_role row)) = Some ADMIN \<and> r \<noteq> Some OWNER))))"
  by (auto simp: requireInviter_def run_simps Let_def ensure_def normalizeOrganizationRoleForRead_def
      split: option.splits if_splits)

lemma replace_cases:
  assumes "replaceMemoryOrganizationInvite e input s = (res, t)"
  obtains (refused) err where "res = Inl err" "t = s"
  | (granted) row version where
      "find (is_membership (ii_organizationId input) (ii_invitedByUserId input)) (members s) = Some row"
      "normalizeOrganizationRoleForRead (JStr (mb_role row)) = Some OWNER \<or>
       (normalizeOrganizationRoleForRead (JStr (mb_role row)) = Some ADMIN \<and> ii_role input \<noteq> OWNER)"
      "version = next_token_version (ii_organizationId input) (ii_email input) s"
      "res = Inr (new_invite input version)"
      "organizationInvites t = map (revoke_for input) (organizationInvites s) @ [new_invite input version]"
      "members t = members s" "users t = users s" "organizations t = organizations s"
proof -
  note thesis = that
  obtain v u where inviter: "requireInviter (ii_organizationId input) (ii_invitedByUserId input) (Some (ii_role input)) s = (v, u)"
    by (cases "requireInviter (ii_organizationId input) (ii_invitedByUserId input) (Some (ii_role input)) s")
  note facts = requireInviter_cases [OF inviter]
  show thesis
  proof (cases v)
    case (Inl err)
    with inviter facts assms show thesis
      by (intro thesis(1)) (auto simp: replaceMemoryOrganizationInvite_def)
  next
    case (Inr x)
    with facts obtain row where row:
      "find (is_membership (ii_organizationId input) (ii_invitedByUserId input)) (members s) = Some row"
      "normalizeOrganizationRoleForRead (JStr (mb_role row)) = Some OWNER \<or>
       (normalizeOrganizationRoleForRead (JStr (mb_role row)) = Some ADMIN \<and> ii_role input \<noteq> OWNER)" by auto
    from Inr inviter facts assms row show thesis
      by (intro thesis(2) [OF row refl])
        (auto simp: replaceMemoryOrganizationInvite_def run_simps Let_def new_invite_def revoke_for_def [abs_def])
  qed
qed

lemma revoke_for_simps [simp]:
  "inv_tokenHash (revoke_for input row) = inv_tokenHash row"
  "inv_tokenVersion (revoke_for input row) = inv_tokenVersion row"
  "same_invitee g m (revoke_for input row) = same_invitee g m row"
  "open_invite (revoke_for input row) \<longleftrightarrow>
     open_invite row \<and> \<not> same_invitee (ii_organizationId input) (ii_email input) row"
  by (auto simp: revoke_for_def same_invitee_def open_invite_def)

lemma filter_revoke:
  "filter (same_invitee g m) (map (revoke_for input) rows) = map (revoke_for input) (filter (same_invitee g m) rows)"
  by (induction rows) auto

lemma new_invite_simps [simp]:
  "same_invitee g m (new_invite input v) \<longleftrightarrow> g = ii_organizationId input \<and> m = ii_email input"
  "open_invite (new_invite input v)" "inv_tokenHash (new_invite input v) = ii_tokenHash input"
  "inv_tokenVersion (new_invite input v) = v"
  "inv_organizationId (new_invite input v) = ii_organizationId input"
  "inv_email (new_invite input v) = ii_email input" "inv_role (new_invite input v) = ii_role input"
  by (auto simp: new_invite_def same_invitee_def open_invite_def)

lemma open_for_new: "open_for g m (new_invite input v) \<longleftrightarrow> g = ii_organizationId input \<and> m = ii_email input"
  by (simp add: open_for_def)

lemma open_for_revoke:
  "open_for g m (revoke_for input row) \<longleftrightarrow>
     open_for g m row \<and> \<not> (g = ii_organizationId input \<and> m = ii_email input)"
  by (auto simp: open_for_def) (simp_all add: same_invitee_def)

lemma next_token_version_greater:
  assumes "row \<in> set (organizationInvites s)" and "same_invitee g m row"
  shows "inv_tokenVersion row < next_token_version g m s"
proof -
  let ?versions = "map inv_tokenVersion (filter (same_invitee g m) (organizationInvites s))"
  have "inv_tokenVersion row \<in> set ?versions" using assms by simp
  then have "?versions \<noteq> []" "inv_tokenVersion row \<le> Max (set ?versions)"
    by (auto simp: filter_empty_conv intro: Max_ge)
  then show ?thesis by (simp add: next_token_version_def Let_def)
qed

lemma replace_keeps [keeps_rules]:
  "keeps (single_open g m) (replaceMemoryOrganizationInvite e input)"
  "keeps (ascending g m) (replaceMemoryOrganizationInvite e input)"
  "ii_tokenHash input \<noteq> h \<Longrightarrow> keeps (spent h) (replaceMemoryOrganizationInvite e input)"
proof -
  have single: "single_open g m t" if "replaceMemoryOrganizationInvite e input s = (res, t)" "single_open g m s" for s t res
    using that
  proof (cases rule: replace_cases)
    case (granted row version)
    then show ?thesis using that(2)
      by (cases "g = ii_organizationId input \<and> m = ii_email input")
        (auto simp: single_open_def o_def open_for_revoke open_for_new)
  qed simp
  have asc: "ascending g m t" if "replaceMemoryOrganizationInvite e input s = (res, t)" "ascending g m s" for s t res
    using that
  proof (cases rule: replace_cases)
    case (granted row version)
    then show ?thesis using that(2)
      by (auto simp: ascending_def filter_revoke sorted_wrt_append o_def intro: next_token_version_greater)
  qed simp
  have spent: "spent h t" if "replaceMemoryOrganizationInvite e input s = (res, t)" "spent h s" "ii_tokenHash input \<noteq> h" for s t res
    using that
  proof (cases rule: replace_cases)
    case (granted row version)
    then show ?thesis using that(2,3) by (auto simp: spent_def list_all_iff)
  qed simp
  show "keeps (single_open g m) (replaceMemoryOrganizationInvite e input)"
    "keeps (ascending g m) (replaceMemoryOrganizationInvite e input)"
    "ii_tokenHash input \<noteq> h \<Longrightarrow> keeps (spent h) (replaceMemoryOrganizationInvite e input)"
    unfolding keeps_def using single asc spent by (metis prod.collapse)+
qed

lemma close_keeps [keeps_rules]:
  "keeps (single_open g m) (revokeMemoryOrganizationInvite e g' i a t)"
  "keeps (ascending g m) (revokeMemoryOrganizationInvite e g' i a t)"
  "keeps (spent h) (revokeMemoryOrganizationInvite e g' i a t)"
  "keeps (single_open g m) (revokeMemoryOrganizationInviteAfterDeliveryFailure e i t)"
  "keeps (ascending g m) (revokeMemoryOrganizationInviteAfterDeliveryFailure e i t)"
  "keeps (spent h) (revokeMemoryOrganizationInviteAfterDeliveryFailure e i t)"
  "keeps (single_open g m) (acceptMemoryOrganizationInvite e h' u t)"
  "keeps (ascending g m) (acceptMemoryOrganizationInvite e h' u t)"
  "keeps (spent h) (acceptMemoryOrganizationInvite e h' u t)"
  unfolding keeps_leads revokeMemoryOrganizationInvite_def revokeMemoryOrganizationInviteAfterDeliveryFailure_def
    acceptMemoryOrganizationInvite_def member_lookup_defs prod.case
  by (intro leads_rules keeps_rules; (auto intro!: close_invite)?)+

interpretation single_open_steps: step_invariant "account_step used" "single_open g m"
proof
  fix s t assume "account_step used s t" "single_open g m s"
  then show "single_open g m t"
    by (rule account_step_keeps) (intro keeps_rules keeps_user_ops keeps_member_ops; simp)+
qed

interpretation ascending_steps: step_invariant "account_step used" "ascending g m"
proof
  fix s t assume "account_step used s t" "ascending g m s"
  then show "ascending g m t"
    by (rule account_step_keeps) (intro keeps_rules keeps_user_ops keeps_member_ops; simp)+
qed

lemma spent_step:
  assumes "account_step used s t" and "h \<in> used" and "spent h s"
  shows "spent h t"
proof -
  have replace: "keeps (spent h) (replaceMemoryOrganizationInvite e input)" if "ii_tokenHash input \<notin> used" for e input
    using assms(2) that by (intro replace_keeps) auto
  show ?thesis
    using assms(1,3)
    by (rule account_step_keeps)
      (assumption | rule replace | (intro keeps_rules keeps_user_ops keeps_member_ops; simp))+
qed

interpretation spent_steps: step_invariant "account_step (insert h used)" "spent h"
  by unfold_locales (auto intro: spent_step)

section \<open>Main properties\<close>

text \<open>
  C1. An organization that has an owner keeps one, whatever sequence of operations follows:
  creating organizations and users, adding, removing, promoting and demoting members by any
  route, leaving, and issuing, revoking and accepting invites.
\<close>

theorem owner_never_lost:
  assumes "(account_step used)\<^sup>*\<^sup>* s t" and "0 < ownerCount s org"
  shows "0 < ownerCount t org"
  using owner_steps.steps_keep [OF assms(1)] assms(2) by (simp add: owned_def)

theorem owner_never_lost_witness:
  "0 < ownerCount (snd (leaveOrganization (leaveMemoryOrganization sample_env) ''org-lab'' ''u1'' (JInt 1) sample_lab)) ''org-lab''"
proof (rule owner_never_lost)
  show "(account_step {})\<^sup>*\<^sup>* sample_lab
      (snd (leaveOrganization (leaveMemoryOrganization sample_env) ''org-lab'' ''u1'' (JInt 1) sample_lab))"
    by (intro r_into_rtranclp account_step.leave)
  show "0 < ownerCount sample_lab ''org-lab''" by code_simp
qed



text \<open>
  C34. From the empty store on, there is at most one open invite for an organization and an
  address at any time, and the token versions of the invites of that pair ascend strictly in
  the order of issue.
\<close>

theorem invites_well_formed:
  assumes "(account_step used)\<^sup>*\<^sup>* empty_store s"
  shows "length (filter (\<lambda>row. same_invitee g email row \<and> open_invite row) (organizationInvites s)) \<le> 1 \<and>
    sorted_wrt (<) (map inv_tokenVersion (filter (same_invitee g email) (organizationInvites s)))"
  using single_open_steps.steps_keep [OF assms, of g email] ascending_steps.steps_keep [OF assms, of g email]
  by (simp add: single_open_def ascending_def empty_store_def open_for_def [abs_def])

theorem invites_well_formed_witness:
  "sorted_wrt (<) (map inv_tokenVersion (filter (same_invitee ''org-lab'' ''kim@raibit.kr'') (organizationInvites
     (snd (addMember sample_env ''org-lab'' ''u1'' (JStr ''owner'') JUndef empty_store)))))"
proof -
  have "(account_step {})\<^sup>*\<^sup>* empty_store (snd (addMember sample_env ''org-lab'' ''u1'' (JStr ''owner'') JUndef empty_store))"
    by (intro r_into_rtranclp account_step.addMember)
  from invites_well_formed [OF this] show ?thesis by blast
qed

text \<open>
  C4. An invite is accepted only while it is open and not expired, by a user whose verified
  address is the invited one; the user then has the invited role in the organization, or was a
  member before and keeps the memberships as they were.
\<close>

theorem accept_invite_spec:
  assumes "acceptMemoryOrganizationInvite e h u at s = (Inr (Some outcome), t)"
  shows "\<exists>invite user. invite \<in> set (organizationInvites s) \<and> inv_tokenHash invite = h \<and>
    inv_acceptedAt invite = None \<and> inv_revokedAt invite = None \<and> at < inv_expiresAt invite \<and>
    map_of (users s) u = Some user \<and> usr_emailVerifiedAt user \<noteq> None \<and> usr_email user = inv_email invite \<and>
    (case outcome of
       AlreadyMember \<Rightarrow> members t = members s \<and> users t = users s \<and>
         list_ex (is_membership (inv_organizationId invite) u) (members s)
     | Accepted organizationId role \<Rightarrow> organizationId = inv_organizationId invite \<and> role = inv_role invite \<and>
         \<not> list_ex (is_membership organizationId u) (members s) \<and>
         (\<exists>row. members t = members s @ [row] \<and> is_membership organizationId u row \<and> mb_role row = role_text role) \<and>
         users t = map_put u (user\<lparr>usr_sessionVersion := usr_sessionVersion user + 1\<rparr>) (users s))"
proof -
  from assms obtain invite user where found: "find (acceptable_invite h at) (organizationInvites s) = Some invite"
    "map_of (users s) u = Some user" "usr_emailVerifiedAt user \<noteq> None" "usr_email user = inv_email invite"
    by (auto simp: acceptMemoryOrganizationInvite_def run_simps split: option.splits if_splits)
  from find_SomeD [OF found(1)] have "invite \<in> set (organizationInvites s)" "inv_tokenHash invite = h"
    "inv_acceptedAt invite = None" "inv_revokedAt invite = None" "at < inv_expiresAt invite"
    by (auto simp: acceptable_invite_def open_invite_def)
  moreover have "case outcome of
       AlreadyMember \<Rightarrow> members t = members s \<and> users t = users s \<and>
         list_ex (is_membership (inv_organizationId invite) u) (members s)
     | Accepted organizationId role \<Rightarrow> organizationId = inv_organizationId invite \<and> role = inv_role invite \<and>
         \<not> list_ex (is_membership organizationId u) (members s) \<and>
         (\<exists>row. members t = members s @ [row] \<and> is_membership organizationId u row \<and> mb_role row = role_text role) \<and>
         users t = map_put u (user\<lparr>usr_sessionVersion := usr_sessionVersion user + 1\<rparr>) (users s)"
    using assms found
    by (auto simp: acceptMemoryOrganizationInvite_def run_simps list_ex_find
        split: option.splits) (simp add: is_membership_def)
  ultimately show ?thesis using found(2-4) by blast
qed

definition sample_invite :: invite_row where
  "sample_invite = \<lparr>inv_id = ''i1'', inv_organizationId = ''org-lab'', inv_email = ''kim@raibit.kr'', inv_role = ADMIN,
     inv_tokenHash = ''t'', inv_tokenVersion = 1, inv_invitedByUserId = ''u1'', inv_expiresAt = 2000,
     inv_acceptedAt = None, inv_revokedAt = None, inv_createdAt = 0\<rparr>"

definition invited_lab :: store where
  "invited_lab = sample_lab\<lparr>users := [(''u4'', sample_user ''u4'')], organizationInvites := [sample_invite]\<rparr>"

lemma invited_lab_accept:
  "fst (acceptMemoryOrganizationInvite sample_env ''t'' ''u4'' 1000 invited_lab) = Inr (Some (Accepted ''org-lab'' ADMIN))"
  by code_simp

theorem accept_invite_spec_witness:
  "\<exists>invite user. invite \<in> set (organizationInvites invited_lab) \<and> map_of (users invited_lab) ''u4'' = Some user \<and>
     usr_email user = inv_email invite \<and> 1000 < inv_expiresAt invite"
proof -
  let ?r = "acceptMemoryOrganizationInvite sample_env ''t'' ''u4'' 1000 invited_lab"
  have "?r = (Inr (Some (Accepted ''org-lab'' ADMIN)), snd ?r)"
    by (rule prod_eqI) (simp_all add: invited_lab_accept)
  from accept_invite_spec [OF this] show ?thesis by blast
qed

text \<open>
  C2. A token is good for one acceptance. If no other invite has the hash of the token, then after
  an acceptance no later attempt with the token succeeds, by any user and at any time, as long as
  no new invite gets the same hash.
\<close>

theorem invite_token_single_use:
  assumes "acceptMemoryOrganizationInvite e h u at s = (Inr (Some outcome), t)"
    and "length (filter (\<lambda>row. inv_tokenHash row = h) (organizationInvites s)) = 1"
    and "(account_step {h})\<^sup>*\<^sup>* t t'"
  shows "acceptMemoryOrganizationInvite e' h u' at' t' = (Inr None, t')"
proof -
  from assms(1) obtain invite where found: "find (acceptable_invite h at) (organizationInvites s) = Some invite"
    and rows: "organizationInvites t = update_first (acceptable_invite h at)
      (\<lambda>_. invite\<lparr>inv_acceptedAt := Some at\<rparr>) (organizationInvites s)"
    by (auto simp: acceptMemoryOrganizationInvite_def run_simps split: option.splits if_splits)
  obtain us vs where split: "organizationInvites s = us @ invite # vs" "inv_tokenHash invite = h"
    "organizationInvites t = us @ invite\<lparr>inv_acceptedAt := Some at\<rparr> # vs"
    using update_first_split [OF found, of "\<lambda>_. invite\<lparr>inv_acceptedAt := Some at\<rparr>"] rows
    by (auto simp: acceptable_invite_def)
  with assms(2) have "spent h t"
    by (auto simp: spent_def list_all_iff open_invite_def filter_empty_conv)
  then have "spent h t'" using spent_steps.steps_keep [of h "{}"] assms(3) by blast
  then have "find (acceptable_invite h at') (organizationInvites t') = None"
    by (auto simp: find_None_iff spent_def list_all_iff acceptable_invite_def)
  then show ?thesis by (simp add: acceptMemoryOrganizationInvite_def run_simps)
qed

theorem invite_token_single_use_witness:
  "acceptMemoryOrganizationInvite sample_env ''t'' ''u4'' 1001
     (snd (acceptMemoryOrganizationInvite sample_env ''t'' ''u4'' 1000 invited_lab)) =
   (Inr None, snd (acceptMemoryOrganizationInvite sample_env ''t'' ''u4'' 1000 invited_lab))"
proof (rule invite_token_single_use)
  let ?r = "acceptMemoryOrganizationInvite sample_env ''t'' ''u4'' 1000 invited_lab"
  show "?r = (Inr (Some (Accepted ''org-lab'' ADMIN)), snd ?r)"
    by (rule prod_eqI) (simp_all add: invited_lab_accept)
  show "length (filter (\<lambda>row. inv_tokenHash row = ''t'') (organizationInvites invited_lab)) = 1" by code_simp
qed simp

text \<open>
  Inviting follows the roles: an invite is issued only by an owner, or by an admin for a role
  other than owner; a refused one changes nothing; an issued one is the only open invite of the
  invitee, has the next token version, and leaves memberships and users alone.
\<close>

theorem replace_invite_spec:
  "case replaceMemoryOrganizationInvite e input s of
     (Inl _, t) \<Rightarrow> t = s
   | (Inr invite, t) \<Rightarrow>
       (\<exists>row. find (is_membership (ii_organizationId input) (ii_invitedByUserId input)) (members s) = Some row \<and>
          (normalizeOrganizationRoleForRead (JStr (mb_role row)) = Some OWNER \<or>
           (normalizeOrganizationRoleForRead (JStr (mb_role row)) = Some ADMIN \<and> inv_role invite \<noteq> OWNER))) \<and>
       filter (\<lambda>x. same_invitee (inv_organizationId invite) (inv_email invite) x \<and> open_invite x) (organizationInvites t) = [invite] \<and>
       inv_tokenVersion invite = next_token_version (inv_organizationId invite) (inv_email invite) s \<and>
       members t = members s \<and> users t = users s"
proof (cases "replaceMemoryOrganizationInvite e input s")
  case (Pair res t)
  from Pair show ?thesis
  proof (cases rule: replace_cases)
    case (granted row version)
    have "filter (\<lambda>x. same_invitee (ii_organizationId input) (ii_email input) x \<and> open_invite x)
        (map (revoke_for input) (organizationInvites s)) = []"
      by (auto simp: filter_empty_conv)
    with granted Pair show ?thesis by auto
  qed (use Pair in simp)
qed

end
