(* ===== verification/Recovery_Types.thy ===== *)
theory Recovery_Types
  imports Store "HOL-Library.Char_ord" "HOL-Library.List_Lexorder"
begin

text \<open>
  Resource recovery, the data and its provenance (\<open>resource-recovery-types.ts\<close> and
  \<open>resource-recovery-provenance.ts\<close>): backups, restores, pins, upload attempts and jobs as records,
  the request body, canonical JSON, object keys, and the capture of a resource's provenance.

  \<open>RecoveryBase\<close> is a record that backups and restores extend. A thrown \<open>RecoveryError\<close> has its code
  and HTTP status. Time strings that the module writes are outputs of \<open>toISOString\<close>; those it reads
  may come from the database without a zone (\<open>WallClock\<close>). What the module takes from the runtime is
  a field of \<open>rec_env\<close>, which extends the environment of the store: \<open>Date.parse\<close> of a caller's
  string, the n-th \<open>crypto.randomUUID\<close> of a call, the characters of a time string, the order of
  \<open>localeCompare\<close>, and base64url of JSON text in both directions (\<open>None\<close> for a \<open>SyntaxError\<close>).
\<close>

datatype recovery_error = RecoveryError string nat

record rec_env = env +
  date_of :: "string \<Rightarrow> ms option"
  randomUUID :: "nat \<Rightarrow> string"
  time_string :: "time_text \<Rightarrow> string"
  locale_le :: "string \<Rightarrow> string \<Rightarrow> bool"
  base64url_json :: "js \<Rightarrow> string"
  json_of_base64url :: "string \<Rightarrow> js option"

datatype recovery_kind = KBackup | KRestore

section \<open>Rows\<close>

record provenance =
  pv_image :: string
  pv_workloadUid :: string
  pv_workloadGeneration :: int
  pv_observedAt :: string
  pv_namespace :: string
  pv_name :: string
  pv_credentialSecretUID :: string
  pv_credentialSecretGeneration :: string

record rec_resource =
  rr_id :: string
  rr_projectId :: string
  rr_name :: string
  rr_slug :: string
  rr_type :: string
  rr_engine :: string
  rr_provider :: string
  rr_plan :: string
  rr_region :: string
  rr_version :: "string option"
  rr_status :: string
  rr_deletionRequestedAt :: "time_text option"
  rr_desiredSpec :: js_fields
  rr_desiredState :: js_fields
  rr_connectionSecretName :: "string option"

record rec_project =
  rp_id :: string
  rp_organizationId :: string
  rp_status :: string
  rp_deletionRequestedAt :: "time_text option"

record rec_member =
  rm_organizationId :: string
  rm_userId :: string
  rm_role :: string

record rec_base =
  rb_id :: string
  rb_formatVersion :: int
  rb_organizationId :: string
  rb_projectId :: string
  rb_engine :: string
  rb_provider :: string
  rb_sourceGeneration :: string
  rb_requestedByUserId :: string
  rb_requestIdempotencyKey :: string
  rb_requestFingerprint :: string
  rb_createdAt :: time_text
  rb_updatedAt :: time_text
  rb_startedAt :: "time_text option"
  rb_deadlineAt :: "time_text option"
  rb_readyAt :: "time_text option"
  rb_errorCode :: "string option"
  rb_cleanupToken :: "string option"
  rb_cleanupWorker :: "string option"
  rb_cleanupLeaseUntil :: "time_text option"

record backup = rec_base +
  bk_resourceId :: string
  bk_status :: backup_status
  bk_sourceProvenance :: "provenance option"
  bk_sourceSpec :: js_fields
  bk_artifactKey :: "string option"
  bk_artifactChecksum :: "string option"
  bk_artifactSize :: "string option"
  bk_encryptionKeyVersion :: "string option"
  bk_winningAttempt :: "int option"
  bk_expiresAt :: "time_text option"

record restore = rec_base +
  rs_backupId :: string
  rs_sourceResourceId :: string
  rs_targetResourceId :: string
  rs_status :: restore_status
  rs_targetCleanedAt :: "time_text option"

datatype operation = OpBackup backup | OpRestore restore

datatype pin_kind = ARTIFACT_SOURCE | RESTORE_TARGET

record rec_pin =
  pn_id :: string
  pn_kind :: pin_kind
  pn_resourceId :: string
  pn_backupId :: string
  pn_restoreId :: "string option"
  pn_createdAt :: time_text

datatype attempt_state = INTENT | UPLOADING | PREPARED | COMPLETE | VERIFIED | CLEANED

record rec_attempt =
  at_backupId :: string
  at_attempt :: int
  at_objectKey :: string
  at_uploadId :: "string option"
  at_keyVersion :: string
  at_firstClaimAt :: time_text
  at_candidateStoredBytes :: "string option"
  at_candidatePlaintextBytes :: "string option"
  at_candidateChecksum :: "string option"
  at_state :: attempt_state
  at_cleanupPending :: bool
  at_createdAt :: time_text
  at_updatedAt :: time_text

record rec_job =
  jb_id :: string
  jb_type :: string
  jb_targetType :: string
  jb_targetId :: string
  jb_operationId :: string
  jb_status :: workflow_status
  jb_attempts :: int
  jb_maxAttempts :: int
  jb_lockedBy :: "string option"
  jb_lockedAt :: "time_text option"
  jb_createdAt :: time_text
  jb_updatedAt :: time_text
  jb_runAfter :: time_text

record rec_audit =
  ra_actorUserId :: string
  ra_action :: string
  ra_targetType :: string
  ra_targetId :: string
  ra_engine :: string
  ra_status :: string
  ra_createdAt :: time_text

record rec_state =
  rc_organizations :: "string list"
  rc_projects :: "rec_project list"
  rc_resources :: "rec_resource list"
  rc_members :: "rec_member list"
  rc_backups :: "backup list"
  rc_restores :: "restore list"
  rc_pins :: "rec_pin list"
  rc_attempts :: "rec_attempt list"
  rc_jobs :: "rec_job list"
  rc_auditEvents :: "rec_audit list"
  rc_legacyBackups :: "(string \<times> string) list"

type_synonym 'a work = "rec_state \<Rightarrow> (recovery_error, 'a \<times> rec_state) result"

section \<open>Requests\<close>

definition recoveryRecord :: "js \<Rightarrow> (recovery_error, js_fields) result" where
  "recoveryRecord value = from_option (RecoveryError ''RECOVERY_INPUT_INVALID'' 400) (as_object value)"

record rec_body =
  by_requestIdempotencyKey :: string
  by_name :: "string option"

definition idempotency_char :: "char \<Rightarrow> bool" where
  "idempotency_char c \<longleftrightarrow> alnum c \<or> one_of ''._:-'' c"

definition name_pattern :: regex where
  "name_pattern = Seq (Cls lower) (Rep (\<lambda>c. lower_alnum c \<or> c = CHR ''-'') 0 47)"

definition recoveryBody :: "js \<Rightarrow> bool \<Rightarrow> (recovery_error, rec_body) result" where
  "recoveryBody input restore =
     bindE (recoveryRecord input) (\<lambda>body.
     let key = as_string (js_get body ''requestIdempotencyKey''); name = as_string (js_get body ''name'') in
     if list_ex (\<lambda>k. k \<notin> set ([''requestIdempotencyKey'', ''formatVersion''] @ (if restore then [''name''] else []))) (js_keys body) \<or>
        (case key of None \<Rightarrow> True | Some k \<Rightarrow> \<not> matches (Rep idempotency_char 1 128) k) \<or>
        js_get body ''formatVersion'' \<noteq> JInt 1 \<or>
        (restore \<and> (case name of None \<Rightarrow> True | Some n \<Rightarrow> \<not> matches name_pattern n))
     then Inl (RecoveryError ''RECOVERY_INPUT_INVALID'' 400)
     else Inr \<lparr>by_requestIdempotencyKey = the key, by_name = name\<rparr>)"

section \<open>Canonical JSON\<close>

text \<open>
  \<open>JSON.stringify\<close> of a string escapes quotes, backslashes and control characters; a number that is
  not finite prints as null. Objects print with their keys in code unit order.
\<close>

lemma char_le_bits [code]: "(c :: char) \<le> d \<longleftrightarrow> bits_le (code_bits c) (code_bits d)"
  unfolding code_unit_le [symmetric] by (simp add: less_eq_char_def code_unit_def)

lemma char_less_bits [code]: "(c :: char) < d \<longleftrightarrow> c \<noteq> d \<and> bits_le (code_bits c) (code_bits d)"
  by (simp add: char_le_bits [symmetric] order_less_le conj_commute)

definition hex_digit :: "nat \<Rightarrow> char" where
  "hex_digit n = (if n < 10 then char_of (48 + n) else char_of (87 + n))"

definition json_char :: "char \<Rightarrow> string" where
  "json_char c =
     (if c = CHR 0x22 then [CHR 0x5C, CHR 0x22]
      else if c = CHR 0x5C then [CHR 0x5C, CHR 0x5C]
      else if c = CHR 0x08 then CHR 0x5C # ''b'' else if c = CHR 0x09 then CHR 0x5C # ''t''
      else if c = CHR 0x0A then CHR 0x5C # ''n'' else if c = CHR 0x0C then CHR 0x5C # ''f''
      else if c = CHR 0x0D then CHR 0x5C # ''r''
      else if char_range CHR 0x00 CHR 0x1F c then CHR 0x5C # ''u00'' @ [hex_digit (code_unit c div 16), hex_digit (code_unit c mod 16)]
      else [c])"

definition json_string :: "string \<Rightarrow> string" where
  "json_string s = [CHR 0x22] @ concat (map json_char s) @ [CHR 0x22]"

fun canonicalRecoveryJson :: "js \<Rightarrow> string" where
  "canonicalRecoveryJson (JArr vs) = ''['' @ join '','' (map canonicalRecoveryJson vs) @ '']''"
| "canonicalRecoveryJson (JObj entries) =
     ''{'' @ join '','' (map (\<lambda>(key, item). json_string key @ '':'' @ item)
       (sort_key fst (map (\<lambda>(key, value). (key, canonicalRecoveryJson value)) entries))) @ ''}''"
| "canonicalRecoveryJson (JStr s) = json_string s"
| "canonicalRecoveryJson (JNum t) = (if t \<in> set [''NaN'', ''Infinity'', ''-Infinity''] then ''null'' else t)"
| "canonicalRecoveryJson v = js_text v"

definition recoveryHash :: "rec_env \<Rightarrow> string \<Rightarrow> string" where
  "recoveryHash e value = sha256_hex e value"

section \<open>Object keys\<close>

definition segment_char :: "char \<Rightarrow> bool" where
  "segment_char c \<longleftrightarrow> alnum c \<or> one_of ''_-'' c"

definition recoverySegment :: "string \<Rightarrow> (recovery_error, string) result" where
  "recoverySegment value =
     (if matches (Seq (Cls alnum) (Rep segment_char 0 127)) value then Inr value
      else Inl (RecoveryError ''RECOVERY_ID_INVALID'' 400))"

definition recoveryObjectKey :: "string \<Rightarrow> string \<Rightarrow> string \<Rightarrow> int \<Rightarrow> (recovery_error, string) result" where
  "recoveryObjectKey organizationId resourceId backupId attempt =
     bindE (ensure (1 \<le> attempt \<and> attempt \<le> 3) (RecoveryError ''RECOVERY_ATTEMPT_INVALID'' 409)) (\<lambda>_.
     bindE (recoverySegment organizationId) (\<lambda>org.
     bindE (recoverySegment resourceId) (\<lambda>res.
     bindE (recoverySegment backupId) (\<lambda>bid.
     Inr (''organizations/'' @ org @ ''/resources/'' @ res @ ''/backups/'' @ bid @ ''/attempts/'' @
          int_text attempt @ ''/artifact.v1'')))))"

section \<open>Provenance of a resource\<close>

definition image_char :: "char \<Rightarrow> bool" where
  "image_char c \<longleftrightarrow> lower_alnum c \<or> one_of ''./_:-'' c"

definition image_pattern :: regex where
  "image_pattern = Seq (Cls lower_alnum) (Seq (Star (Cls image_char))
     (Seq (lit ([CHR 0x40] @ ''sha256:'')) (Rep hex 64 64)))"

definition uid_pattern :: regex where
  "uid_pattern = Seq (Cls alnum) (Rep idempotency_char 0 127)"

definition label_pattern :: "nat \<Rightarrow> regex" where
  "label_pattern n = Seq (Cls lower_alnum) (opt (Seq (Rep slug_char 0 n) (Cls lower_alnum)))"

definition generation_pattern :: regex where
  "generation_pattern = Rep segment_char 43 43"

definition text_matches :: "regex \<Rightarrow> js \<Rightarrow> bool" where
  "text_matches r v = (case v of JStr s \<Rightarrow> matches r s | _ \<Rightarrow> False)"

definition spec_keys :: "string list" where
  "spec_keys = [''storageMb'', ''storageGb'', ''databaseName'', ''database'', ''username'', ''bucket'', ''collection'', ''topic'']"

definition source_spec :: "rec_resource \<Rightarrow> js_fields" where
  "source_spec resource =
     [(''type'', JStr (rr_type resource)), (''plan'', JStr (rr_plan resource)), (''region'', JStr (rr_region resource)),
      (''version'', opt_js (rr_version resource)),
      (''desiredSpec'', JObj (filter (\<lambda>(key, _). key \<in> set spec_keys) (rr_desiredSpec resource)))]"

definition incarnation :: "rec_resource \<Rightarrow> provenance \<Rightarrow> js" where
  "incarnation resource p =
     JObj [(''resourceId'', JStr (rr_id resource)), (''projectId'', JStr (rr_projectId resource)),
       (''engine'', JStr (rr_engine resource)), (''provider'', JStr (rr_provider resource)),
       (''sourceSpec'', JObj (source_spec resource)),
       (''sourceProvenance'', JObj
         [(''providerImageProvenance'', JObj [(''schema'', JStr ''raibitserver.provider-image/v1''), (''image'', JStr (pv_image p)),
            (''workloadUid'', JStr (pv_workloadUid p)), (''workloadGeneration'', JInt (pv_workloadGeneration p))]),
          (''providerIdentity'', JObj [(''namespace'', JStr (pv_namespace p)), (''name'', JStr (pv_name p))]),
          (''credentialSecretUID'', JStr (pv_credentialSecretUID p)),
          (''credentialSecretGeneration'', JStr (pv_credentialSecretGeneration p))])]"

definition captureRecoveryProvenance ::
  "rec_env \<Rightarrow> rec_resource \<Rightarrow> (recovery_error, js_fields \<times> provenance \<times> string) result" where
  "captureRecoveryProvenance e resource =
     (let state = rr_desiredState resource in
      bindE (map_err (\<lambda>_. RecoveryError ''SOURCE_IMAGE_PROVENANCE_UNAVAILABLE'' 409)
        (bindE (recoveryRecord (js_get state ''providerImageProvenance'')) (\<lambda>image.
         bindE (recoveryRecord (js_get state ''providerIdentity'')) (\<lambda>identity. Inr (image, identity))))) (\<lambda>(image, identity).
      bindE (ensure
         (js_get image ''schema'' = JStr ''raibitserver.provider-image/v1'' \<and>
          text_matches image_pattern (js_get image ''image'') \<and>
          \<not> ends_with (js_text (js_get image ''image'')) ([CHR 0x40] @ ''sha256:'' @ replicate 64 CHR ''0'') \<and>
          text_matches uid_pattern (js_get image ''workloadUid'') \<and>
          (case js_get image ''workloadGeneration'' of JInt n \<Rightarrow> n \<le> 9007199254740991 \<and> 1 \<le> n | _ \<Rightarrow> False) \<and>
          (case js_get image ''observedAt'' of JStr t \<Rightarrow> date_of e t \<noteq> None | _ \<Rightarrow> False))
         (RecoveryError ''SOURCE_IMAGE_PROVENANCE_UNAVAILABLE'' 409)) (\<lambda>_.
      bindE (ensure
         (text_matches (label_pattern 61) (js_get identity ''namespace'') \<and>
          text_matches (label_pattern 50) (js_get identity ''name'') \<and>
          text_matches uid_pattern (js_get state ''credentialSecretUID'') \<and>
          text_matches generation_pattern (js_get state ''credentialSecretGeneration'') \<and>
          rr_connectionSecretName resource = Some (js_text (js_get identity ''name'') @ ''-connection''))
         (RecoveryError ''SOURCE_PROVENANCE_UNAVAILABLE'' 409)) (\<lambda>_.
      let p = \<lparr>pv_image = js_text (js_get image ''image''), pv_workloadUid = js_text (js_get image ''workloadUid''),
            pv_workloadGeneration = (case js_get image ''workloadGeneration'' of JInt n \<Rightarrow> n | _ \<Rightarrow> 0),
            pv_observedAt = js_text (js_get image ''observedAt''), pv_namespace = js_text (js_get identity ''namespace''),
            pv_name = js_text (js_get identity ''name''),
            pv_credentialSecretUID = js_text (js_get state ''credentialSecretUID''),
            pv_credentialSecretGeneration = js_text (js_get state ''credentialSecretGeneration'')\<rparr>
      in Inr (source_spec resource, p,
           ''resource-incarnation/v1:sha256:'' @ recoveryHash e (canonicalRecoveryJson (incarnation resource p)))))))"

end
