(* ===== verification/Recovery_State.thy ===== *)
theory Recovery_State
  imports Recovery_Types Rbac Lifecycle
begin

text \<open>
  Resource recovery, the reading of its state and the creation of operations
  (\<open>resource-recovery-state.ts\<close>). A transaction runs its work on a copy of the state and drops the
  copy when the work throws, so an operation gives the new state only with a returned value.
\<close>

record rec_scope =
  sc_organizationId :: string
  sc_actorUserId :: string

record rec_request = rec_scope +
  rq_sourceId :: string
  rq_body :: js
  rq_now :: "time_text option"

record rec_result =
  re_operation :: operation
  re_job :: rec_job
  re_replay :: bool

section \<open>Reading the state\<close>

definition recoveryNow :: "rec_env \<Rightarrow> time_text option \<Rightarrow> (recovery_error, ms) result" where
  "recoveryNow e value =
     from_option (RecoveryError ''RECOVERY_TIME_INVALID'' 400)
       (dateParse (zone e) (case value of None \<Rightarrow> toISOString (now e) | Some v \<Rightarrow> v))"

fun recoveryMillis :: "time_text \<Rightarrow> ms option" where
  "recoveryMillis (WallClock t) = Some t"
| "recoveryMillis (Instant t) = Some t"
| "recoveryMillis NotADate = None"

definition recoveryAuthorized :: "rec_state \<Rightarrow> 'a rec_scope_scheme \<Rightarrow> string \<Rightarrow> (recovery_error, unit) result" where
  "recoveryAuthorized state scope permission =
     bindE (from_option (RecoveryError ''RECOVERY_NOT_FOUND'' 404)
       (find (\<lambda>row. rm_organizationId row = sc_organizationId scope \<and> rm_userId row = sc_actorUserId scope) (rc_members state))) (\<lambda>member.
     bindE (ensure (sc_organizationId scope \<in> set (rc_organizations state)) (RecoveryError ''RECOVERY_NOT_FOUND'' 404)) (\<lambda>_.
     ensure (can (JStr (rm_role member)) permission) (RecoveryError ''RECOVERY_FORBIDDEN'' 403)))"

definition activeRecoveryResource :: "rec_state \<Rightarrow> string \<Rightarrow> string \<Rightarrow> (recovery_error, rec_resource) result" where
  "activeRecoveryResource state resourceId organizationId =
     bindE (from_option (RecoveryError ''RECOVERY_NOT_FOUND'' 404) (find (\<lambda>row. rr_id row = resourceId) (rc_resources state))) (\<lambda>resource.
     bindE (from_option (RecoveryError ''RECOVERY_NOT_FOUND'' 404)
       (find (\<lambda>row. rp_id row = rr_projectId resource \<and> rp_organizationId row = organizationId) (rc_projects state))) (\<lambda>project.
     bindE (ensure (rp_status project = ''ACTIVE'' \<and> rp_deletionRequestedAt project = None \<and> rr_deletionRequestedAt resource = None \<and>
         rr_status resource \<notin> set [''DELETE_REQUESTED'', ''DELETING'', ''DELETED''])
       (RecoveryError ''RECOVERY_PARENT_DELETING'' 409)) (\<lambda>_.
     Inr resource)))"

definition recoveryBackup :: "rec_state \<Rightarrow> string \<Rightarrow> string \<Rightarrow> (recovery_error, backup) result" where
  "recoveryBackup state backupId organizationId =
     bindE (from_option (RecoveryError ''RECOVERY_NOT_FOUND'' 404)
       (find (\<lambda>row. rb_id row = backupId \<and> rb_organizationId row = organizationId) (rc_backups state))) (\<lambda>backup.
     bindE (ensure (rb_formatVersion backup = 1 \<and> bk_sourceProvenance backup \<noteq> None)
       (RecoveryError ''LEGACY_BACKUP_UNVERIFIED'' 409)) (\<lambda>_.
     Inr backup))"

definition recoveryJob :: "rec_state \<Rightarrow> string \<Rightarrow> (recovery_error, rec_job) result" where
  "recoveryJob state operationId =
     from_option (RecoveryError ''RECOVERY_JOB_MISSING'' 409) (find (\<lambda>row. jb_targetId row = operationId) (rc_jobs state))"

definition recoveryTransition :: "('s \<Rightarrow> 's list) \<Rightarrow> 's \<Rightarrow> 's \<Rightarrow> (recovery_error, unit) result" where
  "recoveryTransition nxt from to =
     ensure (from \<noteq> to \<and> to \<in> set (nxt from)) (RecoveryError ''RECOVERY_TRANSITION_INVALID'' 409)"

primrec op_base :: "operation \<Rightarrow> rec_base" where
  "op_base (OpBackup b) = rec_base.truncate b"
| "op_base (OpRestore r) = rec_base.truncate r"

definition op_id :: "operation \<Rightarrow> string" where
  "op_id operation = rb_id (op_base operation)"

primrec put_operation :: "operation \<Rightarrow> rec_state \<Rightarrow> rec_state" where
  "put_operation (OpBackup b) state = state\<lparr>rc_backups := put_row rb_id b (rc_backups state)\<rparr>"
| "put_operation (OpRestore r) state = state\<lparr>rc_restores := put_row rb_id r (rc_restores state)\<rparr>"

definition recoverySet :: "rec_state \<Rightarrow> operation \<Rightarrow> rec_job option \<Rightarrow> rec_state" where
  "recoverySet state operation job =
     (let state' = put_operation operation state in
      case job of None \<Rightarrow> state' | Some j \<Rightarrow> state'\<lparr>rc_jobs := put_row jb_id j (rc_jobs state')\<rparr>)"

section \<open>Creating an operation\<close>

definition kind_text :: "recovery_kind \<Rightarrow> string" where
  "kind_text kind = (case kind of KBackup \<Rightarrow> ''backup'' | KRestore \<Rightarrow> ''restore'')"

definition recovery_permission :: "recovery_kind \<Rightarrow> string" where
  "recovery_permission kind = (case kind of KRestore \<Rightarrow> ''backup:restore'' | KBackup \<Rightarrow> ''backup:manage'')"

definition request_fingerprint :: "rec_env \<Rightarrow> rec_body \<Rightarrow> string \<Rightarrow> recovery_kind \<Rightarrow> string" where
  "request_fingerprint e body sourceId kind = recoveryHash e (canonicalRecoveryJson (JObj
     [(''formatVersion'', JInt 1), (''sourceId'', JStr sourceId), (''name'', opt_js (by_name body)), (''kind'', JStr (kind_text kind))]))"

definition existing_operation :: "rec_state \<Rightarrow> rec_request \<Rightarrow> rec_body \<Rightarrow> recovery_kind \<Rightarrow> operation option" where
  "existing_operation state request body kind =
     (case kind of
        KBackup \<Rightarrow> map_option OpBackup (find (\<lambda>row. bk_resourceId row = rq_sourceId request \<and>
          rb_organizationId row = sc_organizationId request \<and>
          rb_requestIdempotencyKey row = by_requestIdempotencyKey body) (rc_backups state))
      | KRestore \<Rightarrow> map_option OpRestore (find (\<lambda>row. rs_backupId row = rq_sourceId request \<and>
          rb_organizationId row = sc_organizationId request \<and>
          rb_requestIdempotencyKey row = by_requestIdempotencyKey body) (rc_restores state)))"

definition source_visible :: "rec_state \<Rightarrow> rec_request \<Rightarrow> recovery_kind \<Rightarrow> bool" where
  "source_visible state request kind =
     (case kind of
        KBackup \<Rightarrow> (case find (\<lambda>row. rr_id row = rq_sourceId request) (rc_resources state) of
            None \<Rightarrow> False
          | Some resource \<Rightarrow> list_ex (\<lambda>project. rp_id project = rr_projectId resource \<and>
              rp_organizationId project = sc_organizationId request) (rc_projects state))
      | KRestore \<Rightarrow> list_ex (\<lambda>row. rb_id row = rq_sourceId request \<and>
          rb_organizationId row = sc_organizationId request) (rc_backups state))"

definition recovery_engines :: "string list" where
  "recovery_engines = [''postgresql'', ''mysql'', ''mariadb'', ''mongodb'', ''redis'', ''valkey'']"

definition recoverable_backup :: "ms \<Rightarrow> backup \<Rightarrow> bool" where
  "recoverable_backup at sourceBackup \<longleftrightarrow>
     bk_status sourceBackup = B_READY \<and>
     (case bk_expiresAt sourceBackup of None \<Rightarrow> False | Some t \<Rightarrow> \<not> le_ms (recoveryMillis t) (Some at)) \<and>
     truthy (bk_artifactKey sourceBackup) \<and> truthy (bk_artifactChecksum sourceBackup) \<and>
     truthy (bk_artifactSize sourceBackup) \<and> truthy (bk_encryptionKeyVersion sourceBackup)"

definition recovery_base ::
  "rec_env \<Rightarrow> rec_request \<Rightarrow> rec_body \<Rightarrow> recovery_kind \<Rightarrow> rec_resource \<Rightarrow> string \<Rightarrow> ms \<Rightarrow> rec_base" where
  "recovery_base e request body kind source sourceGeneration at =
     \<lparr>rb_id = kind_text kind @ ''_'' @ randomUUID e 0, rb_formatVersion = 1, rb_organizationId = sc_organizationId request,
      rb_projectId = rr_projectId source, rb_engine = rr_engine source, rb_provider = rr_provider source,
      rb_sourceGeneration = sourceGeneration, rb_requestedByUserId = sc_actorUserId request,
      rb_requestIdempotencyKey = by_requestIdempotencyKey body,
      rb_requestFingerprint = request_fingerprint e body (rq_sourceId request) kind,
      rb_createdAt = toISOString at, rb_updatedAt = toISOString at, rb_startedAt = None, rb_deadlineAt = None,
      rb_readyAt = None, rb_errorCode = None, rb_cleanupToken = None, rb_cleanupWorker = None, rb_cleanupLeaseUntil = None\<rparr>"

definition restore_target :: "string \<Rightarrow> string \<Rightarrow> rec_resource \<Rightarrow> js_fields \<Rightarrow> string \<Rightarrow> rec_resource" where
  "restore_target targetId name source desiredSpec restoreId =
     \<lparr>rr_id = targetId, rr_projectId = rr_projectId source, rr_name = name, rr_slug = name, rr_type = rr_type source,
      rr_engine = rr_engine source, rr_provider = rr_provider source, rr_plan = rr_plan source, rr_region = rr_region source,
      rr_version = rr_version source, rr_status = ''PROVISIONING'', rr_deletionRequestedAt = None,
      rr_desiredSpec = desiredSpec,
      rr_desiredState = [(''recoveryRestoreId'', JStr restoreId), (''recoveryPublicationBlocked'', JBool True)],
      rr_connectionSecretName = None\<rparr>"

definition new_restore :: "rec_base \<Rightarrow> string \<Rightarrow> string \<Rightarrow> string \<Rightarrow> restore" where
  "new_restore base backupId sourceResourceId targetId =
     rec_base.extend base \<lparr>rs_backupId = backupId, rs_sourceResourceId = sourceResourceId,
       rs_targetResourceId = targetId, rs_status = R_QUEUED, rs_targetCleanedAt = None\<rparr>"

definition new_backup :: "rec_base \<Rightarrow> string \<Rightarrow> provenance \<Rightarrow> js_fields \<Rightarrow> backup" where
  "new_backup base resourceId sourceProvenance sourceSpec =
     rec_base.extend base \<lparr>bk_resourceId = resourceId, bk_status = B_QUEUED, bk_sourceProvenance = Some sourceProvenance,
       bk_sourceSpec = sourceSpec, bk_artifactKey = None, bk_artifactChecksum = None, bk_artifactSize = None,
       bk_encryptionKeyVersion = None, bk_winningAttempt = None, bk_expiresAt = None\<rparr>"

definition job_type :: "recovery_kind \<Rightarrow> string" where
  "job_type kind = (case kind of KBackup \<Rightarrow> ''resource.backup'' | KRestore \<Rightarrow> ''resource.restore'')"

definition target_type :: "recovery_kind \<Rightarrow> string" where
  "target_type kind = (case kind of KBackup \<Rightarrow> ''resource-backup'' | KRestore \<Rightarrow> ''resource-restore'')"

definition new_job :: "rec_env \<Rightarrow> recovery_kind \<Rightarrow> string \<Rightarrow> ms \<Rightarrow> rec_job" where
  "new_job e kind operationId at =
     \<lparr>jb_id = ''job_'' @ recoveryHash e (job_type kind @ [CHR 0x00] @ operationId), jb_type = job_type kind,
      jb_targetType = target_type kind, jb_targetId = operationId, jb_operationId = operationId, jb_status = W_queued,
      jb_attempts = 0, jb_maxAttempts = 3, jb_lockedBy = None, jb_lockedAt = None,
      jb_createdAt = toISOString at, jb_updatedAt = toISOString at, jb_runAfter = toISOString at\<rparr>"

definition recovery_audit :: "string \<Rightarrow> string \<Rightarrow> string \<Rightarrow> string \<Rightarrow> string \<Rightarrow> string \<Rightarrow> ms \<Rightarrow> rec_state \<Rightarrow> rec_state" where
  "recovery_audit actor action targetType targetId engine status at state = state\<lparr>rc_auditEvents := rc_auditEvents state @
     [\<lparr>ra_actorUserId = actor, ra_action = action, ra_targetType = targetType, ra_targetId = targetId, ra_engine = engine,
       ra_status = status, ra_createdAt = toISOString at\<rparr>]\<rparr>"

definition create_restore ::
  "rec_env \<Rightarrow> rec_body \<Rightarrow> rec_base \<Rightarrow> rec_resource \<Rightarrow> backup \<Rightarrow> ms \<Rightarrow> operation work" where
  "create_restore e body base source sourceBackup at state =
     (let name = (case by_name body of None \<Rightarrow> '''' | Some n \<Rightarrow> n); targetId = ''res_'' @ randomUUID e 1 in
      bindE (ensure (\<not> list_ex (\<lambda>row. rr_projectId row = rr_projectId source \<and> (rr_name row = name \<or> rr_slug row = name))
          (rc_resources state)) (RecoveryError ''RESTORE_TARGET_EXISTS'' 409)) (\<lambda>_.
      bindE (from_option (RecoveryError ''SOURCE_PROVENANCE_UNAVAILABLE'' 409)
          (as_object (js_get (bk_sourceSpec sourceBackup) ''desiredSpec''))) (\<lambda>desiredSpec.
      let operation = new_restore base (rb_id sourceBackup) (rr_id source) targetId in
      Inr (OpRestore operation, state
        \<lparr>rc_resources := rc_resources state @ [restore_target targetId name source desiredSpec (rb_id base)],
         rc_restores := rc_restores state @ [operation],
         rc_pins := rc_pins state @ [\<lparr>pn_id = ''pin_'' @ randomUUID e 2, pn_kind = RESTORE_TARGET, pn_resourceId = targetId,
           pn_backupId = rb_id sourceBackup, pn_restoreId = Some (rb_id base), pn_createdAt = toISOString at\<rparr>]\<rparr>))))"

definition create_backup ::
  "rec_env \<Rightarrow> rec_base \<Rightarrow> rec_resource \<Rightarrow> provenance \<Rightarrow> js_fields \<Rightarrow> ms \<Rightarrow> operation work" where
  "create_backup e base source sourceProvenance sourceSpec at state =
     (let operation = new_backup base (rr_id source) sourceProvenance sourceSpec in
      Inr (OpBackup operation, state
        \<lparr>rc_backups := rc_backups state @ [operation],
         rc_pins := rc_pins state @ [\<lparr>pn_id = ''pin_'' @ randomUUID e 2, pn_kind = ARTIFACT_SOURCE, pn_resourceId = rr_id source,
           pn_backupId = rb_id base, pn_restoreId = None, pn_createdAt = toISOString at\<rparr>]\<rparr>))"

definition replay_recovery :: "rec_env \<Rightarrow> rec_request \<Rightarrow> recovery_kind \<Rightarrow> rec_body \<Rightarrow> operation \<Rightarrow> rec_result work" where
  "replay_recovery e request kind body existing state =
     bindE (recoveryAuthorized state request (recovery_permission kind)) (\<lambda>_.
     bindE (ensure (rb_requestFingerprint (op_base existing) = request_fingerprint e body (rq_sourceId request) kind)
       (RecoveryError ''IDEMPOTENCY_CONFLICT'' 409)) (\<lambda>_.
     bindE (recoveryJob state (op_id existing)) (\<lambda>job.
     Inr (\<lparr>re_operation = existing, re_job = job, re_replay = True\<rparr>, state))))"

definition source_backup :: "rec_state \<Rightarrow> rec_request \<Rightarrow> recovery_kind \<Rightarrow> (recovery_error, backup option) result" where
  "source_backup state request kind =
     (case kind of KBackup \<Rightarrow> Inr None
      | KRestore \<Rightarrow> bindE (recoveryBackup state (rq_sourceId request) (sc_organizationId request)) (\<lambda>b. Inr (Some b)))"

definition add_job :: "rec_env \<Rightarrow> rec_request \<Rightarrow> recovery_kind \<Rightarrow> rec_base \<Rightarrow> ms \<Rightarrow> operation \<Rightarrow> rec_state \<Rightarrow> rec_result \<times> rec_state" where
  "add_job e request kind base at operation state =
     (let job = new_job e kind (rb_id base) at in
      (\<lparr>re_operation = operation, re_job = job, re_replay = False\<rparr>,
       recovery_audit (sc_actorUserId request) (job_type kind @ '':requested'') (target_type kind) (rb_id base)
         (rb_engine base) ''QUEUED'' at (state\<lparr>rc_jobs := rc_jobs state @ [job]\<rparr>)))"

definition new_recovery :: "rec_env \<Rightarrow> rec_request \<Rightarrow> recovery_kind \<Rightarrow> rec_body \<Rightarrow> ms \<Rightarrow> rec_result work" where
  "new_recovery e request kind body at state =
     bindE (ensure (source_visible state request kind) (RecoveryError ''RECOVERY_NOT_FOUND'' 404)) (\<lambda>_.
     bindE (recoveryAuthorized state request (recovery_permission kind)) (\<lambda>_.
     bindE (source_backup state request kind) (\<lambda>sourceBackup.
     bindE (activeRecoveryResource state (case sourceBackup of None \<Rightarrow> rq_sourceId request | Some b \<Rightarrow> bk_resourceId b)
       (sc_organizationId request)) (\<lambda>source.
     bindE (ensure (rr_status source = ''READY'') (RecoveryError ''SOURCE_NOT_READY'' 409)) (\<lambda>_.
     bindE (ensure (rr_engine source \<in> set recovery_engines) (RecoveryError ''RECOVERY_ENGINE_UNSUPPORTED'' 409)) (\<lambda>_.
     bindE (captureRecoveryProvenance e source) (\<lambda>(sourceSpec, sourceProvenance, sourceGeneration).
     bindE (ensure (\<forall>b \<in> set_option sourceBackup. recoverable_backup at b) (RecoveryError ''BACKUP_NOT_RECOVERABLE'' 409)) (\<lambda>_.
     bindE (ensure (\<forall>b \<in> set_option sourceBackup. rb_sourceGeneration b = sourceGeneration) (RecoveryError ''SOURCE_CHANGED'' 409)) (\<lambda>_.
     let base = recovery_base e request body kind source sourceGeneration at in
     bindE (case sourceBackup of
              Some b \<Rightarrow> create_restore e body base source b at state
            | None \<Rightarrow> create_backup e base source sourceProvenance sourceSpec at state) (\<lambda>(operation, state1).
     Inr (add_job e request kind base at operation state1)))))))))))"

definition createRecovery :: "rec_env \<Rightarrow> rec_request \<Rightarrow> recovery_kind \<Rightarrow> rec_result work" where
  "createRecovery e request kind state =
     bindE (recoveryBody (rq_body request) (kind = KRestore)) (\<lambda>body.
     bindE (recoveryNow e (rq_now request)) (\<lambda>at.
     case existing_operation state request body kind of
       Some existing \<Rightarrow> replay_recovery e request kind body existing state
     | None \<Rightarrow> new_recovery e request kind body at state))"

end
