(* ===== verification/Recovery_Worker.thy ===== *)
theory Recovery_Worker
  imports Recovery_State
begin

text \<open>
  Resource recovery, the operations of the workers: claiming a job, the fenced mutations of a
  running operation (\<open>resource-recovery-worker.ts\<close>), cancellation, expiry and the cleanup leases
  (\<open>resource-recovery-cleanup.ts\<close>).
\<close>

record rec_claim =
  cl_organizationId :: string
  cl_kind :: recovery_kind
  cl_operationId :: string
  cl_workerId :: string
  cl_now :: "time_text option"

record rec_fence = rec_claim +
  fe_attempt :: int

record rec_cleanup_fence = rec_claim +
  cf_token :: string

record rec_artifact =
  ar_checksum :: string
  ar_size :: string
  ar_keyVersion :: string

datatype rec_mutation =
  M_heartbeat | M_verify | M_ready "rec_artifact option" | M_fail string | M_retry
| M_intent string | M_candidate string string string | M_upload string | M_complete

section \<open>Fencing\<close>

definition recoveryOperation :: "rec_state \<Rightarrow> 'a rec_claim_scheme \<Rightarrow> (recovery_error, operation) result" where
  "recoveryOperation state input =
     (case cl_kind input of
        KBackup \<Rightarrow> bindE (recoveryBackup state (cl_operationId input) (cl_organizationId input)) (\<lambda>b. Inr (OpBackup b))
      | KRestore \<Rightarrow> from_option (RecoveryError ''RECOVERY_NOT_FOUND'' 404)
          (map_option OpRestore (find (\<lambda>row. rb_id row = cl_operationId input \<and> rb_organizationId row = cl_organizationId input)
            (rc_restores state))))"

primrec source_id :: "operation \<Rightarrow> string" where
  "source_id (OpBackup b) = bk_resourceId b"
| "source_id (OpRestore r) = rs_sourceResourceId r"

primrec current_target :: "rec_state \<Rightarrow> operation \<Rightarrow> (recovery_error, unit) result" where
  "current_target state (OpBackup b) = Inr ()"
| "current_target state (OpRestore r) =
     bindE (recoveryBackup state (rs_backupId r) (rb_organizationId r)) (\<lambda>backup.
     bindE (ensure (bk_status backup \<in> set [B_READY, B_EXPIRED]) (RecoveryError ''BACKUP_NOT_RECOVERABLE'' 409)) (\<lambda>_.
     bindE (activeRecoveryResource state (rs_targetResourceId r) (rb_organizationId r)) (\<lambda>target.
     ensure (rr_projectId target = rb_projectId r \<and> rr_engine target = rb_engine r \<and>
         js_get (rr_desiredState target) ''recoveryRestoreId'' = JStr (rb_id r) \<and>
         js_get (rr_desiredState target) ''recoveryPublicationBlocked'' = JBool True)
       (RecoveryError ''RESTORE_TARGET_INVALID'' 409))))"

definition currentRecoverySource :: "rec_env \<Rightarrow> rec_state \<Rightarrow> operation \<Rightarrow> (recovery_error, unit) result" where
  "currentRecoverySource e state operation =
     bindE (activeRecoveryResource state (source_id operation) (rb_organizationId (op_base operation))) (\<lambda>resource.
     bindE (ensure (rr_status resource = ''READY'') (RecoveryError ''SOURCE_CHANGED'' 409)) (\<lambda>_.
     bindE (captureRecoveryProvenance e resource) (\<lambda>(_, _, sourceGeneration).
     bindE (ensure (sourceGeneration = rb_sourceGeneration (op_base operation)) (RecoveryError ''SOURCE_CHANGED'' 409)) (\<lambda>_.
     current_target state operation))))"

primrec op_running :: "operation \<Rightarrow> bool" where
  "op_running (OpBackup b) = (bk_status b \<in> set [B_RUNNING, B_VERIFYING])"
| "op_running (OpRestore r) = (rs_status r \<in> set [R_RUNNING, R_VERIFYING])"

definition fenceRecovery :: "rec_env \<Rightarrow> rec_state \<Rightarrow> rec_fence \<Rightarrow> (recovery_error, operation \<times> rec_job \<times> ms) result" where
  "fenceRecovery e state input =
     bindE (recoveryOperation state input) (\<lambda>operation.
     bindE (recoveryJob state (op_id operation)) (\<lambda>job.
     bindE (recoveryNow e (cl_now input)) (\<lambda>at.
     bindE (ensure
        (jb_status job = W_running \<and> jb_lockedBy job = Some (cl_workerId input) \<and> jb_attempts job = fe_attempt input \<and>
         (case jb_lockedAt job of None \<Rightarrow> False | Some t \<Rightarrow> \<not> le_ms (plus_ms (recoveryMillis t) 60000) (Some at)) \<and>
         (case rb_deadlineAt (op_base operation) of None \<Rightarrow> False | Some t \<Rightarrow> \<not> le_ms (recoveryMillis t) (Some at)) \<and>
         op_running operation)
       (RecoveryError ''RECOVERY_LEASE_LOST'' 409)) (\<lambda>_.
     bindE (currentRecoverySource e state operation) (\<lambda>_.
     Inr (operation, job, at))))))"

section \<open>Claiming a job\<close>

definition job_stopped :: "workflow_status \<Rightarrow> ms \<Rightarrow> rec_job \<Rightarrow> rec_job" where
  "job_stopped status at job = job\<lparr>jb_status := status, jb_lockedBy := None, jb_lockedAt := None, jb_updatedAt := toISOString at\<rparr>"

primrec op_failed :: "string \<Rightarrow> ms \<Rightarrow> operation \<Rightarrow> operation" where
  "op_failed code at (OpBackup b) = OpBackup (b\<lparr>bk_status := B_FAILED, rb_errorCode := Some code, rb_updatedAt := toISOString at\<rparr>)"
| "op_failed code at (OpRestore r) = OpRestore (r\<lparr>rs_status := R_FAILED, rb_errorCode := Some code, rb_updatedAt := toISOString at\<rparr>)"

definition claimed_base :: "ms \<Rightarrow> 'a rec_base_scheme \<Rightarrow> 'a rec_base_scheme" where
  "claimed_base at b = b\<lparr>rb_startedAt := Some (case rb_startedAt b of None \<Rightarrow> toISOString at | Some t \<Rightarrow> t),
     rb_deadlineAt := Some (case rb_deadlineAt b of None \<Rightarrow> toISOString (at + 1800000) | Some t \<Rightarrow> t),
     rb_updatedAt := toISOString at\<rparr>"

primrec op_claimed :: "ms \<Rightarrow> operation \<Rightarrow> operation" where
  "op_claimed at (OpBackup b) =
     OpBackup (claimed_base at (b\<lparr>bk_status := (if bk_status b = B_QUEUED then B_RUNNING else bk_status b)\<rparr>))"
| "op_claimed at (OpRestore r) =
     OpRestore (claimed_base at (r\<lparr>rs_status := (if rs_status r = R_QUEUED then R_RUNNING else rs_status r)\<rparr>))"

primrec op_claimable :: "operation \<Rightarrow> bool" where
  "op_claimable (OpBackup b) = (bk_status b \<in> set [B_QUEUED, B_RUNNING, B_VERIFYING])"
| "op_claimable (OpRestore r) = (rs_status r \<in> set [R_QUEUED, R_RUNNING, R_VERIFYING])"

definition valid_worker :: "string \<Rightarrow> bool" where
  "valid_worker workerId \<longleftrightarrow> workerId \<noteq> [] \<and> length workerId \<le> 128"

definition claimRecovery :: "rec_env \<Rightarrow> rec_claim \<Rightarrow> (operation \<times> rec_job) work" where
  "claimRecovery e input state =
     bindE (recoveryOperation state input) (\<lambda>operation.
     bindE (recoveryJob state (op_id operation)) (\<lambda>job.
     bindE (recoveryNow e (cl_now input)) (\<lambda>at.
     bindE (ensure (valid_worker (cl_workerId input)) (RecoveryError ''RECOVERY_WORKER_INVALID'' 400)) (\<lambda>_.
     bindE (ensure (op_claimable operation \<and> jb_status job \<in> set [W_queued, W_running]) (RecoveryError ''RECOVERY_TERMINAL'' 409)) (\<lambda>_.
     bindE (ensure (\<not> lt_ms (Some at) (recoveryMillis (jb_runAfter job)) \<and>
         (case jb_lockedAt job of None \<Rightarrow> True | Some t \<Rightarrow> \<not> lt_ms (Some at) (plus_ms (recoveryMillis t) 60000)))
       (RecoveryError ''RECOVERY_LEASE_BUSY'' 409)) (\<lambda>_.
     let sourceFailure = isl (currentRecoverySource e state operation) in
     if sourceFailure \<or> 3 \<le> jb_attempts job \<or>
        (case rb_deadlineAt (op_base operation) of None \<Rightarrow> False | Some t \<Rightarrow> le_ms (recoveryMillis t) (Some at))
     then let failed = op_failed (if sourceFailure then ''SOURCE_CHANGED'' else ''DEADLINE_EXCEEDED'') at operation;
              failedJob = job_stopped W_failed at job
          in Inr ((failed, failedJob), recoverySet state failed (Some failedJob))
     else let nxt = op_claimed at operation;
              nextJob = job\<lparr>jb_status := W_running, jb_attempts := jb_attempts job + 1, jb_lockedBy := Some (cl_workerId input),
                jb_lockedAt := Some (toISOString at), jb_updatedAt := toISOString at\<rparr>
          in Inr ((nxt, nextJob), recoverySet state nxt (Some nextJob))))))))"

section \<open>Mutations of a running operation\<close>

text \<open>
  Each mutation gives the operation and the job to store and the state whose other tables it
  changed. \<open>op_transition\<close> is the call of \<open>recoveryTransition\<close> with the kind of the operation.
\<close>

primrec op_transition :: "backup_status \<Rightarrow> restore_status \<Rightarrow> operation \<Rightarrow> (recovery_error, unit) result" where
  "op_transition to_b to_r (OpBackup b) = recoveryTransition backup_next (bk_status b) to_b"
| "op_transition to_b to_r (OpRestore r) = recoveryTransition restore_next (rs_status r) to_r"

definition is_attempt :: "string \<Rightarrow> int \<Rightarrow> rec_attempt \<Rightarrow> bool" where
  "is_attempt backupId attempt row \<longleftrightarrow> at_backupId row = backupId \<and> at_attempt row = attempt"

definition set_attempt :: "string \<Rightarrow> int \<Rightarrow> (rec_attempt \<Rightarrow> rec_attempt) \<Rightarrow> rec_state \<Rightarrow> rec_state" where
  "set_attempt backupId attempt f state = state\<lparr>rc_attempts := update_first (is_attempt backupId attempt) f (rc_attempts state)\<rparr>"

definition key_version_pattern :: regex where
  "key_version_pattern = Seq (Cls alnum) (Rep segment_char 0 63)"

definition mutate_intent ::
  "string \<Rightarrow> rec_fence \<Rightarrow> ms \<Rightarrow> operation \<Rightarrow> rec_attempt option \<Rightarrow> rec_state \<Rightarrow> (recovery_error, rec_state) result" where
  "mutate_intent keyVersion input at operation attempt state =
     (case operation of
        OpRestore _ \<Rightarrow> Inl (RecoveryError ''RECOVERY_KIND_INVALID'' 409)
      | OpBackup b \<Rightarrow>
          bindE (from_option (RecoveryError ''RECOVERY_ATTEMPT_INVALID'' 409) (rb_startedAt b)) (\<lambda>startedAt.
          bindE (ensure (matches key_version_pattern keyVersion \<and> (\<forall>row \<in> set_option attempt. at_keyVersion row = keyVersion))
            (RecoveryError ''RECOVERY_ATTEMPT_INVALID'' 409)) (\<lambda>_.
          case attempt of Some _ \<Rightarrow> Inr state
          | None \<Rightarrow>
            bindE (recoveryObjectKey (rb_organizationId b) (bk_resourceId b) (rb_id b) (fe_attempt input)) (\<lambda>objectKey.
            Inr (state\<lparr>rc_attempts := rc_attempts state @
              [\<lparr>at_backupId = rb_id b, at_attempt = fe_attempt input, at_objectKey = objectKey, at_uploadId = None,
                at_keyVersion = keyVersion, at_firstClaimAt = startedAt, at_candidateStoredBytes = None,
                at_candidatePlaintextBytes = None, at_candidateChecksum = None, at_state = INTENT, at_cleanupPending = True,
                at_createdAt = toISOString at, at_updatedAt = toISOString at\<rparr>]\<rparr>)))))"

definition valid_upload :: "string \<Rightarrow> rec_attempt \<Rightarrow> bool" where
  "valid_upload uploadId row \<longleftrightarrow>
     (at_uploadId row = None \<or> at_uploadId row = Some uploadId) \<and> at_state row \<in> set [INTENT, UPLOADING] \<and>
     1 \<le> length uploadId \<and> length uploadId \<le> 2048"

definition mutate_upload ::
  "string \<Rightarrow> rec_fence \<Rightarrow> ms \<Rightarrow> operation \<Rightarrow> rec_attempt option \<Rightarrow> rec_state \<Rightarrow> (recovery_error, rec_state) result" where
  "mutate_upload uploadId input at operation attempt state =
     bindE (ensure (\<exists>row \<in> set_option attempt. valid_upload uploadId row) (RecoveryError ''RECOVERY_UPLOAD_INVALID'' 409)) (\<lambda>_.
     Inr (set_attempt (op_id operation) (fe_attempt input)
       (\<lambda>row. row\<lparr>at_uploadId := Some uploadId, at_state := UPLOADING, at_updatedAt := toISOString at\<rparr>) state))"

definition digits_nat :: "string \<Rightarrow> nat" where
  "digits_nat = foldl (\<lambda>n c. 10 * n + (code_unit c - 48)) 0"

definition stored_pattern :: regex where
  "stored_pattern = Seq (Cls (char_range CHR ''1'' CHR ''9'')) (Rep digit 0 10)"

definition valid_candidate :: "string \<Rightarrow> string \<Rightarrow> string \<Rightarrow> rec_attempt \<Rightarrow> bool" where
  "valid_candidate storedBytes plaintextBytes checksum row \<longleftrightarrow>
     at_state row \<in> set [UPLOADING, PREPARED] \<and> matches stored_pattern storedBytes \<and>
     matches (Alt (lit ''0'') stored_pattern) plaintextBytes \<and>
     digits_nat storedBytes \<le> 10737418240 \<and> digits_nat plaintextBytes \<le> 10737418240 \<and> matches (Rep hex 64 64) checksum \<and>
     (at_candidateStoredBytes row = None \<or>
       (at_candidateStoredBytes row = Some storedBytes \<and> at_candidatePlaintextBytes row = Some plaintextBytes \<and>
        at_candidateChecksum row = Some checksum))"

definition mutate_candidate ::
  "string \<Rightarrow> string \<Rightarrow> string \<Rightarrow> rec_fence \<Rightarrow> ms \<Rightarrow> operation \<Rightarrow> rec_attempt option \<Rightarrow> rec_state \<Rightarrow>
   (recovery_error, rec_state) result" where
  "mutate_candidate storedBytes plaintextBytes checksum input at operation attempt state =
     bindE (ensure (\<exists>row \<in> set_option attempt. valid_candidate storedBytes plaintextBytes checksum row)
       (RecoveryError ''RECOVERY_CANDIDATE_INVALID'' 409)) (\<lambda>_.
     Inr (set_attempt (op_id operation) (fe_attempt input)
       (\<lambda>row. row\<lparr>at_state := PREPARED, at_candidateStoredBytes := Some storedBytes,
          at_candidatePlaintextBytes := Some plaintextBytes, at_candidateChecksum := Some checksum,
          at_updatedAt := toISOString at\<rparr>) state))"

definition mutate_complete ::
  "rec_fence \<Rightarrow> ms \<Rightarrow> operation \<Rightarrow> rec_attempt option \<Rightarrow> rec_state \<Rightarrow> (recovery_error, rec_state) result" where
  "mutate_complete input at operation attempt state =
     bindE (ensure (\<exists>row \<in> set_option attempt. truthy (at_uploadId row) \<and> at_state row = PREPARED)
       (RecoveryError ''RECOVERY_UPLOAD_INVALID'' 409)) (\<lambda>_.
     Inr (set_attempt (op_id operation) (fe_attempt input)
       (\<lambda>row. row\<lparr>at_state := COMPLETE, at_updatedAt := toISOString at\<rparr>) state))"

primrec mutate_verify :: "ms \<Rightarrow> rec_attempt option \<Rightarrow> operation \<Rightarrow> (recovery_error, operation) result" where
  "mutate_verify at attempt (OpBackup b) =
     bindE (ensure (\<exists>row \<in> set_option attempt. at_state row = COMPLETE) (RecoveryError ''RECOVERY_ARTIFACT_UNVERIFIED'' 409)) (\<lambda>_.
     Inr (OpBackup (b\<lparr>bk_status := B_VERIFYING, rb_updatedAt := toISOString at\<rparr>)))"
| "mutate_verify at attempt (OpRestore r) = Inr (OpRestore (r\<lparr>rs_status := R_VERIFYING, rb_updatedAt := toISOString at\<rparr>))"

definition ready_backup :: "ms \<Rightarrow> int \<Rightarrow> rec_attempt \<Rightarrow> rec_artifact \<Rightarrow> backup \<Rightarrow> backup" where
  "ready_backup at attempt row artifact b = b\<lparr>bk_status := B_READY, bk_artifactKey := Some (at_objectKey row),
     bk_artifactChecksum := Some (ar_checksum artifact), bk_artifactSize := Some (ar_size artifact),
     bk_encryptionKeyVersion := Some (ar_keyVersion artifact), bk_winningAttempt := Some attempt,
     rb_readyAt := Some (toISOString at), bk_expiresAt := Some (toISOString (at + 30 * 86400000)), rb_updatedAt := toISOString at\<rparr>"

definition publish_target :: "rec_resource \<Rightarrow> rec_resource" where
  "publish_target row = row\<lparr>rr_status := ''READY'',
     rr_desiredState := map_put ''recoveryPublicationBlocked'' (JBool False) (rr_desiredState row)\<rparr>"

definition on_resource :: "string \<Rightarrow> (rec_resource \<Rightarrow> rec_resource) \<Rightarrow> rec_state \<Rightarrow> rec_state" where
  "on_resource resourceId f state =
     state\<lparr>rc_resources := map (\<lambda>row. if rr_id row = resourceId then f row else row) (rc_resources state)\<rparr>"

definition drop_restore_pins :: "string \<Rightarrow> rec_state \<Rightarrow> rec_state" where
  "drop_restore_pins restoreId state =
     state\<lparr>rc_pins := filter (\<lambda>row. pn_restoreId row \<noteq> Some restoreId) (rc_pins state)\<rparr>"

primrec mutate_ready ::
  "rec_artifact option \<Rightarrow> rec_fence \<Rightarrow> ms \<Rightarrow> rec_attempt option \<Rightarrow> rec_state \<Rightarrow> operation \<Rightarrow>
   (recovery_error, operation \<times> rec_state) result" where
  "mutate_ready artifact input at attempt state (OpBackup b) =
     (case (attempt, artifact) of
        (Some row, Some a) \<Rightarrow>
          bindE (ensure (at_state row = COMPLETE \<and> at_candidateChecksum row = Some (ar_checksum a) \<and>
              at_candidateStoredBytes row = Some (ar_size a) \<and> at_keyVersion row = ar_keyVersion a)
            (RecoveryError ''RECOVERY_ARTIFACT_UNVERIFIED'' 409)) (\<lambda>_.
          Inr (OpBackup (ready_backup at (fe_attempt input) row a b),
            set_attempt (rb_id b) (fe_attempt input) (\<lambda>row. row\<lparr>at_state := VERIFIED, at_updatedAt := toISOString at\<rparr>) state))
      | _ \<Rightarrow> Inl (RecoveryError ''RECOVERY_ARTIFACT_UNVERIFIED'' 409))"
| "mutate_ready artifact input at attempt state (OpRestore r) =
     Inr (OpRestore (r\<lparr>rs_status := R_READY, rb_readyAt := Some (toISOString at), rb_updatedAt := toISOString at\<rparr>),
       drop_restore_pins (rb_id r) (on_resource (rs_targetResourceId r) publish_target state))"

definition mutation_effect ::
  "rec_fence \<Rightarrow> rec_mutation \<Rightarrow> operation \<Rightarrow> rec_job \<Rightarrow> ms \<Rightarrow> rec_state \<Rightarrow>
   (recovery_error, operation \<times> rec_job \<times> rec_state) result" where
  "mutation_effect input mutation operation job at state =
     (let attempt = find (is_attempt (op_id operation) (fe_attempt input)) (rc_attempts state);
          kept = (\<lambda>r. bindE r (\<lambda>state'. Inr (operation, job, state')))
      in case mutation of
        M_heartbeat \<Rightarrow> Inr (operation, job\<lparr>jb_lockedAt := Some (toISOString at), jb_updatedAt := toISOString at\<rparr>, state)
      | M_retry \<Rightarrow>
          bindE (ensure (jb_attempts job < 3) (RecoveryError ''RECOVERY_ATTEMPTS_EXHAUSTED'' 409)) (\<lambda>_.
          Inr (operation, job_stopped W_queued at job, state))
      | M_fail code \<Rightarrow>
          bindE (op_transition B_FAILED R_FAILED operation) (\<lambda>_.
          Inr (op_failed code at operation, job_stopped W_failed at job, state))
      | M_intent keyVersion \<Rightarrow> kept (mutate_intent keyVersion input at operation attempt state)
      | M_upload uploadId \<Rightarrow> kept (mutate_upload uploadId input at operation attempt state)
      | M_candidate storedBytes plaintextBytes checksum \<Rightarrow>
          kept (mutate_candidate storedBytes plaintextBytes checksum input at operation attempt state)
      | M_complete \<Rightarrow> kept (mutate_complete input at operation attempt state)
      | M_verify \<Rightarrow>
          bindE (op_transition B_VERIFYING R_VERIFYING operation) (\<lambda>_.
          bindE (mutate_verify at attempt operation) (\<lambda>nxt. Inr (nxt, job, state)))
      | M_ready artifact \<Rightarrow>
          bindE (op_transition B_READY R_READY operation) (\<lambda>_.
          bindE (mutate_ready artifact input at attempt state operation) (\<lambda>(nxt, state').
          Inr (nxt, job_stopped W_succeeded at job, state'))))"

definition mutateRecovery :: "rec_env \<Rightarrow> rec_fence \<Rightarrow> rec_mutation \<Rightarrow> (operation \<times> rec_job) work" where
  "mutateRecovery e input mutation state =
     bindE (fenceRecovery e state input) (\<lambda>(operation, job, at).
     bindE (mutation_effect input mutation operation job at state) (\<lambda>(nxt, nextJob, state').
     Inr ((nxt, nextJob), recoverySet state' nxt (Some nextJob))))"

section \<open>Cancellation, expiry and cleanup\<close>

record cancel_request = rec_scope +
  cr_operationId :: string
  cr_now :: "time_text option"

definition cancelRecoveryRestore :: "rec_env \<Rightarrow> cancel_request \<Rightarrow> restore work" where
  "cancelRecoveryRestore e request state =
     bindE (from_option (RecoveryError ''RECOVERY_NOT_FOUND'' 404)
       (find (\<lambda>row. rb_id row = cr_operationId request \<and> rb_organizationId row = sc_organizationId request) (rc_restores state))) (\<lambda>operation.
     bindE (recoveryAuthorized state request ''backup:restore'') (\<lambda>_.
     bindE (recoveryTransition restore_next (rs_status operation) R_CANCELLED) (\<lambda>_.
     bindE (recoveryNow e (cr_now request)) (\<lambda>at.
     bindE (recoveryJob state (rb_id operation)) (\<lambda>job.
     let nxt = operation\<lparr>rs_status := R_CANCELLED, rb_updatedAt := toISOString at\<rparr> in
     Inr (nxt, recoverySet state (OpRestore nxt) (Some (job_stopped W_cancelled at job))))))))"

definition expireRecoveryBackup :: "rec_env \<Rightarrow> string \<Rightarrow> string \<Rightarrow> time_text option \<Rightarrow> backup work" where
  "expireRecoveryBackup e organizationId operationId nowText state =
     bindE (recoveryBackup state operationId organizationId) (\<lambda>backup.
     bindE (recoveryNow e nowText) (\<lambda>at.
     bindE (ensure (case bk_expiresAt backup of None \<Rightarrow> False | Some t \<Rightarrow> \<not> lt_ms (Some at) (recoveryMillis t))
       (RecoveryError ''RECOVERY_NOT_EXPIRED'' 409)) (\<lambda>_.
     bindE (recoveryTransition backup_next (bk_status backup) B_EXPIRED) (\<lambda>_.
     let nxt = backup\<lparr>bk_status := B_EXPIRED, rb_updatedAt := toISOString at\<rparr> in
     Inr (nxt, recoverySet state (OpBackup nxt) None)))))"

definition restore_pinned :: "rec_state \<Rightarrow> string \<Rightarrow> bool" where
  "restore_pinned state backupId \<longleftrightarrow> list_ex (\<lambda>pin. pn_backupId pin = backupId \<and> pn_kind pin = RESTORE_TARGET) (rc_pins state)"

definition cleanup_leased :: "rec_env \<Rightarrow> string \<Rightarrow> ms \<Rightarrow> 'a rec_base_scheme \<Rightarrow> 'a rec_base_scheme" where
  "cleanup_leased e workerId at b = b\<lparr>rb_cleanupToken := Some (randomUUID e 0), rb_cleanupWorker := Some workerId,
     rb_cleanupLeaseUntil := Some (toISOString (at + 60000)), rb_updatedAt := toISOString at\<rparr>"

primrec cleanup_claimed :: "rec_env \<Rightarrow> string \<Rightarrow> ms \<Rightarrow> rec_state \<Rightarrow> operation \<Rightarrow> (recovery_error, operation) result" where
  "cleanup_claimed e workerId at state (OpBackup b) =
     bindE (ensure (\<not> restore_pinned state (rb_id b)) (RecoveryError ''RECOVERY_RESTORE_PINNED'' 409)) (\<lambda>_.
     bindE (ensure (bk_status b \<in> set [B_FAILED, B_EXPIRED, B_DELETING]) (RecoveryError ''RECOVERY_CLEANUP_INELIGIBLE'' 409)) (\<lambda>_.
     bindE (if bk_status b \<noteq> B_DELETING then recoveryTransition backup_next (bk_status b) B_DELETING else Inr ()) (\<lambda>_.
     Inr (OpBackup (cleanup_leased e workerId at (b\<lparr>bk_status := B_DELETING\<rparr>))))))"
| "cleanup_claimed e workerId at state (OpRestore r) =
     bindE (ensure (rs_status r \<in> set [R_FAILED, R_CANCELLED]) (RecoveryError ''RECOVERY_CLEANUP_INELIGIBLE'' 409)) (\<lambda>_.
     Inr (OpRestore (cleanup_leased e workerId at r)))"

definition job_settled :: "rec_job \<Rightarrow> bool" where
  "job_settled job \<longleftrightarrow> jb_status job \<in> set [W_succeeded, W_failed, W_cancelled]"

definition claimRecoveryCleanup :: "rec_env \<Rightarrow> rec_claim \<Rightarrow> (operation \<times> rec_attempt list) work" where
  "claimRecoveryCleanup e input state =
     bindE (recoveryOperation state input) (\<lambda>operation.
     bindE (recoveryNow e (cl_now input)) (\<lambda>at.
     bindE (recoveryJob state (op_id operation)) (\<lambda>job.
     bindE (ensure (job_settled job) (RecoveryError ''RECOVERY_PUBLICATION_UNFENCED'' 409)) (\<lambda>_.
     bindE (ensure (case rb_cleanupLeaseUntil (op_base operation) of None \<Rightarrow> True | Some t \<Rightarrow> \<not> lt_ms (Some at) (recoveryMillis t))
       (RecoveryError ''RECOVERY_LEASE_BUSY'' 409)) (\<lambda>_.
     bindE (ensure (valid_worker (cl_workerId input)) (RecoveryError ''RECOVERY_WORKER_INVALID'' 409)) (\<lambda>_.
     bindE (cleanup_claimed e (cl_workerId input) at state operation) (\<lambda>nxt.
     Inr ((nxt, filter (\<lambda>row. at_backupId row = op_id nxt) (rc_attempts state)), recoverySet state nxt None))))))))"

definition lease_cleared :: "ms \<Rightarrow> 'a rec_base_scheme \<Rightarrow> 'a rec_base_scheme" where
  "lease_cleared at b = b\<lparr>rb_cleanupToken := None, rb_cleanupWorker := None, rb_cleanupLeaseUntil := None,
     rb_updatedAt := toISOString at\<rparr>"

primrec cleanup_finished :: "ms \<Rightarrow> rec_state \<Rightarrow> operation \<Rightarrow> (recovery_error, operation \<times> rec_state) result" where
  "cleanup_finished at state (OpBackup b) =
     bindE (ensure (\<not> restore_pinned state (rb_id b)) (RecoveryError ''RECOVERY_RESTORE_PINNED'' 409)) (\<lambda>_.
     bindE (recoveryTransition backup_next (bk_status b) B_DELETED) (\<lambda>_.
     let nxt = OpBackup (lease_cleared at (b\<lparr>bk_status := B_DELETED\<rparr>));
         state1 = state\<lparr>rc_attempts := map (\<lambda>row. if at_backupId row = rb_id b
           then row\<lparr>at_state := CLEANED, at_cleanupPending := False, at_updatedAt := toISOString at\<rparr> else row) (rc_attempts state)\<rparr>;
         state2 = recoverySet state1 nxt None
     in Inr (nxt, state2\<lparr>rc_pins := filter (\<lambda>row. pn_backupId row \<noteq> rb_id b) (rc_pins state2)\<rparr>)))"
| "cleanup_finished at state (OpRestore r) =
     bindE (ensure (rs_status r \<in> set [R_FAILED, R_CANCELLED]) (RecoveryError ''RECOVERY_CLEANUP_INELIGIBLE'' 409)) (\<lambda>_.
     let nxt = OpRestore (lease_cleared at (r\<lparr>rs_targetCleanedAt := Some (toISOString at)\<rparr>)) in
     Inr (nxt, drop_restore_pins (rb_id r)
       (on_resource (rs_targetResourceId r)
         (\<lambda>row. row\<lparr>rr_status := ''DELETED'', rr_deletionRequestedAt := Some (toISOString at)\<rparr>) (recoverySet state nxt None))))"

definition finishRecoveryCleanup :: "rec_env \<Rightarrow> rec_cleanup_fence \<Rightarrow> operation work" where
  "finishRecoveryCleanup e input state =
     bindE (recoveryOperation state input) (\<lambda>operation.
     bindE (recoveryNow e (cl_now input)) (\<lambda>at.
     bindE (ensure (rb_cleanupToken (op_base operation) = Some (cf_token input) \<and>
         rb_cleanupWorker (op_base operation) = Some (cl_workerId input) \<and>
         (case rb_cleanupLeaseUntil (op_base operation) of None \<Rightarrow> False | Some t \<Rightarrow> \<not> le_ms (recoveryMillis t) (Some at)))
       (RecoveryError ''RECOVERY_LEASE_LOST'' 409)) (\<lambda>_.
     bindE (recoveryJob state (op_id operation)) (\<lambda>job.
     bindE (ensure (job_settled job) (RecoveryError ''RECOVERY_PUBLICATION_UNFENCED'' 409)) (\<lambda>_.
     cleanup_finished at state operation)))))"

end
