(* ===== verification/Recovery_Repository.thy ===== *)
theory Recovery_Repository
  imports Recovery_Worker
begin

text \<open>
  Resource recovery, the repository of the API and of the workers (\<open>resource-recovery.ts\<close>) and its
  in-memory transaction (\<open>resource-recovery-memory.ts\<close>). Each method of the repository is the work
  that it hands to the transaction; the quota policy given to the constructor is a parameter.
\<close>

section \<open>Views\<close>

record backup_view =
  bv_id :: string
  bv_organizationId :: string
  bv_projectId :: string
  bv_engine :: string
  bv_status :: backup_status
  bv_createdAt :: time_text
  bv_readyAt :: "time_text option"
  bv_errorCode :: "string option"
  bv_resourceId :: string
  bv_size :: "string option"
  bv_expiresAt :: "time_text option"
  bv_recoverable :: bool

record restore_view =
  rv_id :: string
  rv_organizationId :: string
  rv_projectId :: string
  rv_engine :: string
  rv_status :: restore_status
  rv_createdAt :: time_text
  rv_readyAt :: "time_text option"
  rv_errorCode :: "string option"
  rv_backupId :: string
  rv_sourceResourceId :: string
  rv_targetResourceId :: string

definition publicRecoveryError :: "string option \<Rightarrow> string option" where
  "publicRecoveryError code =
     (case code of Some c \<Rightarrow> if c \<in> set [''RECOVERY_EXECUTION_FAILED'', ''SOURCE_CHANGED'', ''DEADLINE_EXCEEDED''] then Some c else None
      | None \<Rightarrow> None)"

definition publicBackup :: "rec_env \<Rightarrow> backup \<Rightarrow> time_text option \<Rightarrow> (recovery_error, backup_view) result" where
  "publicBackup e operation nowText =
     bindE (recoveryNow e nowText) (\<lambda>current.
     Inr \<lparr>bv_id = rb_id operation, bv_organizationId = rb_organizationId operation, bv_projectId = rb_projectId operation,
        bv_engine = rb_engine operation, bv_status = bk_status operation, bv_createdAt = rb_createdAt operation,
        bv_readyAt = rb_readyAt operation, bv_errorCode = publicRecoveryError (rb_errorCode operation),
        bv_resourceId = bk_resourceId operation, bv_size = bk_artifactSize operation, bv_expiresAt = bk_expiresAt operation,
        bv_recoverable = (bk_status operation = B_READY \<and>
          (case bk_expiresAt operation of None \<Rightarrow> False | Some t \<Rightarrow> lt_ms (Some current) (recoveryMillis t)))\<rparr>)"

definition publicRestore :: "restore \<Rightarrow> restore_view" where
  "publicRestore operation =
     \<lparr>rv_id = rb_id operation, rv_organizationId = rb_organizationId operation, rv_projectId = rb_projectId operation,
      rv_engine = rb_engine operation, rv_status = rs_status operation, rv_createdAt = rb_createdAt operation,
      rv_readyAt = rb_readyAt operation, rv_errorCode = publicRecoveryError (rb_errorCode operation),
      rv_backupId = rs_backupId operation, rv_sourceResourceId = rs_sourceResourceId operation,
      rv_targetResourceId = rs_targetResourceId operation\<rparr>"

definition publicRecovery :: "rec_env \<Rightarrow> operation \<Rightarrow> time_text option \<Rightarrow> (recovery_error, backup_view + restore_view) result" where
  "publicRecovery e operation nowText =
     (case operation of OpBackup b \<Rightarrow> bindE (publicBackup e b nowText) (\<lambda>v. Inr (Inl v)) | OpRestore r \<Rightarrow> Inr (Inr (publicRestore r)))"

section \<open>Methods of the repository\<close>

type_synonym quota_policy = "rec_state \<Rightarrow> rec_request \<Rightarrow> recovery_kind \<Rightarrow> (recovery_error, unit) result"

definition repository_create :: "quota_policy \<Rightarrow> rec_env \<Rightarrow> rec_request \<Rightarrow> recovery_kind \<Rightarrow> rec_result work" where
  "repository_create enforceQuota e request kind state =
     bindE (createRecovery e request kind state) (\<lambda>(result, state').
     bindE (if re_replay result then Inr () else enforceQuota state request kind) (\<lambda>_.
     Inr (result, state')))"

definition createBackup :: "quota_policy \<Rightarrow> rec_env \<Rightarrow> rec_request \<Rightarrow> rec_result work" where
  "createBackup enforceQuota e request = repository_create enforceQuota e request KBackup"

definition createRestore :: "quota_policy \<Rightarrow> rec_env \<Rightarrow> rec_request \<Rightarrow> rec_result work" where
  "createRestore enforceQuota e request = repository_create enforceQuota e request KRestore"

text \<open>A legacy backup is reported as failed and unverified, with its id and resource.\<close>

datatype backup_answer = BackupFound backup_view | LegacyBackup string string

definition owned_resource :: "rec_state \<Rightarrow> string \<Rightarrow> rec_resource \<Rightarrow> bool" where
  "owned_resource state organizationId resource \<longleftrightarrow>
     list_ex (\<lambda>project. rp_id project = rr_projectId resource \<and> rp_organizationId project = organizationId) (rc_projects state)"

definition getBackup :: "rec_env \<Rightarrow> rec_scope \<Rightarrow> string \<Rightarrow> backup_answer work" where
  "getBackup e scope backupId state =
     (case find (\<lambda>row. rb_id row = backupId \<and> rb_organizationId row = sc_organizationId scope) (rc_backups state) of
        Some backup \<Rightarrow>
          bindE (recoveryAuthorized state scope ''backup:manage'') (\<lambda>_.
          bindE (publicBackup e backup None) (\<lambda>view. Inr (BackupFound view, state)))
      | None \<Rightarrow>
          (case find (\<lambda>(legacyId, resourceId). legacyId = backupId \<and>
              list_ex (\<lambda>resource. rr_id resource = resourceId \<and> owned_resource state (sc_organizationId scope) resource)
                (rc_resources state)) (rc_legacyBackups state) of
             Some (legacyId, resourceId) \<Rightarrow>
               bindE (recoveryAuthorized state scope ''backup:manage'') (\<lambda>_. Inr (LegacyBackup legacyId resourceId, state))
           | None \<Rightarrow> Inl (RecoveryError ''RECOVERY_NOT_FOUND'' 404)))"

definition requireResourceOwner :: "rec_state \<Rightarrow> string \<Rightarrow> string \<Rightarrow> (recovery_error, unit) result" where
  "requireResourceOwner state resourceId organizationId =
     (case find (\<lambda>row. rr_id row = resourceId) (rc_resources state) of
        None \<Rightarrow> Inl (RecoveryError ''RECOVERY_NOT_FOUND'' 404)
      | Some resource \<Rightarrow> ensure (owned_resource state organizationId resource) (RecoveryError ''RECOVERY_NOT_FOUND'' 404))"

definition encodeBackupCursor :: "rec_env \<Rightarrow> backup \<Rightarrow> string" where
  "encodeBackupCursor e row =
     base64url_json e (JObj [(''v'', JInt 1), (''at'', JStr (time_string e (rb_createdAt row))), (''id'', JStr (rb_id row))])"

definition decodeBackupCursor :: "rec_env \<Rightarrow> string \<Rightarrow> (recovery_error, string \<times> string) result" where
  "decodeBackupCursor e value =
     bindE (ensure (matches (plus_of segment_char) value) (RecoveryError ''RECOVERY_CURSOR_INVALID'' 400)) (\<lambda>_.
     bindE (from_option (RecoveryError ''RECOVERY_CURSOR_INVALID'' 400) (json_of_base64url e value)) (\<lambda>decoded.
     bindE (recoveryRecord decoded) (\<lambda>cursor.
     case (js_get cursor ''at'', js_get cursor ''id'') of
       (JStr at, JStr cid) \<Rightarrow>
         bindE (ensure (length (js_keys cursor) = 3 \<and> js_get cursor ''v'' = JInt 1 \<and> date_of e at \<noteq> None \<and> cid \<noteq> [])
           (RecoveryError ''RECOVERY_CURSOR_INVALID'' 400)) (\<lambda>_. Inr (at, cid))
     | _ \<Rightarrow> Inl (RecoveryError ''RECOVERY_CURSOR_INVALID'' 400))))"

definition before_cursor :: "rec_env \<Rightarrow> (string \<times> string) option \<Rightarrow> backup \<Rightarrow> bool" where
  "before_cursor e cursor row =
     (case cursor of None \<Rightarrow> True
      | Some (at, cid) \<Rightarrow> time_string e (rb_createdAt row) < at \<or> (time_string e (rb_createdAt row) = at \<and> rb_id row < cid))"

text \<open>
  The comparison of the sort: newest first by \<open>localeCompare\<close>, then by id. Strings that collate
  equal compare as 0, so the second key decides. \<open>Array.prototype.sort\<close> is stable, as insertion
  into a sorted list after the rows it does not precede is.
\<close>

definition precedes :: "rec_env \<Rightarrow> backup \<Rightarrow> backup \<Rightarrow> bool" where
  "precedes e left right =
     (let a = time_string e (rb_createdAt right); b = time_string e (rb_createdAt left) in
      if locale_le e a b \<and> locale_le e b a
      then locale_le e (rb_id right) (rb_id left) \<and> \<not> locale_le e (rb_id left) (rb_id right)
      else locale_le e a b)"

fun insert_row :: "rec_env \<Rightarrow> backup \<Rightarrow> backup list \<Rightarrow> backup list" where
  "insert_row e x [] = [x]"
| "insert_row e x (y # ys) = (if precedes e y x then y # insert_row e x ys else x # y # ys)"

definition sort_rows :: "rec_env \<Rightarrow> backup list \<Rightarrow> backup list" where
  "sort_rows e rows = foldr (insert_row e) rows []"

definition listBackups ::
  "rec_env \<Rightarrow> rec_scope \<Rightarrow> string \<Rightarrow> int option \<Rightarrow> string option \<Rightarrow> time_text option \<Rightarrow> (backup_view list \<times> string option) work" where
  "listBackups e scope resourceId limitOption cursorText nowText state =
     bindE (requireResourceOwner state resourceId (sc_organizationId scope)) (\<lambda>_.
     bindE (recoveryAuthorized state scope ''backup:manage'') (\<lambda>_.
     let limit = (case limitOption of None \<Rightarrow> 200 | Some n \<Rightarrow> n) in
     bindE (ensure (1 \<le> limit \<and> limit \<le> 1000) (RecoveryError ''RECOVERY_LIMIT_INVALID'' 400)) (\<lambda>_.
     bindE (if truthy cursorText then bindE (decodeBackupCursor e (the cursorText)) (\<lambda>c. Inr (Some c)) else Inr None) (\<lambda>cursor.
     let rows = take (nat limit + 1) (sort_rows e (filter (before_cursor e cursor)
           (filter (\<lambda>row. rb_formatVersion row = 1 \<and> bk_resourceId row = resourceId \<and>
              rb_organizationId row = sc_organizationId scope) (rc_backups state))));
         page = take (nat limit) rows in
     bindE (mapE (\<lambda>row. publicBackup e row nowText) page) (\<lambda>views.
     Inr ((views, if length rows > nat limit \<and> page \<noteq> [] then Some (encodeBackupCursor e (last page)) else None), state))))))"

definition getRestore :: "rec_scope \<Rightarrow> string \<Rightarrow> restore_view work" where
  "getRestore scope restoreId state =
     bindE (from_option (RecoveryError ''RECOVERY_NOT_FOUND'' 404)
       (find (\<lambda>row. rb_id row = restoreId \<and> rb_organizationId row = sc_organizationId scope) (rc_restores state))) (\<lambda>restore.
     bindE (recoveryAuthorized state scope ''backup:restore'') (\<lambda>_.
     Inr (publicRestore restore, state)))"

definition requireDeleteConfirmation :: "js \<Rightarrow> (recovery_error, unit) result" where
  "requireDeleteConfirmation input =
     bindE (from_option (RecoveryError ''RECOVERY_INPUT_INVALID'' 400) (as_object input)) (\<lambda>body.
     bindE (ensure (js_keys body \<noteq> []) (RecoveryError ''RECOVERY_CONFIRMATION_REQUIRED'' 400)) (\<lambda>_.
     bindE (ensure (js_keys body = [''confirmed'']) (RecoveryError ''RECOVERY_INPUT_INVALID'' 400)) (\<lambda>_.
     bindE (ensure (js_get body ''confirmed'' \<noteq> JBool False) (RecoveryError ''RECOVERY_CONFIRMATION_REQUIRED'' 400)) (\<lambda>_.
     ensure (js_get body ''confirmed'' = JBool True) (RecoveryError ''RECOVERY_INPUT_INVALID'' 400)))))"

definition requestBackupDeletion :: "rec_env \<Rightarrow> rec_scope \<Rightarrow> string \<Rightarrow> js \<Rightarrow> time_text option \<Rightarrow> backup_view work" where
  "requestBackupDeletion e scope backupId input nowText state =
     bindE (requireDeleteConfirmation input) (\<lambda>_.
     bindE (from_option (RecoveryError ''RECOVERY_NOT_FOUND'' 404)
       (find (\<lambda>row. rb_id row = backupId \<and> rb_organizationId row = sc_organizationId scope) (rc_backups state))) (\<lambda>backup.
     bindE (recoveryAuthorized state scope ''backup:manage'') (\<lambda>_.
     if bk_status backup \<in> set [B_DELETING, B_DELETED]
     then bindE (publicBackup e backup nowText) (\<lambda>view. Inr (view, state))
     else
       bindE (ensure (bk_status backup \<in> set [B_READY, B_FAILED, B_EXPIRED]) (RecoveryError ''RECOVERY_CLEANUP_INELIGIBLE'' 409)) (\<lambda>_.
       bindE (ensure (\<not> restore_pinned state (rb_id backup)) (RecoveryError ''RECOVERY_RESTORE_PINNED'' 409)) (\<lambda>_.
       bindE (recoveryTransition backup_next (bk_status backup) B_DELETING) (\<lambda>_.
       bindE (recoveryNow e nowText) (\<lambda>at.
       let nxt = backup\<lparr>bk_status := B_DELETING, rb_updatedAt := toISOString at\<rparr> in
       bindE (publicBackup e nxt (Some (toISOString at))) (\<lambda>view.
       Inr (view, recovery_audit (sc_actorUserId scope) ''resource.backup:delete-requested'' ''resource-backup'' (rb_id nxt)
         (rb_engine nxt) ''DELETING'' at (recoverySet state (OpBackup nxt) None)))))))))) "

section \<open>The in-memory transaction\<close>

text \<open>
  The part of the control-plane store that the transaction reads and writes. The work may wait, so
  the store can change between the snapshot and the commit: \<open>memory_run\<close> takes the store at both
  moments. The revision compares the four tables the snapshot was taken from.
\<close>

record plane =
  pl_organizations :: "string list"
  pl_projects :: "rec_project list"
  pl_resources :: "(string \<times> rec_resource) list"
  pl_members :: "rec_member list"
  pl_workflowJobs :: "rec_job list"
  pl_auditLogs :: "rec_audit list"

definition emptyRecoveryState :: rec_state where
  "emptyRecoveryState = \<lparr>rc_organizations = [], rc_projects = [], rc_resources = [], rc_members = [], rc_backups = [],
     rc_restores = [], rc_pins = [], rc_attempts = [], rc_jobs = [], rc_auditEvents = [], rc_legacyBackups = []\<rparr>"

definition recoveryStoreRevision :: "plane \<Rightarrow> string list \<times> rec_project list \<times> rec_resource list \<times> rec_member list" where
  "recoveryStoreRevision store = (pl_organizations store, pl_projects store, map snd (pl_resources store), pl_members store)"

definition snapshot :: "plane \<Rightarrow> rec_state \<Rightarrow> rec_state" where
  "snapshot store state = state\<lparr>rc_organizations := pl_organizations store, rc_projects := pl_projects store,
     rc_resources := map snd (pl_resources store), rc_members := pl_members store\<rparr>"

definition publish :: "rec_state \<Rightarrow> rec_state \<Rightarrow> plane \<Rightarrow> plane" where
  "publish before candidate store =
     (let beforeIds = map rr_id (rc_resources before); recoveryIds = map jb_id (rc_jobs candidate) in
      store\<lparr>pl_resources := fold (\<lambda>resource m. if rr_id resource \<notin> set beforeIds \<or> rr_id resource \<in> set (map fst m)
              then map_put (rr_id resource) resource m else m) (rc_resources candidate) (pl_resources store),
        pl_workflowJobs := filter (\<lambda>job. jb_id job \<notin> set recoveryIds) (pl_workflowJobs store) @ rc_jobs candidate,
        pl_auditLogs := pl_auditLogs store @ drop (length (rc_auditEvents before)) (rc_auditEvents candidate)\<rparr>)"

definition memory_run ::
  "'a work \<Rightarrow> plane \<Rightarrow> plane \<Rightarrow> rec_state \<Rightarrow> (recovery_error, 'a) result \<times> rec_state \<times> plane" where
  "memory_run work store0 store1 state =
     (let candidate = snapshot store0 state in
      case work candidate of
        Inl err \<Rightarrow> (Inl err, state, store1)
      | Inr (result, candidate') \<Rightarrow>
          if recoveryStoreRevision store1 \<noteq> recoveryStoreRevision store0
          then (Inl (RecoveryError ''RECOVERY_TRANSACTION_CONFLICT'' 409), state, store1)
          else (Inr result, candidate', publish candidate candidate' store1))"

definition assertRecoveryPins :: "rec_state \<Rightarrow> string list \<Rightarrow> (recovery_error, unit) result" where
  "assertRecoveryPins state resourceIds =
     bindE (ensure (\<not> list_ex (\<lambda>pin. pn_resourceId pin \<in> set resourceIds) (rc_pins state)) (RecoveryError ''RESOURCE_RECOVERY_PINNED'' 409)) (\<lambda>_.
     ensure (\<not> list_ex (\<lambda>backup. bk_resourceId backup \<in> set resourceIds \<and>
         (bk_status backup \<noteq> B_DELETED \<or>
          list_ex (\<lambda>row. at_backupId row = rb_id backup \<and> (at_cleanupPending row \<or> at_state row \<noteq> CLEANED)) (rc_attempts state) \<or>
          list_ex (\<lambda>row. rs_backupId row = rb_id backup \<and> \<not> (rs_status row = R_READY \<or>
            (rs_status row \<in> set [R_FAILED, R_CANCELLED] \<and> rs_targetCleanedAt row \<noteq> None))) (rc_restores state)))
         (rc_backups state)) (RecoveryError ''RECOVERY_CLEANUP_PENDING'' 409))"

definition retireMemoryRecovery :: "rec_state \<Rightarrow> string \<Rightarrow> rec_state" where
  "retireMemoryRecovery state resourceId =
     (let retiring = map rb_id (filter (\<lambda>row. bk_resourceId row = resourceId) (rc_backups state)) in
      state\<lparr>rc_backups := filter (\<lambda>row. rb_id row \<notin> set retiring) (rc_backups state),
        rc_restores := filter (\<lambda>row. rs_backupId row \<notin> set retiring) (rc_restores state),
        rc_attempts := filter (\<lambda>row. at_backupId row \<notin> set retiring) (rc_attempts state),
        rc_legacyBackups := filter (\<lambda>(_, legacyResource). legacyResource \<noteq> resourceId) (rc_legacyBackups state)\<rparr>)"

definition assertRecoveryTargetPublished :: "rec_state \<Rightarrow> string \<Rightarrow> (recovery_error, unit) result" where
  "assertRecoveryTargetPublished state resourceId =
     ensure (\<not> list_ex (\<lambda>pin. pn_resourceId pin = resourceId \<and> pn_kind pin = RESTORE_TARGET) (rc_pins state))
       (RecoveryError ''RECOVERY_TARGET_UNPUBLISHED'' 409)"

end
