(* ===== verification/Recovery_Invariant.thy ===== *)
theory Recovery_Invariant
  imports Recovery_Repository
begin

text \<open>
  Resource recovery, the invariant of its state: keys are unique, every operation has a job whose
  status fits its own, jobs count at most three attempts, a lock is held exactly while a job runs,
  an artifact that is offered is the verified upload of its backup, and a restore that is not
  settled pins its backup. \<open>recovery_step\<close> is one committed call of the repository, a retirement of
  a resource, or a change of the store under the recovery state.
\<close>

section \<open>Steps\<close>

text \<open>Random identifiers and hashes of identifiers do not repeat in the state they are added to.\<close>

definition fresh_operation :: "rec_env \<Rightarrow> recovery_kind \<Rightarrow> rec_state \<Rightarrow> bool" where
  "fresh_operation e kind s \<longleftrightarrow>
     (let i = kind_text kind @ ''_'' @ randomUUID e 0 in
      i \<notin> rb_id ` set (rc_backups s) \<and> i \<notin> rb_id ` set (rc_restores s) \<and> i \<notin> jb_targetId ` set (rc_jobs s) \<and>
      i \<notin> rs_backupId ` set (rc_restores s) \<and> i \<notin> at_backupId ` set (rc_attempts s) \<and>
      i \<notin> pn_backupId ` set (rc_pins s) \<and> Some i \<notin> pn_restoreId ` set (rc_pins s) \<and>
      jb_id (new_job e kind i 0) \<notin> jb_id ` set (rc_jobs s))"

inductive recovery_step :: "rec_state \<Rightarrow> rec_state \<Rightarrow> bool" where
  step_create: "createRecovery e request kind s = Inr (r, t) \<Longrightarrow> re_replay r \<or> fresh_operation e kind s \<Longrightarrow> recovery_step s t"
| step_claim: "claimRecovery e claim s = Inr (r, t) \<Longrightarrow> recovery_step s t"
| step_mutate: "mutateRecovery e fence mutation s = Inr (r, t) \<Longrightarrow> recovery_step s t"
| step_cancel: "cancelRecoveryRestore e cancel s = Inr (r, t) \<Longrightarrow> recovery_step s t"
| step_expire: "expireRecoveryBackup e org oid nowText s = Inr (r, t) \<Longrightarrow> recovery_step s t"
| step_claim_cleanup: "claimRecoveryCleanup e claim s = Inr (r, t) \<Longrightarrow> recovery_step s t"
| step_finish_cleanup: "finishRecoveryCleanup e cfence s = Inr (r, t) \<Longrightarrow> recovery_step s t"
| step_delete: "requestBackupDeletion e scope bid input nowText s = Inr (r, t) \<Longrightarrow> recovery_step s t"
| step_retire: "assertRecoveryPins s [resourceId] = Inr () \<Longrightarrow> recovery_step s (retireMemoryRecovery s resourceId)"
| step_store: "recovery_step s (snapshot store s)"

section \<open>The invariant\<close>

fun backup_job :: "backup_status \<Rightarrow> workflow_status \<Rightarrow> bool" where
  "backup_job B_QUEUED j = (j = W_queued)"
| "backup_job B_RUNNING j = (j = W_queued \<or> j = W_running)"
| "backup_job B_VERIFYING j = (j = W_queued \<or> j = W_running)"
| "backup_job B_READY j = (j = W_succeeded)"
| "backup_job B_EXPIRED j = (j = W_succeeded)"
| "backup_job B_FAILED j = (j = W_failed)"
| "backup_job B_DELETING j = (j = W_succeeded \<or> j = W_failed)"
| "backup_job B_DELETED j = (j = W_succeeded \<or> j = W_failed)"

fun restore_job :: "restore_status \<Rightarrow> workflow_status \<Rightarrow> bool" where
  "restore_job R_QUEUED j = (j = W_queued)"
| "restore_job R_RUNNING j = (j = W_queued \<or> j = W_running)"
| "restore_job R_VERIFYING j = (j = W_queued \<or> j = W_running)"
| "restore_job R_READY j = (j = W_succeeded)"
| "restore_job R_FAILED j = (j = W_failed)"
| "restore_job R_CANCELLED j = (j = W_cancelled)"

definition intact :: "backup_status \<Rightarrow> bool" where
  "intact st \<longleftrightarrow> st = B_READY \<or> st = B_EXPIRED"

definition attempt_key :: "rec_attempt \<Rightarrow> string \<times> int" where
  "attempt_key a = (at_backupId a, at_attempt a)"

definition artifact_of :: "backup \<Rightarrow> rec_attempt \<Rightarrow> bool" where
  "artifact_of b a \<longleftrightarrow> at_backupId a = rb_id b \<and> bk_winningAttempt b = Some (at_attempt a) \<and> at_state a = VERIFIED \<and>
     bk_artifactKey b = Some (at_objectKey a) \<and> bk_artifactChecksum b = at_candidateChecksum a \<and> bk_artifactChecksum b \<noteq> None \<and>
     bk_artifactSize b = at_candidateStoredBytes a \<and> bk_artifactSize b \<noteq> None \<and>
     bk_encryptionKeyVersion b = Some (at_keyVersion a) \<and> bk_expiresAt b \<noteq> None"

definition unsettled :: "restore \<Rightarrow> bool" where
  "unsettled r \<longleftrightarrow> rs_status r \<noteq> R_READY \<and> rs_targetCleanedAt r = None"

definition restore_pin :: "restore \<Rightarrow> rec_pin \<Rightarrow> bool" where
  "restore_pin r p \<longleftrightarrow> pn_kind p = RESTORE_TARGET \<and> pn_restoreId p = Some (rb_id r) \<and> pn_backupId p = rs_backupId r \<and>
     pn_resourceId p = rs_targetResourceId r"

definition keys_ok :: "rec_state \<Rightarrow> bool" where
  "keys_ok s \<longleftrightarrow> distinct (map rb_id (rc_backups s)) \<and> distinct (map rb_id (rc_restores s)) \<and>
     rb_id ` set (rc_backups s) \<inter> rb_id ` set (rc_restores s) = {} \<and>
     distinct (map jb_id (rc_jobs s)) \<and> distinct (map jb_targetId (rc_jobs s)) \<and> distinct (map attempt_key (rc_attempts s))"

definition job_ok :: "rec_job \<Rightarrow> bool" where
  "job_ok j \<longleftrightarrow> 0 \<le> jb_attempts j \<and> jb_attempts j \<le> 3 \<and> (jb_status j = W_running \<longleftrightarrow> jb_lockedBy j \<noteq> None) \<and>
     (jb_status j = W_running \<longleftrightarrow> jb_lockedAt j \<noteq> None) \<and> (jb_status j = W_running \<longrightarrow> 1 \<le> jb_attempts j)"

definition backup_ok :: "rec_state \<Rightarrow> backup \<Rightarrow> bool" where
  "backup_ok s b \<longleftrightarrow> (\<exists>j \<in> set (rc_jobs s). jb_targetId j = rb_id b \<and> backup_job (bk_status b) (jb_status j)) \<and>
     (intact (bk_status b) \<longrightarrow> (\<exists>a \<in> set (rc_attempts s). artifact_of b a))"

definition restore_ok :: "rec_state \<Rightarrow> restore \<Rightarrow> bool" where
  "restore_ok s r \<longleftrightarrow> (\<exists>j \<in> set (rc_jobs s). jb_targetId j = rb_id r \<and> restore_job (rs_status r) (jb_status j)) \<and>
     (unsettled r \<longrightarrow> (\<exists>p \<in> set (rc_pins s). restore_pin r p))"

definition attempt_ok :: "rec_state \<Rightarrow> rec_attempt \<Rightarrow> bool" where
  "attempt_ok s a \<longleftrightarrow> (\<exists>b \<in> set (rc_backups s). rb_id b = at_backupId a \<and>
     recoveryObjectKey (rb_organizationId b) (bk_resourceId b) (rb_id b) (at_attempt a) = Inr (at_objectKey a))"

definition pin_ok :: "rec_state \<Rightarrow> rec_pin \<Rightarrow> bool" where
  "pin_ok s p \<longleftrightarrow> (pn_kind p = ARTIFACT_SOURCE \<longrightarrow> pn_restoreId p = None) \<and>
     (pn_kind p = RESTORE_TARGET \<longrightarrow>
       (\<exists>r \<in> set (rc_restores s). restore_pin r p \<and> unsettled r) \<and>
       (\<exists>b \<in> set (rc_backups s). rb_id b = pn_backupId p \<and> intact (bk_status b)))"

definition rec_inv :: "rec_state \<Rightarrow> bool" where
  "rec_inv s \<longleftrightarrow> keys_ok s \<and> (\<forall>j \<in> set (rc_jobs s). job_ok j) \<and> (\<forall>b \<in> set (rc_backups s). backup_ok s b) \<and>
     (\<forall>r \<in> set (rc_restores s). restore_ok s r) \<and> (\<forall>a \<in> set (rc_attempts s). attempt_ok s a) \<and>
     (\<forall>p \<in> set (rc_pins s). pin_ok s p)"

lemma rec_invD:
  assumes "rec_inv s"
  shows "keys_ok s" "j \<in> set (rc_jobs s) \<Longrightarrow> job_ok j" "b \<in> set (rc_backups s) \<Longrightarrow> backup_ok s b"
    "r \<in> set (rc_restores s) \<Longrightarrow> restore_ok s r" "a \<in> set (rc_attempts s) \<Longrightarrow> attempt_ok s a"
    "p \<in> set (rc_pins s) \<Longrightarrow> pin_ok s p"
  using assms by (auto simp: rec_inv_def)

lemma keys_okD:
  assumes "keys_ok s"
  shows "distinct (map rb_id (rc_backups s))" "distinct (map rb_id (rc_restores s))"
    "distinct (map jb_id (rc_jobs s))" "distinct (map jb_targetId (rc_jobs s))" "distinct (map attempt_key (rc_attempts s))"
    "b \<in> set (rc_backups s) \<Longrightarrow> r \<in> set (rc_restores s) \<Longrightarrow> rb_id b \<noteq> rb_id r"
  using assms by (auto simp: keys_ok_def)

lemma same_job: "keys_ok s \<Longrightarrow> j \<in> set (rc_jobs s) \<Longrightarrow> k \<in> set (rc_jobs s) \<Longrightarrow> jb_targetId j = jb_targetId k \<Longrightarrow> j = k"
  by (metis distinct_key_eq keys_okD(4))

lemma same_job_id: "keys_ok s \<Longrightarrow> j \<in> set (rc_jobs s) \<Longrightarrow> k \<in> set (rc_jobs s) \<Longrightarrow> jb_id j = jb_id k \<Longrightarrow> j = k"
  by (metis distinct_key_eq keys_okD(3))

lemma same_backup: "keys_ok s \<Longrightarrow> b \<in> set (rc_backups s) \<Longrightarrow> c \<in> set (rc_backups s) \<Longrightarrow> rb_id b = rb_id c \<Longrightarrow> b = c"
  by (metis distinct_key_eq keys_okD(1))

lemma same_restore: "keys_ok s \<Longrightarrow> b \<in> set (rc_restores s) \<Longrightarrow> c \<in> set (rc_restores s) \<Longrightarrow> rb_id b = rb_id c \<Longrightarrow> b = c"
  by (metis distinct_key_eq keys_okD(2))

text \<open>The store's tables are no part of the invariant.\<close>

lemma rec_inv_resources [simp]: "rec_inv (s\<lparr>rc_resources := x\<rparr>) = rec_inv s"
  by (simp add: rec_inv_def keys_ok_def backup_ok_def restore_ok_def attempt_ok_def pin_ok_def)

lemma rec_inv_snapshot [simp]: "rec_inv (snapshot store s) = rec_inv s"
  by (simp add: snapshot_def rec_inv_def keys_ok_def backup_ok_def restore_ok_def attempt_ok_def pin_ok_def)

lemma rec_inv_audit [simp]: "rec_inv (recovery_audit a b c d f g h s) = rec_inv s"
  by (simp add: recovery_audit_def rec_inv_def keys_ok_def backup_ok_def restore_ok_def attempt_ok_def pin_ok_def)

section \<open>Changing one operation and its job\<close>

text \<open>\<open>job_moved\<close> relates the job of an operation before and after; \<open>set_backup\<close> and \<open>set_restore\<close>
  store the operation and the job.\<close>

definition set_backup :: "backup \<Rightarrow> rec_job \<Rightarrow> rec_state \<Rightarrow> rec_state" where
  "set_backup b j s = s\<lparr>rc_backups := put_row rb_id b (rc_backups s), rc_jobs := put_row jb_id j (rc_jobs s)\<rparr>"

definition set_restore :: "restore \<Rightarrow> rec_job \<Rightarrow> rec_state \<Rightarrow> rec_state" where
  "set_restore r j s = s\<lparr>rc_restores := put_row rb_id r (rc_restores s), rc_jobs := put_row jb_id j (rc_jobs s)\<rparr>"

lemma put_same: "distinct (map key rows) \<Longrightarrow> r \<in> set rows \<Longrightarrow> put_row key r rows = rows"
  unfolding put_row_def by (rule map_idI) (auto dest: distinct_key_eq)

lemma recoverySet_simps:
  "recoverySet s (OpBackup b) (Some j) = set_backup b j s"
  "recoverySet s (OpRestore r) (Some j) = set_restore r j s"
  by (simp_all add: recoverySet_def set_backup_def set_restore_def)

lemma recoverySet_None:
  assumes "keys_ok s" "j \<in> set (rc_jobs s)"
  shows "recoverySet s (OpBackup b) None = set_backup b j s" "recoverySet s (OpRestore r) None = set_restore r j s"
  using put_same [OF keys_okD(3) [OF assms(1)] assms(2)]
  by (simp_all add: recoverySet_def set_backup_def set_restore_def)

definition same_job_of :: "rec_job \<Rightarrow> rec_job \<Rightarrow> bool" where
  "same_job_of j k \<longleftrightarrow> jb_id k = jb_id j \<and> jb_targetId k = jb_targetId j"

definition same_backup_of :: "backup \<Rightarrow> backup \<Rightarrow> bool" where
  "same_backup_of b c \<longleftrightarrow> rb_id c = rb_id b \<and> rb_organizationId c = rb_organizationId b \<and> bk_resourceId c = bk_resourceId b"

definition same_restore_of :: "restore \<Rightarrow> restore \<Rightarrow> bool" where
  "same_restore_of r c \<longleftrightarrow> rb_id c = rb_id r \<and> rs_backupId c = rs_backupId r \<and>
     rs_targetResourceId c = rs_targetResourceId r"

lemmas same_defs = same_job_of_def same_backup_of_def same_restore_of_def

lemma in_put_job_other:
  assumes "keys_ok s" "j \<in> set (rc_jobs s)" "same_job_of j j'" "jb_targetId k \<noteq> jb_targetId j"
  shows "k \<in> set (put_row jb_id j' (rc_jobs s)) \<longleftrightarrow> k \<in> set (rc_jobs s)"
  using assms same_job_id [OF assms(1), of k j] by (auto simp: in_put_row_iff same_job_of_def)

lemma put_job_other:
  assumes "keys_ok s" "j \<in> set (rc_jobs s)" "same_job_of j j'" "i \<noteq> jb_targetId j"
  shows "(\<exists>k \<in> set (put_row jb_id j' (rc_jobs s)). jb_targetId k = i \<and> P (jb_status k)) \<longleftrightarrow>
         (\<exists>k \<in> set (rc_jobs s). jb_targetId k = i \<and> P (jb_status k))"
  using in_put_job_other [OF assms(1-3)] assms(4) by blast

lemma map_put_target:
  assumes "keys_ok s" "j \<in> set (rc_jobs s)" "same_job_of j j'"
  shows "map jb_targetId (put_row jb_id j' (rc_jobs s)) = map jb_targetId (rc_jobs s)"
  using assms by (intro map_put_row) (metis same_job_id same_job_of_def)

lemma image_put_row: "key ` set (put_row key r rows) = key ` set rows"
  by (metis list.set_map map_key_put_row)

lemma set_backup_inv:
  assumes inv: "rec_inv s" and b: "b \<in> set (rc_backups s)" and j: "j \<in> set (rc_jobs s)" "jb_targetId j = rb_id b"
    and b': "same_backup_of b b'" and j': "same_job_of j j'" "job_ok j'" "backup_job (bk_status b') (jb_status j')"
    and art: "intact (bk_status b') \<Longrightarrow> \<exists>a \<in> set (rc_attempts s). artifact_of b' a"
    and pins: "restore_pinned s (rb_id b) \<Longrightarrow> intact (bk_status b')"
  shows "rec_inv (set_backup b' j' s)"
proof -
  note I = rec_invD [OF inv]
  have ids: "keys_ok (set_backup b' j' s)"
    using I(1) map_put_target [OF I(1) j(1) j'(1)] by (simp add: keys_ok_def set_backup_def image_put_row)
  have backups: "backup_ok (set_backup b' j' s) c" if "c \<in> set (put_row rb_id b' (rc_backups s))" for c
  proof (cases "rb_id c = rb_id b")
    case True
    then have "c = b'" using that b' by (auto simp: in_put_row_iff same_backup_of_def)
    moreover have "j' \<in> set (put_row jb_id j' (rc_jobs s))"
      using j j' by (auto simp: in_put_row_iff same_job_of_def)
    ultimately show ?thesis
      using j j' b' art by (auto simp: backup_ok_def set_backup_def same_defs)
  next
    case False
    then have "c \<in> set (rc_backups s)" using that b' by (auto simp: in_put_row_iff same_backup_of_def)
    then show ?thesis using I(3) put_job_other [OF I(1) j(1) j'(1), of "rb_id c"] False j(2)
      by (auto simp: backup_ok_def set_backup_def)
  qed
  have restores: "restore_ok (set_backup b' j' s) r" if "r \<in> set (rc_restores s)" for r
    using I(4) [OF that] put_job_other [OF I(1) j(1) j'(1), of "rb_id r"] keys_okD(6) [OF I(1) b that] j(2)
    by (auto simp: restore_ok_def set_backup_def)
  have jobs: "job_ok k" if "k \<in> set (put_row jb_id j' (rc_jobs s))" for k
    using that I(2) j'(2) by (auto simp: in_put_row_iff)
  have in_put: "b' \<in> set (put_row rb_id b' (rc_backups s))"
    using b b' by (auto simp: in_put_row_iff same_backup_of_def)
  have attempts: "attempt_ok (set_backup b' j' s) a" if a: "a \<in> set (rc_attempts s)" for a
  proof -
    obtain c where c: "c \<in> set (rc_backups s)" "rb_id c = at_backupId a"
      "recoveryObjectKey (rb_organizationId c) (bk_resourceId c) (rb_id c) (at_attempt a) = Inr (at_objectKey a)"
      using I(5) [OF a] by (auto simp: attempt_ok_def)
    show ?thesis
    proof (cases "rb_id c = rb_id b")
      case True
      then have "c = b" using same_backup [OF I(1)] b c by blast
      then show ?thesis using c b' in_put by (auto simp: attempt_ok_def set_backup_def same_backup_of_def intro!: bexI [of _ b'])
    next
      case False
      then show ?thesis using c b' by (auto simp: attempt_ok_def set_backup_def in_put_row_iff same_backup_of_def intro!: bexI [of _ c])
    qed
  qed
  have pins': "pin_ok (set_backup b' j' s) p" if p: "p \<in> set (rc_pins s)" for p
  proof (cases "pn_kind p = RESTORE_TARGET \<and> pn_backupId p = rb_id b")
    case True
    then have "restore_pinned s (rb_id b)" using p by (auto simp: restore_pinned_def list_ex_iff)
    then show ?thesis using I(6) [OF p] True in_put pins b'
      by (auto simp: pin_ok_def set_backup_def same_backup_of_def intro!: bexI [of _ b'])
  next
    case False
    then show ?thesis using I(6) [OF p] b' by (auto simp: pin_ok_def set_backup_def in_put_row_iff same_backup_of_def)
  qed
  show ?thesis unfolding rec_inv_def
    using ids backups restores jobs attempts pins' by (auto simp: set_backup_def)
qed

lemma pins_of_restore:
  assumes inv: "rec_inv s" and r: "r \<in> set (rc_restores s)" and p: "p \<in> set (rc_pins s)" "pn_restoreId p = Some (rb_id r)"
  shows "restore_pin r p \<and> unsettled r"
proof -
  have ok: "pin_ok s p" by (rule rec_invD(6) [OF inv p(1)])
  then have "pn_kind p \<noteq> ARTIFACT_SOURCE" using p(2) by (simp add: pin_ok_def)
  then have "pn_kind p = RESTORE_TARGET" by (cases "pn_kind p") simp_all
  with ok obtain q where q: "q \<in> set (rc_restores s)" "restore_pin q p" "unsettled q"
    unfolding pin_ok_def by blast
  have "rb_id q = rb_id r" using q(2) p(2) by (simp add: restore_pin_def)
  then have "q = r" by (rule same_restore [OF rec_invD(1) [OF inv] q(1) r])
  with q show ?thesis by simp
qed

lemma settled_no_pins:
  assumes "rec_inv s" "r \<in> set (rc_restores s)" "\<not> unsettled r"
  shows "filter (\<lambda>p. pn_restoreId p \<noteq> Some (rb_id r)) (rc_pins s) = rc_pins s"
  using pins_of_restore [OF assms(1,2)] assms(3) by (intro filter_True) blast

definition pins_after :: "restore \<Rightarrow> rec_pin list \<Rightarrow> rec_pin list" where
  "pins_after r ps = (if unsettled r then ps else filter (\<lambda>p. pn_restoreId p \<noteq> Some (rb_id r)) ps)"

lemma in_pins_after: "p \<in> set (pins_after r ps) \<longleftrightarrow> p \<in> set ps \<and> (unsettled r \<or> pn_restoreId p \<noteq> Some (rb_id r))"
  by (auto simp: pins_after_def)

lemma set_restore_inv:
  assumes inv: "rec_inv s" and r: "r \<in> set (rc_restores s)" and j: "j \<in> set (rc_jobs s)" "jb_targetId j = rb_id r"
    and r': "same_restore_of r r'" "unsettled r' \<Longrightarrow> unsettled r"
    and j': "same_job_of j j'" "job_ok j'" "restore_job (rs_status r') (jb_status j')"
  shows "rec_inv (set_restore r' j' (s\<lparr>rc_pins := pins_after r' (rc_pins s)\<rparr>))" (is "rec_inv ?t")
proof -
  note I = rec_invD [OF inv]
  have ids: "keys_ok ?t"
    using I(1) map_put_target [OF I(1) j(1) j'(1)] by (simp add: keys_ok_def set_restore_def image_put_row)
  have restores: "restore_ok ?t c" if c: "c \<in> set (put_row rb_id r' (rc_restores s))" for c
  proof (cases "rb_id c = rb_id r")
    case True
    then have "c = r'" using c r' by (auto simp: in_put_row_iff same_restore_of_def)
    moreover have "j' \<in> set (put_row jb_id j' (rc_jobs s))"
      using j j' by (auto simp: in_put_row_iff same_job_of_def)
    moreover have "\<exists>p \<in> set (pins_after r' (rc_pins s)). restore_pin r p" if "unsettled r'"
      using I(4) [OF r] r'(2) [OF that] that by (simp add: restore_ok_def pins_after_def)
    ultimately show ?thesis
      using j j' r'(1) by (auto simp: restore_ok_def set_restore_def same_defs restore_pin_def)
  next
    case False
    then have in_s: "c \<in> set (rc_restores s)" using c r' by (auto simp: in_put_row_iff same_restore_of_def)
    have "p \<in> set (pins_after r' (rc_pins s))" if "p \<in> set (rc_pins s)" "restore_pin c p" for p
      using that False r'(1) by (simp add: in_pins_after restore_pin_def same_restore_of_def)
    then show ?thesis using I(4) [OF in_s] put_job_other [OF I(1) j(1) j'(1), of "rb_id c"] False j(2)
      unfolding restore_ok_def set_restore_def by simp blast
  qed
  have backups: "backup_ok ?t b" if "b \<in> set (rc_backups s)" for b
    using I(3) [OF that] put_job_other [OF I(1) j(1) j'(1), of "rb_id b"] keys_okD(6) [OF I(1) that r] j(2)
    by (auto simp: backup_ok_def set_restore_def)
  have jobs: "job_ok k" if "k \<in> set (put_row jb_id j' (rc_jobs s))" for k
    using that I(2) j'(2) by (auto simp: in_put_row_iff)
  have attempts: "attempt_ok ?t a" if "a \<in> set (rc_attempts s)" for a
    using I(5) [OF that] by (simp add: attempt_ok_def set_restore_def)
  have pins: "pin_ok ?t p" if p: "p \<in> set (pins_after r' (rc_pins s))" for p
  proof (cases "pn_restoreId p = Some (rb_id r)")
    case True
    have in_s: "p \<in> set (rc_pins s)" and open': "unsettled r'"
      using p True r'(1) by (auto simp: in_pins_after same_restore_of_def)
    have "r' \<in> set (put_row rb_id r' (rc_restores s))"
      using r r'(1) by (auto simp: in_put_row_iff same_restore_of_def)
    then show ?thesis using I(6) [OF in_s] pins_of_restore [OF inv r in_s True] open' r'(1)
      by (auto simp: pin_ok_def set_restore_def same_restore_of_def restore_pin_def intro!: bexI [of _ r'])
  next
    case False
    have in_s: "p \<in> set (rc_pins s)" using p by (simp add: in_pins_after)
    have "q \<in> set (put_row rb_id r' (rc_restores s))" if "q \<in> set (rc_restores s)" "restore_pin q p" for q
      using that False r'(1) by (auto simp: in_put_row_iff restore_pin_def same_restore_of_def)
    then show ?thesis using I(6) [OF in_s]
      unfolding pin_ok_def set_restore_def by simp blast
  qed
  show ?thesis unfolding rec_inv_def
    using ids backups restores jobs attempts pins by (simp add: set_restore_def)
qed

lemma set_restore_inv_open:
  assumes "rec_inv s" "r \<in> set (rc_restores s)" "j \<in> set (rc_jobs s)" "jb_targetId j = rb_id r"
    "same_restore_of r r'" "unsettled r' \<longleftrightarrow> unsettled r" "same_job_of j j'" "job_ok j'" "restore_job (rs_status r') (jb_status j')"
  shows "rec_inv (set_restore r' j' s)"
proof -
  have "pins_after r' (rc_pins s) = rc_pins s"
    using settled_no_pins [OF assms(1,2)] assms(5,6) by (auto simp: pins_after_def same_restore_of_def)
  then show ?thesis using set_restore_inv [of s r j r' j'] assms by simp
qed

section \<open>Changing upload attempts\<close>

lemma set_attempt_fields [simp]:
  "rc_backups (set_attempt i n f s) = rc_backups s" "rc_restores (set_attempt i n f s) = rc_restores s"
  "rc_jobs (set_attempt i n f s) = rc_jobs s" "rc_pins (set_attempt i n f s) = rc_pins s"
  by (simp_all add: set_attempt_def)

definition same_attempt_fun :: "(rec_attempt \<Rightarrow> rec_attempt) \<Rightarrow> bool" where
  "same_attempt_fun f \<longleftrightarrow> (\<forall>a. at_backupId (f a) = at_backupId a \<and> at_attempt (f a) = at_attempt a \<and> at_objectKey (f a) = at_objectKey a)"

lemma in_set_attempt:
  assumes "a \<in> set (rc_attempts (set_attempt i n f s))"
  shows "a \<in> set (rc_attempts s) \<or> (\<exists>c \<in> set (rc_attempts s). is_attempt i n c \<and> a = f c)"
  using in_update_first [of a "is_attempt i n" f "rc_attempts s"] assms
  by (auto simp: set_attempt_def dest: find_SomeD)

lemma in_set_attempt_other:
  "a \<in> set (rc_attempts s) \<Longrightarrow> at_backupId a \<noteq> i \<Longrightarrow> a \<in> set (rc_attempts (set_attempt i n f s))"
proof -
  assume "a \<in> set (rc_attempts s)" "at_backupId a \<noteq> i"
  moreover have "a \<in> set rows \<Longrightarrow> at_backupId a \<noteq> i \<Longrightarrow> a \<in> set (update_first (is_attempt i n) f rows)" for rows
    by (induction rows) (auto simp: is_attempt_def)
  ultimately show ?thesis by (simp add: set_attempt_def)
qed

lemma set_attempt_inv:
  assumes inv: "rec_inv s" and f: "same_attempt_fun f"
    and busy: "\<And>b. b \<in> set (rc_backups s) \<Longrightarrow> rb_id b = i \<Longrightarrow> \<not> intact (bk_status b)"
  shows "rec_inv (set_attempt i n f s)"
proof -
  note I = rec_invD [OF inv]
  have ids: "keys_ok (set_attempt i n f s)"
    using I(1) f by (simp add: keys_ok_def set_attempt_def map_update_first attempt_key_def same_attempt_fun_def)
  have backups: "backup_ok (set_attempt i n f s) b" if b: "b \<in> set (rc_backups s)" for b
  proof (cases "intact (bk_status b)")
    case True
    then obtain a where a: "a \<in> set (rc_attempts s)" "artifact_of b a" using I(3) [OF b] by (auto simp: backup_ok_def)
    then have "at_backupId a \<noteq> i" using True busy [OF b] by (auto simp: artifact_of_def)
    then show ?thesis using a I(3) [OF b] by (auto simp: backup_ok_def intro: in_set_attempt_other)
  qed (use I(3) [OF b] in \<open>auto simp: backup_ok_def\<close>)
  have attempts: "attempt_ok (set_attempt i n f s) a" if "a \<in> set (rc_attempts (set_attempt i n f s))" for a
    using in_set_attempt [OF that] I(5) f by (auto simp: attempt_ok_def same_attempt_fun_def)
  show ?thesis unfolding rec_inv_def
    using I ids backups attempts by (simp add: restore_ok_def pin_ok_def)
qed

end
