(* ===== verification/Recovery_Safety.thy ===== *)
theory Recovery_Safety
  imports Recovery_Invariant
begin

text \<open>
  Resource recovery, its safety: every step keeps the invariant, moves statuses along the lifecycle
  contract and never lowers an attempt counter. The properties of backups, restores, workers and
  artifacts follow.
\<close>

section \<open>What a call found\<close>

lemma op_base_simps [simp]:
  "op_id (OpBackup b) = rb_id b" "op_id (OpRestore r) = rb_id r"
  "rb_organizationId (op_base (OpBackup b)) = rb_organizationId b" "rb_organizationId (op_base (OpRestore r)) = rb_organizationId r"
  "rb_deadlineAt (op_base (OpBackup b)) = rb_deadlineAt b" "rb_deadlineAt (op_base (OpRestore r)) = rb_deadlineAt r"
  "rb_requestFingerprint (op_base (OpBackup b)) = rb_requestFingerprint b"
  "rb_requestFingerprint (op_base (OpRestore r)) = rb_requestFingerprint r"
  "rb_cleanupLeaseUntil (op_base (OpBackup b)) = rb_cleanupLeaseUntil b"
  "rb_cleanupLeaseUntil (op_base (OpRestore r)) = rb_cleanupLeaseUntil r"
  by (simp_all add: op_id_def rec_base.truncate_def)

definition has_op :: "rec_state \<Rightarrow> operation \<Rightarrow> bool" where
  "has_op s op = (case op of OpBackup b \<Rightarrow> b \<in> set (rc_backups s) | OpRestore r \<Rightarrow> r \<in> set (rc_restores s))"

lemma has_op_simps [simp]:
  "has_op s (OpBackup b) \<longleftrightarrow> b \<in> set (rc_backups s)" "has_op s (OpRestore r) \<longleftrightarrow> r \<in> set (rc_restores s)"
  by (simp_all add: has_op_def)

lemma recoveryBackup_Inr:
  assumes "recoveryBackup s i org = Inr b"
  shows "b \<in> set (rc_backups s)" "rb_id b = i" "rb_organizationId b = org"
  using assms by (auto simp: recoveryBackup_def result_simps dest: find_SomeD)

lemma recoveryJob_Inr:
  assumes "recoveryJob s i = Inr j"
  shows "j \<in> set (rc_jobs s)" "jb_targetId j = i"
  using assms by (auto simp: recoveryJob_def result_simps dest: find_SomeD)

lemma recoveryOperation_Inr:
  assumes "recoveryOperation s input = Inr op"
  shows "has_op s op" "op_id op = cl_operationId input"
  using assms by (auto simp: recoveryOperation_def result_simps split: recovery_kind.splits dest: recoveryBackup_Inr find_SomeD)

lemma recoveryTransition_Inr: "recoveryTransition nxt a b = Inr u \<longleftrightarrow> a \<noteq> b \<and> b \<in> set (nxt a)"
  by (simp add: recoveryTransition_def result_simps)

lemma fenceRecovery_Inr:
  assumes "fenceRecovery e s input = Inr (op, j, at)"
  shows "has_op s op" "op_id op = cl_operationId input" "j \<in> set (rc_jobs s)" "jb_targetId j = op_id op" "jb_status j = W_running"
    "jb_attempts j = fe_attempt input" "op_running op" "jb_lockedBy j = Some (cl_workerId input)"
    "currentRecoverySource e s op = Inr ()"
  using assms by (auto simp: fenceRecovery_def result_simps dest: recoveryOperation_Inr recoveryJob_Inr)

lemma pinned_intact:
  assumes inv: "rec_inv s" and b: "b \<in> set (rc_backups s)" and pinned: "restore_pinned s (rb_id b)"
  shows "intact (bk_status b)"
proof -
  obtain p where p: "p \<in> set (rc_pins s)" "pn_backupId p = rb_id b" "pn_kind p = RESTORE_TARGET"
    using pinned by (auto simp: restore_pinned_def list_ex_iff)
  then obtain c where c: "c \<in> set (rc_backups s)" "rb_id c = rb_id b" "intact (bk_status c)"
    using rec_invD(6) [OF inv p(1)] by (auto simp: pin_ok_def)
  with same_backup [OF rec_invD(1) [OF inv] c(1) b] show ?thesis by simp
qed

lemma job_stopped_simps [simp]:
  "jb_status (job_stopped st at j) = st" "jb_attempts (job_stopped st at j) = jb_attempts j" "same_job_of j (job_stopped st at j)"
  "job_ok j \<Longrightarrow> st \<noteq> W_running \<Longrightarrow> job_ok (job_stopped st at j)"
  by (auto simp: job_stopped_def job_ok_def same_job_of_def)

lemma job_of_backup:
  assumes "rec_inv s" "b \<in> set (rc_backups s)" "j \<in> set (rc_jobs s)" "jb_targetId j = rb_id b"
  shows "backup_job (bk_status b) (jb_status j)"
  using rec_invD(3) [OF assms(1,2)] same_job [OF rec_invD(1) [OF assms(1)] _ assms(3)] assms(4)
  by (auto simp: backup_ok_def)

lemma job_of_restore:
  assumes "rec_inv s" "r \<in> set (rc_restores s)" "j \<in> set (rc_jobs s)" "jb_targetId j = rb_id r"
  shows "restore_job (rs_status r) (jb_status j)"
  using rec_invD(4) [OF assms(1,2)] same_job [OF rec_invD(1) [OF assms(1)] _ assms(3)] assms(4)
  by (auto simp: restore_ok_def)

section \<open>Every call keeps the invariant\<close>

text \<open>An operation that a worker may hold is not intact and not settled.\<close>

lemma busy_set_backup:
  assumes "rec_inv s" "b \<in> set (rc_backups s)" "j \<in> set (rc_jobs s)" "jb_targetId j = rb_id b"
    "\<not> intact (bk_status b)" "same_backup_of b b'" "same_job_of j j'" "job_ok j'" "backup_job (bk_status b') (jb_status j')"
    "\<not> intact (bk_status b')"
  shows "rec_inv (set_backup b' j' s)"
  using assms by (intro set_backup_inv) (auto dest: pinned_intact)

lemma bindE_InrE:
  assumes "bindE m f = Inr y"
  obtains x where "m = Inr x" "f x = Inr y"
  using assms by (auto simp: result_simps)

lemma if_InrE:
  assumes "(if c then m else n) = Inr y"
  obtains "c" "m = Inr y" | "\<not> c" "n = Inr y"
  using assms by (auto split: if_splits)

definition claimed_job :: "string \<Rightarrow> ms \<Rightarrow> rec_job \<Rightarrow> rec_job" where
  "claimed_job w at j = j\<lparr>jb_status := W_running, jb_attempts := jb_attempts j + 1, jb_lockedBy := Some w,
     jb_lockedAt := Some (toISOString at), jb_updatedAt := toISOString at\<rparr>"

lemma claim_cases:
  assumes "claimRecovery e input s = Inr (r, t)"
  obtains (failed) op j at code where "has_op s op" "op_id op = cl_operationId input" "j \<in> set (rc_jobs s)" "jb_targetId j = op_id op"
      "op_claimable op" "jb_status j \<in> {W_queued, W_running}"
      "t = recoverySet s (op_failed code at op) (Some (job_stopped W_failed at j))"
  | (claimed) op j at where "has_op s op" "op_id op = cl_operationId input" "j \<in> set (rc_jobs s)" "jb_targetId j = op_id op"
      "op_claimable op" "jb_status j \<in> {W_queued, W_running}" "jb_attempts j < 3"
      "t = recoverySet s (op_claimed at op) (Some (claimed_job (cl_workerId input) at j))"
  using assms unfolding claimRecovery_def Let_def
  apply (elim bindE_InrE if_InrE)
  subgoal by (rule failed) (auto simp: ensure_Inr_iff dest: recoveryOperation_Inr recoveryJob_Inr)
  subgoal by (rule claimed) (auto simp: ensure_Inr_iff claimed_job_def dest: recoveryOperation_Inr recoveryJob_Inr)
  done

lemma claimed_job_simps [simp]:
  "same_job_of j (claimed_job w at j)" "jb_status (claimed_job w at j) = W_running"
  "jb_attempts (claimed_job w at j) = jb_attempts j + 1"
  "job_ok j \<Longrightarrow> jb_attempts j < 3 \<Longrightarrow> job_ok (claimed_job w at j)"
  by (auto simp: claimed_job_def job_ok_def same_job_of_def)

lemma claim_inv:
  assumes inv: "rec_inv s" and run: "claimRecovery e input s = Inr (r, t)"
  shows "rec_inv t"
  using run
proof (cases rule: claim_cases)
  case (failed op j at code)
  then show ?thesis using inv rec_invD(2) [OF inv failed(3)]
    by (cases op) (auto simp: recoverySet_simps intact_def unsettled_def same_backup_of_def same_restore_of_def
        intro!: busy_set_backup set_restore_inv_open)
next
  case (claimed op j at)
  then show ?thesis using inv rec_invD(2) [OF inv claimed(3)]
    by (cases op) (auto simp: recoverySet_simps claimed_base_def intact_def unsettled_def same_backup_of_def same_restore_of_def
        intro!: busy_set_backup set_restore_inv_open)
qed

subsection \<open>Mutations\<close>

lemma heartbeat_job [simp]:
  "same_job_of j (j\<lparr>jb_lockedAt := Some x, jb_updatedAt := y\<rparr>)"
  "job_ok j \<Longrightarrow> jb_status j = W_running \<Longrightarrow> job_ok (j\<lparr>jb_lockedAt := Some x, jb_updatedAt := y\<rparr>)"
  by (auto simp: same_job_of_def job_ok_def)

lemma same_refl [simp]: "same_job_of j j" "same_backup_of b b" "same_restore_of r r"
  by (simp_all add: same_defs)

lemma busy_set_attempt_inv:
  assumes "rec_inv s" "has_op s op" "op_running op" "same_attempt_fun f"
  shows "rec_inv (set_attempt (op_id op) n f s)"
proof (rule set_attempt_inv [OF assms(1,4)])
  fix b assume b: "b \<in> set (rc_backups s)" "rb_id b = op_id op"
  show "\<not> intact (bk_status b)"
  proof (cases op)
    case (OpBackup c)
    then have "b = c" using same_backup [OF rec_invD(1) [OF assms(1)] b(1)] assms(2) b(2) by simp
    then show ?thesis using OpBackup assms(3) by (auto simp: intact_def)
  next
    case (OpRestore r)
    then show ?thesis using keys_okD(6) [OF rec_invD(1) [OF assms(1)] b(1), of r] assms(2) b(2) by simp
  qed
qed

lemma add_attempt_inv:
  assumes inv: "rec_inv s" and b: "b \<in> set (rc_backups s)" "rb_id b = at_backupId a"
    and key: "recoveryObjectKey (rb_organizationId b) (bk_resourceId b) (rb_id b) (at_attempt a) = Inr (at_objectKey a)"
    and fresh: "find (is_attempt (at_backupId a) (at_attempt a)) (rc_attempts s) = None"
  shows "rec_inv (s\<lparr>rc_attempts := rc_attempts s @ [a]\<rparr>)"
proof -
  note I = rec_invD [OF inv]
  have "keys_ok (s\<lparr>rc_attempts := rc_attempts s @ [a]\<rparr>)"
    using I(1) fresh by (auto simp: keys_ok_def attempt_key_def find_None_iff is_attempt_def)
  moreover have "backup_ok (s\<lparr>rc_attempts := rc_attempts s @ [a]\<rparr>) c" if "c \<in> set (rc_backups s)" for c
    using I(3) [OF that] by (auto simp: backup_ok_def)
  moreover have "attempt_ok (s\<lparr>rc_attempts := rc_attempts s @ [a]\<rparr>) c" if "c \<in> set (rc_attempts s) \<or> c = a" for c
    using that I(5) b key by (auto simp: attempt_ok_def)
  ultimately show ?thesis unfolding rec_inv_def using I by (simp add: restore_ok_def pin_ok_def)
qed

definition kept_rows :: "rec_state \<Rightarrow> rec_state \<Rightarrow> bool" where
  "kept_rows s s' \<longleftrightarrow> rec_inv s' \<and> rc_backups s' = rc_backups s \<and> rc_restores s' = rc_restores s \<and> rc_jobs s' = rc_jobs s \<and>
     rc_pins s' = rc_pins s"

lemma kept_set_attempt:
  assumes "rec_inv s" "has_op s op" "op_running op" "same_attempt_fun f"
  shows "kept_rows s (set_attempt (op_id op) n f s)"
  using busy_set_attempt_inv [OF assms] by (simp add: kept_rows_def)

lemma same_attempt_updates [simp]:
  "same_attempt_fun (\<lambda>row. row\<lparr>at_uploadId := u, at_state := st, at_updatedAt := x\<rparr>)"
  "same_attempt_fun (\<lambda>row. row\<lparr>at_state := st, at_candidateStoredBytes := c1, at_candidatePlaintextBytes := c2,
     at_candidateChecksum := c3, at_updatedAt := x\<rparr>)"
  "same_attempt_fun (\<lambda>row. row\<lparr>at_state := st, at_updatedAt := x\<rparr>)"
  by (simp_all add: same_attempt_fun_def)

lemma mutate_intent_kept:
  assumes inv: "rec_inv s" and op: "has_op s op" and att: "attempt = find (is_attempt (op_id op) (fe_attempt input)) (rc_attempts s)"
    and run: "mutate_intent kv input at op attempt s = Inr s'"
  shows "kept_rows s s'"
proof (cases op)
  case (OpRestore r)
  then show ?thesis using run by (simp add: mutate_intent_def)
next
  case (OpBackup b)
  show ?thesis
  proof (cases attempt)
    case (Some a)
    then have "s' = s" using run OpBackup by (auto simp: mutate_intent_def result_simps)
    then show ?thesis using inv by (simp add: kept_rows_def)
  next
    case None
    obtain key started where key: "recoveryObjectKey (rb_organizationId b) (bk_resourceId b) (rb_id b) (fe_attempt input) = Inr key"
      and s': "s' = s\<lparr>rc_attempts := rc_attempts s @ [\<lparr>at_backupId = rb_id b, at_attempt = fe_attempt input, at_objectKey = key,
        at_uploadId = None, at_keyVersion = kv, at_firstClaimAt = started, at_candidateStoredBytes = None,
        at_candidatePlaintextBytes = None, at_candidateChecksum = None, at_state = INTENT, at_cleanupPending = True,
        at_createdAt = toISOString at, at_updatedAt = toISOString at\<rparr>]\<rparr>"
      using run OpBackup None by (auto simp: mutate_intent_def result_simps)
    show ?thesis unfolding s' kept_rows_def
      using add_attempt_inv [OF inv, of b] OpBackup op key None att by simp
  qed
qed

lemma kept_set_backup:
  assumes "kept_rows s s'" "b \<in> set (rc_backups s)" "j \<in> set (rc_jobs s)" "jb_targetId j = rb_id b"
    "op_running (OpBackup b)" "same_backup_of b b'" "same_job_of j j'" "job_ok j'" "backup_job (bk_status b') (jb_status j')"
    "\<not> intact (bk_status b')"
  shows "rec_inv (set_backup b' j' s')"
  using assms by (intro busy_set_backup) (auto simp: kept_rows_def intact_def)

lemma kept_set_restore:
  assumes "kept_rows s s'" "r \<in> set (rc_restores s)" "j \<in> set (rc_jobs s)" "jb_targetId j = rb_id r"
    "same_restore_of r r'" "unsettled r' \<longleftrightarrow> unsettled r" "same_job_of j j'" "job_ok j'" "restore_job (rs_status r') (jb_status j')"
  shows "rec_inv (set_restore r' j' s')"
  using assms by (intro set_restore_inv_open) (auto simp: kept_rows_def)

lemma ready_backup_inv:
  assumes inv: "rec_inv s" and b: "b \<in> set (rc_backups s)" "op_running (OpBackup b)"
    and j: "j \<in> set (rc_jobs s)" "jb_targetId j = rb_id b"
    and a: "find (is_attempt (rb_id b) n) (rc_attempts s) = Some a" "at_candidateChecksum a = Some (ar_checksum art)"
      "at_candidateStoredBytes a = Some (ar_size art)" "at_keyVersion a = ar_keyVersion art"
  shows "rec_inv (set_backup (ready_backup at n a art b) (job_stopped W_succeeded at j)
    (set_attempt (rb_id b) n (\<lambda>row. row\<lparr>at_state := VERIFIED, at_updatedAt := x\<rparr>) s))" (is "rec_inv (set_backup ?b ?j ?s)")
proof (rule set_backup_inv)
  show "rec_inv ?s" using busy_set_attempt_inv [OF inv, of "OpBackup b"] b by simp
  show "job_ok (job_stopped W_succeeded at j)" using rec_invD(2) [OF inv j(1)] by simp
  have "is_attempt (rb_id b) n a" using a(1) by (auto dest: find_SomeD)
  then have "artifact_of ?b (a\<lparr>at_state := VERIFIED, at_updatedAt := x\<rparr>)"
    using a by (simp add: artifact_of_def ready_backup_def is_attempt_def)
  moreover have "a\<lparr>at_state := VERIFIED, at_updatedAt := x\<rparr> \<in> set (rc_attempts ?s)"
    using update_first_split [OF a(1), of "\<lambda>row. row\<lparr>at_state := VERIFIED, at_updatedAt := x\<rparr>"]
    by (auto simp: set_attempt_def)
  ultimately show "\<exists>a \<in> set (rc_attempts ?s). artifact_of ?b a" by blast
qed (use b j in \<open>auto simp: ready_backup_def same_backup_of_def intact_def\<close>)

lemma attempt_mutation_kept:
  assumes inv: "rec_inv s" "has_op s op" "op_running op" and run: "mutation_effect input m op j at s = Inr (nxt, j', s')"
  shows "m = M_intent kv \<Longrightarrow> kept_rows s s' \<and> nxt = op \<and> j' = j"
    "m = M_candidate a1 a2 a3 \<Longrightarrow> kept_rows s s' \<and> nxt = op \<and> j' = j"
    "m = M_upload u \<Longrightarrow> kept_rows s s' \<and> nxt = op \<and> j' = j"
    "m = M_complete \<Longrightarrow> kept_rows s s' \<and> nxt = op \<and> j' = j"
  using run mutate_intent_kept [OF inv(1,2)] kept_set_attempt [OF inv]
  by (auto simp: mutation_effect_def result_simps Let_def mutate_candidate_def mutate_upload_def mutate_complete_def)

lemma effect_backup_inv:
  assumes inv: "rec_inv s" and b: "b \<in> set (rc_backups s)" "op_running (OpBackup b)"
    and j: "j \<in> set (rc_jobs s)" "jb_targetId j = rb_id b" "jb_status j = W_running"
    and run: "mutation_effect input m (OpBackup b) j at s = Inr (nxt, j', s')"
  shows "rec_inv (recoverySet s' nxt (Some j'))"
proof -
  have jok: "job_ok j" by (rule rec_invD(2) [OF inv j(1)])
  have here: "kept_rows s s" using inv by (simp add: kept_rows_def)
  have fits: "backup_job (bk_status b) W_running" "backup_job (bk_status b) W_queued" "\<not> intact (bk_status b)"
    using b(2) by (auto simp: intact_def)
  note set_b = kept_set_backup [OF _ b(1) j(1,2) b(2)]
  have kept: "rec_inv (recoverySet s' nxt (Some j'))" if "kept_rows s s'" "nxt = OpBackup b" "j' = j"
    using that j jok fits by (simp add: recoverySet_simps set_b)
  show ?thesis
  proof (cases m)
    case M_heartbeat
    then show ?thesis using run here jok fits j by (auto simp: mutation_effect_def recoverySet_simps intro!: set_b)
  next
    case M_verify
    then show ?thesis using run here jok j
      by (auto simp: mutation_effect_def recoverySet_simps result_simps intact_def same_backup_of_def intro!: set_b)
  next
    case (M_ready artifact)
    then show ?thesis using run inv b j
      by (auto simp: mutation_effect_def recoverySet_simps result_simps split: option.splits intro!: ready_backup_inv simp del: op_running.simps)
  next
    case (M_fail code)
    then show ?thesis using run here jok j
      by (auto simp: mutation_effect_def recoverySet_simps result_simps intact_def same_backup_of_def intro!: set_b)
  next
    case M_retry
    then show ?thesis using run here jok fits j
      by (auto simp: mutation_effect_def recoverySet_simps result_simps intro!: set_b)
  qed (use attempt_mutation_kept [OF inv, of "OpBackup b"] run b kept in auto)
qed

lemma effect_restore_inv:
  assumes inv: "rec_inv s" and r: "r \<in> set (rc_restores s)" "op_running (OpRestore r)"
    and j: "j \<in> set (rc_jobs s)" "jb_targetId j = rb_id r" "jb_status j = W_running"
    and run: "mutation_effect input m (OpRestore r) j at s = Inr (nxt, j', s')"
  shows "rec_inv (recoverySet s' nxt (Some j'))"
proof -
  have jok: "job_ok j" by (rule rec_invD(2) [OF inv j(1)])
  have here: "kept_rows s s" using inv by (simp add: kept_rows_def)
  have fits: "restore_job (rs_status r) W_running" "restore_job (rs_status r) W_queued" using r(2) by auto
  note set_r = kept_set_restore [OF _ r(1) j(1,2)]
  have kept: "rec_inv (recoverySet s' nxt (Some j'))" if "kept_rows s s'" "nxt = OpRestore r" "j' = j"
    using that j jok fits by (simp add: recoverySet_simps set_r)
  show ?thesis
  proof (cases m)
    case M_heartbeat
    then show ?thesis using run here jok fits j by (auto simp: mutation_effect_def recoverySet_simps intro!: set_r)
  next
    case M_verify
    then show ?thesis using run here jok j r
      by (auto simp: mutation_effect_def recoverySet_simps result_simps unsettled_def same_restore_of_def intro!: set_r)
  next
    case (M_ready artifact)
    let ?r = "r\<lparr>rs_status := R_READY, rb_readyAt := Some (toISOString at), rb_updatedAt := toISOString at\<rparr>"
    have "recoverySet s' nxt (Some j') = (set_restore ?r (job_stopped W_succeeded at j) (s\<lparr>rc_pins := pins_after ?r (rc_pins s)\<rparr>))
        \<lparr>rc_resources := rc_resources (on_resource (rs_targetResourceId r) publish_target s)\<rparr>"
      using run M_ready by (auto simp: mutation_effect_def recoverySet_simps result_simps set_restore_def drop_restore_pins_def
          on_resource_def pins_after_def unsettled_def)
    moreover have "rec_inv (set_restore ?r (job_stopped W_succeeded at j) (s\<lparr>rc_pins := pins_after ?r (rc_pins s)\<rparr>))"
      using inv r j jok by (intro set_restore_inv) (auto simp: same_restore_of_def unsettled_def)
    ultimately show ?thesis by simp
  next
    case (M_fail code)
    then show ?thesis using run here jok j r
      by (auto simp: mutation_effect_def recoverySet_simps result_simps unsettled_def same_restore_of_def intro!: set_r)
  next
    case M_retry
    then show ?thesis using run here jok fits j
      by (auto simp: mutation_effect_def recoverySet_simps result_simps intro!: set_r)
  qed (use attempt_mutation_kept [OF inv, of "OpRestore r"] run r kept in auto)
qed

lemma mutate_inv:
  assumes inv: "rec_inv s" and run: "mutateRecovery e input m s = Inr (r, t)"
  shows "rec_inv t"
proof -
  obtain op j at nxt j' s' where f: "fenceRecovery e s input = Inr (op, j, at)"
    and m: "mutation_effect input m op j at s = Inr (nxt, j', s')" and t: "t = recoverySet s' nxt (Some j')"
    using run by (auto simp: mutateRecovery_def result_simps)
  note F = fenceRecovery_Inr [OF f]
  show ?thesis unfolding t
    using effect_backup_inv [OF inv] effect_restore_inv [OF inv] F(1,3,4,5,7) m by (cases op) fastforce+
qed

subsection \<open>Cancellation, expiry and deletion\<close>

lemma cancel_inv:
  assumes inv: "rec_inv s" and run: "cancelRecoveryRestore e request s = Inr (r, t)"
  shows "rec_inv t"
proof -
  obtain q at j where q: "q \<in> set (rc_restores s)" "R_CANCELLED \<in> set (restore_next (rs_status q))"
    and j: "j \<in> set (rc_jobs s)" "jb_targetId j = rb_id q"
    and t: "t = set_restore (q\<lparr>rs_status := R_CANCELLED, rb_updatedAt := toISOString at\<rparr>) (job_stopped W_cancelled at j) s"
    using run by (auto simp: cancelRecoveryRestore_def result_simps Let_def recoverySet_simps recoveryTransition_Inr
        dest: find_SomeD recoveryJob_Inr)
  show ?thesis unfolding t using q j rec_invD(2) [OF inv j(1)]
    by (intro set_restore_inv_open [OF inv]) (cases "rs_status q"; auto simp: same_restore_of_def unsettled_def)+
qed

text \<open>A backup that changes its status without its job: expiry, and the two ways into deletion.\<close>

lemma set_backup_status_inv:
  assumes inv: "rec_inv s" and b: "b \<in> set (rc_backups s)" and b': "same_backup_of b b'"
    and move: "(bk_status b, bk_status b') \<in> {(B_READY, B_EXPIRED), (B_READY, B_DELETING), (B_FAILED, B_DELETING),
       (B_EXPIRED, B_DELETING), (B_DELETING, B_DELETING)}"
    and pins: "restore_pinned s (rb_id b) \<Longrightarrow> bk_status b' = B_EXPIRED"
    and art: "bk_status b' = B_EXPIRED \<Longrightarrow> (\<And>a. artifact_of b a \<Longrightarrow> artifact_of b' a)"
  shows "rec_inv (recoverySet s (OpBackup b') None)"
proof -
  obtain j where j: "j \<in> set (rc_jobs s)" "jb_targetId j = rb_id b" "backup_job (bk_status b) (jb_status j)"
    using rec_invD(3) [OF inv b] by (auto simp: backup_ok_def)
  have "\<exists>a \<in> set (rc_attempts s). artifact_of b' a" if "bk_status b' = B_EXPIRED"
    using that move rec_invD(3) [OF inv b] art [OF that] by (auto simp: backup_ok_def intact_def)
  then show ?thesis unfolding recoverySet_None(1) [OF rec_invD(1) [OF inv] j(1)]
    using j b' move pins rec_invD(2) [OF inv j(1)]
    by (intro set_backup_inv [OF inv b j(1,2)]) (auto simp: intact_def)
qed

lemma artifact_of_status [simp]: "artifact_of (b\<lparr>bk_status := st, rb_updatedAt := x\<rparr>) a = artifact_of b a"
  by (simp add: artifact_of_def)

lemma expire_inv:
  assumes inv: "rec_inv s" and run: "expireRecoveryBackup e org i nowText s = Inr (r, t)"
  shows "rec_inv t"
proof -
  obtain b at where b: "b \<in> set (rc_backups s)" "B_EXPIRED \<in> set (backup_next (bk_status b))"
    and t: "t = recoverySet s (OpBackup (b\<lparr>bk_status := B_EXPIRED, rb_updatedAt := toISOString at\<rparr>)) None"
    using run by (auto simp: expireRecoveryBackup_def result_simps Let_def recoveryTransition_Inr dest: recoveryBackup_Inr)
  have ready: "bk_status b = B_READY" using b(2) by (cases "bk_status b") simp_all
  show ?thesis unfolding t using b
    by (intro set_backup_status_inv [OF inv b(1)]) (simp_all add: same_backup_of_def ready)
qed

lemma delete_split:
  assumes "requestBackupDeletion e scope i input nowText s = Inr (r, t)"
  shows "t = s \<or> (\<exists>b at. b \<in> set (rc_backups s) \<and> rb_id b = i \<and> bk_status b \<in> {B_READY, B_FAILED, B_EXPIRED} \<and>
      \<not> restore_pinned s (rb_id b) \<and>
      t = recovery_audit (sc_actorUserId scope) ''resource.backup:delete-requested'' ''resource-backup'' (rb_id b) (rb_engine b) ''DELETING'' at
        (recoverySet s (OpBackup (b\<lparr>bk_status := B_DELETING, rb_updatedAt := toISOString at\<rparr>)) None))"
  using assms unfolding requestBackupDeletion_def Let_def
  apply (elim bindE_InrE if_InrE)
   apply simp
  apply (rule disjI2)
  apply (intro exI conjI)
  by (auto simp: ensure_Inr_iff from_option_Inr_iff dest: find_SomeD)

lemma delete_cases:
  assumes "requestBackupDeletion e scope i input nowText s = Inr (r, t)"
  obtains (same) "t = s"
  | (deleting) b at where "b \<in> set (rc_backups s)" "rb_id b = i" "bk_status b \<in> {B_READY, B_FAILED, B_EXPIRED}" "\<not> restore_pinned s (rb_id b)"
      "t = recovery_audit (sc_actorUserId scope) ''resource.backup:delete-requested'' ''resource-backup'' (rb_id b) (rb_engine b) ''DELETING'' at
        (recoverySet s (OpBackup (b\<lparr>bk_status := B_DELETING, rb_updatedAt := toISOString at\<rparr>)) None)"
  using delete_split [OF assms] by blast

lemma delete_inv:
  assumes inv: "rec_inv s" and run: "requestBackupDeletion e scope i input nowText s = Inr (r, t)"
  shows "rec_inv t"
  using run
proof (cases rule: delete_cases)
  case same
  then show ?thesis using inv by simp
next
  case (deleting b at)
  then show ?thesis by (auto simp: same_backup_of_def intro!: set_backup_status_inv [OF inv deleting(1)])
qed

subsection \<open>Cleanup\<close>

lemma claim_cleanup_inv:
  assumes inv: "rec_inv s" and run: "claimRecoveryCleanup e input s = Inr (r, t)"
  shows "rec_inv t"
proof -
  obtain op nxt at where op: "has_op s op" and c: "cleanup_claimed e (cl_workerId input) at s op = Inr nxt"
    and t: "t = recoverySet s nxt None"
    using run by (auto simp: claimRecoveryCleanup_def result_simps dest: recoveryOperation_Inr)
  show ?thesis
  proof (cases op)
    case (OpBackup b)
    then have "\<not> restore_pinned s (rb_id b)" "bk_status b \<in> {B_FAILED, B_EXPIRED, B_DELETING}"
      and "nxt = OpBackup (cleanup_leased e (cl_workerId input) at (b\<lparr>bk_status := B_DELETING\<rparr>))"
      using c by (auto simp: result_simps)
    then show ?thesis unfolding t using op OpBackup
      by (auto simp: cleanup_leased_def same_backup_of_def intro!: set_backup_status_inv [OF inv, of b])
  next
    case (OpRestore q)
    then have q: "q \<in> set (rc_restores s)" and n: "nxt = OpRestore (cleanup_leased e (cl_workerId input) at q)"
      using c op by (auto simp: result_simps)
    then obtain j where j: "j \<in> set (rc_jobs s)" "jb_targetId j = rb_id q" "restore_job (rs_status q) (jb_status j)"
      using rec_invD(4) [OF inv q] by (auto simp: restore_ok_def)
    show ?thesis unfolding t n recoverySet_None(2) [OF rec_invD(1) [OF inv] j(1)]
      using q j rec_invD(2) [OF inv j(1)]
      by (intro set_restore_inv_open [OF inv]) (auto simp: cleanup_leased_def same_restore_of_def unsettled_def)
  qed
qed

lemma keys_ok_attempts:
  "keys_ok s \<Longrightarrow> map attempt_key rows = map attempt_key (rc_attempts s) \<Longrightarrow> keys_ok (s\<lparr>rc_attempts := rows\<rparr>)"
  by (simp add: keys_ok_def)

lemma clean_attempts_inv:
  assumes inv: "rec_inv s" and b: "b \<in> set (rc_backups s)" "\<not> intact (bk_status b)"
  shows "rec_inv (s\<lparr>rc_attempts := map (\<lambda>row. if at_backupId row = rb_id b
    then row\<lparr>at_state := CLEANED, at_cleanupPending := False, at_updatedAt := x\<rparr> else row) (rc_attempts s)\<rparr>)" (is "rec_inv ?t")
proof -
  note I = rec_invD [OF inv]
  have "keys_ok ?t" by (rule keys_ok_attempts [OF I(1)]) (simp add: attempt_key_def)
  moreover have "backup_ok ?t c" if c: "c \<in> set (rc_backups s)" for c
  proof (cases "intact (bk_status c)")
    case True
    then have "rb_id c \<noteq> rb_id b" using same_backup [OF I(1) c b(1)] b(2) by auto
    then show ?thesis using I(3) [OF c] by (force simp: backup_ok_def artifact_of_def)
  qed (use I(3) [OF c] in \<open>simp add: backup_ok_def\<close>)
  moreover have "attempt_ok ?t a" if a: "a \<in> set (rc_attempts ?t)" for a
  proof -
    obtain c where "c \<in> set (rc_attempts s)" "at_backupId a = at_backupId c" "at_attempt a = at_attempt c" "at_objectKey a = at_objectKey c"
      using a by (auto split: if_splits)
    then show ?thesis using I(5) [of c] by (simp add: attempt_ok_def)
  qed
  ultimately show ?thesis unfolding rec_inv_def using I by (simp add: restore_ok_def pin_ok_def)
qed

lemma drop_source_pins_inv:
  assumes inv: "rec_inv s" and "\<not> restore_pinned s i"
  shows "rec_inv (s\<lparr>rc_pins := filter (\<lambda>row. pn_backupId row \<noteq> i) (rc_pins s)\<rparr>)" (is "rec_inv ?t")
proof -
  note I = rec_invD [OF inv]
  have "restore_ok ?t r" if "r \<in> set (rc_restores s)" for r
    using I(4) [OF that] assms(2) by (force simp: restore_ok_def restore_pin_def restore_pinned_def list_ex_iff)
  then show ?thesis unfolding rec_inv_def using I by (simp add: keys_ok_def backup_ok_def attempt_ok_def pin_ok_def)
qed

lemma finish_cleanup_inv:
  assumes inv: "rec_inv s" and run: "finishRecoveryCleanup e input s = Inr (r, t)"
  shows "rec_inv t"
proof -
  obtain op at where op: "has_op s op" and c: "cleanup_finished at s op = Inr (r, t)"
    using run by (auto simp: finishRecoveryCleanup_def result_simps dest: recoveryOperation_Inr)
  show ?thesis
  proof (cases op)
    case (OpBackup b)
    define s1 where "s1 = s\<lparr>rc_attempts := map (\<lambda>row. if at_backupId row = rb_id b
      then row\<lparr>at_state := CLEANED, at_cleanupPending := False, at_updatedAt := toISOString at\<rparr> else row) (rc_attempts s)\<rparr>"
    define b' where "b' = lease_cleared at (b\<lparr>bk_status := B_DELETED\<rparr>)"
    have st: "B_DELETED \<in> set (backup_next (bk_status b))" and pin: "\<not> restore_pinned s (rb_id b)"
      and t: "t = (recoverySet s1 (OpBackup b') None)\<lparr>rc_pins := filter (\<lambda>row. pn_backupId row \<noteq> rb_id b) (rc_pins s1)\<rparr>"
      using c OpBackup by (auto simp: result_simps recoveryTransition_Inr Let_def s1_def b'_def recoverySet_def)
    have b: "b \<in> set (rc_backups s)" using op OpBackup by simp
    have del: "bk_status b = B_DELETING" using st by (cases "bk_status b") simp_all
    obtain j where j: "j \<in> set (rc_jobs s)" "jb_targetId j = rb_id b" "backup_job (bk_status b) (jb_status j)"
      using rec_invD(3) [OF inv b] by (auto simp: backup_ok_def)
    have s1: "rec_inv s1" unfolding s1_def by (rule clean_attempts_inv [OF inv b]) (simp add: del intact_def)
    have "rec_inv (set_backup b' j s1)"
      using b j del rec_invD(2) [OF inv j(1)] by (intro busy_set_backup [OF s1]) (auto simp: s1_def b'_def lease_cleared_def intact_def same_backup_of_def)
    then have "rec_inv (recoverySet s1 (OpBackup b') None)"
      using recoverySet_None(1) [OF rec_invD(1) [OF s1], of j] j by (simp add: s1_def)
    from drop_source_pins_inv [OF this, of "rb_id b"] show ?thesis unfolding t
      using pin by (simp add: recoverySet_def restore_pinned_def s1_def)
  next
    case (OpRestore q)
    define q' where "q' = lease_cleared at (q\<lparr>rs_targetCleanedAt := Some (toISOString at)\<rparr>)"
    have q: "q \<in> set (rc_restores s)" using op OpRestore by simp
    obtain j where j: "j \<in> set (rc_jobs s)" "jb_targetId j = rb_id q" "restore_job (rs_status q) (jb_status j)"
      using rec_invD(4) [OF inv q] by (auto simp: restore_ok_def)
    have "rec_inv (set_restore q' j (s\<lparr>rc_pins := pins_after q' (rc_pins s)\<rparr>))"
      using q j rec_invD(2) [OF inv j(1)]
      by (intro set_restore_inv [OF inv]) (auto simp: q'_def lease_cleared_def same_restore_of_def unsettled_def)
    moreover have "t = (set_restore q' j (s\<lparr>rc_pins := pins_after q' (rc_pins s)\<rparr>))\<lparr>rc_resources := rc_resources t\<rparr>"
      using c OpRestore put_same [OF keys_okD(3) [OF rec_invD(1) [OF inv]] j(1)]
      by (auto simp: result_simps Let_def q'_def [symmetric] recoverySet_def set_restore_def drop_restore_pins_def on_resource_def
          pins_after_def) (simp_all add: q'_def lease_cleared_def unsettled_def)
    ultimately show ?thesis by (metis rec_inv_resources)
  qed
qed

subsection \<open>Creation and retirement\<close>

lemma add_backup_inv:
  assumes inv: "rec_inv s" and fresh: "rb_id b \<notin> rb_id ` set (rc_backups s)" "rb_id b \<notin> rb_id ` set (rc_restores s)"
      "jb_targetId j = rb_id b" "rb_id b \<notin> jb_targetId ` set (rc_jobs s)" "jb_id j \<notin> jb_id ` set (rc_jobs s)"
    and new: "bk_status b = B_QUEUED" "jb_status j = W_queued" "job_ok j" "pn_kind p = ARTIFACT_SOURCE" "pn_restoreId p = None"
  shows "rec_inv (s\<lparr>rc_backups := rc_backups s @ [b], rc_pins := rc_pins s @ [p], rc_jobs := rc_jobs s @ [j]\<rparr>)" (is "rec_inv ?t")
proof -
  note I = rec_invD [OF inv]
  have "keys_ok ?t" using I(1) fresh by (auto simp: keys_ok_def)
  moreover have "backup_ok ?t c" if "c \<in> set (rc_backups ?t)" for c
    using that I(3) fresh new by (auto simp: backup_ok_def intact_def)
  moreover have "restore_ok ?t r" if "r \<in> set (rc_restores s)" for r
    using I(4) [OF that] by (auto simp: restore_ok_def)
  moreover have "attempt_ok ?t a" if "a \<in> set (rc_attempts s)" for a
    using I(5) [OF that] by (auto simp: attempt_ok_def)
  moreover have "pin_ok ?t q" if "q \<in> set (rc_pins ?t)" for q
    using that I(6) new by (auto simp: pin_ok_def)
  ultimately show ?thesis unfolding rec_inv_def using I(2) new by auto
qed

lemma add_restore_inv:
  assumes inv: "rec_inv s" and fresh: "rb_id r \<notin> rb_id ` set (rc_backups s)" "rb_id r \<notin> rb_id ` set (rc_restores s)"
      "jb_targetId j = rb_id r" "rb_id r \<notin> jb_targetId ` set (rc_jobs s)" "jb_id j \<notin> jb_id ` set (rc_jobs s)"
    and new: "rs_status r = R_QUEUED" "rs_targetCleanedAt r = None" "jb_status j = W_queued" "job_ok j" "restore_pin r p"
    and source: "b \<in> set (rc_backups s)" "rb_id b = rs_backupId r" "intact (bk_status b)"
  shows "rec_inv (s\<lparr>rc_restores := rc_restores s @ [r], rc_pins := rc_pins s @ [p], rc_jobs := rc_jobs s @ [j]\<rparr>)" (is "rec_inv ?t")
proof -
  note I = rec_invD [OF inv]
  have "keys_ok ?t" using I(1) fresh by (auto simp: keys_ok_def)
  moreover have "restore_ok ?t c" if "c \<in> set (rc_restores ?t)" for c
    using that I(4) fresh new by (auto simp: restore_ok_def)
  moreover have "backup_ok ?t c" if "c \<in> set (rc_backups s)" for c
    using I(3) [OF that] by (auto simp: backup_ok_def)
  moreover have "attempt_ok ?t a" if "a \<in> set (rc_attempts s)" for a
    using I(5) [OF that] by (auto simp: attempt_ok_def)
  moreover have "pin_ok ?t q" if "q \<in> set (rc_pins ?t)" for q
    using that I(6) new source by (auto simp: pin_ok_def restore_pin_def unsettled_def)
  ultimately show ?thesis unfolding rec_inv_def using I(2) new by auto
qed

lemma new_job_simps [simp]:
  "jb_status (new_job e k i at) = W_queued" "jb_targetId (new_job e k i at) = i" "job_ok (new_job e k i at)"
  "jb_attempts (new_job e k i at) = 0"
  by (simp_all add: new_job_def job_ok_def)

lemma new_job_id: "jb_id (new_job e k i at) = jb_id (new_job e k i 0)"
  by (simp add: new_job_def)

lemma new_rows [simp]:
  "rb_id (new_backup base r p sp) = rb_id base" "bk_status (new_backup base r p sp) = B_QUEUED"
  "rb_id (new_restore base b r' x) = rb_id base" "rs_status (new_restore base b r' x) = R_QUEUED"
  "rs_targetCleanedAt (new_restore base b r' x) = None" "rs_backupId (new_restore base b r' x) = b"
  "rs_targetResourceId (new_restore base b r' x) = x"
  by (simp_all add: new_backup_def new_restore_def rec_base.extend_def)

lemma recovery_base_id [simp]: "rb_id (recovery_base e request body kind source g at) = kind_text kind @ ''_'' @ randomUUID e 0"
  by (simp add: recovery_base_def)

lemma activeRecoveryResource_Inr:
  assumes "activeRecoveryResource s i org = Inr source"
  shows "source \<in> set (rc_resources s)" "rr_id source = i"
  using assms by (auto simp: activeRecoveryResource_def result_simps dest: find_SomeD)

text \<open>
  What a call that creates an operation adds: \<open>requested\<close> collects the fields by which a later
  request finds the operation.
\<close>

definition requested :: "rec_env \<Rightarrow> rec_request \<Rightarrow> rec_body \<Rightarrow> recovery_kind \<Rightarrow> 'a rec_base_scheme \<Rightarrow> bool" where
  "requested e request body kind b \<longleftrightarrow> rb_id b = kind_text kind @ ''_'' @ randomUUID e 0 \<and>
     rb_organizationId b = sc_organizationId request \<and> rb_requestIdempotencyKey b = by_requestIdempotencyKey body \<and>
     rb_requestFingerprint b = request_fingerprint e body (rq_sourceId request) kind"

lemma requested_new:
  "requested e request body kind (new_backup (recovery_base e request body kind source g at) i pv sp)"
  "requested e request body kind (new_restore (recovery_base e request body kind source g at) i q x)"
  by (simp_all add: requested_def new_backup_def new_restore_def recovery_base_def rec_base.extend_def)

lemma new_backup_cases:
  assumes "new_recovery e request KBackup body at s = Inr (res, t)"
  obtains b p acts where "requested e request body KBackup b" "bk_status b = B_QUEUED" "bk_resourceId b = rq_sourceId request"
    "res = \<lparr>re_operation = OpBackup b, re_job = new_job e KBackup (rb_id b) at, re_replay = False\<rparr>"
    "pn_kind p = ARTIFACT_SOURCE" "pn_restoreId p = None"
    "t = s\<lparr>rc_backups := rc_backups s @ [b], rc_pins := rc_pins s @ [p], rc_jobs := rc_jobs s @ [new_job e KBackup (rb_id b) at],
        rc_auditEvents := acts\<rparr>"
proof -
  obtain source sp pv g where source: "activeRecoveryResource s (rq_sourceId request) (sc_organizationId request) = Inr source"
    and run: "bindE (create_backup e (recovery_base e request body KBackup source g at) source pv sp at s)
      (\<lambda>(operation, state1). Inr (add_job e request KBackup (recovery_base e request body KBackup source g at) at operation state1)) = Inr (res, t)"
    using assms unfolding new_recovery_def source_backup_def Let_def
    by (elim bindE_InrE) (auto split: prod.splits)
  show ?thesis
    by (rule that [OF requested_new(1) [of e request body KBackup source g at "rr_id source" pv sp]])
      (use run activeRecoveryResource_Inr [OF source] in
        \<open>auto simp: create_backup_def add_job_def recovery_audit_def Let_def new_backup_def rec_base.extend_def\<close>)
qed

lemma new_restore_cases:
  assumes "new_recovery e request KRestore body at s = Inr (res, t)"
  obtains r b p acts rows where "requested e request body KRestore r" "rs_status r = R_QUEUED" "rs_targetCleanedAt r = None"
    "b \<in> set (rc_backups s)" "rb_id b = rq_sourceId request" "rs_backupId r = rb_id b" "bk_status b = B_READY" "recoverable_backup at b"
    "res = \<lparr>re_operation = OpRestore r, re_job = new_job e KRestore (rb_id r) at, re_replay = False\<rparr>" "restore_pin r p"
    "t = s\<lparr>rc_resources := rows, rc_restores := rc_restores s @ [r], rc_pins := rc_pins s @ [p],
        rc_jobs := rc_jobs s @ [new_job e KRestore (rb_id r) at], rc_auditEvents := acts\<rparr>"
proof -
  obtain source g b op1 s1 where source: "recoveryBackup s (rq_sourceId request) (sc_organizationId request) = Inr b"
    and able: "recoverable_backup at b"
    and run: "create_restore e body (recovery_base e request body KRestore source g at) source b at s = Inr (op1, s1)"
      "add_job e request KRestore (recovery_base e request body KRestore source g at) at op1 s1 = (res, t)"
    using assms unfolding new_recovery_def source_backup_def Let_def recovery_kind.case
    by (auto simp: result_simps split: prod.splits)
  have ready: "bk_status b = B_READY" using able by (simp add: recoverable_backup_def)
  obtain rows where op1: "op1 = OpRestore (new_restore (recovery_base e request body KRestore source g at) (rb_id b) (rr_id source) (''res_'' @ randomUUID e 1))"
    and s1: "s1 = s\<lparr>rc_resources := rows,
      rc_restores := rc_restores s @ [new_restore (recovery_base e request body KRestore source g at) (rb_id b) (rr_id source) (''res_'' @ randomUUID e 1)],
      rc_pins := rc_pins s @ [\<lparr>pn_id = ''pin_'' @ randomUUID e 2, pn_kind = RESTORE_TARGET, pn_resourceId = ''res_'' @ randomUUID e 1,
        pn_backupId = rb_id b, pn_restoreId = Some (rb_id (recovery_base e request body KRestore source g at)), pn_createdAt = toISOString at\<rparr>]\<rparr>"
    using run(1) unfolding create_restore_def Let_def by (elim bindE_InrE) blast
  let ?r = "new_restore (recovery_base e request body KRestore source g at) (rb_id b) (rr_id source) (''res_'' @ randomUUID e 1)"
  let ?p = "\<lparr>pn_id = ''pin_'' @ randomUUID e 2, pn_kind = RESTORE_TARGET, pn_resourceId = ''res_'' @ randomUUID e 1,
        pn_backupId = rb_id b, pn_restoreId = Some (rb_id (recovery_base e request body KRestore source g at)), pn_createdAt = toISOString at\<rparr>"
  have pin: "restore_pin ?r ?p" by (simp add: restore_pin_def)
  have t: "res = \<lparr>re_operation = OpRestore ?r, re_job = new_job e KRestore (rb_id ?r) at, re_replay = False\<rparr>"
    "t = s\<lparr>rc_resources := rows, rc_restores := rc_restores s @ [?r], rc_pins := rc_pins s @ [?p],
        rc_jobs := rc_jobs s @ [new_job e KRestore (rb_id ?r) at], rc_auditEvents := rc_auditEvents t\<rparr>"
    using run(2) by (auto simp: add_job_def recovery_audit_def Let_def op1 s1)
  show ?thesis
    by (rule that [OF requested_new(2) _ _ recoveryBackup_Inr(1) [OF source] recoveryBackup_Inr(2) [OF source] _ ready able t(1) pin t(2)])
      simp_all
qed

lemma rec_inv_tables:
  assumes "rec_inv s" "rc_backups t = rc_backups s" "rc_restores t = rc_restores s" "rc_jobs t = rc_jobs s"
    "rc_attempts t = rc_attempts s" "rc_pins t = rc_pins s"
  shows "rec_inv t"
  using assms by (simp add: rec_inv_def keys_ok_def backup_ok_def restore_ok_def attempt_ok_def pin_ok_def)

lemma create_new_inv:
  assumes inv: "rec_inv s" and run: "new_recovery e request kind body at s = Inr (res, t)" and fresh: "fresh_operation e kind s"
  shows "rec_inv t"
proof (cases kind)
  case KBackup
  obtain b p acts where b: "requested e request body KBackup b" "bk_status b = B_QUEUED" "pn_kind p = ARTIFACT_SOURCE" "pn_restoreId p = None"
    and t: "t = s\<lparr>rc_backups := rc_backups s @ [b], rc_pins := rc_pins s @ [p], rc_jobs := rc_jobs s @ [new_job e KBackup (rb_id b) at],
        rc_auditEvents := acts\<rparr>"
    using run KBackup by (auto elim: new_backup_cases)
  have "rec_inv (s\<lparr>rc_backups := rc_backups s @ [b], rc_pins := rc_pins s @ [p], rc_jobs := rc_jobs s @ [new_job e KBackup (rb_id b) at]\<rparr>)"
    using fresh b KBackup new_job_id [of e KBackup _ at]
    by (intro add_backup_inv [OF inv]) (auto simp: fresh_operation_def requested_def Let_def)
  then show ?thesis unfolding t by (rule rec_inv_tables) simp_all
next
  case KRestore
  obtain r b p acts rows where r: "requested e request body KRestore r" "rs_status r = R_QUEUED" "rs_targetCleanedAt r = None"
      "b \<in> set (rc_backups s)" "rs_backupId r = rb_id b" "bk_status b = B_READY" "restore_pin r p"
    and t: "t = s\<lparr>rc_resources := rows, rc_restores := rc_restores s @ [r], rc_pins := rc_pins s @ [p],
        rc_jobs := rc_jobs s @ [new_job e KRestore (rb_id r) at], rc_auditEvents := acts\<rparr>"
    using run KRestore by (auto elim: new_restore_cases)
  have "rec_inv (s\<lparr>rc_restores := rc_restores s @ [r], rc_pins := rc_pins s @ [p], rc_jobs := rc_jobs s @ [new_job e KRestore (rb_id r) at]\<rparr>)"
    using fresh r KRestore new_job_id [of e KRestore _ at]
    by (intro add_restore_inv [OF inv, of _ _ _ b]) (auto simp: fresh_operation_def requested_def Let_def intact_def)
  then show ?thesis unfolding t by (rule rec_inv_tables) simp_all
qed

lemma create_cases:
  assumes "createRecovery e request kind s = Inr (res, t)"
  obtains (replay) body existing where "recoveryBody (rq_body request) (kind = KRestore) = Inr body"
      "existing_operation s request body kind = Some existing" "replay_recovery e request kind body existing s = Inr (res, t)"
      "re_replay res" "t = s"
  | (new) body at where "recoveryBody (rq_body request) (kind = KRestore) = Inr body"
      "existing_operation s request body kind = None" "new_recovery e request kind body at s = Inr (res, t)" "\<not> re_replay res"
proof -
  obtain body at where b: "recoveryBody (rq_body request) (kind = KRestore) = Inr body"
    and c: "(case existing_operation s request body kind of Some existing \<Rightarrow> replay_recovery e request kind body existing s
      | None \<Rightarrow> new_recovery e request kind body at s) = Inr (res, t)"
    using assms by (auto simp: createRecovery_def bindE_Inr_iff)
  show ?thesis
  proof (cases "existing_operation s request body kind")
    case None
    then have n: "new_recovery e request kind body at s = Inr (res, t)" using c by simp
    moreover have "\<not> re_replay res"
      using n by (cases kind) (auto elim: new_backup_cases new_restore_cases)
    ultimately show ?thesis using new b None by blast
  next
    case (Some x)
    then have p: "replay_recovery e request kind body x s = Inr (res, t)" using c by simp
    moreover have "re_replay res \<and> t = s" using p by (auto simp: replay_recovery_def result_simps)
    ultimately show ?thesis using replay b Some by blast
  qed
qed

lemma create_inv:
  assumes inv: "rec_inv s" and run: "createRecovery e request kind s = Inr (res, t)" and fresh: "re_replay res \<or> fresh_operation e kind s"
  shows "rec_inv t"
  using run
proof (cases rule: create_cases)
  case replay
  then show ?thesis using inv by simp
next
  case new
  then show ?thesis using create_new_inv [OF inv] fresh by blast
qed

lemma retire_inv:
  assumes inv: "rec_inv s" and ok: "assertRecoveryPins s [i] = Inr ()"
  shows "rec_inv (retireMemoryRecovery s i)" (is "rec_inv ?t")
proof -
  note I = rec_invD [OF inv]
  define gone where "gone = set (map rb_id (filter (\<lambda>row. bk_resourceId row = i) (rc_backups s)))"
  have t: "rc_backups ?t = filter (\<lambda>row. rb_id row \<notin> gone) (rc_backups s)"
    "rc_restores ?t = filter (\<lambda>row. rs_backupId row \<notin> gone) (rc_restores s)"
    "rc_attempts ?t = filter (\<lambda>row. at_backupId row \<notin> gone) (rc_attempts s)" "rc_jobs ?t = rc_jobs s" "rc_pins ?t = rc_pins s"
    unfolding gone_def by (simp_all add: retireMemoryRecovery_def Let_def)
  have deleted: "bk_status b = B_DELETED" if b: "b \<in> set (rc_backups s)" "rb_id b \<in> gone" for b
  proof -
    obtain c where c: "c \<in> set (rc_backups s)" "bk_resourceId c = i" "rb_id c = rb_id b" using b(2) by (auto simp: gone_def)
    then have "c = b" using same_backup [OF I(1) c(1) b(1)] by simp
    then show ?thesis using c ok by (auto simp: assertRecoveryPins_def result_simps list_ex_iff)
  qed
  have unpinned: "pn_backupId p \<notin> gone" if p: "p \<in> set (rc_pins s)" "pn_kind p = RESTORE_TARGET" for p
  proof
    assume g: "pn_backupId p \<in> gone"
    obtain b where "b \<in> set (rc_backups s)" "rb_id b = pn_backupId p" "intact (bk_status b)" using I(6) [OF p(1)] p(2) by (auto simp: pin_ok_def)
    then show False using deleted [of b] g by (simp add: intact_def)
  qed
  have "keys_ok ?t" using I(1) unfolding keys_ok_def t by (auto intro: distinct_map_filter)
  moreover have "backup_ok ?t b" if "b \<in> set (rc_backups ?t)" for b
    using that I(3) [of b] by (auto simp: backup_ok_def t artifact_of_def)
  moreover have "restore_ok ?t r" if "r \<in> set (rc_restores ?t)" for r
    using that I(4) [of r] by (auto simp: restore_ok_def t)
  moreover have "attempt_ok ?t a" if "a \<in> set (rc_attempts ?t)" for a
    using that I(5) [of a] by (auto simp: attempt_ok_def t)
  moreover have "pin_ok ?t p" if "p \<in> set (rc_pins ?t)" for p
    using that I(6) [of p] unpinned [of p] by (auto simp: pin_ok_def t restore_pin_def)
  ultimately show ?thesis unfolding rec_inv_def using I(2) t(4) by simp
qed

theorem recovery_step_inv: "recovery_step s t \<Longrightarrow> rec_inv s \<Longrightarrow> rec_inv t"
  by (induction rule: recovery_step.induct)
    (blast intro: create_inv claim_inv mutate_inv cancel_inv expire_inv claim_cleanup_inv finish_cleanup_inv delete_inv retire_inv
       rec_inv_snapshot [THEN iffD2])+

interpretation recovery_steps: step_invariant recovery_step rec_inv
  by unfold_locales (rule recovery_step_inv)

section \<open>How states evolve\<close>

text \<open>
  \<open>evolves s t\<close>: every job of \<open>s\<close> is still there with at least its attempts, and every operation of
  \<open>t\<close> that \<open>s\<close> had a job for was in \<open>s\<close>, with a status from which the lifecycle contract leads to
  its status in \<open>t\<close>.
\<close>

definition evolves :: "rec_state \<Rightarrow> rec_state \<Rightarrow> bool" where
  "evolves s t \<longleftrightarrow>
     (\<forall>j \<in> set (rc_jobs s). \<exists>k \<in> set (rc_jobs t). jb_targetId k = jb_targetId j \<and> jb_attempts j \<le> jb_attempts k) \<and>
     (\<forall>c \<in> set (rc_backups t). rb_id c \<in> jb_targetId ` set (rc_jobs s) \<longrightarrow>
        (\<exists>b \<in> set (rc_backups s). rb_id b = rb_id c \<and> backup_machine.moves\<^sup>*\<^sup>* (bk_status b) (bk_status c))) \<and>
     (\<forall>c \<in> set (rc_restores t). rb_id c \<in> jb_targetId ` set (rc_jobs s) \<longrightarrow>
        (\<exists>b \<in> set (rc_restores s). rb_id b = rb_id c \<and> restore_machine.moves\<^sup>*\<^sup>* (rs_status b) (rs_status c)))"

lemma evolves_refl: "evolves s s"
  by (auto simp: evolves_def)

lemma evolvesD:
  assumes "evolves s t"
  shows "j \<in> set (rc_jobs s) \<Longrightarrow> \<exists>k \<in> set (rc_jobs t). jb_targetId k = jb_targetId j \<and> jb_attempts j \<le> jb_attempts k"
    "c \<in> set (rc_backups t) \<Longrightarrow> rb_id c \<in> jb_targetId ` set (rc_jobs s) \<Longrightarrow>
       \<exists>b \<in> set (rc_backups s). rb_id b = rb_id c \<and> backup_machine.moves\<^sup>*\<^sup>* (bk_status b) (bk_status c)"
    "d \<in> set (rc_restores t) \<Longrightarrow> rb_id d \<in> jb_targetId ` set (rc_jobs s) \<Longrightarrow>
       \<exists>b \<in> set (rc_restores s). rb_id b = rb_id d \<and> restore_machine.moves\<^sup>*\<^sup>* (rs_status b) (rs_status d)"
  using assms by (simp_all add: evolves_def)

lemma evolves_targets: "evolves s t \<Longrightarrow> jb_targetId ` set (rc_jobs s) \<subseteq> jb_targetId ` set (rc_jobs t)"
proof
  fix i assume e: "evolves s t" and "i \<in> jb_targetId ` set (rc_jobs s)"
  then obtain j where "j \<in> set (rc_jobs s)" "i = jb_targetId j" by blast
  then show "i \<in> jb_targetId ` set (rc_jobs t)" using evolvesD(1) [OF e, of j] by (metis image_eqI)
qed

lemma evolves_trans:
  assumes st: "evolves s t" and tu: "evolves t u"
  shows "evolves s u"
  unfolding evolves_def
proof (intro conjI ballI impI)
  fix j assume "j \<in> set (rc_jobs s)"
  then obtain k where k: "k \<in> set (rc_jobs t)" "jb_targetId k = jb_targetId j" "jb_attempts j \<le> jb_attempts k"
    using evolvesD(1) [OF st] by blast
  then show "\<exists>k \<in> set (rc_jobs u). jb_targetId k = jb_targetId j \<and> jb_attempts j \<le> jb_attempts k"
    using evolvesD(1) [OF tu k(1)] by force
next
  fix c assume c: "c \<in> set (rc_backups u)" "rb_id c \<in> jb_targetId ` set (rc_jobs s)"
  then obtain b where b: "b \<in> set (rc_backups t)" "rb_id b = rb_id c" "backup_machine.moves\<^sup>*\<^sup>* (bk_status b) (bk_status c)"
    using evolvesD(2) [OF tu c(1)] evolves_targets [OF st] by blast
  then show "\<exists>b \<in> set (rc_backups s). rb_id b = rb_id c \<and> backup_machine.moves\<^sup>*\<^sup>* (bk_status b) (bk_status c)"
    using evolvesD(2) [OF st b(1)] c(2) by (metis rtranclp_trans)
next
  fix c assume c: "c \<in> set (rc_restores u)" "rb_id c \<in> jb_targetId ` set (rc_jobs s)"
  then obtain b where b: "b \<in> set (rc_restores t)" "rb_id b = rb_id c" "restore_machine.moves\<^sup>*\<^sup>* (rs_status b) (rs_status c)"
    using evolvesD(3) [OF tu c(1)] evolves_targets [OF st] by blast
  then show "\<exists>b \<in> set (rc_restores s). rb_id b = rb_id c \<and> restore_machine.moves\<^sup>*\<^sup>* (rs_status b) (rs_status c)"
    using evolvesD(3) [OF st b(1)] c(2) by (metis rtranclp_trans)
qed

fun op_moves :: "operation \<Rightarrow> operation \<Rightarrow> bool" where
  "op_moves (OpBackup b) (OpBackup c) = (rb_id c = rb_id b \<and> (bk_status c = bk_status b \<or> bk_status c \<in> set (backup_next (bk_status b))))"
| "op_moves (OpRestore r) (OpRestore c) = (rb_id c = rb_id r \<and> (rs_status c = rs_status r \<or> rs_status c \<in> set (restore_next (rs_status r))))"
| "op_moves _ _ = False"

definition same_rows :: "rec_state \<Rightarrow> rec_state \<Rightarrow> bool" where
  "same_rows s t \<longleftrightarrow> rc_backups t = rc_backups s \<and> rc_restores t = rc_restores s \<and> rc_jobs t = rc_jobs s"

lemma evolves_put_job:
  assumes "keys_ok s" "j \<in> set (rc_jobs s)" "same_job_of j j'" "jb_attempts j \<le> jb_attempts j'" "k \<in> set (rc_jobs s)"
  shows "\<exists>k' \<in> set (put_row jb_id j' (rc_jobs s)). jb_targetId k' = jb_targetId k \<and> jb_attempts k \<le> jb_attempts k'"
proof (cases "k = j")
  case True
  then show ?thesis using assms by (intro bexI [of _ j']) (auto simp: in_put_row_iff same_job_of_def)
next
  case False
  then have "jb_id k \<noteq> jb_id j'" using assms same_job_id [OF assms(1) assms(5,2)] by (auto simp: same_job_of_def)
  then show ?thesis using assms(5) by (intro bexI [of _ k]) (auto simp: in_put_row_iff)
qed

lemma put_row_from:
  assumes "x \<in> set (put_row key c rows)" "b \<in> set rows" "key c = key b" "R (f b) (f c)" "\<And>y. R y y"
  shows "\<exists>y \<in> set rows. key y = key x \<and> R (f y) (f x)"
  using assms by (auto simp: in_put_row_iff)

lemma evolves_set:
  assumes keys: "keys_ok s" and op: "has_op s op" "op_moves op nxt" and j: "j \<in> set (rc_jobs s)" "same_job_of j j'" "jb_attempts j \<le> jb_attempts j'"
    and rows: "same_rows s s'"
  shows "evolves s (recoverySet s' nxt (Some j'))"
proof (cases op)
  case (OpBackup b)
  then obtain c where c: "nxt = OpBackup c" "rb_id c = rb_id b" "bk_status c = bk_status b \<or> bk_status c \<in> set (backup_next (bk_status b))"
    using op(2) by (cases nxt) auto
  then have "backup_machine.moves\<^sup>*\<^sup>* (bk_status b) (bk_status c)" by (auto simp: backup_machine.moves_def)
  then show ?thesis using put_row_from [of _ rb_id c "rc_backups s" b "backup_machine.moves\<^sup>*\<^sup>*" bk_status]
      c(1,2) op(1) OpBackup evolves_put_job [OF keys j] rows
    by (simp add: evolves_def recoverySet_simps set_backup_def same_rows_def) (metis rtranclp.rtrancl_refl)
next
  case (OpRestore b)
  then obtain c where c: "nxt = OpRestore c" "rb_id c = rb_id b" "rs_status c = rs_status b \<or> rs_status c \<in> set (restore_next (rs_status b))"
    using op(2) by (cases nxt) auto
  then have "restore_machine.moves\<^sup>*\<^sup>* (rs_status b) (rs_status c)" by (auto simp: restore_machine.moves_def)
  then show ?thesis using put_row_from [of _ rb_id c "rc_restores s" b "restore_machine.moves\<^sup>*\<^sup>*" rs_status]
      c(1,2) op(1) OpRestore evolves_put_job [OF keys j] rows
    by (simp add: evolves_def recoverySet_simps set_restore_def same_rows_def) (metis rtranclp.rtrancl_refl)
qed

lemma evolves_rows:
  assumes "evolves s t" "same_rows t u"
  shows "evolves s u"
  using assms by (simp add: evolves_def same_rows_def)

lemma evolves_set_None:
  assumes inv: "rec_inv s" and op: "has_op s op" "op_moves op nxt" and rows: "same_rows s s'"
  shows "evolves s (recoverySet s' nxt None)"
proof -
  obtain j where j: "j \<in> set (rc_jobs s)"
    using op(1) rec_invD(3,4) [OF inv] by (cases op) (auto simp: backup_ok_def restore_ok_def)
  have "evolves s (recoverySet s' nxt (Some j))" using evolves_set [OF rec_invD(1) [OF inv] op j _ _ rows, of j] by simp
  moreover have "same_rows (recoverySet s' nxt (Some j)) (recoverySet s' nxt None)"
    using put_same [OF keys_okD(3) [OF rec_invD(1) [OF inv]] j] rows by (cases nxt) (auto simp: same_rows_def recoverySet_def)
  ultimately show ?thesis by (rule evolves_rows)
qed

lemma same_rows_refl [simp]: "same_rows s s"
  by (simp add: same_rows_def)

lemma same_rows_attempt [simp]: "same_rows s (set_attempt i n f s)"
  by (simp add: same_rows_def)

lemma mutate_rows:
  "mutate_upload u input at op a s = Inr s' \<Longrightarrow> same_rows s s'"
  "mutate_candidate c1 c2 c3 input at op a s = Inr s' \<Longrightarrow> same_rows s s'"
  "mutate_complete input at op a s = Inr s' \<Longrightarrow> same_rows s s'"
  by (auto simp: mutate_upload_def mutate_candidate_def mutate_complete_def result_simps)

lemma mutate_intent_rows: "mutate_intent kv input at op a s = Inr s' \<Longrightarrow> same_rows s s'"
  by (cases op; cases a) (auto simp: mutate_intent_def result_simps same_rows_def)

lemma mutate_ready_moves:
  "mutate_ready art input at a s op = Inr (nxt, s') \<Longrightarrow> op_transition B_READY R_READY op = Inr () \<Longrightarrow> op_moves op nxt \<and> same_rows s s'"
  by (cases op; cases a; cases art)
    (auto simp: result_simps recoveryTransition_Inr ready_backup_def same_rows_def drop_restore_pins_def on_resource_def)

lemma op_moves_refl [simp]: "op_moves op op"
  by (cases op) simp_all

lemma mutate_verify_moves:
  "mutate_verify at a op = Inr nxt \<Longrightarrow> op_transition B_VERIFYING R_VERIFYING op = Inr () \<Longrightarrow> op_moves op nxt"
  by (cases op) (auto simp: result_simps recoveryTransition_Inr)

lemma mutate_fail_moves: "op_transition B_FAILED R_FAILED op = Inr () \<Longrightarrow> op_moves op (op_failed code at op)"
  by (cases op) (auto simp: recoveryTransition_Inr)

lemma effect_moves:
  assumes run: "mutation_effect input m op j at s = Inr (nxt, j', s')"
  shows "op_moves op nxt \<and> same_job_of j j' \<and> jb_attempts j' = jb_attempts j \<and> same_rows s s'"
  using run unfolding mutation_effect_def Let_def
  by (cases m) (auto simp: result_simps simp del: op_moves.simps intro: mutate_rows mutate_intent_rows mutate_verify_moves mutate_fail_moves
      dest: mutate_ready_moves)

lemma op_failed_moves: "op_claimable op \<Longrightarrow> op_moves op (op_failed code at op)"
  by (cases op) auto

lemma op_claimed_moves: "op_moves op (op_claimed at op)"
  by (cases op) (auto simp: claimed_base_def)

lemma cleanup_moves:
  "cleanup_claimed e w at s op = Inr nxt \<Longrightarrow> op_moves op nxt"
  by (cases op) (auto simp: result_simps recoveryTransition_Inr cleanup_leased_def split: if_splits)

lemma claim_evolves:
  assumes inv: "rec_inv s" and run: "claimRecovery e input s = Inr (r, t)"
  shows "evolves s t"
  using run
proof (cases rule: claim_cases)
  case (failed op j at code)
  then show ?thesis using evolves_set [OF rec_invD(1) [OF inv], of op] op_failed_moves [of op] by simp
next
  case (claimed op j at)
  then show ?thesis using evolves_set [OF rec_invD(1) [OF inv], of op] op_claimed_moves [of op] by simp
qed

lemma mutate_evolves:
  assumes inv: "rec_inv s" and run: "mutateRecovery e input m s = Inr (r, t)"
  shows "evolves s t"
proof -
  obtain op j at nxt j' s' where f: "fenceRecovery e s input = Inr (op, j, at)"
    and m: "mutation_effect input m op j at s = Inr (nxt, j', s')" and t: "t = recoverySet s' nxt (Some j')"
    using run by (auto simp: mutateRecovery_def result_simps)
  then show ?thesis
    using evolves_set [OF rec_invD(1) [OF inv], of op] fenceRecovery_Inr [OF f] effect_moves [OF m] by simp
qed

lemma cancel_evolves:
  assumes inv: "rec_inv s" and run: "cancelRecoveryRestore e request s = Inr (r, t)"
  shows "evolves s t"
proof -
  obtain q at j where q: "q \<in> set (rc_restores s)" "R_CANCELLED \<in> set (restore_next (rs_status q))" "j \<in> set (rc_jobs s)"
    "t = recoverySet s (OpRestore (q\<lparr>rs_status := R_CANCELLED, rb_updatedAt := toISOString at\<rparr>)) (Some (job_stopped W_cancelled at j))"
    using run by (auto simp: cancelRecoveryRestore_def result_simps Let_def recoveryTransition_Inr dest: find_SomeD recoveryJob_Inr)
  then show ?thesis using evolves_set [OF rec_invD(1) [OF inv], of "OpRestore q"] by simp
qed

lemma expire_evolves:
  assumes inv: "rec_inv s" and run: "expireRecoveryBackup e org i nowText s = Inr (r, t)"
  shows "evolves s t"
proof -
  obtain b at where b: "b \<in> set (rc_backups s)" "B_EXPIRED \<in> set (backup_next (bk_status b))"
    "t = recoverySet s (OpBackup (b\<lparr>bk_status := B_EXPIRED, rb_updatedAt := toISOString at\<rparr>)) None"
    using run by (auto simp: expireRecoveryBackup_def result_simps Let_def recoveryTransition_Inr dest: recoveryBackup_Inr)
  then show ?thesis using evolves_set_None [OF inv, of "OpBackup b"] by simp
qed

lemma delete_evolves:
  assumes inv: "rec_inv s" and run: "requestBackupDeletion e scope i input nowText s = Inr (r, t)"
  shows "evolves s t"
  using run
proof (cases rule: delete_cases)
  case same
  then show ?thesis by (simp add: evolves_refl)
next
  case (deleting b at)
  have "evolves s (recoverySet s (OpBackup (b\<lparr>bk_status := B_DELETING, rb_updatedAt := toISOString at\<rparr>)) None)"
    using deleting(1,3) by (intro evolves_set_None [OF inv, of "OpBackup b"]) auto
  then show ?thesis unfolding deleting(5) by (rule evolves_rows) (simp add: same_rows_def recovery_audit_def)
qed

lemma claim_cleanup_evolves:
  assumes inv: "rec_inv s" and run: "claimRecoveryCleanup e input s = Inr (r, t)"
  shows "evolves s t"
proof -
  obtain op nxt at where "has_op s op" "cleanup_claimed e (cl_workerId input) at s op = Inr nxt" "t = recoverySet s nxt None"
    using run by (auto simp: claimRecoveryCleanup_def result_simps dest: recoveryOperation_Inr)
  then show ?thesis using evolves_set_None [OF inv, of op] cleanup_moves by simp
qed

lemma finish_cleanup_evolves:
  assumes inv: "rec_inv s" and run: "finishRecoveryCleanup e input s = Inr (r, t)"
  shows "evolves s t"
proof -
  obtain op at where op: "has_op s op" and c: "cleanup_finished at s op = Inr (r, t)"
    using run by (auto simp: finishRecoveryCleanup_def result_simps dest: recoveryOperation_Inr)
  have "op_moves op r \<and> same_rows (recoverySet s r None) t"
    using c by (cases op) (auto simp: result_simps recoveryTransition_Inr Let_def lease_cleared_def recoverySet_def same_rows_def
        drop_restore_pins_def on_resource_def)
  then show ?thesis using evolves_set_None [OF inv op, of r s] evolves_rows by (auto simp: same_rows_def)
qed

lemma create_evolves:
  assumes run: "createRecovery e request kind s = Inr (res, t)" and fresh: "re_replay res \<or> fresh_operation e kind s"
  shows "evolves s t"
  using run
proof (cases rule: create_cases)
  case replay
  then show ?thesis by (simp add: evolves_refl)
next
  case (new body at)
  have f: "kind_text kind @ ''_'' @ randomUUID e 0 \<notin> jb_targetId ` set (rc_jobs s)"
    using fresh new by (auto simp: fresh_operation_def Let_def)
  show ?thesis
  proof (cases kind)
    case KBackup
    then obtain b p acts where b: "requested e request body KBackup b"
      and t: "rc_backups t = rc_backups s @ [b]" "rc_restores t = rc_restores s" "rc_jobs t = rc_jobs s @ [new_job e KBackup (rb_id b) at]"
      using new by (auto elim!: new_backup_cases)
    then show ?thesis using f KBackup by (auto simp: evolves_def requested_def)
  next
    case KRestore
    then obtain r where b: "requested e request body KRestore r"
      and t: "rc_backups t = rc_backups s" "rc_restores t = rc_restores s @ [r]" "rc_jobs t = rc_jobs s @ [new_job e KRestore (rb_id r) at]"
      using new by (auto elim!: new_restore_cases)
    then show ?thesis using f KRestore by (auto simp: evolves_def requested_def)
  qed
qed

lemma recovery_step_evolves: "recovery_step s t \<Longrightarrow> rec_inv s \<Longrightarrow> evolves s t"
proof (induction rule: recovery_step.induct)
  case (step_retire s i)
  show ?case by (auto simp: evolves_def retireMemoryRecovery_def Let_def)
next
  case (step_store s store)
  show ?case by (auto simp: evolves_def snapshot_def)
qed (blast intro: create_evolves claim_evolves mutate_evolves cancel_evolves expire_evolves claim_cleanup_evolves
       finish_cleanup_evolves delete_evolves)+

interpretation recovery_history: step_monotone recovery_step rec_inv evolves
  by unfold_locales (blast intro: recovery_step_inv recovery_step_evolves evolves_refl evolves_trans)+

end
