(* ===== verification/Recovery_Properties.thy ===== *)
theory Recovery_Properties
  imports Recovery_Safety "HOL-Library.Multiset"
begin

text \<open>
  Resource recovery, what its safety gives: properties of backups, restores, workers, artifacts,
  replays and listings, on a concrete run of the system where they have hypotheses.
\<close>

section \<open>Running the system\<close>

text \<open>\<open>play\<close> runs a list of calls and is None as soon as one of them throws.\<close>

datatype rec_call =
  Call_store plane
| Call_create rec_env rec_request recovery_kind
| Call_claim rec_env rec_claim
| Call_mutate rec_env rec_fence rec_mutation
| Call_expire rec_env string string "time_text option"
| Call_cancel rec_env cancel_request

definition committed :: "('e, 'a \<times> rec_state) result \<Rightarrow> rec_state option" where
  "committed r = map_option snd (ok_value r)"

fun perform :: "rec_call \<Rightarrow> rec_state \<Rightarrow> rec_state option" where
  "perform (Call_store store) s = Some (snapshot store s)"
| "perform (Call_create e request kind) s =
     (if fresh_operation e kind s then committed (createRecovery e request kind s) else None)"
| "perform (Call_claim e claim) s = committed (claimRecovery e claim s)"
| "perform (Call_mutate e fence m) s = committed (mutateRecovery e fence m s)"
| "perform (Call_expire e org oid at) s = committed (expireRecoveryBackup e org oid at s)"
| "perform (Call_cancel e cancel) s = committed (cancelRecoveryRestore e cancel s)"

fun play :: "rec_call list \<Rightarrow> rec_state \<Rightarrow> rec_state option" where
  "play [] s = Some s"
| "play (c # cs) s = (case perform c s of None \<Rightarrow> None | Some t \<Rightarrow> play cs t)"

lemma committed_Some: "committed r = Some t \<longleftrightarrow> (\<exists>x. r = Inr (x, t))"
  by (cases r) (auto simp: committed_def)

lemma perform_step: "perform c s = Some t \<Longrightarrow> recovery_step s t"
  by (cases c) (auto simp: committed_Some split: if_splits
      intro: step_store step_create step_claim step_mutate step_expire step_cancel)

lemma play_steps: "play cs s = Some t \<Longrightarrow> recovery_step\<^sup>*\<^sup>* s t"
  by (induction cs arbitrary: s)
    (auto split: option.splits intro: converse_rtranclp_into_rtranclp dest: perform_step)

definition reachable :: "rec_state \<Rightarrow> bool" where
  "reachable s \<longleftrightarrow> recovery_step\<^sup>*\<^sup>* emptyRecoveryState s"

lemma empty_inv: "rec_inv emptyRecoveryState"
  by (simp add: emptyRecoveryState_def rec_inv_def keys_ok_def)

lemma reachable_inv: "reachable s \<Longrightarrow> rec_inv s"
  unfolding reachable_def by (rule recovery_steps.steps_keep [OF _ empty_inv])

lemma reachable_play: "play cs emptyRecoveryState = Some s \<Longrightarrow> reachable s"
  unfolding reachable_def by (rule play_steps)

section \<open>Object keys\<close>

definition slash_free :: "string \<Rightarrow> bool" where
  "slash_free s \<longleftrightarrow> CHR ''/'' \<notin> set s"

lemma slash_no_segment: "\<not> alnum CHR ''/''" "\<not> segment_char CHR ''/''"
  by code_simp+

lemma segment_slash_free:
  assumes "recoverySegment v = Inr w"
  shows "w = v \<and> slash_free v"
proof -
  have "within (\<lambda>c. c \<noteq> CHR ''/'') (Seq (Cls alnum) (Rep segment_char 0 127))"
    using slash_no_segment by auto
  from matches_within [OF this, of v "CHR ''/''"] show ?thesis
    using assms by (auto simp: recoverySegment_def slash_free_def split: if_splits)
qed

lemma split_slash: "slash_free x \<Longrightarrow> slash_free y \<Longrightarrow> x @ CHR ''/'' # u = y @ CHR ''/'' # v \<longleftrightarrow> x = y \<and> u = v"
proof (induction x arbitrary: y)
  case Nil
  then show ?case by (cases y) (auto simp: slash_free_def)
next
  case (Cons a x)
  then show ?case by (cases y) (auto simp: slash_free_def)
qed

lemma attempt_text_inj:
  assumes "1 \<le> a" "a \<le> 3" "1 \<le> b" "b \<le> 3" "int_text a @ s = int_text b @ s"
  shows "a = b"
proof -
  have "a \<in> {1, 2, 3}" "b \<in> {1, 2, 3}" using assms(1-4) by auto
  moreover have "int_text 1 = ''1''" "int_text 2 = ''2''" "int_text 3 = ''3''" by code_simp+
  ultimately show ?thesis using assms(5) by auto
qed

lemma recoveryObjectKey_inj:
  assumes "recoveryObjectKey o1 r1 b1 a1 = Inr k" "recoveryObjectKey o2 r2 b2 a2 = Inr k"
  shows "o1 = o2 \<and> r1 = r2 \<and> b1 = b2 \<and> a1 = a2"
proof -
  have free: "slash_free o1" "slash_free r1" "slash_free b1" "slash_free o2" "slash_free r2" "slash_free b2"
    and range: "1 \<le> a1" "a1 \<le> 3" "1 \<le> a2" "a2 \<le> 3"
    and k: "k = ''organizations/'' @ o1 @ ''/resources/'' @ r1 @ ''/backups/'' @ b1 @ ''/attempts/'' @ int_text a1 @ ''/artifact.v1''"
      "k = ''organizations/'' @ o2 @ ''/resources/'' @ r2 @ ''/backups/'' @ b2 @ ''/attempts/'' @ int_text a2 @ ''/artifact.v1''"
    using assms by (auto simp: recoveryObjectKey_def result_simps dest!: segment_slash_free)
  have "o1 = o2 \<and> r1 = r2 \<and> b1 = b2 \<and> int_text a1 @ ''/artifact.v1'' = int_text a2 @ ''/artifact.v1''"
    using k(2) unfolding k(1) by (simp add: split_slash free)
  then show ?thesis using attempt_text_inj [OF range, of "''/artifact.v1''"] by blast
qed

section \<open>Canonical JSON\<close>

lemma canonical_key_order:
  assumes "mset fs = mset gs" "distinct (map fst fs)"
  shows "canonicalRecoveryJson (JObj fs) = canonicalRecoveryJson (JObj gs)"
proof -
  let ?m = "map (\<lambda>(key, value). (key, canonicalRecoveryJson value))"
  have "mset (?m fs) = mset (?m gs)" using assms(1) by simp
  moreover have "inj_on fst (set (?m fs))" using assms(2) by (force simp: distinct_map inj_on_def)
  ultimately have "sort_key fst (?m fs) = sort_key fst (?m gs)"
    using sort_key_inj_key_eq [of "?m fs" "sort_key fst (?m gs)" fst] by simp
  then show ?thesis by simp
qed

section \<open>Sample states\<close>

lemma case_option_ex: "(case v of None \<Rightarrow> False | Some x \<Rightarrow> P x) \<Longrightarrow> \<exists>x. v = Some x \<and> P x"
  by (cases v) auto

text \<open>
  A store with one database, and a recovery state in which a published backup of it is being
  restored by a second attempt.
\<close>

definition rec_sample_env :: "string \<Rightarrow> ms \<Rightarrow> rec_env" where
  "rec_sample_env u at = \<lparr>now = at, zone = 0, sha256_hex = (\<lambda>s. rev (take 9 (rev s))), sha256_base64url = (\<lambda>s. s),
     date_of = (\<lambda>_. Some 0), randomUUID = (\<lambda>n. if n = 0 then u else u @ ''x''), time_string = (\<lambda>_. ''t''), locale_le = (\<lambda>a b. a \<le> b),
     base64url_json = (\<lambda>v. js_text (js_get (the (as_object v)) ''id'')),
     json_of_base64url = (\<lambda>t. Some (JObj [(''v'', JInt 1), (''at'', JStr ''t''), (''id'', JStr t)]))\<rparr>"

definition rec_sample_resource :: rec_resource where
  "rec_sample_resource = \<lparr>rr_id = ''res'', rr_projectId = ''p'', rr_name = ''db'', rr_slug = ''db'', rr_type = ''database'',
     rr_engine = ''redis'', rr_provider = ''k8s'', rr_plan = ''s'', rr_region = ''r'', rr_version = None, rr_status = ''READY'',
     rr_deletionRequestedAt = None, rr_desiredSpec = [],
     rr_desiredState = [(''providerImageProvenance'', JObj [(''schema'', JStr ''raibitserver.provider-image/v1''),
         (''image'', JStr (''redis'' @ [CHR 0x40] @ ''sha256:'' @ replicate 64 CHR ''a'')), (''workloadUid'', JStr ''u''),
         (''workloadGeneration'', JInt 1), (''observedAt'', JStr ''t'')]),
       (''providerIdentity'', JObj [(''namespace'', JStr ''n''), (''name'', JStr ''db'')]),
       (''credentialSecretUID'', JStr ''c''), (''credentialSecretGeneration'', JStr (replicate 43 CHR ''g''))],
     rr_connectionSecretName = Some ''db-connection''\<rparr>"

definition rec_sample_store :: plane where
  "rec_sample_store = \<lparr>pl_organizations = [''o''], pl_projects = [\<lparr>rp_id = ''p'', rp_organizationId = ''o'',
      rp_status = ''ACTIVE'', rp_deletionRequestedAt = None\<rparr>], pl_resources = [(''res'', rec_sample_resource)],
     pl_members = [\<lparr>rm_organizationId = ''o'', rm_userId = ''u'', rm_role = ''owner''\<rparr>], pl_workflowJobs = [], pl_auditLogs = []\<rparr>"

definition backup_request :: rec_request where
  "backup_request = \<lparr>sc_organizationId = ''o'', sc_actorUserId = ''u'', rq_sourceId = ''res'',
     rq_body = JObj [(''requestIdempotencyKey'', JStr ''k''), (''formatVersion'', JInt 1)], rq_now = None\<rparr>"

definition sample_base :: "string \<Rightarrow> ms \<Rightarrow> rec_base" where
  "sample_base i at = \<lparr>rb_id = i, rb_formatVersion = 1, rb_organizationId = ''o'', rb_projectId = ''p'', rb_engine = ''redis'',
     rb_provider = ''k8s'', rb_sourceGeneration = ''g'', rb_requestedByUserId = ''u'', rb_requestIdempotencyKey = i,
     rb_requestFingerprint = ''f'', rb_createdAt = Instant at, rb_updatedAt = Instant at, rb_startedAt = Some (Instant at),
     rb_deadlineAt = Some (Instant (at + 1800000)), rb_readyAt = None, rb_errorCode = None, rb_cleanupToken = None,
     rb_cleanupWorker = None, rb_cleanupLeaseUntil = None\<rparr>"

definition sample_provenance :: provenance where
  "sample_provenance = \<lparr>pv_image = ''i'', pv_workloadUid = ''u'', pv_workloadGeneration = 1, pv_observedAt = ''t'', pv_namespace = ''n'',
     pv_name = ''db'', pv_credentialSecretUID = ''c'', pv_credentialSecretGeneration = ''s''\<rparr>"

definition sample_key :: "string \<Rightarrow> string" where
  "sample_key i = ''organizations/o/resources/res/backups/'' @ i @ ''/attempts/1/artifact.v1''"

definition sample_backup :: "string \<Rightarrow> backup_status \<Rightarrow> backup" where
  "sample_backup i st = rec_base.extend (sample_base i 0) \<lparr>bk_resourceId = ''res'', bk_status = st,
     bk_sourceProvenance = Some sample_provenance, bk_sourceSpec = [(''desiredSpec'', JObj [])], bk_artifactKey = Some (sample_key i),
     bk_artifactChecksum = Some ''c'', bk_artifactSize = Some ''7'', bk_encryptionKeyVersion = Some ''v1'', bk_winningAttempt = Some 1,
     bk_expiresAt = Some (Instant 2592000000)\<rparr>"

definition sample_attempt :: "string \<Rightarrow> rec_attempt" where
  "sample_attempt i = \<lparr>at_backupId = i, at_attempt = 1, at_objectKey = sample_key i, at_uploadId = Some ''u1'', at_keyVersion = ''v1'',
     at_firstClaimAt = Instant 0, at_candidateStoredBytes = Some ''7'', at_candidatePlaintextBytes = Some ''5'',
     at_candidateChecksum = Some ''c'', at_state = VERIFIED, at_cleanupPending = True, at_createdAt = Instant 0, at_updatedAt = Instant 0\<rparr>"

definition sample_job :: "string \<Rightarrow> workflow_status \<Rightarrow> int \<Rightarrow> string option \<Rightarrow> rec_job" where
  "sample_job i st n w = \<lparr>jb_id = ''job_'' @ i, jb_type = ''resource.backup'', jb_targetType = ''resource-backup'', jb_targetId = i,
     jb_operationId = i, jb_status = st, jb_attempts = n, jb_maxAttempts = 3, jb_lockedBy = w,
     jb_lockedAt = map_option (\<lambda>_. Instant 100) w, jb_createdAt = Instant 0, jb_updatedAt = Instant 0, jb_runAfter = Instant 0\<rparr>"

definition sample_restore :: restore where
  "sample_restore = rec_base.extend (sample_base ''restore_r'' 50) \<lparr>rs_backupId = ''backup_a'', rs_sourceResourceId = ''res'',
     rs_targetResourceId = ''res_copy'', rs_status = R_RUNNING, rs_targetCleanedAt = None\<rparr>"

definition sample_pin :: rec_pin where
  "sample_pin = \<lparr>pn_id = ''pin'', pn_kind = RESTORE_TARGET, pn_resourceId = ''res_copy'', pn_backupId = ''backup_a'',
     pn_restoreId = Some ''restore_r'', pn_createdAt = Instant 50\<rparr>"

definition sample_restoring :: rec_state where
  "sample_restoring = (snapshot rec_sample_store emptyRecoveryState)
     \<lparr>rc_backups := [sample_backup ''backup_a'' B_READY, sample_backup ''backup_b'' B_EXPIRED], rc_restores := [sample_restore],
      rc_pins := [sample_pin], rc_attempts := [sample_attempt ''backup_a'', sample_attempt ''backup_b''],
      rc_jobs := [sample_job ''backup_a'' W_succeeded 1 None, sample_job ''backup_b'' W_succeeded 1 None,
        sample_job ''restore_r'' W_running 2 (Some ''w2'')]\<rparr>"

lemma sample_restoring_inv: "rec_inv sample_restoring"
  by code_simp

lemma sample_created:
  "\<exists>t. play [Call_store rec_sample_store, Call_create (rec_sample_env ''a'' 0) backup_request KBackup] emptyRecoveryState = Some t \<and>
     length (rc_backups t) = 1"
  by (rule case_option_ex) code_simp

section \<open>Properties\<close>

text \<open>
  C5. In every state that any sequence of creations, claims, worker mutations, cancellations,
  expiries, deletions, cleanups, retirements and changes of the store can reach from the empty
  state: identifiers are unique, every operation has a job whose status fits its own, a job is
  locked exactly while it runs and counts between 0 and 3 attempts, a backup that is READY or
  EXPIRED points at a verified upload with its checksum, size and key version, and a restore that
  is neither READY nor cleaned up pins a READY or EXPIRED backup.
\<close>

theorem recovery_reachable_inv:
  assumes "recovery_step\<^sup>*\<^sup>* emptyRecoveryState s"
  shows "rec_inv s"
  by (rule recovery_steps.steps_keep [OF assms empty_inv])

theorem recovery_reachable_inv_witness:
  "\<exists>s. recovery_step\<^sup>*\<^sup>* emptyRecoveryState s \<and> length (rc_backups s) = 1 \<and> rec_inv s"
proof -
  obtain s where "play [Call_store rec_sample_store, Call_create (rec_sample_env ''a'' 0) backup_request KBackup] emptyRecoveryState = Some s"
    and s: "length (rc_backups s) = 1" using sample_created by blast
  then have r: "recovery_step\<^sup>*\<^sup>* emptyRecoveryState s" by (blast intro: play_steps)
  show ?thesis using r s recovery_reachable_inv [OF r] by blast
qed

text \<open>
  C6. Whatever happens after a state with the invariant, the backup of a restore that is not
  settled (neither READY nor cleaned up) is there, is READY or EXPIRED, and its artifact is the
  verified upload it points at: no deletion, expiry, cleanup or retirement takes it away.
\<close>

theorem restore_source_intact:
  assumes "rec_inv s" "recovery_step\<^sup>*\<^sup>* s t" "r \<in> set (rc_restores t)" "unsettled r"
  shows "\<exists>b \<in> set (rc_backups t). rb_id b = rs_backupId r \<and> bk_status b \<in> {B_READY, B_EXPIRED} \<and>
    (\<exists>a \<in> set (rc_attempts t). artifact_of b a)"
proof -
  have inv: "rec_inv t" by (rule recovery_steps.steps_keep [OF assms(2,1)])
  obtain p where p: "p \<in> set (rc_pins t)" "restore_pin r p"
    using rec_invD(4) [OF inv assms(3)] assms(4) by (auto simp: restore_ok_def)
  then obtain b where b: "b \<in> set (rc_backups t)" "rb_id b = rs_backupId r" "intact (bk_status b)"
    using rec_invD(6) [OF inv p(1)] by (auto simp: pin_ok_def restore_pin_def)
  then show ?thesis using rec_invD(3) [OF inv b(1)] by (auto simp: backup_ok_def intact_def)
qed

theorem restore_source_intact_witness:
  "\<exists>b \<in> set (rc_backups sample_restoring). rb_id b = ''backup_a'' \<and> bk_status b \<in> {B_READY, B_EXPIRED} \<and>
     (\<exists>a \<in> set (rc_attempts sample_restoring). artifact_of b a)"
proof -
  have "sample_restore \<in> set (rc_restores sample_restoring)" "unsettled sample_restore" by code_simp+
  moreover have "rs_backupId sample_restore = ''backup_a''" by code_simp
  ultimately show ?thesis using restore_source_intact [OF sample_restoring_inv rtranclp.rtrancl_refl, of sample_restore] by simp
qed

text \<open>
  C7. A worker whose job was claimed again is fenced out for good: once the job of an operation
  counts more attempts than the worker's, no later call of the worker with its attempt number
  succeeds, whatever the system does in between.
\<close>

theorem superseded_worker_fenced:
  assumes inv: "rec_inv s" and j: "j \<in> set (rc_jobs s)" "jb_targetId j = cl_operationId fence" "fe_attempt fence < jb_attempts j"
    and later: "recovery_step\<^sup>*\<^sup>* s t"
  shows "isl (mutateRecovery e fence m t)"
proof (rule ccontr)
  assume "\<not> isl (mutateRecovery e fence m t)"
  then obtain op k at where f: "fenceRecovery e t fence = Inr (op, k, at)"
    by (cases "fenceRecovery e t fence") (auto simp: mutateRecovery_def)
  note F = fenceRecovery_Inr [OF f]
  have inv': "rec_inv t" by (rule recovery_steps.steps_keep [OF later inv])
  obtain k' where k': "k' \<in> set (rc_jobs t)" "jb_targetId k' = jb_targetId j" "jb_attempts j \<le> jb_attempts k'"
    using evolvesD(1) [OF recovery_history.steps_mono [OF later inv] j(1)] by blast
  then have "k' = k" using same_job [OF rec_invD(1) [OF inv'] k'(1) F(3)] F(2,4) j(2) by simp
  then show False using F(6) k'(3) j(3) by simp
qed

definition stale_fence :: rec_fence where
  "stale_fence = \<lparr>cl_organizationId = ''o'', cl_kind = KRestore, cl_operationId = ''restore_r'', cl_workerId = ''w1'', cl_now = None, fe_attempt = 1\<rparr>"

theorem superseded_worker_fenced_witness:
  "isl (mutateRecovery (rec_sample_env ''a'' 200) stale_fence M_heartbeat sample_restoring)"
proof (rule superseded_worker_fenced [OF sample_restoring_inv _ _ _ rtranclp.rtrancl_refl])
  show "sample_job ''restore_r'' W_running 2 (Some ''w2'') \<in> set (rc_jobs sample_restoring)" by code_simp
qed code_simp+

lemma backup_history:
  assumes inv: "rec_inv s" and steps: "recovery_step\<^sup>*\<^sup>* s t"
    and b: "b \<in> set (rc_backups s)" "b' \<in> set (rc_backups t)" "rb_id b' = rb_id b"
  shows "backup_machine.moves\<^sup>*\<^sup>* (bk_status b) (bk_status b')"
proof -
  obtain j where "j \<in> set (rc_jobs s)" "jb_targetId j = rb_id b'" using rec_invD(3) [OF inv b(1)] b(3) by (auto simp: backup_ok_def)
  then have "rb_id b' \<in> jb_targetId ` set (rc_jobs s)" by (metis image_eqI)
  then obtain c where c: "c \<in> set (rc_backups s)" "rb_id c = rb_id b'" "backup_machine.moves\<^sup>*\<^sup>* (bk_status c) (bk_status b')"
    using evolvesD(2) [OF recovery_history.steps_mono [OF steps inv] b(2)] by blast
  then have "c = b" using same_backup [OF rec_invD(1) [OF inv] c(1) b(1)] b(3) by simp
  with c(3) show ?thesis by simp
qed

lemma restore_history:
  assumes inv: "rec_inv s" and steps: "recovery_step\<^sup>*\<^sup>* s t"
    and r: "r \<in> set (rc_restores s)" "r' \<in> set (rc_restores t)" "rb_id r' = rb_id r"
  shows "restore_machine.moves\<^sup>*\<^sup>* (rs_status r) (rs_status r')"
proof -
  obtain j where "j \<in> set (rc_jobs s)" "jb_targetId j = rb_id r'" using rec_invD(4) [OF inv r(1)] r(3) by (auto simp: restore_ok_def)
  then have "rb_id r' \<in> jb_targetId ` set (rc_jobs s)" by (metis image_eqI)
  then obtain c where c: "c \<in> set (rc_restores s)" "rb_id c = rb_id r'" "restore_machine.moves\<^sup>*\<^sup>* (rs_status c) (rs_status r')"
    using evolvesD(3) [OF recovery_history.steps_mono [OF steps inv] r(2)] by blast
  then have "c = r" using same_restore [OF rec_invD(1) [OF inv] c(1) r(1)] r(3) by simp
  with c(3) show ?thesis by simp
qed

text \<open>
  C8. The recovery store refines the lifecycle contract: if a backup or a restore is there before
  and after any sequence of steps, its later status is reached from its earlier one by transitions
  of the contract.
\<close>

theorem recovery_refines_lifecycle:
  assumes "rec_inv s" "recovery_step\<^sup>*\<^sup>* s t"
  shows "(\<forall>b \<in> set (rc_backups s). \<forall>b' \<in> set (rc_backups t). rb_id b' = rb_id b \<longrightarrow>
       backup_machine.moves\<^sup>*\<^sup>* (bk_status b) (bk_status b')) \<and>
     (\<forall>r \<in> set (rc_restores s). \<forall>r' \<in> set (rc_restores t). rb_id r' = rb_id r \<longrightarrow>
       restore_machine.moves\<^sup>*\<^sup>* (rs_status r) (rs_status r'))"
  using backup_history [OF assms] restore_history [OF assms] by blast

definition sample_cancel :: cancel_request where
  "sample_cancel = \<lparr>sc_organizationId = ''o'', sc_actorUserId = ''u'', cr_operationId = ''restore_r'', cr_now = None\<rparr>"

lemma sample_cancelled:
  "\<exists>t. play [Call_cancel (rec_sample_env ''a'' 300) sample_cancel] sample_restoring = Some t \<and>
     rc_backups t = rc_backups sample_restoring \<and> map rb_id (rc_restores t) = [''restore_r''] \<and> map rs_status (rc_restores t) = [R_CANCELLED]"
  by (rule case_option_ex) code_simp

lemma sample_restore_row:
  "sample_restore \<in> set (rc_restores sample_restoring)" "rb_id sample_restore = ''restore_r''" "rs_status sample_restore = R_RUNNING"
  by code_simp+

theorem recovery_refines_lifecycle_witness:
  "restore_machine.moves\<^sup>*\<^sup>* R_RUNNING R_CANCELLED \<and> rec_inv sample_restoring"
proof -
  obtain t where p: "play [Call_cancel (rec_sample_env ''a'' 300) sample_cancel] sample_restoring = Some t"
    and t: "map rb_id (rc_restores t) = [''restore_r'']" "map rs_status (rc_restores t) = [R_CANCELLED]"
    using sample_cancelled by (elim exE conjE) (rule that)
  obtain r' where r': "r' \<in> set (rc_restores t)" "rb_id r' = ''restore_r''" "rs_status r' = R_CANCELLED"
    using t by (cases "rc_restores t") auto
  have "rb_id r' = rb_id sample_restore" by (simp only: r'(2) sample_restore_row(2))
  then have "restore_machine.moves\<^sup>*\<^sup>* (rs_status sample_restore) (rs_status r')"
    by (rule recovery_refines_lifecycle [OF sample_restoring_inv play_steps [OF p], THEN conjunct2, rule_format, OF sample_restore_row(1) r'(1)])
  then show ?thesis using sample_restoring_inv by (simp only: sample_restore_row(3) r'(3))
qed

text \<open>
  C11. Two published backups never share an object: in a state with the invariant, READY or EXPIRED
  backups with the same artifact key are the same backup.
\<close>

theorem artifact_keys_distinct:
  assumes inv: "rec_inv s" and b: "b \<in> set (rc_backups s)" "intact (bk_status b)" and c: "c \<in> set (rc_backups s)" "intact (bk_status c)"
    and key: "bk_artifactKey b = bk_artifactKey c"
  shows "b = c"
proof -
  note I = rec_invD [OF inv]
  have owner: "\<exists>(x :: backup) n k. rb_id x = rb_id d \<and> bk_artifactKey d = Some k \<and>
      recoveryObjectKey (rb_organizationId x) (bk_resourceId x) (rb_id x) n = Inr k" if d: "d \<in> set (rc_backups s)" "intact (bk_status d)" for d
  proof -
    obtain a where a: "a \<in> set (rc_attempts s)" "artifact_of d a" using I(3) [OF d(1)] d(2) by (auto simp: backup_ok_def)
    then show ?thesis using I(5) [OF a(1)] by (auto simp: attempt_ok_def artifact_of_def)
  qed
  obtain x :: backup and n k where x: "rb_id x = rb_id b" "bk_artifactKey b = Some k"
    "recoveryObjectKey (rb_organizationId x) (bk_resourceId x) (rb_id x) n = Inr k" using owner [OF b] by blast
  obtain y :: backup and m k' where y: "rb_id y = rb_id c" "bk_artifactKey c = Some k'"
    "recoveryObjectKey (rb_organizationId y) (bk_resourceId y) (rb_id y) m = Inr k'" using owner [OF c] by blast
  have "k' = k" using key x(2) y(2) by simp
  then have "rb_id x = rb_id y" using recoveryObjectKey_inj [OF x(3)] y(3) by blast
  then show ?thesis using same_backup [OF I(1) b(1) c(1)] x(1) y(1) by simp
qed

theorem artifact_keys_distinct_witness:
  "bk_artifactKey (sample_backup ''backup_a'' B_READY) \<noteq> bk_artifactKey (sample_backup ''backup_b'' B_EXPIRED)"
proof
  assume k: "bk_artifactKey (sample_backup ''backup_a'' B_READY) = bk_artifactKey (sample_backup ''backup_b'' B_EXPIRED)"
  have "sample_backup ''backup_a'' B_READY \<in> set (rc_backups sample_restoring)" "sample_backup ''backup_b'' B_EXPIRED \<in> set (rc_backups sample_restoring)"
    "intact (bk_status (sample_backup ''backup_a'' B_READY))" "intact (bk_status (sample_backup ''backup_b'' B_EXPIRED))"
    by code_simp+
  then have "sample_backup ''backup_a'' B_READY = sample_backup ''backup_b'' B_EXPIRED"
    using artifact_keys_distinct [OF sample_restoring_inv] k by blast
  moreover have "sample_backup ''backup_a'' B_READY \<noteq> sample_backup ''backup_b'' B_EXPIRED" by code_simp
  ultimately show False by contradiction
qed

text \<open>
  A resource that the retirement check lets go takes part in no open restore: in a state with
  the invariant it is neither the target of a restore that is not settled nor the resource whose
  backup such a restore reads.
\<close>

theorem retirement_spares_restores:
  assumes inv: "rec_inv s" and ok: "assertRecoveryPins s ids = Inr ()" and r: "r \<in> set (rc_restores s)" "unsettled r"
  shows "rs_targetResourceId r \<notin> set ids \<and> (\<forall>b \<in> set (rc_backups s). rb_id b = rs_backupId r \<longrightarrow> bk_resourceId b \<notin> set ids)"
proof -
  obtain p where p: "p \<in> set (rc_pins s)" "restore_pin r p" using rec_invD(4) [OF inv r(1)] r(2) by (auto simp: restore_ok_def)
  have "rs_targetResourceId r \<notin> set ids" using ok p by (auto simp: assertRecoveryPins_def result_simps list_ex_iff restore_pin_def)
  moreover have "bk_resourceId b \<notin> set ids" if b: "b \<in> set (rc_backups s)" "rb_id b = rs_backupId r" for b
  proof
    assume "bk_resourceId b \<in> set ids"
    then have "bk_status b = B_DELETED" using ok b(1) by (auto simp: assertRecoveryPins_def result_simps list_ex_iff)
    moreover have "restore_pinned s (rb_id b)" using p b(2) by (auto simp: restore_pinned_def list_ex_iff restore_pin_def)
    ultimately show False using pinned_intact [OF inv b(1)] by (simp add: intact_def)
  qed
  ultimately show ?thesis by blast
qed

theorem retirement_spares_restores_witness:
  "assertRecoveryPins sample_restoring [''other''] = Inr () \<and> rs_targetResourceId sample_restore \<notin> set [''other'']"
proof -
  have ok: "assertRecoveryPins sample_restoring [''other''] = Inr ()" by code_simp
  moreover have "unsettled sample_restore" by code_simp
  ultimately show ?thesis using retirement_spares_restores [OF sample_restoring_inv ok sample_restore_row(1)] by blast
qed

lemma replay_finds_backup:
  assumes "existing_operation s request body KBackup = None" "requested e request body KBackup b" "bk_resourceId b = rq_sourceId request"
    "rc_backups t = rc_backups s @ [b]"
  shows "existing_operation t request body KBackup = Some (OpBackup b)"
  using assms by (auto simp: existing_operation_def requested_def find_append)

lemma replay_finds_restore:
  assumes "existing_operation s request body KRestore = None" "requested e request body KRestore r" "rs_backupId r = rq_sourceId request"
    "rc_restores t = rc_restores s @ [r]"
  shows "existing_operation t request body KRestore = Some (OpRestore r)"
  using assms by (auto simp: existing_operation_def requested_def find_append)

lemma find_new_job:
  assumes "i \<notin> jb_targetId ` set (rc_jobs s)" "rc_jobs t = rc_jobs s @ [new_job e k i at]"
  shows "recoveryJob t i = Inr (new_job e k i at)"
proof -
  have "find (\<lambda>row. jb_targetId row = i) (rc_jobs s) = None" using assms(1) by (auto simp: find_None_iff)
  then show ?thesis using assms(2) by (simp add: recoveryJob_def find_append)
qed

lemma new_recovery_authorized:
  assumes "new_recovery e request kind body at s = Inr r"
  shows "recoveryAuthorized s request (recovery_permission kind) = Inr ()"
  using assms unfolding new_recovery_def by (elim bindE_InrE) simp

lemma recoveryAuthorized_cong:
  "rc_members t = rc_members s \<Longrightarrow> rc_organizations t = rc_organizations s \<Longrightarrow> recoveryAuthorized t scope p = recoveryAuthorized s scope p"
  by (simp add: recoveryAuthorized_def)

lemma request_fingerprint_cong: "sha256_hex e' = sha256_hex e \<Longrightarrow> request_fingerprint e' = request_fingerprint e"
  by (intro ext) (simp add: request_fingerprint_def recoveryHash_def)

lemma replay_new:
  assumes new: "new_recovery e request kind body at s = Inr (res, t)" and none: "existing_operation s request body kind = None"
    and fresh: "kind_text kind @ ''_'' @ randomUUID e 0 \<notin> jb_targetId ` set (rc_jobs s)" and hash: "sha256_hex e' = sha256_hex e"
  shows "\<exists>existing. existing_operation t request body kind = Some existing \<and>
    replay_recovery e' request kind body existing t = Inr (res\<lparr>re_replay := True\<rparr>, t)"
proof (cases kind)
  case KBackup
  obtain b p acts where b: "requested e request body KBackup b" "bk_resourceId b = rq_sourceId request"
    and res: "res = \<lparr>re_operation = OpBackup b, re_job = new_job e KBackup (rb_id b) at, re_replay = False\<rparr>"
    and t: "t = s\<lparr>rc_backups := rc_backups s @ [b], rc_pins := rc_pins s @ [p], rc_jobs := rc_jobs s @ [new_job e KBackup (rb_id b) at],
        rc_auditEvents := acts\<rparr>"
    using new KBackup by (auto elim: new_backup_cases)
  have "recoveryJob t (rb_id b) = Inr (new_job e KBackup (rb_id b) at)"
    by (rule find_new_job [of _ s]) (use fresh b KBackup in \<open>simp_all add: requested_def t\<close>)
  moreover have "recoveryAuthorized t request (recovery_permission kind) = Inr ()"
    using new_recovery_authorized [OF new] by (subst recoveryAuthorized_cong [of _ s]) (simp_all add: t)
  ultimately show ?thesis
    using replay_finds_backup [OF none [unfolded KBackup] b, of t] b(1) request_fingerprint_cong [OF hash] KBackup res
    by (simp add: t replay_recovery_def requested_def rec_base.truncate_def)
next
  case KRestore
  obtain r p acts rows where r: "requested e request body KRestore r" "rs_backupId r = rq_sourceId request"
    and res: "res = \<lparr>re_operation = OpRestore r, re_job = new_job e KRestore (rb_id r) at, re_replay = False\<rparr>"
    and t: "t = s\<lparr>rc_resources := rows, rc_restores := rc_restores s @ [r], rc_pins := rc_pins s @ [p],
        rc_jobs := rc_jobs s @ [new_job e KRestore (rb_id r) at], rc_auditEvents := acts\<rparr>"
    using new KRestore by (auto elim: new_restore_cases)
  have "recoveryJob t (rb_id r) = Inr (new_job e KRestore (rb_id r) at)"
    by (rule find_new_job [of _ s]) (use fresh r KRestore in \<open>simp_all add: requested_def t\<close>)
  moreover have "recoveryAuthorized t request (recovery_permission kind) = Inr ()"
    using new_recovery_authorized [OF new] by (subst recoveryAuthorized_cong [of _ s]) (simp_all add: t)
  ultimately show ?thesis
    using replay_finds_restore [OF none [unfolded KRestore] r, of t] r(1) request_fingerprint_cong [OF hash] KRestore res
    by (simp add: t replay_recovery_def requested_def rec_base.truncate_def)
qed

text \<open>
  C10. A retried request is idempotent: after a creation was committed, the same request, at any
  later time and with any random identifiers, gives the operation and the job that were created,
  marked as a replay, and changes nothing.
\<close>

theorem create_replay_idempotent:
  assumes run: "createRecovery e request kind s = Inr (res, t)" "\<not> re_replay res"
    and fresh: "kind_text kind @ ''_'' @ randomUUID e 0 \<notin> jb_targetId ` set (rc_jobs s)"
    and again: "sha256_hex e' = sha256_hex e" "recoveryNow e' (rq_now request) = Inr at'"
  shows "createRecovery e' request kind t = Inr (res\<lparr>re_replay := True\<rparr>, t)"
  using run(1)
proof (cases rule: create_cases)
  case replay
  then show ?thesis using run(2) by simp
next
  case (new body at)
  then show ?thesis using replay_new [OF new(3,2) fresh again(1)] again(2) by (auto simp: createRecovery_def)
qed

lemma sample_creation:
  "\<exists>r t. createRecovery (rec_sample_env ''a'' 0) backup_request KBackup (snapshot rec_sample_store emptyRecoveryState) = Inr (r, t) \<and> \<not> re_replay r"
proof -
  have "case ok_value (createRecovery (rec_sample_env ''a'' 0) backup_request KBackup (snapshot rec_sample_store emptyRecoveryState)) of
    None \<Rightarrow> False | Some rt \<Rightarrow> \<not> re_replay (fst rt)" by code_simp
  then show ?thesis
    by (cases "createRecovery (rec_sample_env ''a'' 0) backup_request KBackup (snapshot rec_sample_store emptyRecoveryState)") auto
qed

theorem create_replay_idempotent_witness:
  "\<exists>r t. createRecovery (rec_sample_env ''b'' 900) backup_request KBackup t = Inr (r, t) \<and> re_replay r"
proof -
  obtain r t where run: "createRecovery (rec_sample_env ''a'' 0) backup_request KBackup (snapshot rec_sample_store emptyRecoveryState) = Inr (r, t)"
    "\<not> re_replay r" using sample_creation by (elim exE conjE) (rule that)
  have "createRecovery (rec_sample_env ''b'' 900) backup_request KBackup t = Inr (r\<lparr>re_replay := True\<rparr>, t)"
    by (rule create_replay_idempotent [OF run])
      (simp_all add: snapshot_def emptyRecoveryState_def rec_sample_env_def recoveryNow_def backup_request_def)
  then show ?thesis by (intro exI conjI, assumption) simp
qed

definition claimable_at :: "ms \<Rightarrow> rec_job \<Rightarrow> bool" where
  "claimable_at at j \<longleftrightarrow> \<not> lt_ms (Some at) (recoveryMillis (jb_runAfter j)) \<and>
     (\<forall>t \<in> set_option (jb_lockedAt j). \<not> lt_ms (Some at) (plus_ms (recoveryMillis t) 60000))"

primrec op_settled :: "operation \<Rightarrow> bool" where
  "op_settled (OpBackup b) = (bk_status b = B_FAILED)"
| "op_settled (OpRestore r) = (rs_status r = R_FAILED)"

lemma op_after_claim: "op_claimable op \<Longrightarrow> op_running (op_claimed at op)" "op_settled (op_failed code at op)"
  by (cases op; auto simp: claimed_base_def)+

lemma job_of_claimable:
  assumes inv: "rec_inv s" and op: "has_op s op" "op_claimable op"
  obtains j where "recoveryJob s (op_id op) = Inr j" "j \<in> set (rc_jobs s)" "jb_targetId j = op_id op" "jb_status j \<in> set [W_queued, W_running]" "job_ok j"
proof -
  obtain j where j: "j \<in> set (rc_jobs s)" "jb_targetId j = op_id op" "jb_status j \<in> set [W_queued, W_running]"
    using op rec_invD(3,4) [OF inv] by (cases op) (fastforce simp: backup_ok_def restore_ok_def)+
  have "find (\<lambda>row. jb_targetId row = jb_targetId j) (rc_jobs s) = Some j"
    by (rule find_key [OF keys_okD(4) [OF rec_invD(1) [OF inv]] j(1)])
  then show ?thesis using that [of j] j rec_invD(2) [OF inv j(1)] by (simp add: recoveryJob_def)
qed


definition restore_claim :: rec_claim where
  "restore_claim = \<lparr>cl_organizationId = ''o'', cl_kind = KRestore, cl_operationId = ''restore_r'', cl_workerId = ''w3'', cl_now = None\<rparr>"


definition sample_orphan :: rec_state where
  "sample_orphan = emptyRecoveryState\<lparr>rc_backups := [sample_backup ''backup_a'' B_QUEUED], rc_jobs := [sample_job ''backup_a'' W_queued 0 None]\<rparr>"

definition orphan_claim :: rec_claim where
  "orphan_claim = \<lparr>cl_organizationId = ''o'', cl_kind = KBackup, cl_operationId = ''backup_a'', cl_workerId = ''w'', cl_now = None\<rparr>"


end
