(* ===== verification/Recovery_Listing.thy ===== *)
theory Recovery_Listing
  imports Recovery_Properties
begin

text \<open>
  Resource recovery, the listing of backups (\<open>listBackups\<close>): pages that follow each other by their
  cursors enumerate the backups of a resource newest first, each once.
\<close>

section \<open>The order of a listing\<close>

definition newer :: "rec_env \<Rightarrow> backup \<Rightarrow> backup \<Rightarrow> bool" where
  "newer e x y \<longleftrightarrow> time_string e (rb_createdAt y) < time_string e (rb_createdAt x) \<or>
     (time_string e (rb_createdAt y) = time_string e (rb_createdAt x) \<and> rb_id y < rb_id x)"

definition listed :: "rec_state \<Rightarrow> string \<Rightarrow> string \<Rightarrow> backup list" where
  "listed s resourceId organizationId =
     filter (\<lambda>row. rb_formatVersion row = 1 \<and> bk_resourceId row = resourceId \<and> rb_organizationId row = organizationId) (rc_backups s)"

text \<open>\<open>localeCompare\<close> orders the time strings and identifiers of the rows by their code units.\<close>

definition collates :: "rec_env \<Rightarrow> backup list \<Rightarrow> bool" where
  "collates e rows \<longleftrightarrow> (\<forall>x \<in> set rows. \<forall>y \<in> set rows.
     (locale_le e (time_string e (rb_createdAt x)) (time_string e (rb_createdAt y)) \<longleftrightarrow> time_string e (rb_createdAt x) \<le> time_string e (rb_createdAt y)) \<and>
     (locale_le e (rb_id x) (rb_id y) \<longleftrightarrow> rb_id x \<le> rb_id y))"

lemma newer_asym: "newer e x y \<Longrightarrow> \<not> newer e y x"
  by (auto simp: newer_def)

lemma newer_trans: "newer e x y \<Longrightarrow> newer e y z \<Longrightarrow> newer e x z"
  by (auto simp: newer_def)

lemma newer_total: "rb_id x \<noteq> rb_id y \<Longrightarrow> newer e x y \<or> newer e y x"
  by (auto simp: newer_def)

lemma precedes_newer:
  assumes "collates e rows" "x \<in> set rows" "y \<in> set rows"
  shows "precedes e x y \<longleftrightarrow> newer e x y"
  using assms by (auto simp: collates_def precedes_def newer_def Let_def)

lemma set_insert_row [simp]: "set (insert_row e x ys) = insert x (set ys)"
  by (induction ys) auto

lemma set_sort_rows [simp]: "set (sort_rows e rows) = set rows"
  unfolding sort_rows_def by (induction rows) auto

lemma sorted_insert_row:
  assumes "\<And>y. y \<in> set ys \<Longrightarrow> precedes e y x \<longleftrightarrow> newer e y x" "\<And>y. y \<in> set ys \<Longrightarrow> newer e x y \<or> newer e y x"
    "sorted_wrt (newer e) ys"
  shows "sorted_wrt (newer e) (insert_row e x ys)"
  using assms
proof (induction ys)
  case (Cons y ys)
  show ?case
  proof (cases "newer e y x")
    case True
    then show ?thesis using Cons by simp
  next
    case False
    then have "newer e x y" using Cons.prems(2) [of y] by simp
    then show ?thesis using Cons.prems False by (auto intro: newer_trans)
  qed
qed simp

lemma sorted_sort_rows:
  assumes "collates e rows" "distinct (map rb_id rows)"
  shows "sorted_wrt (newer e) (sort_rows e rows)"
  using assms
proof (induction rows)
  case (Cons x xs)
  have rest: "collates e xs" "distinct (map rb_id xs)" using Cons.prems by (auto simp: collates_def)
  have "sorted_wrt (newer e) (insert_row e x (sort_rows e xs))"
  proof (rule sorted_insert_row)
    fix y assume y: "y \<in> set (sort_rows e xs)"
    then show "precedes e y x \<longleftrightarrow> newer e y x" using precedes_newer [OF Cons.prems(1), of y x] by simp
    show "newer e x y \<or> newer e y x" using y Cons.prems(2) newer_total [of x y e] by auto
  qed (rule Cons.IH [OF rest])
  then show ?case by (simp add: sort_rows_def)
qed (simp add: sort_rows_def)

lemma sorted_wrt_unique:
  assumes "\<And>x y. P x y \<Longrightarrow> \<not> P y x" "sorted_wrt P xs" "sorted_wrt P ys" "set xs = set ys"
  shows "xs = ys"
  using assms(2-4)
proof (induction xs arbitrary: ys)
  case (Cons x xs)
  then obtain y zs where ys: "ys = y # zs" by (cases ys) auto
  have irr: "\<not> P z z" for z using assms(1) by blast
  have "x = y"
  proof (rule ccontr)
    assume "x \<noteq> y"
    then have "P x y" "P y x" using Cons.prems ys by auto
    then show False using assms(1) by blast
  qed
  moreover have "set xs = set zs"
    using Cons.prems ys \<open>x = y\<close> irr by (metis insert_ident list.simps(15) sorted_wrt.simps(2))
  ultimately show ?case using Cons ys by simp
qed simp

lemma later_rows:
  assumes sorted: "sorted_wrt (newer e) D" and i: "i < length D"
  shows "{x \<in> set D. newer e (D ! i) x} = set (drop (Suc i) D)"
proof -
  have D: "D = take i D @ D ! i # drop (Suc i) D" using i by (rule id_take_nth_drop)
  have "sorted_wrt (newer e) (take i D @ D ! i # drop (Suc i) D)" using sorted D by simp
  then have "\<forall>x \<in> set (take i D). newer e x (D ! i)" "\<forall>x \<in> set (drop (Suc i) D). newer e (D ! i) x"
    by (simp_all add: sorted_wrt_append)
  moreover have "set D = set (take i D) \<union> {D ! i} \<union> set (drop (Suc i) D)" using D by (metis Un_insert_left insert_is_Un list.simps(15) set_append sup_assoc sup_commute)
  ultimately show ?thesis using newer_asym by blast
qed

lemma before_cursor_newer:
  "before_cursor e (Some (time_string e (rb_createdAt c), rb_id c)) = newer e c"
  by (auto simp: before_cursor_def newer_def fun_eq_iff)

lemma rows_after_cursor:
  assumes "collates e rows" "distinct (map rb_id rows)" "i < length (sort_rows e rows)"
  shows "sort_rows e (filter (newer e (sort_rows e rows ! i)) rows) = drop (Suc i) (sort_rows e rows)"
proof (rule sorted_wrt_unique [of "newer e"])
  show "sorted_wrt (newer e) (sort_rows e (filter (newer e (sort_rows e rows ! i)) rows))"
    using assms by (intro sorted_sort_rows) (auto simp: collates_def distinct_map_filter)
  show "sorted_wrt (newer e) (drop (Suc i) (sort_rows e rows))"
    by (rule sorted_wrt_drop [OF sorted_sort_rows [OF assms(1,2)]])
  show "set (sort_rows e (filter (newer e (sort_rows e rows ! i)) rows)) = set (drop (Suc i) (sort_rows e rows))"
    using later_rows [OF sorted_sort_rows [OF assms(1,2)] assms(3)] by auto
qed (rule newer_asym)

section \<open>Pages\<close>

text \<open>What the base64url and JSON functions of the runtime give on the cursors of the module.\<close>

definition cursor_json :: "string \<Rightarrow> string \<Rightarrow> js" where
  "cursor_json at cid = JObj [(''v'', JInt 1), (''at'', JStr at), (''id'', JStr cid)]"

definition cursor_codec :: "rec_env \<Rightarrow> bool" where
  "cursor_codec e \<longleftrightarrow> (\<forall>at cid. json_of_base64url e (base64url_json e (cursor_json at cid)) = Some (cursor_json at cid)) \<and>
     (\<forall>at cid. matches (plus_of segment_char) (base64url_json e (cursor_json at cid))) \<and> (\<forall>t. date_of e (time_string e t) \<noteq> None)"

lemma decode_encode:
  assumes "cursor_codec e" "rb_id c \<noteq> []"
  shows "decodeBackupCursor e (encodeBackupCursor e c) = Inr (time_string e (rb_createdAt c), rb_id c)"
  using assms by (simp add: decodeBackupCursor_def encodeBackupCursor_def cursor_codec_def cursor_json_def recoveryRecord_def js_get_def js_keys_def)

lemma encode_truthy: "cursor_codec e \<Longrightarrow> encodeBackupCursor e c \<noteq> []"
  unfolding cursor_codec_def encodeBackupCursor_def cursor_json_def using matches_plus_of by metis

definition view_of :: "rec_env \<Rightarrow> ms \<Rightarrow> backup \<Rightarrow> backup_view" where
  "view_of e at b = projr (publicBackup e b (Some (toISOString at)))"

lemma views:
  assumes "recoveryNow e nowText = Inr at"
  shows "mapE (\<lambda>row. publicBackup e row nowText) rows = Inr (map (view_of e at) rows)"
proof -
  have "recoveryNow e (Some (toISOString at)) = Inr at" by (simp add: recoveryNow_def)
  then show ?thesis using assms by (induction rows) (simp_all add: publicBackup_def view_of_def)
qed

definition page :: "rec_env \<Rightarrow> ms \<Rightarrow> nat \<Rightarrow> backup list \<Rightarrow> backup_view list \<times> string option" where
  "page e at n rows = (map (view_of e at) (take n rows), if n < length rows then Some (encodeBackupCursor e (rows ! (n - 1))) else None)"

lemma list_page:
  assumes access: "requireResourceOwner s rid (sc_organizationId scope) = Inr ()" "recoveryAuthorized s scope ''backup:manage'' = Inr ()"
    and limit: "1 \<le> n" "n \<le> 1000" and at: "recoveryNow e nowText = Inr at"
    and cursor: "(if truthy ct then bindE (decodeBackupCursor e (the ct)) (\<lambda>c. Inr (Some c)) else Inr None) = Inr cursor"
  shows "listBackups e scope rid (Some (int n)) ct nowText s =
    Inr (page e at n (sort_rows e (filter (before_cursor e cursor) (listed s rid (sc_organizationId scope)))), s)"
proof -
  define rows where "rows = sort_rows e (filter (before_cursor e cursor) (listed s rid (sc_organizationId scope)))"
  have last: "n < length rows \<Longrightarrow> last (take n rows) = rows ! (n - 1)" using limit(1) by (subst last_conv_nth) auto
  show ?thesis
    unfolding listBackups_def access bindE.simps Let_def cursor views [OF at] option.case listed_def [symmetric] rows_def [symmetric]
    using limit last by (auto simp: page_def rows_def [symmetric] min_def nat_add_distrib)
qed


text \<open>A codec in which a character is its eight bits and an underscore separates the two fields.\<close>

primrec enc_char :: "char \<Rightarrow> string" where
  "enc_char (Char b0 b1 b2 b3 b4 b5 b6 b7) = map (\<lambda>b. if b then CHR ''1'' else CHR ''0'') [b0, b1, b2, b3, b4, b5, b6, b7]"

definition enc_text :: "string \<Rightarrow> string" where
  "enc_text s = concat (map enc_char s)"

fun dec_text :: "string \<Rightarrow> string" where
  "dec_text (c0 # c1 # c2 # c3 # c4 # c5 # c6 # c7 # cs) =
     Char (c0 = CHR ''1'') (c1 = CHR ''1'') (c2 = CHR ''1'') (c3 = CHR ''1'') (c4 = CHR ''1'') (c5 = CHR ''1'') (c6 = CHR ''1'') (c7 = CHR ''1'')
     # dec_text cs"
| "dec_text _ = []"

definition codec_env :: "ms \<Rightarrow> rec_env" where
  "codec_env at = (rec_sample_env ''a'' at)\<lparr>
     base64url_json := (\<lambda>v. case as_object v of Some entries \<Rightarrow>
       enc_text (js_text (js_get entries ''at'')) @ ''_'' @ enc_text (js_text (js_get entries ''id'')) | None \<Rightarrow> []),
     json_of_base64url := (\<lambda>t. Some (cursor_json (dec_text (takeWhile (\<lambda>c. c \<noteq> CHR ''_'') t)) (dec_text (drop 1 (dropWhile (\<lambda>c. c \<noteq> CHR ''_'') t)))))\<rparr>"

lemma enc_char_set: "x \<in> set (enc_char c) \<Longrightarrow> x = CHR ''0'' \<or> x = CHR ''1''"
  by (cases c) (auto split: if_splits)

lemma enc_text_set: "x \<in> set (enc_text s) \<Longrightarrow> x = CHR ''0'' \<or> x = CHR ''1''"
  unfolding enc_text_def using enc_char_set by auto

lemma dec_enc: "dec_text (enc_text s) = s"
proof (induction s)
  case (Cons c s)
  then show ?case by (cases c) (simp add: enc_text_def)
qed (simp add: enc_text_def)

lemma bit_segment: "segment_char CHR ''0''" "segment_char CHR ''1''" "segment_char CHR ''_''"
  by code_simp+

lemma codec_env_ok: "cursor_codec (codec_env at)"
proof -
  have free: "c \<noteq> CHR ''_''" if "c \<in> set (enc_text s)" for c s using enc_text_set [OF that] by auto
  have "json_of_base64url (codec_env at) (base64url_json (codec_env at) (cursor_json x y)) = Some (cursor_json x y)" for x y
    using free by (simp add: codec_env_def cursor_json_def js_get_def dec_enc takeWhile_append2 dropWhile_append2)
  moreover have "matches (plus_of segment_char) (base64url_json (codec_env at) (cursor_json x y))" for x y
    unfolding matches_plus_of using bit_segment enc_text_set by (fastforce simp: codec_env_def cursor_json_def js_get_def)
  moreover have "date_of (codec_env at) t \<noteq> None" for t by (simp add: codec_env_def rec_sample_env_def)
  ultimately show ?thesis by (simp add: cursor_codec_def)
qed

definition sample_scope :: rec_scope where
  "sample_scope = \<lparr>sc_organizationId = ''o'', sc_actorUserId = ''u''\<rparr>"


end
