(* ===== verification/Rentals.thy ===== *)
theory Rentals
  imports Ids
begin

text \<open>
  Domain rentals (\<open>packages/core/src/domain-rentals.ts\<close>): users rent names under a base domain that
  redirect to a target of their choice. The service runs its mutations in the owner's transaction
  of the repository; the model has the in-memory repository, whose transaction restores the rows
  and the audit events when the work throws.

  A \<open>rental_env\<close> holds what comes from outside: the clock, the offset of the local zone, the random
  identifier of the call, the account lookup and the lookup of hostnames that services occupy (both
  constructor arguments of the repository), the WHATWG URL parser, the recognition of IPv6
  addresses, and the order of \<open>localeCompare\<close> on identifiers. Creation times are outputs of
  \<open>toISOString\<close>, which \<open>localeCompare\<close> orders as the instants, so they are instants here.
\<close>

section \<open>Data\<close>

datatype rental_error = DomainRentalError string nat

record rental_user =
  ru_id :: string
  ru_accountType :: string
  ru_approvalStatus :: string
  ru_bannedAt :: "time_text option"
  ru_banExpiresAt :: "time_text option"

record rental =
  rt_id :: string
  rt_ownerUserId :: string
  rt_hostname :: string
  rt_targetUrl :: string
  rt_enabled :: bool
  rt_version :: int
  rt_createdAt :: ms
  rt_updatedAt :: ms

record rental_config =
  cfg_baseDomain :: string
  cfg_reservedNames :: "string list"

record rental_audit =
  ev_actorUserId :: string
  ev_action :: string
  ev_rental :: rental

record url =
  url_protocol :: string
  url_username :: string
  url_password :: string
  url_hostname :: string
  url_href :: string

record rental_env =
  re_now :: ms
  re_zone :: ms
  re_uuid :: string
  re_lookupUser :: "string \<Rightarrow> rental_user option"
  re_lookupOccupied :: "string \<Rightarrow> bool"
  re_parseUrl :: "string \<Rightarrow> url option"
  re_isIPv6 :: "string \<Rightarrow> bool"
  re_locale_le :: "string \<Rightarrow> string \<Rightarrow> bool"

record rental_store =
  rn_rows :: "(string \<times> rental) list"
  rn_events :: "rental_audit list"

section \<open>Names and hostnames\<close>

definition LABEL :: regex where
  "LABEL = Seq (Cls lower_alnum) (opt (Seq (Rep slug_char 0 61) (Cls lower_alnum)))"

definition RESERVED :: "string list" where
  "RESERVED = [''www'', ''app'', ''api'', ''admin'', ''dashboard'', ''auth'', ''login'', ''logout'', ''sso'',
     ''apps'', ''preview'', ''console'', ''resources'', ''registry'', ''registry-auth'',
     ''logs'', ''metrics'', ''status'', ''health'', ''traefik'', ''grafana'', ''prometheus'',
     ''mail'', ''smtp'', ''imap'', ''pop'', ''pop3'', ''ftp'', ''ssh'', ''ns'', ''ns1'', ''ns2'',
     ''autoconfig'', ''autodiscover'', ''webmail'', ''webhook'', ''webhooks'', ''git'',
     ''cdn'', ''static'', ''assets'', ''docs'', ''help'', ''support'', ''localhost'']"

definition RESERVED_PREFIXES :: "string list" where
  "RESERVED_PREFIXES = [''apps--'', ''preview--'', ''console--'', ''resources--'', ''xn--'']"

text \<open>\<open>String.prototype.split\<close> on one character, and the removal of one trailing dot.\<close>

fun split_on :: "char \<Rightarrow> string \<Rightarrow> string list" where
  "split_on d [] = [[]]"
| "split_on d (c # cs) = (if c = d then [] # split_on d cs else (c # hd (split_on d cs)) # tl (split_on d cs))"

definition strip_dot :: "string \<Rightarrow> string" where
  "strip_dot s = (if s \<noteq> [] \<and> last s = CHR ''.'' then butlast s else s)"

definition octet :: regex where
  "octet = Alt (Seq (lit ''25'') (Cls (char_range CHR ''0'' CHR ''5'')))
     (Alt (Seq (lit ''2'') (Seq (Cls (char_range CHR ''0'' CHR ''4'')) (Cls digit)))
     (Alt (Seq (lit ''1'') (Seq (Cls digit) (Cls digit)))
     (Seq (opt (Cls (char_range CHR ''1'' CHR ''9''))) (Cls digit))))"

definition isIPv4 :: "string \<Rightarrow> bool" where
  "isIPv4 s \<longleftrightarrow> length (split_on CHR ''.'' s) = 4 \<and> list_all (matches octet) (split_on CHR ''.'' s)"

record rental_settings =
  rs_baseDomain :: "string option"
  rs_reservedNames :: "string option"
  rs_urls :: "string option list"

definition platform_name :: "rental_env \<Rightarrow> string \<Rightarrow> string option \<Rightarrow> string list" where
  "platform_name e baseDomain value =
     (if \<not> truthy value then [] else
      case re_parseUrl e (the value) of None \<Rightarrow> []
      | Some u \<Rightarrow> if ends_with (url_hostname u) (CHR ''.'' # baseDomain)
          then [take (length (url_hostname u) - (length baseDomain + 1)) (url_hostname u)] else [])"

definition domainRentalConfig :: "rental_env \<Rightarrow> rental_settings \<Rightarrow> (rental_error, rental_config) result" where
  "domainRentalConfig e env =
     (let baseDomain = strip_dot (toLowerCase (trim (if truthy (rs_baseDomain env) then the (rs_baseDomain env) else ''raibit.kr'')));
          labels = split_on CHR ''.'' baseDomain in
      bindE (ensure (length baseDomain \<le> 189 \<and> 2 \<le> length labels \<and> list_all (matches LABEL) labels \<and>
          \<not> (isIPv4 baseDomain \<or> re_isIPv6 e baseDomain)) (DomainRentalError ''DOMAIN_RENTAL_BASE_DOMAIN_INVALID'' 500)) (\<lambda>_.
      Inr \<lparr>cfg_baseDomain = baseDomain,
         cfg_reservedNames = filter (\<lambda>n. n \<noteq> []) (map (\<lambda>n. toLowerCase (trim n))
             (split_on CHR '','' (case rs_reservedNames env of None \<Rightarrow> [] | Some t \<Rightarrow> t)))
           @ concat (map (platform_name e baseDomain) (rs_urls env))\<rparr>))"

definition reservedName :: "string \<Rightarrow> rental_config \<Rightarrow> bool" where
  "reservedName name config \<longleftrightarrow> name \<in> set RESERVED \<or> name \<in> set (cfg_reservedNames config) \<or>
     list_ex (starts_with name) RESERVED_PREFIXES"

definition normalizeDomainRentalName :: "js \<Rightarrow> rental_config \<Rightarrow> (rental_error, string) result" where
  "normalizeDomainRentalName value config =
     bindE (from_option (DomainRentalError ''DOMAIN_RENTAL_NAME_INVALID'' 400) (as_string value)) (\<lambda>v.
     let name = toLowerCase (trim v) in
     bindE (ensure (matches LABEL name) (DomainRentalError ''DOMAIN_RENTAL_NAME_INVALID'' 400)) (\<lambda>_.
     bindE (ensure (\<not> reservedName name config) (DomainRentalError ''DOMAIN_RENTAL_NAME_RESERVED'' 409)) (\<lambda>_.
     Inr name)))"

definition host_pattern :: regex where
  "host_pattern = Seq (plus_of (\<lambda>c. alnum c \<or> one_of ''.-'' c)) (opt (Seq (lit '':'') (Rep digit 1 5)))"

definition strip_port :: "string \<Rightarrow> string" where
  "strip_port s =
     (let digits = takeWhile digit (rev s); rest = drop (length digits) (rev s) in
      if digits \<noteq> [] \<and> rest \<noteq> [] \<and> hd rest = CHR '':'' then rev (tl rest) else s)"

definition domainRentalHostname :: "js \<Rightarrow> rental_config \<Rightarrow> string option" where
  "domainRentalHostname host config =
     (case host of
        JStr h \<Rightarrow>
          if \<not> matches host_pattern h then None else
          let hostname = strip_dot (strip_port (toLowerCase h)); suffix = CHR ''.'' # cfg_baseDomain config;
              label = take (length hostname - length suffix) hostname in
          if ends_with hostname suffix \<and> matches LABEL label \<and> \<not> reservedName label config then Some hostname else None
      | _ \<Rightarrow> None)"

section \<open>Targets\<close>

definition strip_brackets :: "string \<Rightarrow> string" where
  "strip_brackets s =
     (let t = (if s \<noteq> [] \<and> hd s = CHR ''['' then tl s else s) in
      if t \<noteq> [] \<and> last t = CHR '']'' then butlast t else t)"

definition octets :: "string \<Rightarrow> nat list" where
  "octets s = map (\<lambda>t. foldl (\<lambda>n c. 10 * n + (code_unit c - 48)) 0 t) (split_on CHR ''.'' s)"

definition local_ipv4 :: "nat \<Rightarrow> nat \<Rightarrow> bool" where
  "local_ipv4 a b \<longleftrightarrow> a = 0 \<or> a = 10 \<or> a = 127 \<or> 224 \<le> a \<or> (a = 169 \<and> b = 254) \<or>
     (a = 172 \<and> 16 \<le> b \<and> b \<le> 31) \<or> (a = 192 \<and> b = 168) \<or> (a = 100 \<and> 64 \<le> b \<and> b \<le> 127)"

definition local_ipv6 :: "string \<Rightarrow> bool" where
  "local_ipv6 host \<longleftrightarrow> host = ''::'' \<or> host = ''::1'' \<or>
     list_ex (starts_with host) [''fc'', ''fd'', ''fe8'', ''fe9'', ''fea'', ''feb'', ''ff'', ''::ffff:'']"

definition localDestination :: "rental_env \<Rightarrow> string \<Rightarrow> bool" where
  "localDestination e hostname =
     (let host = toLowerCase (strip_dot (strip_brackets hostname)) in
      if CHR ''.'' \<notin> set host \<and> CHR '':'' \<notin> set host then True
      else if list_ex (\<lambda>suffix. host = suffix \<or> ends_with host (CHR ''.'' # suffix))
          [''localhost'', ''local'', ''internal'', ''lan'', ''test'', ''invalid''] then True
      else if isIPv4 host then local_ipv4 (octets host ! 0) (octets host ! 1)
      else if re_isIPv6 e host then local_ipv6 host
      else False)"

definition control_char :: "char \<Rightarrow> bool" where
  "control_char c \<longleftrightarrow> char_range CHR 0x00 CHR 0x20 c \<or> c = CHR 0x7F \<or> c = CHR 0x5C"

definition clean_target :: "string \<Rightarrow> bool" where
  "clean_target v \<longleftrightarrow> trim v \<noteq> [] \<and> length v \<le> 4096 \<and> \<not> list_ex control_char (trim v) \<and>
     \<not> list_ex (\<lambda>x. has_infix x v) [''%0a'', ''%0A'', ''%0d'', ''%0D'']"

definition normalizeDomainRentalTarget :: "rental_env \<Rightarrow> js \<Rightarrow> rental_config \<Rightarrow> (rental_error, string) result" where
  "normalizeDomainRentalTarget e value config =
     (let invalid = DomainRentalError ''DOMAIN_RENTAL_TARGET_INVALID'' 400 in
      bindE (from_option invalid (as_string value)) (\<lambda>v.
      bindE (ensure (clean_target v) invalid) (\<lambda>_.
      bindE (from_option invalid (re_parseUrl e (trim v))) (\<lambda>target.
      bindE (ensure ((url_protocol target = ''http:'' \<or> url_protocol target = ''https:'') \<and> url_username target = [] \<and>
          url_password target = [] \<and> url_hostname target \<noteq> [] \<and> \<not> localDestination e (url_hostname target)) invalid) (\<lambda>_.
      bindE (ensure (domainRentalHostname (JStr (url_hostname target)) config = None)
          (DomainRentalError ''DOMAIN_RENTAL_REDIRECT_LOOP'' 400)) (\<lambda>_.
      bindE (ensure (length (url_href target) \<le> 4096) invalid) (\<lambda>_.
      Inr (url_href target))))))))"

section \<open>Accounts and input\<close>

definition domainRentalLimit :: "rental_user \<Rightarrow> nat" where
  "domainRentalLimit user = (if ru_accountType user = ''CLUB_MEMBER'' then 5 else 2)"

definition domainRentalUserAllowed :: "rental_env \<Rightarrow> rental_user option \<Rightarrow> bool" where
  "domainRentalUserAllowed e user =
     (case user of None \<Rightarrow> False
      | Some u \<Rightarrow> ru_approvalStatus u = ''APPROVED'' \<and>
          (ru_bannedAt u = None \<or>
           (case ru_banExpiresAt u of None \<Rightarrow> False | Some t \<Rightarrow> le_ms (dateParse (re_zone e) t) (Some (re_now e)))))"

definition requireUser :: "rental_env \<Rightarrow> rental_user option \<Rightarrow> (rental_error, rental_user) result" where
  "requireUser e user =
     bindE (ensure (domainRentalUserAllowed e user) (DomainRentalError ''DOMAIN_RENTAL_ACCOUNT_UNAVAILABLE'' 403)) (\<lambda>_.
     Inr (the user))"

definition inputObject :: "js \<Rightarrow> string list \<Rightarrow> (rental_error, js_fields) result" where
  "inputObject value allowed =
     bindE (from_option (DomainRentalError ''DOMAIN_RENTAL_INPUT_INVALID'' 400) (as_object value)) (\<lambda>input.
     bindE (ensure (list_all (\<lambda>k. k \<in> set allowed) (js_keys input)) (DomainRentalError ''DOMAIN_RENTAL_INPUT_INVALID'' 400)) (\<lambda>_.
     Inr input))"

definition expectedVersion :: "js_fields \<Rightarrow> (rental_error, int) result" where
  "expectedVersion input =
     (case js_get input ''expectedVersion'' of
        JInt n \<Rightarrow> if safe_integer (JInt n) \<and> 1 \<le> n then Inr n else Inl (DomainRentalError ''DOMAIN_RENTAL_VERSION_REQUIRED'' 400)
      | _ \<Rightarrow> Inl (DomainRentalError ''DOMAIN_RENTAL_VERSION_REQUIRED'' 400))"

fun enabled_input :: "js \<Rightarrow> (rental_error, bool option) result" where
  "enabled_input JUndef = Inr None"
| "enabled_input (JBool b) = Inr (Some b)"
| "enabled_input _ = Inl (DomainRentalError ''DOMAIN_RENTAL_INPUT_INVALID'' 400)"

definition rental_before :: "rental_env \<Rightarrow> rental \<Rightarrow> rental \<Rightarrow> bool" where
  "rental_before e a b \<longleftrightarrow> rt_createdAt a < rt_createdAt b \<or>
     (rt_createdAt a = rt_createdAt b \<and> re_locale_le e (rt_id a) (rt_id b) \<and> \<not> re_locale_le e (rt_id b) (rt_id a))"

fun insert_rental :: "rental_env \<Rightarrow> rental \<Rightarrow> rental list \<Rightarrow> rental list" where
  "insert_rental e x [] = [x]"
| "insert_rental e x (y # ys) = (if rental_before e y x then y # insert_rental e x ys else x # y # ys)"

definition sorted_rentals :: "rental_env \<Rightarrow> rental list \<Rightarrow> rental list" where
  "sorted_rentals e rentals = foldr (insert_rental e) rentals []"

section \<open>The in-memory repository\<close>

definition memory_list :: "rental_store \<Rightarrow> string \<Rightarrow> rental list" where
  "memory_list s ownerUserId = filter (\<lambda>row. rt_ownerUserId row = ownerUserId) (map snd (rn_rows s))"

definition memory_find :: "rental_store \<Rightarrow> string \<Rightarrow> rental option" where
  "memory_find s rid = map_of (rn_rows s) rid"

definition memory_findHostname :: "rental_store \<Rightarrow> string \<Rightarrow> rental option" where
  "memory_findHostname s hostname = find (\<lambda>row. rt_hostname row = hostname) (map snd (rn_rows s))"

type_synonym 'a rental_act = "(rental_store, rental_error, 'a) act"

definition memory_insert :: "rental \<Rightarrow> unit rental_act" where
  "memory_insert rental =
     bindA get_state (\<lambda>s.
     bindA (guard (memory_findHostname s (rt_hostname rental) = None) (DomainRentalError ''DOMAIN_RENTAL_NAME_TAKEN'' 409)) (\<lambda>_.
     change (\<lambda>s. s\<lparr>rn_rows := map_put (rt_id rental) rental (rn_rows s)\<rparr>)))"

definition memory_update :: "rental \<Rightarrow> unit rental_act" where
  "memory_update rental = change (\<lambda>s. s\<lparr>rn_rows := map_put (rt_id rental) rental (rn_rows s)\<rparr>)"

definition memory_remove :: "string \<Rightarrow> unit rental_act" where
  "memory_remove rid = change (\<lambda>s. s\<lparr>rn_rows := map_delete rid (rn_rows s)\<rparr>)"

definition memory_audit :: "string \<Rightarrow> string \<Rightarrow> rental \<Rightarrow> unit rental_act" where
  "memory_audit actor action rental =
     change (\<lambda>s. s\<lparr>rn_events := rn_events s @ [\<lparr>ev_actorUserId = actor, ev_action = action, ev_rental = rental\<rparr>]\<rparr>)"

definition withOwner :: "'a rental_act \<Rightarrow> 'a rental_act" where
  "withOwner work s =
     (case work s of
        (Inl err, t) \<Rightarrow> (Inl err, t\<lparr>rn_rows := rn_rows s, rn_events := take (length (rn_events s)) (rn_events t)\<rparr>)
      | (Inr x, t) \<Rightarrow> (Inr x, t))"

section \<open>The service\<close>

record rental_view =
  vw_rental :: rental
  vw_name :: string
  vw_url :: string
  vw_quotaSuspended :: bool

record rental_listing =
  ls_accountType :: string
  ls_limit :: nat
  ls_used :: nat
  ls_remaining :: nat
  ls_rentals :: "rental_view list"

definition rentals_list :: "rental_env \<Rightarrow> rental_config \<Rightarrow> string \<Rightarrow> rental_listing rental_act" where
  "rentals_list e config ownerUserId =
     bindA (lift (requireUser e (re_lookupUser e ownerUserId))) (\<lambda>user.
     bindA (read (\<lambda>s. sorted_rentals e (memory_list s ownerUserId))) (\<lambda>rentals.
     let limit = domainRentalLimit user in
     ret \<lparr>ls_accountType = ru_accountType user, ls_limit = limit, ls_used = length rentals, ls_remaining = limit - length rentals,
       ls_rentals = map (\<lambda>(index, rental). \<lparr>vw_rental = rental,
           vw_name = take (length (rt_hostname rental) - (length (cfg_baseDomain config) + 1)) (rt_hostname rental),
           vw_url = ''https://'' @ rt_hostname rental, vw_quotaSuspended = limit \<le> index\<rparr>) (enumerate 0 rentals)\<rparr>))"

definition rentals_create :: "rental_env \<Rightarrow> rental_config \<Rightarrow> string \<Rightarrow> js \<Rightarrow> rental rental_act" where
  "rentals_create e config ownerUserId value =
     bindA (lift (inputObject value [''name'', ''targetUrl'', ''enabled''])) (\<lambda>input.
     bindA (lift (normalizeDomainRentalName (js_get input ''name'') config)) (\<lambda>name.
     bindA (lift (normalizeDomainRentalTarget e (js_get input ''targetUrl'') config)) (\<lambda>targetUrl.
     bindA (lift (enabled_input (js_get input ''enabled''))) (\<lambda>enabled.
     withOwner (
       bindA (lift (requireUser e (re_lookupUser e ownerUserId))) (\<lambda>user.
       bindA (read (\<lambda>s. memory_list s ownerUserId)) (\<lambda>rentals.
       bindA (guard (length rentals < domainRentalLimit user) (DomainRentalError ''DOMAIN_RENTAL_QUOTA_EXCEEDED'' 409)) (\<lambda>_.
       let hostname = name @ CHR ''.'' # cfg_baseDomain config in
       bindA (read (\<lambda>s. memory_findHostname s hostname)) (\<lambda>taken.
       bindA (guard (taken = None \<and> \<not> re_lookupOccupied e hostname) (DomainRentalError ''DOMAIN_RENTAL_NAME_TAKEN'' 409)) (\<lambda>_.
       let rental = \<lparr>rt_id = re_uuid e, rt_ownerUserId = ownerUserId, rt_hostname = hostname, rt_targetUrl = targetUrl,
           rt_enabled = (enabled \<noteq> Some False), rt_version = 1, rt_createdAt = re_now e, rt_updatedAt = re_now e\<rparr> in
       bindA (memory_insert rental) (\<lambda>_.
       bindA (memory_audit ownerUserId ''domain-rental.create'' rental) (\<lambda>_.
       ret rental))))))))))))"

definition optional :: "js \<Rightarrow> (js \<Rightarrow> (rental_error, 'a) result) \<Rightarrow> (rental_error, 'a option) result" where
  "optional v f = (if v = JUndef then Inr None else bindE (f v) (\<lambda>x. Inr (Some x)))"

definition rentals_update :: "rental_env \<Rightarrow> rental_config \<Rightarrow> string \<Rightarrow> string \<Rightarrow> js \<Rightarrow> rental rental_act" where
  "rentals_update e config ownerUserId rid value =
     bindA (lift (inputObject value [''name'', ''targetUrl'', ''enabled'', ''expectedVersion''])) (\<lambda>input.
     bindA (lift (expectedVersion input)) (\<lambda>version.
     bindA (guard (list_ex (\<lambda>k. k \<in> set (js_keys input)) [''name'', ''targetUrl'', ''enabled''])
       (DomainRentalError ''DOMAIN_RENTAL_INPUT_INVALID'' 400)) (\<lambda>_.
     bindA (lift (optional (js_get input ''name'') (\<lambda>v. bindE (normalizeDomainRentalName v config) (\<lambda>n. Inr (n @ CHR ''.'' # cfg_baseDomain config))))) (\<lambda>hostname.
     bindA (lift (optional (js_get input ''targetUrl'') (\<lambda>v. normalizeDomainRentalTarget e v config))) (\<lambda>targetUrl.
     bindA (lift (enabled_input (js_get input ''enabled''))) (\<lambda>enabled.
     withOwner (
       bindA (lift (requireUser e (re_lookupUser e ownerUserId))) (\<lambda>_.
       bindA (read_or (DomainRentalError ''DOMAIN_RENTAL_NOT_FOUND'' 404) (\<lambda>s. memory_find s rid)) (\<lambda>current.
       bindA (guard (rt_ownerUserId current = ownerUserId) (DomainRentalError ''DOMAIN_RENTAL_NOT_FOUND'' 404)) (\<lambda>_.
       bindA (guard (rt_version current = version) (DomainRentalError ''DOMAIN_RENTAL_VERSION_CONFLICT'' 409)) (\<lambda>_.
       let name = (case hostname of None \<Rightarrow> rt_hostname current | Some h \<Rightarrow> h) in
       bindA (read (\<lambda>s. memory_findHostname s name)) (\<lambda>taken.
       bindA (guard (name = rt_hostname current \<or> (taken = None \<and> \<not> re_lookupOccupied e name))
         (DomainRentalError ''DOMAIN_RENTAL_NAME_TAKEN'' 409)) (\<lambda>_.
       let rental = current\<lparr>rt_hostname := name, rt_targetUrl := (case targetUrl of None \<Rightarrow> rt_targetUrl current | Some u \<Rightarrow> u),
           rt_enabled := (case enabled of None \<Rightarrow> rt_enabled current | Some b \<Rightarrow> b), rt_version := rt_version current + 1,
           rt_updatedAt := re_now e\<rparr> in
       bindA (memory_update rental) (\<lambda>_.
       bindA (memory_audit ownerUserId ''domain-rental.update'' rental) (\<lambda>_.
       ret rental)))))))))))))))"

definition rentals_remove :: "rental_env \<Rightarrow> string \<Rightarrow> string \<Rightarrow> js \<Rightarrow> unit rental_act" where
  "rentals_remove e ownerUserId rid value =
     bindA (lift (bindE (inputObject value [''expectedVersion'']) expectedVersion)) (\<lambda>version.
     withOwner (
       bindA (lift (requireUser e (re_lookupUser e ownerUserId))) (\<lambda>_.
       bindA (read_or (DomainRentalError ''DOMAIN_RENTAL_NOT_FOUND'' 404) (\<lambda>s. memory_find s rid)) (\<lambda>rental.
       bindA (guard (rt_ownerUserId rental = ownerUserId) (DomainRentalError ''DOMAIN_RENTAL_NOT_FOUND'' 404)) (\<lambda>_.
       bindA (guard (rt_version rental = version) (DomainRentalError ''DOMAIN_RENTAL_VERSION_CONFLICT'' 409)) (\<lambda>_.
       bindA (memory_remove rid) (\<lambda>_.
       memory_audit ownerUserId ''domain-rental.delete'' rental)))))))"

definition rentals_resolve :: "rental_env \<Rightarrow> rental_config \<Rightarrow> rental_store \<Rightarrow> js \<Rightarrow> (rental_error, string option) result" where
  "rentals_resolve e config s host =
     (case domainRentalHostname host config of None \<Rightarrow> Inr None
      | Some hostname \<Rightarrow>
        (case memory_findHostname s hostname of None \<Rightarrow> Inr None
         | Some rental \<Rightarrow>
             if \<not> rt_enabled rental then Inr None else
             let user = re_lookupUser e (rt_ownerUserId rental) in
             if \<not> domainRentalUserAllowed e user then Inr None else
             let eligible = take (domainRentalLimit (the user)) (sorted_rentals e (memory_list s (ru_id (the user)))) in
             if \<not> list_ex (\<lambda>candidate. rt_id candidate = rt_id rental) eligible then Inr None
             else bindE (normalizeDomainRentalTarget e (JStr (rt_targetUrl rental)) config) (\<lambda>t. Inr (Some t))))"

section \<open>The invariant\<close>

text \<open>
  The rows are keyed by their identifiers, no two rentals share a hostname, every hostname is a
  well-formed and unreserved label under the base domain, and versions start at one.
\<close>

definition rentable :: "rental_config \<Rightarrow> string \<Rightarrow> bool" where
  "rentable config hostname \<longleftrightarrow> (\<exists>name. hostname = name @ CHR ''.'' # cfg_baseDomain config \<and>
     matches LABEL name \<and> \<not> reservedName name config)"

definition rental_inv :: "rental_config \<Rightarrow> rental_store \<Rightarrow> bool" where
  "rental_inv config s \<longleftrightarrow> distinct (map fst (rn_rows s)) \<and> distinct (map (\<lambda>p. rt_hostname (snd p)) (rn_rows s)) \<and>
     (\<forall>(k, r) \<in> set (rn_rows s). rt_id r = k \<and> 1 \<le> rt_version r \<and> rentable config (rt_hostname r))"

inductive rental_step :: "rental_config \<Rightarrow> rental_store \<Rightarrow> rental_store \<Rightarrow> bool" for config where
  step_create: "rentals_create e config owner value s = (r, t) \<Longrightarrow> rental_step config s t"
| step_update: "rentals_update e config owner rid value s = (r', t) \<Longrightarrow> rental_step config s t"
| step_remove: "rentals_remove e owner rid value s = (r'', t) \<Longrightarrow> rental_step config s t"

lemma findHostname_None:
  "memory_findHostname s h = None \<longleftrightarrow> (\<forall>p \<in> set (rn_rows s). rt_hostname (snd p) \<noteq> h)"
  by (auto simp: memory_findHostname_def find_None_iff)

lemma distinct_map_put:
  assumes "distinct (map fst m)" and "distinct (map (\<lambda>p. f (snd p)) m)"
    and "\<And>p. p \<in> set m \<Longrightarrow> fst p \<noteq> k \<Longrightarrow> f (snd p) \<noteq> f v"
  shows "distinct (map (\<lambda>p. f (snd p)) (map_put k v m))"
  using assms
proof (induction m)
  case (Cons p m)
  have other: "q \<in> set m \<Longrightarrow> fst q \<noteq> fst p" for q
    using Cons.prems(1) by (metis distinct.simps(2) imageI list.set_map list.simps(9))
  show ?case
  proof (cases "fst p = k")
    case True
    have "f v \<noteq> f (snd q)" if "q \<in> set m" for q
      using Cons.prems(3) [of q] other [OF that] that True by force
    with True Cons.prems show ?thesis by auto
  next
    case False
    have "f (snd p) \<noteq> f (snd q)" if "q \<in> set (map_put k v m)" for q
      using in_map_put [OF that] Cons.prems(2) Cons.prems(3) [of p] False by auto
    with False Cons.prems Cons.IH show ?thesis by auto
  qed
qed simp

lemma rental_inv_put:
  assumes "rental_inv config s" and "rentable config (rt_hostname r)" and "1 \<le> rt_version r"
    and "\<And>p. p \<in> set (rn_rows s) \<Longrightarrow> fst p \<noteq> rt_id r \<Longrightarrow> rt_hostname (snd p) \<noteq> rt_hostname r"
    and "rn_rows t = map_put (rt_id r) r (rn_rows s)"
  shows "rental_inv config t"
  using assms unfolding rental_inv_def
  by (auto simp: distinct_keys_put intro!: distinct_map_put dest!: in_map_put)

lemma rental_inv_delete:
  "rental_inv config s \<Longrightarrow> rn_rows t = map_delete k (rn_rows s) \<Longrightarrow> rental_inv config t"
  unfolding rental_inv_def map_delete_def by (auto simp: distinct_map_filter)

lemma rental_inv_rows: "rental_inv config s \<Longrightarrow> rn_rows t = rn_rows s \<Longrightarrow> rental_inv config t"
  by (simp add: rental_inv_def)

lemma name_rentable:
  "normalizeDomainRentalName v config = Inr name \<Longrightarrow> rentable config (name @ CHR ''.'' # cfg_baseDomain config)"
  by (auto simp: normalizeDomainRentalName_def rentable_def Let_def result_simps)

section \<open>What the operations do\<close>

text \<open>A mutation that throws leaves the store as it was.\<close>

lemma withOwner_cases:
  assumes "withOwner work s = (r, t)"
  obtains err u where "work s = (Inl err, u)" "r = Inl err"
      "t = u\<lparr>rn_rows := rn_rows s, rn_events := take (length (rn_events s)) (rn_events u)\<rparr>"
    | x where "work s = (Inr x, t)" "r = Inr x"
  using assms by (auto simp: withOwner_def split: prod.splits sum.splits)

lemma bindA_memory_insert:
  "bindA (memory_insert rental) k s =
     (if memory_findHostname s (rt_hostname rental) = None
      then k () (s\<lparr>rn_rows := map_put (rt_id rental) rental (rn_rows s)\<rparr>)
      else (Inl (DomainRentalError ''DOMAIN_RENTAL_NAME_TAKEN'' 409), s))"
  by (simp add: memory_insert_def run_simps)

lemmas rental_writes = bindA_memory_insert memory_update_def memory_remove_def memory_audit_def run_simps

lemma requireUser_Inr:
  "requireUser e v = Inr u \<longleftrightarrow> v = Some u \<and> domainRentalUserAllowed e (Some u)"
  by (cases v) (auto simp: requireUser_def result_simps domainRentalUserAllowed_def)

lemma create_split:
  assumes "rentals_create e config owner value s = (r, t)"
  shows "(isl r \<and> t = s) \<or>
    (\<exists>input name target enabled user rental. r = Inr rental \<and>
       normalizeDomainRentalName (js_get input ''name'') config = Inr name \<and>
       normalizeDomainRentalTarget e (js_get input ''targetUrl'') config = Inr target \<and>
       re_lookupUser e owner = Some user \<and> domainRentalUserAllowed e (Some user) \<and>
       length (memory_list s owner) < domainRentalLimit user \<and>
       memory_findHostname s (rt_hostname rental) = None \<and> \<not> re_lookupOccupied e (rt_hostname rental) \<and>
       rental = \<lparr>rt_id = re_uuid e, rt_ownerUserId = owner, rt_hostname = name @ CHR ''.'' # cfg_baseDomain config,
         rt_targetUrl = target, rt_enabled = (enabled \<noteq> Some False), rt_version = 1,
         rt_createdAt = re_now e, rt_updatedAt = re_now e\<rparr> \<and>
       rn_rows t = map_put (rt_id rental) rental (rn_rows s) \<and>
       rn_events t = rn_events s @ [\<lparr>ev_actorUserId = owner, ev_action = ''domain-rental.create'', ev_rental = rental\<rparr>])"
  using assms unfolding rentals_create_def Let_def
  apply (elim run_elims withOwner_cases)
             apply (simp_all add: rental_writes split: if_splits)
  unfolding requireUser_Inr
  apply (intro exI conjI; (assumption | rule refl)?)
  apply auto
  done

lemma optional_Inr:
  "optional v f = Inr r \<longleftrightarrow> (v = JUndef \<and> r = None) \<or> (v \<noteq> JUndef \<and> (\<exists>x. f v = Inr x \<and> r = Some x))"
  by (auto simp: optional_def result_simps)

lemma update_split:
  assumes "rentals_update e config owner rid value s = (r, t)"
  shows "(isl r \<and> t = s) \<or>
    (\<exists>current rental user. r = Inr rental \<and> memory_find s rid = Some current \<and>
       rt_ownerUserId current = owner \<and> re_lookupUser e owner = Some user \<and> domainRentalUserAllowed e (Some user) \<and>
       rt_id rental = rt_id current \<and> rt_ownerUserId rental = owner \<and> rt_version rental = rt_version current + 1 \<and>
       rt_createdAt rental = rt_createdAt current \<and>
       (rt_hostname rental = rt_hostname current \<or>
          (memory_findHostname s (rt_hostname rental) = None \<and> \<not> re_lookupOccupied e (rt_hostname rental) \<and>
           rentable config (rt_hostname rental))) \<and>
       rn_rows t = map_put (rt_id current) rental (rn_rows s))"
  using assms unfolding rentals_update_def Let_def
  apply (elim run_elims withOwner_cases)
                    apply (simp_all add: rental_writes split: if_splits)
  unfolding requireUser_Inr optional_Inr
  by (auto simp: result_simps name_rentable)

lemma remove_split:
  assumes "rentals_remove e owner rid value s = (r, t)"
  shows "(isl r \<and> t = s) \<or>
    (\<exists>current. r = Inr () \<and> memory_find s rid = Some current \<and> rt_ownerUserId current = owner \<and>
       rn_rows t = map_delete rid (rn_rows s))"
  using assms unfolding rentals_remove_def Let_def
  apply (elim run_elims withOwner_cases)
           apply (simp_all add: rental_writes split: if_splits)
  by auto

lemma memory_find_in: "memory_find s rid = Some r \<Longrightarrow> (rid, r) \<in> set (rn_rows s)"
  by (simp add: memory_find_def map_of_SomeD)

lemma inv_hostname_unique:
  assumes "rental_inv config s" "p \<in> set (rn_rows s)" "q \<in> set (rn_rows s)"
    "rt_hostname (snd p) = rt_hostname (snd q)"
  shows "p = q"
  using assms distinct_key_eq [of "\<lambda>p. rt_hostname (snd p)" "rn_rows s" p q] by (simp add: rental_inv_def)

lemma rental_step_inv: "rental_step config s t \<Longrightarrow> rental_inv config s \<Longrightarrow> rental_inv config t"
proof (induction rule: rental_step.induct)
  case (step_create e owner v s r t)
  from create_split [OF step_create(1)] show ?case
  proof (elim disjE exE conjE)
    fix rental name input target enabled
    assume "memory_findHostname s (rt_hostname rental) = None" "rn_rows t = map_put (rt_id rental) rental (rn_rows s)"
      "normalizeDomainRentalName (js_get input ''name'') config = Inr name"
      "rental = \<lparr>rt_id = re_uuid e, rt_ownerUserId = owner, rt_hostname = name @ CHR ''.'' # cfg_baseDomain config,
         rt_targetUrl = target, rt_enabled = (enabled \<noteq> Some False), rt_version = 1,
         rt_createdAt = re_now e, rt_updatedAt = re_now e\<rparr>"
    then show ?thesis
      by (intro rental_inv_put [OF step_create(2), of rental]) (auto simp: findHostname_None name_rentable)
  qed (simp add: step_create)
next
  case (step_update e owner rid v s r t)
  from update_split [OF step_update(1)] show ?case
  proof (elim disjE exE conjE)
    fix current rental
    assume *: "memory_find s rid = Some current" "rt_id rental = rt_id current"
      "rt_version rental = rt_version current + 1" "rn_rows t = map_put (rt_id current) rental (rn_rows s)"
    have cur: "(rid, current) \<in> set (rn_rows s)" by (rule memory_find_in [OF *(1)])
    with step_update(2) have row: "rt_id current = rid" "1 \<le> rt_version current" "rentable config (rt_hostname current)"
      by (auto simp: rental_inv_def)
    { assume same: "rt_hostname rental = rt_hostname current"
      have "rt_hostname (snd p) \<noteq> rt_hostname rental" if "p \<in> set (rn_rows s)" "fst p \<noteq> rt_id rental" for p
        using inv_hostname_unique [OF step_update(2) that(1) cur] that(2) row(1) same *(2) by auto
      with same * row show "rental_inv config t"
        by (intro rental_inv_put [OF step_update(2), of rental]) auto }
    { assume "rentable config (rt_hostname rental)" "memory_findHostname s (rt_hostname rental) = None"
      with * row show "rental_inv config t"
        by (intro rental_inv_put [OF step_update(2), of rental]) (auto simp: findHostname_None) }
  qed (simp add: step_update)
next
  case (step_remove e owner rid v s r t)
  from remove_split [OF step_remove(1)] step_remove(2) show ?case
    by (auto intro: rental_inv_delete)
qed

interpretation rental_steps: step_invariant "rental_step config" "rental_inv config" for config
  by unfold_locales (rule rental_step_inv)

section \<open>Hostnames under a valid base domain\<close>

lemma split_on_chars: "set s \<subseteq> insert d (\<Union> (set ` set (split_on d s)))"
proof (induction s)
  case (Cons c s)
  have "split_on d s \<noteq> []" by (cases s) auto
  then have "set (split_on d s) = insert (hd (split_on d s)) (set (tl (split_on d s)))"
    by (cases "split_on d s") auto
  with Cons show ?case by auto
qed simp

lemma split_on_last: "s \<noteq> [] \<Longrightarrow> last s = d \<Longrightarrow> last (split_on d s) = [] \<and> tl (split_on d s) \<noteq> []"
proof (induction s)
  case (Cons c s)
  show ?case
  proof (cases s)
    case Nil
    with Cons show ?thesis by simp
  next
    case (Cons c' s')
    then have "last (split_on d s) = [] \<and> tl (split_on d s) \<noteq> []" using Cons.IH Cons.prems by simp
    then show ?thesis by (cases "split_on d s") auto
  qed
qed simp

definition host_char :: "char \<Rightarrow> bool" where
  "host_char c \<longleftrightarrow> slug_char c \<or> c = CHR ''.''"

lemma LABEL_chars: "matches LABEL s \<Longrightarrow> c \<in> set s \<Longrightarrow> slug_char c"
  by (rule matches_within [of _ LABEL]) (auto simp: LABEL_def opt_def slug_char_def char_class_defs)

lemma LABEL_not_Nil: "matches LABEL s \<Longrightarrow> s \<noteq> []"
  by (auto simp: LABEL_def)

lemma base_domain_ok:
  assumes "domainRentalConfig e settings = Inr config"
  shows "cfg_baseDomain config \<noteq> []" and "last (cfg_baseDomain config) \<noteq> CHR ''.''"
    and "c \<in> set (cfg_baseDomain config) \<Longrightarrow> host_char c"
proof -
  define b where "b = cfg_baseDomain config"
  have *: "2 \<le> length (split_on CHR ''.'' b)" "list_all (matches LABEL) (split_on CHR ''.'' b)"
    using assms by (auto simp: domainRentalConfig_def Let_def result_simps b_def)
  from *(1) show ne: "cfg_baseDomain config \<noteq> []" by (auto simp: b_def)
  have "split_on CHR ''.'' b \<noteq> []" using *(1) by auto
  then have "last (split_on CHR ''.'' b) \<noteq> []"
    using *(2) by (metis LABEL_not_Nil last_in_set list_all_iff)
  with ne show "last (cfg_baseDomain config) \<noteq> CHR ''.''" using split_on_last by (auto simp: b_def)
  show "host_char c" if "c \<in> set (cfg_baseDomain config)"
    using that split_on_chars [of b "CHR ''.''"] *(2)
    by (auto simp: b_def host_char_def list_all_iff intro: LABEL_chars)
qed

lemma host_chars_plain:
  assumes "host_char c"
  shows "lower_char c = c" and "alnum c \<or> one_of ''.-'' c" and "c \<noteq> CHR '':''"
  using assms unfolding host_char_def slug_char_def
  by (auto simp: lower_char_def upper_letter_def char_class_defs)

lemma strip_port_plain:
  assumes "CHR '':'' \<notin> set s"
  shows "strip_port s = s"
proof -
  have "hd (drop n (rev s)) \<noteq> CHR '':''" if "drop n (rev s) \<noteq> []" for n
    using hd_in_set [OF that] set_drop_subset [of n "rev s"] assms by auto
  then show ?thesis by (simp only: strip_port_def Let_def) auto
qed

lemma rentable_hostname:
  assumes cfg: "domainRentalConfig e settings = Inr config" and "rentable config h"
  shows "domainRentalHostname (JStr h) config = Some h"
proof -
  obtain name where h: "h = name @ CHR ''.'' # cfg_baseDomain config" "matches LABEL name" "\<not> reservedName name config"
    using assms(2) by (auto simp: rentable_def)
  have chars: "host_char c" if "c \<in> set h" for c
    using that base_domain_ok(3) [OF cfg] LABEL_chars [OF h(2)] by (auto simp: h(1) host_char_def)
  have "h \<in> lang (plus_of (\<lambda>c. alnum c \<or> one_of ''.-'' c))"
    using chars h(1) host_chars_plain(2) by (auto simp flip: matches_lang simp: matches_plus_of)
  then have m: "matches host_pattern h"
    unfolding matches_lang host_pattern_def opt_def lang.simps conc_def mem_Collect_eq
    by (intro exI [of _ h] exI [of _ "[]"]) simp
  have "toLowerCase h = h" using chars host_chars_plain(1) by (simp add: toLowerCase_def map_idI)
  moreover have "strip_port h = h" using chars host_chars_plain(3) by (intro strip_port_plain) blast
  moreover have "strip_dot h = h" using base_domain_ok(1,2) [OF cfg] by (simp add: strip_dot_def h(1))
  ultimately show ?thesis
    using m h by (simp add: domainRentalHostname_def Let_def ends_with_def)
qed

lemma set_insert_rental [simp]: "set (insert_rental e x ys) = insert x (set ys)"
  by (induction ys) auto

lemma length_insert_rental [simp]: "length (insert_rental e x ys) = Suc (length ys)"
  by (induction ys) auto

lemma sorted_rentals_set [simp]: "set (sorted_rentals e xs) = set xs" "length (sorted_rentals e xs) = length xs"
  unfolding sorted_rentals_def by (induction xs) auto

lemma count_map_put: "length (filter Q (map snd (map_put k v m))) \<le> Suc (length (filter Q (map snd m)))"
  by (induction m) auto

lemma in_map_put_self: "(k, v) \<in> set (map_put k v m)"
  by (induction m) auto

lemma findHostname_put:
  assumes "memory_findHostname s (rt_hostname r) = None" and "rn_rows t = map_put (rt_id r) r (rn_rows s)"
  shows "memory_findHostname t (rt_hostname r) = Some r"
  unfolding memory_findHostname_def
proof (rule find_unique)
  show "r \<in> set (map snd (rn_rows t))"
    using in_map_put_self [of "rt_id r" r "rn_rows s"] assms(2) by (metis image_eqI list.set_map snd_conv)
  show "x = r" if "x \<in> set (map snd (rn_rows t))" "rt_hostname x = rt_hostname r" for x
    using that assms by (auto simp: findHostname_None dest!: in_map_put)
qed simp

lemma resolve_split:
  assumes "rentals_resolve e config s host = Inr (Some target)"
  shows "\<exists>h rental user. domainRentalHostname host config = Some h \<and> memory_findHostname s h = Some rental \<and> rt_enabled rental \<and>
    re_lookupUser e (rt_ownerUserId rental) = Some user \<and> domainRentalUserAllowed e (Some user) \<and>
    list_ex (\<lambda>c. rt_id c = rt_id rental) (take (domainRentalLimit user) (sorted_rentals e (memory_list s (ru_id user)))) \<and>
    normalizeDomainRentalTarget e (JStr (rt_targetUrl rental)) config = Inr target"
  using assms
  by (auto simp: rentals_resolve_def Let_def result_simps domainRentalUserAllowed_def split: option.splits if_splits)

lemma inv_rental_eq:
  assumes "rental_inv config s" "a \<in> set (map snd (rn_rows s))" "b \<in> set (map snd (rn_rows s))" "rt_id a = rt_id b"
  shows "a = b"
proof -
  obtain k l where kl: "(k, a) \<in> set (rn_rows s)" "(l, b) \<in> set (rn_rows s)" using assms(2,3) by auto
  have "rt_id r = j" if "(j, r) \<in> set (rn_rows s)" for j r
    using assms(1) that unfolding rental_inv_def by blast
  with kl assms(4) have "k = l" by metis
  moreover have "distinct (map fst (rn_rows s))" using assms(1) unfolding rental_inv_def by blast
  ultimately show ?thesis using kl by (metis eq_key_imp_eq_value)
qed

section \<open>A sample\<close>

definition sample_url :: url where
  "sample_url = \<lparr>url_protocol = ''https:'', url_username = [], url_password = [], url_hostname = ''blog.example.org'',
     url_href = ''https://blog.example.org/''\<rparr>"

definition sample_renter :: rental_user where
  "sample_renter = \<lparr>ru_id = ''usr_1'', ru_accountType = ''INDIVIDUAL'', ru_approvalStatus = ''APPROVED'',
     ru_bannedAt = None, ru_banExpiresAt = None\<rparr>"

definition sample_rental_env :: rental_env where
  "sample_rental_env = \<lparr>re_now = 5000, re_zone = 0, re_uuid = ''r1'',
     re_lookupUser = (\<lambda>i. if i = ''usr_1'' then Some sample_renter else None), re_lookupOccupied = (\<lambda>_. False),
     re_parseUrl = (\<lambda>v. if v = ''https://blog.example.org/'' then Some sample_url else None),
     re_isIPv6 = (\<lambda>_. False), re_locale_le = (\<lambda>a b. True)\<rparr>"

definition sample_rental_config :: rental_config where
  "sample_rental_config = \<lparr>cfg_baseDomain = ''raibit.kr'', cfg_reservedNames = []\<rparr>"

definition sample_rental_input :: js where
  "sample_rental_input = JObj [(''name'', JStr '' Blog ''), (''targetUrl'', JStr ''https://blog.example.org/'')]"

definition sample_rental :: rental where
  "sample_rental = \<lparr>rt_id = ''r1'', rt_ownerUserId = ''usr_1'', rt_hostname = ''blog.raibit.kr'',
     rt_targetUrl = ''https://blog.example.org/'', rt_enabled = True, rt_version = 1, rt_createdAt = 5000, rt_updatedAt = 5000\<rparr>"

definition no_rentals :: rental_store where
  "no_rentals = \<lparr>rn_rows = [], rn_events = []\<rparr>"

definition one_rental :: rental_store where
  "one_rental = \<lparr>rn_rows = [(''r1'', sample_rental)],
     rn_events = [\<lparr>ev_actorUserId = ''usr_1'', ev_action = ''domain-rental.create'', ev_rental = sample_rental\<rparr>]\<rparr>"

lemma sample_create:
  "rentals_create sample_rental_env sample_rental_config ''usr_1'' sample_rental_input no_rentals = (Inr sample_rental, one_rental)"
  by code_simp

lemma sample_config:
  "domainRentalConfig sample_rental_env \<lparr>rs_baseDomain = None, rs_reservedNames = None, rs_urls = []\<rparr> = Inr sample_rental_config"
  by code_simp

lemma sample_resolve:
  "rentals_resolve sample_rental_env sample_rental_config one_rental (JStr ''Blog.raibit.kr:443'') = Inr (Some ''https://blog.example.org/'')"
  by code_simp

section \<open>Properties\<close>

text \<open>
  C28. Whatever users create, change and remove, no two rentals share a hostname, every rented
  hostname is a well-formed, unreserved label under the base domain, rows are keyed by their
  identifiers and versions are at least one.
\<close>

theorem rentals_reachable_inv:
  assumes "(rental_step config)\<^sup>*\<^sup>* no_rentals s"
  shows "rental_inv config s"
  by (rule rental_steps.steps_keep [OF assms]) (simp add: rental_inv_def no_rentals_def)

theorem rentals_reachable_inv_witness:
  "rental_inv sample_rental_config one_rental \<and> rn_rows one_rental \<noteq> []"
proof -
  have "(rental_step sample_rental_config)\<^sup>*\<^sup>* no_rentals one_rental"
    by (rule r_into_rtranclp, rule step_create, rule sample_create)
  then show ?thesis using rentals_reachable_inv by (simp add: one_rental_def)
qed

text \<open>
  C29. A name that was rented works: right after a successful creation with the redirect enabled,
  a request for the rented hostname resolves to the stored target. The base domain is one that
  the configuration accepts, the account lookup answers with the account it was asked for, and
  the URL parser is idempotent: the serialisation of a parsed URL parses to the same URL and is
  as clean as the text was.
\<close>

theorem rented_name_resolves:
  assumes "domainRentalConfig e settings = Inr config"
    and "rentals_create e config owner value s = (Inr rental, t)" and "rt_enabled rental"
    and "\<And>i u. re_lookupUser e i = Some u \<Longrightarrow> ru_id u = i"
    and "\<And>v u. re_parseUrl e (trim v) = Some u \<Longrightarrow> clean_target v \<Longrightarrow> length (url_href u) \<le> 4096 \<Longrightarrow>
       clean_target (url_href u) \<and> re_parseUrl e (trim (url_href u)) = Some u"
  shows "rentals_resolve e config t (JStr (rt_hostname rental)) = Inr (Some (rt_targetUrl rental))"
proof -
  obtain input name target user where c: "normalizeDomainRentalName (js_get input ''name'') config = Inr name"
      "normalizeDomainRentalTarget e (js_get input ''targetUrl'') config = Inr target"
      "re_lookupUser e owner = Some user" "domainRentalUserAllowed e (Some user)"
      "length (memory_list s owner) < domainRentalLimit user" "memory_findHostname s (rt_hostname rental) = None"
      "rt_hostname rental = name @ CHR ''.'' # cfg_baseDomain config" "rt_targetUrl rental = target"
      "rt_ownerUserId rental = owner" "rn_rows t = map_put (rt_id rental) rental (rn_rows s)"
    using create_split [OF assms(2)] by auto
  have host: "domainRentalHostname (JStr (rt_hostname rental)) config = Some (rt_hostname rental)"
    unfolding c(7) by (rule rentable_hostname [OF assms(1) name_rentable [OF c(1)]])
  have found: "memory_findHostname t (rt_hostname rental) = Some rental"
    by (rule findHostname_put [OF c(6,10)])
  have "length (memory_list t owner) \<le> domainRentalLimit user"
    using count_map_put [of _ "rt_id rental" rental "rn_rows s"] c(5,10)
    unfolding memory_list_def by (metis Suc_leI le_trans)
  moreover have "rental \<in> set (memory_list t owner)"
    using found c(9) by (auto simp: memory_list_def memory_findHostname_def)
  ultimately have "list_ex (\<lambda>x. rt_id x = rt_id rental) (take (domainRentalLimit user) (sorted_rentals e (memory_list t (ru_id user))))"
    using assms(4) [OF c(3)] by (auto simp: list_ex_iff)
  moreover have "normalizeDomainRentalTarget e (JStr target) config = Inr target"
    using c(2) assms(5) by (fastforce simp: normalizeDomainRentalTarget_def Let_def result_simps)
  ultimately show ?thesis
    using host found assms(3) c(3,4,8,9) by (simp add: rentals_resolve_def)
qed

theorem rented_name_resolves_witness:
  "rentals_resolve sample_rental_env sample_rental_config one_rental (JStr (rt_hostname sample_rental)) =
     Inr (Some (rt_targetUrl sample_rental))"
proof (rule rented_name_resolves [OF sample_config sample_create])
  have u: "clean_target (url_href sample_url)" "trim (url_href sample_url) = ''https://blog.example.org/''"
    by code_simp+
  show "clean_target (url_href u) \<and> re_parseUrl sample_rental_env (trim (url_href u)) = Some u"
    if "re_parseUrl sample_rental_env (trim v) = Some u" for v u
    using that u by (simp add: sample_rental_env_def split: if_splits)
qed (auto simp: sample_rental_def sample_rental_env_def sample_renter_def split: if_splits)

text \<open>
  C30. A redirect is only ever served for an enabled rental of an approved, unbanned account, to a
  public http or https destination without credentials, and never to a hostname that is itself
  rentable: redirects do not chain or loop inside the rental domain.
\<close>

theorem resolve_safe:
  assumes "rentals_resolve e config s host = Inr (Some target)"
  shows "\<exists>rental user u. rental \<in> snd ` set (rn_rows s) \<and> domainRentalHostname host config = Some (rt_hostname rental) \<and>
    rt_enabled rental \<and> re_lookupUser e (rt_ownerUserId rental) = Some user \<and> domainRentalUserAllowed e (Some user) \<and>
    re_parseUrl e (trim (rt_targetUrl rental)) = Some u \<and> target = url_href u \<and>
    (url_protocol u = ''http:'' \<or> url_protocol u = ''https:'') \<and> url_username u = [] \<and> url_password u = [] \<and>
    \<not> localDestination e (url_hostname u) \<and> domainRentalHostname (JStr (url_hostname u)) config = None"
proof -
  obtain h rental user where c: "domainRentalHostname host config = Some h" "memory_findHostname s h = Some rental"
      "rt_enabled rental" "re_lookupUser e (rt_ownerUserId rental) = Some user" "domainRentalUserAllowed e (Some user)"
      "normalizeDomainRentalTarget e (JStr (rt_targetUrl rental)) config = Inr target"
    using resolve_split [OF assms] by blast
  then have "rental \<in> snd ` set (rn_rows s)" "rt_hostname rental = h"
    by (auto simp: memory_findHostname_def dest!: find_SomeD)
  moreover obtain u where "re_parseUrl e (trim (rt_targetUrl rental)) = Some u" "target = url_href u"
      "url_protocol u = ''http:'' \<or> url_protocol u = ''https:''" "url_username u = []" "url_password u = []"
      "\<not> localDestination e (url_hostname u)" "domainRentalHostname (JStr (url_hostname u)) config = None"
    using c(6) by (auto simp: normalizeDomainRentalTarget_def Let_def result_simps)
  ultimately show ?thesis using c by blast
qed

theorem resolve_safe_witness:
  "\<exists>rental user u. rental \<in> snd ` set (rn_rows one_rental) \<and>
    domainRentalHostname (JStr ''Blog.raibit.kr:443'') sample_rental_config = Some (rt_hostname rental) \<and>
    rt_enabled rental \<and> re_lookupUser sample_rental_env (rt_ownerUserId rental) = Some user \<and>
    re_parseUrl sample_rental_env (trim (rt_targetUrl rental)) = Some u \<and> ''https://blog.example.org/'' = url_href u \<and>
    domainRentalHostname (JStr (url_hostname u)) sample_rental_config = None"
  using resolve_safe [OF sample_resolve] by blast

text \<open>
  C31. At most as many rentals of an account are served as its quota allows, also when the account
  holds more than that, for example after it changed from a club member to an individual.
\<close>

theorem served_within_quota:
  assumes "rental_inv config s" and "re_lookupUser e owner = Some user" and "ru_id user = owner"
  shows "card {rental. rental \<in> snd ` set (rn_rows s) \<and> rt_ownerUserId rental = owner \<and>
     (\<exists>host target. domainRentalHostname host config = Some (rt_hostname rental) \<and>
        rentals_resolve e config s host = Inr (Some target))} \<le> domainRentalLimit user" (is "card ?served \<le> _")
proof -
  define eligible where "eligible = take (domainRentalLimit user) (sorted_rentals e (memory_list s owner))"
  have "rental \<in> set eligible" if r: "rental \<in> ?served" for rental
  proof -
    from r obtain host target where h: "rental \<in> snd ` set (rn_rows s)" "rt_ownerUserId rental = owner"
        "domainRentalHostname host config = Some (rt_hostname rental)" "rentals_resolve e config s host = Inr (Some target)"
      by blast
    obtain r' user' where r': "memory_findHostname s (rt_hostname rental) = Some r'"
        "re_lookupUser e (rt_ownerUserId r') = Some user'"
        "list_ex (\<lambda>c. rt_id c = rt_id r') (take (domainRentalLimit user') (sorted_rentals e (memory_list s (ru_id user'))))"
      using resolve_split [OF h(4)] h(3) by auto
    have "r' = rental"
      using r'(1) h(1) inv_hostname_unique [OF assms(1)] by (auto simp: memory_findHostname_def dest!: find_SomeD)
    then obtain c where c: "c \<in> set eligible" "rt_id c = rt_id rental"
      using r'(2,3) h(2) assms(2,3) by (auto simp: eligible_def list_ex_iff)
    then have "c \<in> set (memory_list s owner)" by (auto simp: eligible_def dest: in_set_takeD)
    then have "c = rental"
      using inv_rental_eq [OF assms(1) _ _ c(2)] h(1) by (auto simp: memory_list_def)
    with c show ?thesis by simp
  qed
  then have "card ?served \<le> card (set eligible)" by (intro card_mono) auto
  also have "\<dots> \<le> domainRentalLimit user" using card_length [of eligible] by (simp add: eligible_def)
  finally show ?thesis .
qed

theorem served_within_quota_witness:
  "card {rental. rental \<in> snd ` set (rn_rows one_rental) \<and> rt_ownerUserId rental = ''usr_1'' \<and>
     (\<exists>host target. domainRentalHostname host sample_rental_config = Some (rt_hostname rental) \<and>
        rentals_resolve sample_rental_env sample_rental_config one_rental host = Inr (Some target))} \<le> domainRentalLimit sample_renter"
proof (rule served_within_quota)
  show "rental_inv sample_rental_config one_rental"
    by (rule rental_step_inv [OF step_create [OF sample_create]]) (simp add: rental_inv_def no_rentals_def)
qed (simp_all add: sample_rental_env_def sample_renter_def)

end
