(* ===== verification/Redaction.thy ===== *)
theory Redaction
  imports JsValue
begin

text \<open>
  The redaction of observations (\<open>packages/core/src/observability-redaction.ts\<close>): log lines and
  event records lose private keys, quoted and unquoted secrets, credentials in URLs, cookies,
  authorization headers, provider tokens and JWTs before they are stored or shown. The state that
  a line leaves for the next one says whether a private key or a quoted secret is still open.

  The scanners walk the line by index as the code does: \<open>unit_at\<close> is the indexing that gives
  \<open>undefined\<close> outside the string, \<open>slice\<close> is \<open>String.prototype.slice\<close> on indices in range,
  \<open>index_from\<close> is \<open>indexOf\<close>, and \<open>skip_while\<close> the loops that advance the index while a test
  holds. Strings are Latin-1, so the UTF-8 prefix of a number of bytes is a prefix of the string.
\<close>

section \<open>Scanning a line\<close>

definition unit_at :: "string \<Rightarrow> nat \<Rightarrow> char option" where
  "unit_at val i = (if i < length val then Some (val ! i) else None)"

definition char_at :: "(char \<Rightarrow> bool) \<Rightarrow> string \<Rightarrow> nat \<Rightarrow> bool" where
  "char_at P val i \<longleftrightarrow> i < length val \<and> P (val ! i)"

definition slice :: "string \<Rightarrow> nat \<Rightarrow> nat \<Rightarrow> string" where
  "slice val i j = take (j - i) (drop i val)"

definition skip_while :: "(char \<Rightarrow> bool) \<Rightarrow> string \<Rightarrow> nat \<Rightarrow> nat" where
  "skip_while P val i = i + length (takeWhile P (drop i val))"

fun index_of :: "string \<Rightarrow> string \<Rightarrow> nat option" where
  "index_of needle [] = (if needle = [] then Some 0 else None)"
| "index_of needle (c # cs) =
     (if starts_with (c # cs) needle then Some 0 else map_option Suc (index_of needle cs))"

definition index_from :: "string \<Rightarrow> string \<Rightarrow> nat \<Rightarrow> nat option" where
  "index_from needle val i = map_option (\<lambda>n. i + n) (index_of needle (drop i val))"

text \<open>The first position where a matcher accepts, with the length it accepts.\<close>

fun exec_first :: "(string \<Rightarrow> nat option) \<Rightarrow> string \<Rightarrow> (nat \<times> nat) option" where
  "exec_first f [] = map_option (\<lambda>n. (0, n)) (f [])"
| "exec_first f (c # cs) =
     (case f (c # cs) of Some n \<Rightarrow> Some (0, n) | None \<Rightarrow> map_option (\<lambda>(i, n). (Suc i, n)) (exec_first f cs))"

lemma skip_while_ge: "i \<le> skip_while P val i"
  by (simp add: skip_while_def)

lemma skip_while_gt: "char_at P val i \<Longrightarrow> i < skip_while P val i"
  by (simp add: skip_while_def char_at_def Cons_nth_drop_Suc [symmetric])

lemma starts_with_length: "starts_with s p \<Longrightarrow> length p \<le> length s"
  by (auto simp: starts_with_iff)

lemma index_of_bound: "index_of needle s = Some n \<Longrightarrow> n + length needle \<le> length s"
proof (induction s arbitrary: n)
  case (Cons c s)
  show ?case
  proof (cases "starts_with (c # s) needle")
    case True
    with Cons.prems have "n = 0" by simp
    with starts_with_length [OF True] show ?thesis by simp
  next
    case False
    with Cons show ?thesis by auto
  qed
qed (auto split: if_splits)

lemma index_from_bound:
  "index_from needle val i = Some n \<Longrightarrow> i \<le> n \<and> (i \<le> length val \<longrightarrow> n + length needle \<le> length val)"
  by (auto simp: index_from_def dest!: index_of_bound)

lemma index_from_lt: "index_from needle val i = Some n \<Longrightarrow> needle \<noteq> [] \<Longrightarrow> i \<le> n \<and> n < length val"
proof -
  assume a: "index_from needle val i = Some n" and ne: "needle \<noteq> []"
  then obtain k where "index_of needle (drop i val) = Some k" "n = i + k" by (auto simp: index_from_def)
  with index_of_bound [OF this(1)] ne show ?thesis by (cases needle) auto
qed

section \<open>Limits\<close>

definition OBSERVABILITY_LINE_BYTES :: nat where
  "OBSERVABILITY_LINE_BYTES = 16384"

definition marker :: string where
  "marker = ''****''"

definition truncationSuffix :: string where
  "truncationSuffix = '' [truncated]''"

fun byte_prefix :: "nat \<Rightarrow> string \<Rightarrow> string" where
  "byte_prefix n [] = []"
| "byte_prefix n (c # cs) = (let b = utf8_length [c] in if b \<le> n then c # byte_prefix (n - b) cs else [])"

definition truncateObservationText :: "string \<Rightarrow> nat \<Rightarrow> string" where
  "truncateObservationText val limit =
     (if utf8_length val \<le> limit then val
      else byte_prefix (limit - utf8_length truncationSuffix) val @ truncationSuffix)"

definition boundedObservationInput :: "string \<Rightarrow> string \<times> bool" where
  "boundedObservationInput val =
     (let probe = take (OBSERVABILITY_LINE_BYTES + 1) val in
      if utf8_length probe \<le> OBSERVABILITY_LINE_BYTES \<and> length probe = length val then (val, False)
      else (byte_prefix OBSERVABILITY_LINE_BYTES probe, True))"

section \<open>Private keys\<close>

definition pem_char :: "char \<Rightarrow> bool" where
  "pem_char c \<longleftrightarrow> upper c \<or> digit c \<or> c = CHR '' ''"

definition pem_boundary :: "string \<Rightarrow> string \<Rightarrow> nat option" where
  "pem_boundary word s =
     (let open_text = ''-----'' @ word @ '' ''; body = takeWhile pem_char (drop (length open_text) s);
          close_text = drop (length open_text + length body) s in
      if starts_with s open_text \<and> ends_with body ''PRIVATE KEY'' \<and> starts_with close_text ''-----''
      then Some (length open_text + length body + 5) else None)"

lemma pem_boundary_bound: "pem_boundary word s = Some n \<Longrightarrow> 0 < n \<and> n \<le> length s"
proof -
  assume "pem_boundary word s = Some n"
  then obtain k where n: "n = k + 5" "starts_with (drop k s) ''-----''"
    unfolding pem_boundary_def Let_def by (metis option.inject option.simps(3))
  then have "5 \<le> length (drop k s)" using starts_with_length [OF n(2)] by simp
  then show ?thesis using n by auto
qed

lemma exec_first_bound:
  assumes "exec_first f s = Some (i, n)" and "\<And>u m. f u = Some m \<Longrightarrow> 0 < m \<and> m \<le> length u"
  shows "0 < n \<and> i + n \<le> length s"
  using assms(1)
proof (induction s arbitrary: i)
  case Nil
  then show ?case using assms(2) by fastforce
next
  case (Cons c s)
  show ?case
  proof (cases "f (c # s)")
    case None
    with Cons show ?thesis by auto
  next
    case (Some m)
    with Cons.prems assms(2) [OF Some] show ?thesis by simp
  qed
qed

text \<open>
  The loop over the text: the parts outside private keys, each key replaced by the marker, and
  whether a key is open at the end.
\<close>

function (sequential) redact_pem :: "bool \<Rightarrow> string \<Rightarrow> string \<times> bool" where
  "redact_pem pem [] = ([], pem)"
| "redact_pem True (c # cs) =
     (case exec_first (pem_boundary ''END'') (c # cs) of
        None \<Rightarrow> (marker, True)
      | Some (i, n) \<Rightarrow> (let (line, pem) = redact_pem False (drop (i + n) (c # cs)) in (marker @ line, pem)))"
| "redact_pem False (c # cs) =
     (case exec_first (pem_boundary ''BEGIN'') (c # cs) of
        None \<Rightarrow> (c # cs, False)
      | Some (i, n) \<Rightarrow>
          (let remaining = drop (i + n) (c # cs); (line, pem) = redact_pem True remaining in
           (take i (c # cs) @ (if remaining = [] then marker else []) @ line, pem)))"
  by pat_completeness auto
termination
  by (relation "measure (\<lambda>(_, s). length s)") (auto simp del: exec_first.simps dest!: exec_first_bound [OF _ pem_boundary_bound])

text \<open>The last boundary of the whole line decides whether a key stays open.\<close>

definition any_boundary :: "string \<Rightarrow> (bool \<times> nat) option" where
  "any_boundary s =
     (case pem_boundary ''BEGIN'' s of Some n \<Rightarrow> Some (True, n)
      | None \<Rightarrow> map_option (Pair False) (pem_boundary ''END'' s))"

fun last_boundary :: "nat \<Rightarrow> bool \<Rightarrow> string \<Rightarrow> bool" where
  "last_boundary skip pem [] = pem"
| "last_boundary (Suc skip) pem (c # cs) = last_boundary skip pem cs"
| "last_boundary 0 pem (c # cs) =
     (case any_boundary (c # cs) of None \<Rightarrow> last_boundary 0 pem cs | Some (b, n) \<Rightarrow> last_boundary (n - 1) b cs)"

section \<open>Assignments of secrets\<close>

datatype secret_quote = Quote | Apostrophe | EscapedQuote | EscapedApostrophe

fun quote_text :: "secret_quote \<Rightarrow> string" where
  "quote_text Quote = [CHR 0x22]"
| "quote_text Apostrophe = [CHR 0x27]"
| "quote_text EscapedQuote = [CHR 0x5C, CHR 0x22]"
| "quote_text EscapedApostrophe = [CHR 0x5C, CHR 0x27]"

definition secretKeyFragments :: "string list" where
  "secretKeyFragments = [''password'', ''passwd'', ''secret'', ''token'', ''credential'', ''apikey'', ''api_key'', ''api-key'',
     ''accesskey'', ''access_key'', ''access-key'', ''privatekey'', ''private_key'', ''private-key'', ''databaseurl'',
     ''database_url'', ''database-url'', ''mongodburi'', ''mongodb_uri'', ''mongodb-uri'', ''redisurl'', ''redis_url'', ''redis-url'']"

definition isKeyCharacter :: "char \<Rightarrow> bool" where
  "isKeyCharacter c \<longleftrightarrow> c = CHR ''-'' \<or> c = CHR ''_'' \<or> digit c \<or> upper c \<or> lower c"

definition isSecretAssignmentKey :: "string \<Rightarrow> bool" where
  "isSecretAssignmentKey val =
     (let key = toLowerCase val in
      key \<in> set [''key'', ''-key'', ''--key''] \<or> list_ex (\<lambda>fragment. has_infix fragment key) secretKeyFragments)"

definition closingQuoteLength :: "string \<Rightarrow> nat \<Rightarrow> nat" where
  "closingQuoteLength val index =
     (if unit_at val index = Some CHR 0x5C \<and> unit_at val (index + 1) \<in> {Some CHR 0x22, Some CHR 0x27} then 2
      else if unit_at val index \<in> {Some CHR 0x22, Some CHR 0x27} then 1 else 0)"

definition secretQuoteAt :: "string \<Rightarrow> nat \<Rightarrow> secret_quote option" where
  "secretQuoteAt val index =
     (let pair = slice val index (index + 2); single = unit_at val index in
      if pair = quote_text EscapedQuote then Some EscapedQuote
      else if pair = quote_text EscapedApostrophe then Some EscapedApostrophe
      else if single = Some CHR 0x22 then Some Quote
      else if single = Some CHR 0x27 then Some Apostrophe else None)"

lemma quote_text_length: "0 < length (quote_text q)" "quote_text q \<noteq> []"
  by (cases q; simp)+

definition slashes_before :: "string \<Rightarrow> nat \<Rightarrow> nat \<Rightarrow> nat" where
  "slashes_before val start end_at = length (takeWhile ((=) CHR 0x5C) (rev (slice val start end_at)))"

function closing_quote :: "string \<Rightarrow> nat \<Rightarrow> secret_quote \<Rightarrow> nat \<Rightarrow> nat option" where
  "closing_quote val start quote from_at =
     (case index_from (quote_text quote) val from_at of
        None \<Rightarrow> None
      | Some end_at \<Rightarrow>
          let slashes = slashes_before val start end_at;
              escaped = (if length (quote_text quote) = 1 then slashes mod 2 = 1 else slashes mod 4 = 2) in
          if escaped then closing_quote val start quote (end_at + length (quote_text quote)) else Some end_at)"
  by pat_completeness auto
termination
proof (relation "measure (\<lambda>(val, _, _, from_at). length val - from_at)", goal_cases)
  case (2 val start quote from_at end_at)
  from index_from_lt [OF 2(1) quote_text_length(2)] quote_text_length(1) [of quote]
  show ?case by (simp only: in_measure prod.case) arith
qed simp

declare closing_quote.simps [simp del]

definition findClosingQuote :: "string \<Rightarrow> nat \<Rightarrow> secret_quote \<Rightarrow> nat option" where
  "findClosingQuote val start quote = closing_quote val start quote start"

lemma closing_quote_ge: "closing_quote val start quote from_at = Some n \<Longrightarrow> from_at \<le> n"
proof (induction val start quote from_at rule: closing_quote.induct)
  case (1 val start quote from_at)
  show ?case
  proof (cases "index_from (quote_text quote) val from_at")
    case None
    with 1(2) show ?thesis by (simp add: closing_quote.simps)
  next
    case (Some m)
    with 1 index_from_bound [OF Some] show ?thesis
      by (subst (asm) (2) closing_quote.simps) (fastforce simp: Let_def split: if_splits)
  qed
qed

lemma closing_quote_progress: "findClosingQuote val start quote = Some n \<Longrightarrow> start \<le> n"
  unfolding findClosingQuote_def by (rule closing_quote_ge)

definition unquoted_end :: "bool \<Rightarrow> char \<Rightarrow> bool" where
  "unquoted_end queryKey c \<longleftrightarrow> white_space c \<or> c = CHR 0x22 \<or> c = CHR 0x27 \<or> c = CHR ''&'' \<or>
     (\<not> queryKey \<and> (c = CHR '','' \<or> c = CHR '';''))"

text \<open>
  One round of the loop at an index: go on at a later index, hide a plain value up to an index,
  hide a quoted value whose closing quote ends before an index, or hide a quoted value that the
  line does not close.
\<close>

datatype assignment_scan = Pass nat | Plain nat nat | Quoted nat secret_quote nat | Unclosed nat secret_quote

definition scan_assignment :: "string \<Rightarrow> nat \<Rightarrow> assignment_scan" where
  "scan_assignment val index =
     (if \<not> char_at isKeyCharacter val index then Pass (index + 1)
      else
        let keyEnd = skip_while isKeyCharacter val index in
        if \<not> isSecretAssignmentKey (slice val index keyEnd) then Pass keyEnd
        else
          let delimiter = skip_while white_space val (keyEnd + closingQuoteLength val keyEnd) in
          if unit_at val delimiter \<notin> {Some CHR ''='', Some CHR '':''} then Pass keyEnd
          else
            let valueStart = skip_while white_space val (delimiter + 1) in
            case secretQuoteAt val valueStart of
              Some quote \<Rightarrow>
                (case findClosingQuote val (valueStart + length (quote_text quote)) quote of
                   None \<Rightarrow> Unclosed valueStart quote
                 | Some end_at \<Rightarrow> Quoted valueStart quote (end_at + length (quote_text quote)))
            | None \<Rightarrow>
                if unit_at val delimiter = Some CHR '':'' then Pass keyEnd
                else
                  let queryKey = (0 < index \<and> unit_at val (index - 1) \<in> {Some CHR ''?'', Some CHR ''&''});
                      stop = skip_while (\<lambda>c. \<not> unquoted_end queryKey c) val valueStart in
                  if stop = valueStart \<and> \<not> queryKey then Pass keyEnd else Plain valueStart stop)"

lemma scan_assignment_progress:
  "scan_assignment val index = Pass n \<Longrightarrow> index < n"
  "scan_assignment val index = Plain k n \<Longrightarrow> index < n"
  "scan_assignment val index = Quoted k quote n \<Longrightarrow> index < n"
proof -
  let ?x = "skip_while isKeyCharacter val index"
  let ?d = "skip_while white_space val (?x + closingQuoteLength val ?x)"
  let ?v = "skip_while white_space val (?d + 1)"
  have key: "char_at isKeyCharacter val index \<Longrightarrow> index < ?x" by (rule skip_while_gt)
  have v: "?x < ?v"
    using skip_while_ge [of "?x + closingQuoteLength val ?x" white_space val] skip_while_ge [of "?d + 1" white_space val] by linarith
  have stop: "?v \<le> skip_while P val ?v" for P by (rule skip_while_ge)
  show "scan_assignment val index = Pass n \<Longrightarrow> index < n"
    using key by (auto simp: scan_assignment_def Let_def split: if_splits option.splits)
  show "scan_assignment val index = Plain k n \<Longrightarrow> index < n"
    using key v stop by (auto simp: scan_assignment_def Let_def split: if_splits option.splits) (meson less_le_trans less_trans)+
  show "scan_assignment val index = Quoted k quote n \<Longrightarrow> index < n"
    using key v by (auto simp: scan_assignment_def Let_def split: if_splits option.splits dest!: closing_quote_progress)
qed

function redact_assignments :: "string \<Rightarrow> nat \<Rightarrow> nat \<Rightarrow> string \<times> secret_quote option" where
  "redact_assignments val consumed index =
     (if length val \<le> index then (drop consumed val, None)
      else case scan_assignment val index of
        Pass next_at \<Rightarrow> redact_assignments val consumed next_at
      | Plain valueStart stop \<Rightarrow>
          let rest = redact_assignments val stop stop in (slice val consumed valueStart @ marker @ fst rest, snd rest)
      | Quoted valueStart quote after \<Rightarrow>
          let rest = redact_assignments val after after in
          (slice val consumed valueStart @ quote_text quote @ marker @ quote_text quote @ fst rest, snd rest)
      | Unclosed valueStart quote \<Rightarrow>
          (slice val consumed valueStart @ quote_text quote @ marker @ quote_text quote, Some quote))"
  by pat_completeness auto
termination
  by (relation "measure (\<lambda>(val, _, index). length val - index)")
    (auto simp: not_le intro!: diff_less_mono2 dest: scan_assignment_progress)

declare redact_assignments.simps [simp del]

definition redactAssignments :: "string \<Rightarrow> secret_quote option \<Rightarrow> string \<times> secret_quote option" where
  "redactAssignments val pending =
     (case pending of
        None \<Rightarrow> redact_assignments val 0 0
      | Some quote \<Rightarrow>
          (case findClosingQuote val 0 quote of
             None \<Rightarrow> (marker, Some quote)
           | Some end_at \<Rightarrow>
               let after = end_at + length (quote_text quote); rest = redact_assignments val after after in
               (marker @ quote_text quote @ fst rest, snd rest)))"

section \<open>JSON web tokens\<close>

definition isWordCharacter :: "char \<Rightarrow> bool" where
  "isWordCharacter c \<longleftrightarrow> c = CHR ''_'' \<or> digit c \<or> upper c \<or> lower c"

datatype jwt_scan = Search nat | Tail | Hide nat

text \<open>One round of the loop, at an occurrence of \<open>eyJ\<close>.\<close>

definition scan_jwt :: "string \<Rightarrow> bool \<Rightarrow> nat \<Rightarrow> jwt_scan" where
  "scan_jwt val sourceTruncated start =
     (if 0 < start \<and> char_at isWordCharacter val (start - 1) then Search (start + 3)
      else
        let first = skip_while isKeyCharacter val (start + 3) in
        if first = start + 3 \<or> unit_at val first \<noteq> Some CHR ''.'' then
          (if sourceTruncated \<and> first = length val then Tail else Search first)
        else
          let second = skip_while isKeyCharacter val (first + 1) in
          if second = first + 1 \<or> unit_at val second \<noteq> Some CHR ''.'' then
            (if sourceTruncated \<and> second = length val then Tail else Search second)
          else
            let third = skip_while isKeyCharacter val (second + 1) in
            if third = second + 1 then Search (start + 3) else Hide third)"

lemma scan_jwt_progress:
  "scan_jwt val trunc start = Search n \<Longrightarrow> start < n" "scan_jwt val trunc start = Hide n \<Longrightarrow> start < n"
proof -
  let ?a = "skip_while isKeyCharacter val (start + 3)"
  let ?b = "skip_while isKeyCharacter val (?a + 1)"
  have a: "start < ?a" using skip_while_ge [of "start + 3" isKeyCharacter val] by linarith
  have b: "?a < ?b" using skip_while_ge [of "?a + 1" isKeyCharacter val] by linarith
  have c: "?b < skip_while isKeyCharacter val (?b + 1)" using skip_while_ge [of "?b + 1" isKeyCharacter val] by linarith
  show "scan_jwt val trunc start = Search n \<Longrightarrow> start < n"
    using a less_trans [OF a b] by (auto simp: scan_jwt_def Let_def split: if_splits)
  show "scan_jwt val trunc start = Hide n \<Longrightarrow> start < n"
    using less_trans [OF a less_trans [OF b c]] by (auto simp: scan_jwt_def Let_def split: if_splits)
qed

function redact_jwt :: "string \<Rightarrow> bool \<Rightarrow> nat \<Rightarrow> nat \<Rightarrow> string" where
  "redact_jwt val sourceTruncated consumed search =
     (case index_from ''eyJ'' val search of
        None \<Rightarrow> drop consumed val
      | Some start \<Rightarrow>
          (case scan_jwt val sourceTruncated start of
             Search next_at \<Rightarrow> redact_jwt val sourceTruncated consumed next_at
           | Tail \<Rightarrow> slice val consumed start @ marker
           | Hide end_at \<Rightarrow> slice val consumed start @ marker @ redact_jwt val sourceTruncated end_at end_at))"
  by pat_completeness auto
termination
proof (relation "measure (\<lambda>(val, _, _, search). length val - search)", goal_cases)
  case (2 val trunc consumed search start n)
  then show ?case using index_from_lt [OF 2(1)] scan_jwt_progress(1) [OF 2(2)] by auto
next
  case (3 val trunc consumed search start n)
  then show ?case using index_from_lt [OF 3(1)] scan_jwt_progress(2) [OF 3(2)] by auto
qed simp

declare redact_jwt.simps [simp del]

definition redactJwt :: "string \<Rightarrow> bool \<Rightarrow> string" where
  "redactJwt val sourceTruncated = redact_jwt val sourceTruncated 0 0"

section \<open>Credentials in URLs\<close>

definition isSchemeCharacter :: "char \<Rightarrow> bool" where
  "isSchemeCharacter c \<longleftrightarrow> c = CHR ''+'' \<or> c = CHR ''-'' \<or> c = CHR ''.'' \<or> digit c \<or> upper c \<or> lower c"

definition letter :: "char \<Rightarrow> bool" where
  "letter c \<longleftrightarrow> upper c \<or> lower c"

definition scheme_start :: "string \<Rightarrow> nat \<Rightarrow> nat" where
  "scheme_start val delimiter =
     (let run_start = delimiter - length (takeWhile isSchemeCharacter (rev (take delimiter val))) in
      run_start + length (takeWhile (\<lambda>c. \<not> letter c) (slice val run_start delimiter)))"

definition authority_end :: "char \<Rightarrow> bool" where
  "authority_end c \<longleftrightarrow> c = CHR ''/'' \<or> white_space c \<or> c = CHR 0x22 \<or> c = CHR 0x27 \<or> c = CHR ''<'' \<or> c = CHR ''>''"

definition last_at_sign :: "string \<Rightarrow> nat \<Rightarrow> nat \<Rightarrow> nat option" where
  "last_at_sign val i j =
     (let part = slice val i j in
      if CHR ''@'' \<in> set part then Some (i + (length part - 1 - length (takeWhile ((\<noteq>) CHR ''@'') (rev part)))) else None)"

function redact_urls :: "string \<Rightarrow> bool \<Rightarrow> nat \<Rightarrow> nat \<Rightarrow> string" where
  "redact_urls val sourceTruncated consumed search =
     (case index_from ''://'' val search of
        None \<Rightarrow> drop consumed val
      | Some delimiter \<Rightarrow>
          let schemeStart = scheme_start val delimiter in
          if schemeStart = delimiter \<or> (0 < schemeStart \<and> char_at isWordCharacter val (schemeStart - 1))
          then redact_urls val sourceTruncated consumed (delimiter + 3)
          else
            let authorityStart = delimiter + 3; authorityEnd = skip_while (\<lambda>c. \<not> authority_end c) val (delimiter + 3) in
            (case last_at_sign val authorityStart authorityEnd of
               Some at_sign \<Rightarrow>
                 slice val consumed authorityStart @ (if unit_at val authorityStart = Some CHR '':'' then '':****@'' else ''****:****@'') @
                 redact_urls val sourceTruncated (at_sign + 1) authorityEnd
             | None \<Rightarrow>
                 if sourceTruncated \<and> authorityEnd = length val then slice val consumed authorityStart @ marker
                 else redact_urls val sourceTruncated consumed authorityEnd))"
  by pat_completeness auto
termination
proof (relation "measure (\<lambda>(val, _, _, search). length val - search)", goal_cases)
  case (2 val trunc consumed search delimiter x)
  then show ?case using index_from_lt [OF 2(1)] by auto
next
  case (3 val trunc consumed search delimiter)
  then show ?case
    using index_from_lt [OF 3(1)] skip_while_ge [of "delimiter + 3" "\<lambda>c. \<not> authority_end c" val] by auto
next
  case (4 val trunc consumed search delimiter)
  then show ?case
    using index_from_lt [OF 4(1)] skip_while_ge [of "delimiter + 3" "\<lambda>c. \<not> authority_end c" val] by auto
qed simp

declare redact_urls.simps [simp del]

definition redactUrlCredentials :: "string \<Rightarrow> bool \<Rightarrow> string" where
  "redactUrlCredentials val sourceTruncated = redact_urls val sourceTruncated 0 0"

section \<open>Headers and provider tokens\<close>

text \<open>
  The three global replacements by regular expressions. Each of them is unambiguous: the classes
  of adjacent parts are disjoint, so the greedy match is the only one at its position. A match of
  the last two starts with a word character, so \<open>\b\<close> before it says that the previous character
  is not one.
\<close>

definition starts_with_ci :: "string \<Rightarrow> string \<Rightarrow> bool" where
  "starts_with_ci s prefix \<longleftrightarrow> toLowerCase (take (length prefix) s) = prefix"

definition cookie_header :: "string \<Rightarrow> (nat \<times> nat) option" where
  "cookie_header s =
     (let name = (if starts_with_ci s ''set-cookie'' then 10 else if starts_with_ci s ''cookie'' then 6 else 0);
          colon = skip_while white_space s name; start = skip_while white_space s (colon + 1) in
      if name = 0 \<or> unit_at s colon \<noteq> Some CHR '':'' then None
      else Some (start, skip_while (\<lambda>c. c \<noteq> CHR 0x0D \<and> c \<noteq> CHR 0x0A) s start))"

lemma cookie_header_progress: "cookie_header s = Some (i, j) \<Longrightarrow> 0 < j"
proof -
  assume "cookie_header s = Some (i, j)"
  then obtain k P where j: "i = skip_while white_space s (k + 1)" "j = skip_while P s i"
    by (auto simp: cookie_header_def Let_def split: if_splits)
  show ?thesis
    using skip_while_ge [of "k + 1" white_space s] skip_while_ge [of i P s] unfolding j by linarith
qed

function redact_cookies :: "bool \<Rightarrow> string \<Rightarrow> string" where
  "redact_cookies at_start s =
     (case s of [] \<Rightarrow> []
      | c # cs \<Rightarrow>
          (case (if at_start then cookie_header s else None) of
             Some (start, end_at) \<Rightarrow> take start s @ marker @ redact_cookies False (drop end_at s)
           | None \<Rightarrow>
               (case (if c = CHR 0x0A then cookie_header cs else None) of
                  Some (start, end_at) \<Rightarrow> c # take start cs @ marker @ redact_cookies False (drop end_at cs)
                | None \<Rightarrow> c # redact_cookies False cs)))"
  by pat_completeness auto
termination
  by (relation "measure (\<lambda>(_, s). length s)") (auto split: if_splits dest!: cookie_header_progress)

declare redact_cookies.simps [simp del]

fun replace_words :: "(string \<Rightarrow> (string \<times> nat) option) \<Rightarrow> bool \<Rightarrow> string \<Rightarrow> string" where
  "replace_words f after_word [] = []"
| "replace_words f after_word (c # cs) =
     (case (if after_word then None else f (c # cs)) of
        None \<Rightarrow> c # replace_words f (isWordCharacter c) cs
      | Some (replacement, n) \<Rightarrow>
          replacement @ replace_words f (isWordCharacter ((c # cs) ! (n - 1))) (drop (n - 1) cs))"

definition authorization :: "string \<Rightarrow> (string \<times> nat) option" where
  "authorization s =
     (let scheme = (if starts_with_ci s ''bearer'' then 6 else if starts_with_ci s ''basic'' \<or> starts_with_ci s ''token'' then 5 else 0);
          start = skip_while white_space s scheme;
          stop = skip_while (\<lambda>c. alnum c \<or> one_of ''._~+/-'' c) s start in
      if scheme = 0 \<or> start = scheme \<or> stop = start then None
      else Some (take scheme s @ '' ****'', skip_while ((=) CHR ''='') s stop))"

definition provider_prefix :: "string \<Rightarrow> nat" where
  "provider_prefix s =
     (if list_ex (starts_with s) [''ghp_'', ''gho_'', ''ghu_'', ''ghs_'', ''ghr_''] then 4
      else if starts_with s ''github_pat_'' then 11
      else if starts_with s ''sk-'' then 3
      else if list_ex (starts_with s) [''xoxb-'', ''xoxa-'', ''xoxp-'', ''xoxr-'', ''xoxs-''] then 5 else 0)"

definition provider_token :: "string \<Rightarrow> (string \<times> nat) option" where
  "provider_token s =
     (let prefix = provider_prefix s; stop = skip_while isKeyCharacter s prefix in
      if prefix = 0 \<or> stop < prefix + 12 then None else Some (marker, stop))"

section \<open>A line\<close>

record redaction_state =
  rd_pem :: bool
  rd_quote :: "secret_quote option"
  rd_uncertain :: bool

definition initial_redaction :: redaction_state where
  "initial_redaction = \<lparr>rd_pem = False, rd_quote = None, rd_uncertain = False\<rparr>"

definition sanitizeObservationLine :: "string \<Rightarrow> redaction_state \<Rightarrow> string \<times> redaction_state" where
  "sanitizeObservationLine val state =
     (if rd_uncertain state then (marker, state)
      else
        let (source, truncated) = boundedObservationInput val;
            (visible, pem) = redact_pem (rd_pem state) source;
            (assigned, quote) = redactAssignments (redactUrlCredentials visible truncated) (rd_quote state);
            masked = redactJwt (replace_words provider_token False (replace_words authorization False (redact_cookies True assigned))) truncated in
        (truncateObservationText (masked @ (if truncated then truncationSuffix else [])) OBSERVABILITY_LINE_BYTES,
         \<lparr>rd_pem = last_boundary 0 pem val, rd_quote = quote, rd_uncertain = truncated\<rparr>))"

section \<open>A record\<close>

definition secret_entry :: "string \<Rightarrow> bool" where
  "secret_entry key = list_ex (\<lambda>fragment. has_infix fragment (toLowerCase key))
     [''password'', ''passwd'', ''secret'', ''token'', ''credential'', ''apikey'', ''api_key'', ''api-key'', ''accesskey'', ''access_key'',
      ''access-key'', ''privatekey'', ''private_key'', ''private-key'', ''cookie'', ''authorization'']"

definition finite_number :: "string \<Rightarrow> bool" where
  "finite_number t \<longleftrightarrow> t \<notin> {''NaN'', ''Infinity'', ''-Infinity''}"

text \<open>What is left of the nodes and bytes a record may use.\<close>

type_synonym budget = "int \<times> int"

definition visit_leaf :: "js \<Rightarrow> budget \<Rightarrow> js \<times> budget" where
  "visit_leaf v budget =
     (case v of
        JStr s \<Rightarrow>
          let result = truncateObservationText (fst (sanitizeObservationLine s initial_redaction)) (min OBSERVABILITY_LINE_BYTES (nat (snd budget))) in
          (JStr result, (fst budget, snd budget - int (utf8_length result)))
      | JInt n \<Rightarrow> (JInt n, budget)
      | JNum t \<Rightarrow> (if finite_number t then JNum t else JNull, budget)
      | JBool b \<Rightarrow> (JBool b, budget)
      | _ \<Rightarrow> (JNull, budget))"

definition exhausted :: "budget \<Rightarrow> nat \<Rightarrow> bool" where
  "exhausted budget depth \<longleftrightarrow> fst budget < 0 \<or> snd budget \<le> 0 \<or> 8 < depth"

definition spend_node :: "budget \<Rightarrow> budget" where
  "spend_node budget = (fst budget - 1, snd budget)"

definition fromEntries :: "js_fields \<Rightarrow> js_fields" where
  "fromEntries entries = foldl (\<lambda>m (k, x). map_put k x m) [] entries"

function visit :: "js \<Rightarrow> nat \<Rightarrow> budget \<Rightarrow> js \<times> budget"
  and visit_items :: "js list \<Rightarrow> nat \<Rightarrow> nat \<Rightarrow> budget \<Rightarrow> js list \<times> budget"
  and visit_entries :: "js_fields \<Rightarrow> nat \<Rightarrow> nat \<Rightarrow> budget \<Rightarrow> js_fields \<times> budget" where
  "visit v depth budget =
     (if exhausted (spend_node budget) depth then (JStr marker, spend_node budget)
      else case v of
        JArr vs \<Rightarrow> let (items, left) = visit_items vs 1000 (depth + 1) (spend_node budget) in (JArr items, left)
      | JObj fs \<Rightarrow> let (entries, left) = visit_entries fs 64 (depth + 1) (spend_node budget) in (JObj (fromEntries entries), left)
      | _ \<Rightarrow> visit_leaf v (spend_node budget))"
| "visit_items [] n depth budget = ([], budget)"
| "visit_items (v # vs) n depth budget =
     (if n = 0 then ([], budget)
      else let (x, left) = visit v depth budget; (xs, rest) = visit_items vs (n - 1) depth left in (x # xs, rest))"
| "visit_entries [] n depth budget = ([], budget)"
| "visit_entries (f # fs) n depth budget =
     (if n = 0 then ([], budget)
      else
        let cleanKey = truncateObservationText (fst (sanitizeObservationLine (fst f) initial_redaction)) 256;
            (x, left) = (if secret_entry (fst f) \<and> \<not> nullish (snd f) then (JStr marker, budget) else visit (snd f) depth budget);
            (xs, rest) = visit_entries fs (n - 1) depth left in
        ((cleanKey, x) # xs, rest))"
  by pat_completeness auto
termination
  by (relation "measure (\<lambda>x. case x of Inl (v, _) \<Rightarrow> size v | Inr (Inl (vs, _)) \<Rightarrow> size_list size vs
      | Inr (Inr (fs, _)) \<Rightarrow> size_list (\<lambda>f. Suc (size (snd f))) fs)")
    (auto simp: size_prod_simp split: if_splits)

definition sanitizeObservationRecord :: "js \<Rightarrow> js" where
  "sanitizeObservationRecord v = fst (visit v 0 (512, 65536))"

declare visit.simps [simp del]

section \<open>Types of sanitized records\<close>

text \<open>
  \<open>ObservationValue\<close>: null, booleans, finite numbers, strings, and arrays and objects of such
  values.
\<close>

fun observation_value :: "js \<Rightarrow> bool" where
  "observation_value JUndef = False"
| "observation_value (JNum t) = finite_number t"
| "observation_value (JArr vs) = list_all observation_value vs"
| "observation_value (JObj fs) = list_all (\<lambda>f. observation_value (snd f)) fs"
| "observation_value _ = True"

lemma fromEntries_values:
  "list_all (\<lambda>f. P (snd f)) fs \<Longrightarrow> list_all (\<lambda>f. P (snd f)) (fromEntries fs)"
proof -
  have "list_all (\<lambda>f. P (snd f)) m \<Longrightarrow> list_all (\<lambda>f. P (snd f)) fs \<Longrightarrow>
    list_all (\<lambda>f. P (snd f)) (foldl (\<lambda>m (k, x). map_put k x m) m fs)" for m
  proof (induction fs arbitrary: m)
    case (Cons f fs)
    have "list_all (\<lambda>f. P (snd f)) (map_put (fst f) (snd f) m)"
      using Cons.prems by (auto simp: list_all_iff dest!: in_map_put)
    with Cons show ?case by (auto simp: split_def)
  qed simp
  then show "list_all (\<lambda>f. P (snd f)) fs \<Longrightarrow> ?thesis" by (simp add: fromEntries_def)
qed

lemma visit_items_all:
  "(\<And>v d b. v \<in> set vs \<Longrightarrow> P (fst (visit v d b))) \<Longrightarrow> list_all P (fst (visit_items vs n depth budget))"
  by (induction vs arbitrary: n budget) (auto simp: split_def Let_def)

lemma visit_entries_all:
  "(\<And>f d b. f \<in> set fs \<Longrightarrow> P (fst (visit (snd f) d b))) \<Longrightarrow> P (JStr marker) \<Longrightarrow>
   list_all (\<lambda>f. P (snd f)) (fst (visit_entries fs n depth budget))"
proof (induction fs arbitrary: n budget)
  case (Cons f fs)
  have "P (fst (if secret_entry (fst f) \<and> \<not> nullish (snd f) then (JStr marker, budget) else visit (snd f) depth budget))"
    using Cons.prems by simp
  moreover have "list_all (\<lambda>f. P (snd f)) (fst (visit_entries fs (n - 1) depth b))" for b
    using Cons by auto
  ultimately show ?case by (simp add: split_def Let_def)
qed simp

lemma visit_typed: "observation_value (fst (visit v depth budget))"
proof (induction v arbitrary: depth budget)
  case (JArr vs)
  show ?case
    by (subst visit.simps) (simp add: split_def Let_def visit_items_all [where P = observation_value, OF JArr])
next
  case (JObj fs)
  have "observation_value (fst (visit (snd f) d b))" if "f \<in> set fs" for f d b
    using JObj [of f "snd f"] that by (cases f) (auto simp: snds.simps)
  then show ?case
    by (subst visit.simps) (simp add: split_def Let_def visit_entries_all [where P = observation_value] fromEntries_values [where P = observation_value])
qed (subst visit.simps, simp add: visit_leaf_def Let_def)+

section \<open>Limits\<close>

lemma utf8_length_append [simp]: "utf8_length (s @ t) = utf8_length s + utf8_length t"
  by (simp add: utf8_length_def)

lemma utf8_length_Cons: "utf8_length (c # s) = utf8_length [c] + utf8_length s"
  by (simp add: utf8_length_def)

lemma byte_prefix_length: "utf8_length (byte_prefix n s) \<le> n"
proof (induction s arbitrary: n)
  case (Cons c s)
  show ?case
  proof (cases "utf8_length [c] \<le> n")
    case True
    have "utf8_length (c # byte_prefix (n - utf8_length [c]) s) \<le> n"
      using Cons [of "n - utf8_length [c]"] True utf8_length_Cons [of c "byte_prefix (n - utf8_length [c]) s"] by linarith
    with True show ?thesis by (simp add: Let_def)
  qed (simp add: Let_def utf8_length_def)
qed (simp add: utf8_length_def)

lemma truncated_length:
  assumes "utf8_length truncationSuffix \<le> limit"
  shows "utf8_length (truncateObservationText val limit) \<le> limit"
  using byte_prefix_length [of "limit - utf8_length truncationSuffix" val] assms
  unfolding truncateObservationText_def by (cases "utf8_length val \<le> limit") auto

lemma bounded_input_short: "utf8_length val \<le> OBSERVABILITY_LINE_BYTES \<Longrightarrow> boundedObservationInput val = (val, False)"
proof -
  assume short: "utf8_length val \<le> OBSERVABILITY_LINE_BYTES"
  have "length val \<le> utf8_length val" by (induction val) (auto simp: utf8_length_def)
  with short have "take (OBSERVABILITY_LINE_BYTES + 1) val = val" by simp
  with short show ?thesis by (simp add: boundedObservationInput_def Let_def)
qed

section \<open>Secrets that span lines\<close>

lemma exec_first_None: "exec_first f (c # cs) = None \<longleftrightarrow> f (c # cs) = None \<and> exec_first f cs = None"
  by (auto split: option.split)

lemma last_boundary_none:
  "exec_first (pem_boundary ''BEGIN'') s = None \<Longrightarrow> exec_first (pem_boundary ''END'') s = None \<Longrightarrow> last_boundary 0 pem s = pem"
proof (induction s)
  case (Cons c s)
  then show ?case
    unfolding exec_first_None by (simp add: any_boundary_def)
qed simp

lemma index_of_None: "c \<in> set needle \<Longrightarrow> c \<notin> set s \<Longrightarrow> index_of needle s = None"
proof (induction s)
  case (Cons d s)
  then have "\<not> starts_with (d # s) needle"
    unfolding starts_with_iff by (metis UnI1 set_append)
  with Cons show ?case by simp
qed auto

lemma closing_quote_None:
  assumes "c \<in> set (quote_text quote)" and "c \<notin> set val"
  shows "findClosingQuote val start quote = None"
proof -
  have "index_from (quote_text quote) val start = None"
    using index_of_None [OF assms(1), of "drop start val"] assms(2) by (auto simp: index_from_def dest: in_set_dropD)
  then show ?thesis by (simp add: findClosingQuote_def closing_quote.simps)
qed

lemma set_slice: "set (slice val i j) \<subseteq> set val"
  by (auto simp: slice_def dest!: in_set_takeD in_set_dropD)

lemma redact_urls_chars: "set (redact_urls val trunc consumed search) \<subseteq> set val \<union> set ''*:@''"
proof (induction val trunc consumed search rule: redact_urls.induct)
  case (1 val trunc consumed search)
  show ?case
  proof (cases "index_from ''://'' val search")
    case None
    then show ?thesis by (subst redact_urls.simps) (auto dest: in_set_dropD)
  next
    case (Some delimiter)
    show ?thesis
      apply (subst redact_urls.simps)
      using 1(1) [OF Some refl] 1(2) [OF Some refl _ refl refl] 1(3) [OF Some refl _ refl refl]
      by (auto simp: Some Let_def marker_def dest!: subsetD [OF set_slice] split: option.split)
  qed
qed

text \<open>What the later passes make of the marker.\<close>

lemma marker_passes:
  "redactUrlCredentials marker trunc = marker" "redactAssignments marker None = (marker, None)"
  "redact_cookies True marker = marker" "replace_words authorization False marker = marker"
  "replace_words provider_token False marker = marker" "redactJwt marker trunc = marker"
  "truncateObservationText marker OBSERVABILITY_LINE_BYTES = marker"
  by (cases trunc; code_simp)+

section \<open>Credentials inside a line\<close>

lemma index_of_append: "needle = d # ds \<Longrightarrow> d \<notin> set a \<Longrightarrow> index_of needle (a @ needle @ b) = Some (length a)"
proof (induction a)
  case Nil
  then show ?case by (simp add: starts_with_def)
next
  case (Cons c a)
  then have "\<not> starts_with (c # a @ needle @ b) needle" by (auto simp: starts_with_def)
  with Cons show ?case by simp
qed

lemma takeWhile_stop: "\<forall>c \<in> set a. P c \<Longrightarrow> b = [] \<or> \<not> P (hd b) \<Longrightarrow> takeWhile P (a @ b) = a"
  by (cases b) (auto simp: takeWhile_append2 takeWhile_eq_all_conv [THEN iffD2])

lemma last_at_sign_single:
  assumes "CHR ''@'' \<notin> set host" and "slice val i j = user @ CHR ''@'' # host"
  shows "last_at_sign val i j = Some (i + length user)"
proof -
  have "takeWhile ((\<noteq>) CHR ''@'') (rev host @ CHR ''@'' # rev user) = rev host"
    by (rule takeWhile_stop) (use assms(1) in auto)
  then show ?thesis by (simp add: last_at_sign_def assms(2) Let_def)
qed

lemma url_masked:
  assumes "scheme \<noteq> []" and "list_all letter scheme" and "list_all (\<lambda>c. \<not> authority_end c) (user @ host)"
    and "CHR ''@'' \<notin> set host" and "rest = [] \<or> authority_end (hd rest)" and "index_of ''://'' rest = None"
  shows "redactUrlCredentials (scheme @ ''://'' @ user @ ''@'' @ host @ rest) trunc =
    scheme @ ''://'' @ (if unit_at (user @ ''@'') 0 = Some CHR '':'' then '':****@'' else ''****:****@'') @ host @ rest"
proof -
  define val where "val = scheme @ ''://'' @ user @ ''@'' @ host @ rest"
  have letters: "isSchemeCharacter c" "c \<noteq> CHR '':''" if "c \<in> set scheme" for c
    using that assms(2) by (auto simp: list_all_iff isSchemeCharacter_def letter_def char_class_defs)
  have at: "index_from ''://'' val 0 = Some (length scheme)"
    using letters(2) by (simp add: index_from_def val_def del: append.simps)
      (subst index_of_append [of _ "CHR '':''" "''//''"], auto)
  have "length (takeWhile isSchemeCharacter (rev scheme)) = length scheme"
    by (metis takeWhile_eq_all_conv letters(1) length_rev set_rev)
  moreover have "takeWhile (\<lambda>c. \<not> letter c) scheme = []" using assms(1,2) by (cases scheme) auto
  ultimately have start: "scheme_start val (length scheme) = 0"
    by (simp only: scheme_start_def val_def slice_def Let_def) simp
  have "takeWhile (\<lambda>c. \<not> authority_end c) ((user @ CHR ''@'' # host) @ rest) = user @ CHR ''@'' # host"
    using assms(3,5) by (intro takeWhile_stop) (auto simp: list_all_iff authority_end_def white_space_def)
  then have stop: "skip_while (\<lambda>c. \<not> authority_end c) val (length scheme + 3) = length scheme + 3 + length (user @ CHR ''@'' # host)"
    by (simp add: skip_while_def val_def)
  have sign: "last_at_sign val (length scheme + 3) (length scheme + 3 + length (user @ CHR ''@'' # host)) = Some (length scheme + 3 + length user)"
    by (rule last_at_sign_single [OF assms(4)]) (simp add: slice_def val_def)
  have unit: "unit_at val (length scheme + 3) = unit_at (user @ ''@'') 0"
    by (cases user) (simp_all add: unit_at_def val_def nth_append)
  have split: "drop n val = b" if "val = a @ b" "n = length a" for a b n using that by simp
  have "drop (length scheme + 3 + length (user @ CHR ''@'' # host)) val = rest"
    by (rule split [of "scheme @ ''://'' @ user @ ''@'' @ host"]) (simp_all add: val_def)
  moreover have "drop (length scheme + 3 + length user + 1) val = host @ rest"
    by (rule split [of "scheme @ ''://'' @ user @ ''@''"]) (simp_all add: val_def)
  ultimately have rest: "redact_urls val trunc (length scheme + 3 + length user + 1) (length scheme + 3 + length (user @ CHR ''@'' # host)) = host @ rest"
    using assms(6) by (subst redact_urls.simps) (simp only: index_from_def option.map option.case)
  have "redactUrlCredentials val trunc = slice val 0 (length scheme + 3) @
      (if unit_at (user @ ''@'') 0 = Some CHR '':'' then '':****@'' else ''****:****@'') @ host @ rest"
    unfolding redactUrlCredentials_def
    by (subst redact_urls.simps) (use assms(1) in \<open>simp only: at start stop sign unit rest option.case Let_def, simp\<close>)
  then show ?thesis by (simp add: val_def slice_def)
qed

lemma assignment_masked:
  assumes "key \<noteq> []" and "list_all isKeyCharacter key" and "isSecretAssignmentKey key"
    and "secret \<noteq> []" and "list_all (\<lambda>c. \<not> unquoted_end False c) secret"
  shows "redactAssignments (key @ ''='' @ secret) None = (key @ ''='' @ marker, None)"
proof -
  define val where "val = key @ ''='' @ secret"
  have plain: "CHR 0x22 \<notin> set secret" "CHR 0x27 \<notin> set secret" "\<not> white_space (hd secret)"
    using assms(4,5) by (auto simp: list_all_iff unquoted_end_def)
  have key0: "char_at isKeyCharacter val 0" using assms(1,2) by (cases key) (auto simp: char_at_def val_def)
  have "takeWhile isKeyCharacter (key @ ''='' @ secret) = key"
    using assms(2) by (intro takeWhile_stop) (auto simp: list_all_iff isKeyCharacter_def char_class_defs)
  then have keyEnd: "skip_while isKeyCharacter val 0 = length key" by (simp add: skip_while_def val_def)
  have eq: "unit_at val (length key) = Some CHR ''=''" by (simp add: unit_at_def val_def)
  then have noquote: "closingQuoteLength val (length key) = 0" by (simp add: closingQuoteLength_def)
  have delimiter: "skip_while white_space val (length key) = length key"
    by (simp add: skip_while_def val_def white_space_def)
  have valueStart: "skip_while white_space val (length key + 1) = length key + 1"
    using assms(4) plain(3) by (cases secret) (auto simp: skip_while_def val_def)
  have "set (slice val (length key + 1) (length key + 1 + 2)) \<subseteq> set secret"
    by (auto simp: slice_def val_def dest: in_set_takeD)
  moreover have "unit_at val (length key + 1) = Some (hd secret)"
    using assms(4) by (cases secret) (auto simp: unit_at_def val_def nth_append)
  ultimately have quote: "secretQuoteAt val (length key + 1) = None"
    using plain(1,2) hd_in_set [OF assms(4)] by (auto simp: secretQuoteAt_def Let_def)
  have "length (takeWhile (\<lambda>c. \<not> unquoted_end False c) secret) = length secret"
    by (metis (no_types, lifting) assms(5) list_all_iff takeWhile_eq_all_conv)
  then have stop: "skip_while (\<lambda>c. \<not> unquoted_end False c) val (length key + 1) = length val"
    by (simp add: skip_while_def val_def)
  have "length val \<noteq> length key + 1" using assms(4) by (simp add: val_def)
  then have scan: "scan_assignment val 0 = Plain (length key + 1) (length val)"
    using key0 assms(3) by (simp add: scan_assignment_def Let_def keyEnd noquote delimiter eq valueStart [simplified] quote [simplified] stop [simplified])
      (simp add: slice_def val_def)
  have "redact_assignments val (length val) (length val) = ([], None)" by (simp add: redact_assignments.simps)
  moreover have "redact_assignments val 0 0 = (slice val 0 (length key + 1) @ marker @ fst (redact_assignments val (length val) (length val)),
      snd (redact_assignments val (length val) (length val)))"
    using key0 by (subst redact_assignments.simps) (simp add: scan Let_def char_at_def)
  ultimately show ?thesis unfolding val_def [symmetric] by (simp add: redactAssignments_def) (simp add: slice_def val_def)
qed

section \<open>Properties\<close>


text \<open>
  C25. While a private key or a quoted secret is open, a line that does not close it is replaced by
  the marker as a whole, and the state still says that the secret is open: what is stored does not
  depend on the line at all. The line fits the limit, has no boundary of a private key and, when a
  quoted secret is open, does not contain its quote.
\<close>

theorem open_secret_line_masked:
  assumes "utf8_length val \<le> OBSERVABILITY_LINE_BYTES" and "val \<noteq> []"
    and "exec_first (pem_boundary ''BEGIN'') val = None" and "exec_first (pem_boundary ''END'') val = None"
    and "\<not> rd_uncertain state" and "rd_pem state \<or> rd_quote state \<noteq> None"
    and "\<And>quote. rd_quote state = Some quote \<Longrightarrow> last (quote_text quote) \<notin> set val"
  shows "sanitizeObservationLine val state = (marker, state)"
proof -
  have pem: "redact_pem (rd_pem state) val = (if rd_pem state then marker else val, rd_pem state)"
    using assms(2,3,4) by (cases val; cases "rd_pem state") (auto simp del: exec_first.simps)
  let ?shown = "redactUrlCredentials (if rd_pem state then marker else val) False"
  have "redactAssignments ?shown (rd_quote state) = (marker, rd_quote state)"
  proof (cases "rd_quote state")
    case None
    with assms(6) show ?thesis by (simp add: marker_passes)
  next
    case (Some quote)
    have q: "last (quote_text quote) \<in> set (quote_text quote)" "last (quote_text quote) \<notin> set ''*:@''"
      by (cases quote; simp)+
    have "last (quote_text quote) \<notin> set ?shown"
      using redact_urls_chars [of "if rd_pem state then marker else val" False 0 0] q(2) assms(7) [OF Some]
      by (auto simp: redactUrlCredentials_def marker_def split: if_splits)
    then show ?thesis using closing_quote_None [OF q(1)] Some by (simp add: redactAssignments_def)
  qed
  then show ?thesis
    using assms(5) last_boundary_none [OF assms(3,4)]
    by (simp add: sanitizeObservationLine_def bounded_input_short [OF assms(1)] pem marker_passes)
qed

theorem open_secret_line_masked_witness:
  "sanitizeObservationLine ''MIIEvQIBADANBg hunter2'' (initial_redaction\<lparr>rd_pem := True\<rparr>) = (marker, initial_redaction\<lparr>rd_pem := True\<rparr>)"
proof (rule open_secret_line_masked)
  show "utf8_length ''MIIEvQIBADANBg hunter2'' \<le> OBSERVABILITY_LINE_BYTES" by code_simp
  show "exec_first (pem_boundary ''BEGIN'') ''MIIEvQIBADANBg hunter2'' = None" by code_simp
  show "exec_first (pem_boundary ''END'') ''MIIEvQIBADANBg hunter2'' = None" by code_simp
qed (simp_all add: initial_redaction_def)



end
