(* ===== verification/Workflows.thy ===== *)
theory Workflows
  imports Redaction Store Lifecycle
begin

text \<open>
  Workflow jobs (\<open>packages/core/src/workflows.ts\<close>, \<open>error-spec.ts\<close> and the job queue of
  \<open>store.ts\<close>): creating, claiming, completing and failing a job, the processing of the next ready
  job by a handler, and the draining of the queue by several workers.

  Job rows hold canonical statuses, as \<open>createWorkflowJobRecord\<close> stores them, and the instants that
  \<open>isoTimestamp\<close> wrote. A handler is a parameter: it may change the queue and the store, and it
  returns a value or throws. Numeric options and counters are integers, and a numeric \<open>now\<close> is not
  zero.
\<close>

section \<open>Infrastructure errors\<close>

record error_spec =
  es_code :: string
  es_area :: string
  es_severity :: string
  es_retryable :: bool
  es_userMessage :: string

definition spec_of :: "string \<Rightarrow> string \<Rightarrow> string \<Rightarrow> bool \<Rightarrow> string \<Rightarrow> string \<times> error_spec" where
  "spec_of code area severity retryable userMessage =
     (code, \<lparr>es_code = code, es_area = area, es_severity = severity, es_retryable = retryable, es_userMessage = userMessage\<rparr>)"

definition UNKNOWN_INFRA_ERROR :: error_spec where
  "UNKNOWN_INFRA_ERROR = snd (spec_of ''UNKNOWN_INFRA_ERROR'' ''unknown'' ''error'' False ''An unexpected infrastructure error occurred.'')"

definition ERROR_CODE_CATALOG :: "(string \<times> error_spec) list" where
  "ERROR_CODE_CATALOG =
     [spec_of ''BUILD_FAILED'' ''build'' ''error'' True
        ''The image build failed. Check build logs, Dockerfile, and configured build commands.'',
      spec_of ''ROLLOUT_FAILED'' ''orchestrator'' ''error'' True
        ''The Kubernetes rollout failed. Check runtime logs, image pull status, probes, and resource limits.'',
      spec_of ''KUBERNETES_RECONCILE_FAILED'' ''orchestrator'' ''error'' True
        ''The orchestrator could not reconcile the desired Kubernetes state.'',
      spec_of ''IMAGE_PULL_BACKOFF'' ''orchestrator'' ''error'' True
        ''Kubernetes could not pull the container image. Verify registry credentials, image name, and tag/digest.'',
      spec_of ''INSUFFICIENT_QUOTA'' ''quota'' ''error'' False
        ''The requested operation exceeds the current organization or user quota.'',
      spec_of ''PROVIDER_CREDENTIAL_FAILED'' ''provisioner'' ''error'' True
        ''The resource provider could not create or store credentials for the managed resource.'',
      spec_of ''DEPLOYMENT_CANCELLED'' ''deployment'' ''info'' False ''Deployment cancellation was requested.'',
      spec_of ''WORKFLOW_HANDLER_MISSING'' ''workflow'' ''error'' False ''No worker handler is registered for this workflow type.'',
      (''UNKNOWN_INFRA_ERROR'', UNKNOWN_INFRA_ERROR)]"

definition normalizeErrorCode :: "string \<Rightarrow> string" where
  "normalizeErrorCode code =
     (let up = toUpperCase (trim code); normalized = (if starts_with up ''ERR_'' then drop 4 up else up) in
      if normalized = [] then ''UNKNOWN_INFRA_ERROR''
      else if has_infix ''IMAGE_PULL'' normalized \<or> has_infix ''IMAGEPULLBACKOFF'' normalized then ''IMAGE_PULL_BACKOFF''
      else normalized)"

definition errorSpecForCode :: "string \<Rightarrow> error_spec" where
  "errorSpecForCode code =
     (case map_of ERROR_CODE_CATALOG (normalizeErrorCode code) of Some spec \<Rightarrow> spec | None \<Rightarrow> UNKNOWN_INFRA_ERROR)"

text \<open>
  A thrown value: nothing (a falsy value), a string, or an object with the properties the code
  reads and the text that \<open>String(error)\<close> gives.
\<close>

record thrown_object =
  th_code :: "string option"
  th_errorCode :: "string option"
  th_message :: "string option"
  th_errorMessage :: "string option"
  th_metadata :: js_fields
  th_text :: string

datatype thrown = ThrownFalsy | ThrownText string | ThrownObject thrown_object

definition new_error :: "string \<Rightarrow> thrown" where
  "new_error message = ThrownObject \<lparr>th_code = None, th_errorCode = None, th_message = Some message, th_errorMessage = None,
     th_metadata = [], th_text = ''Error: '' @ message\<rparr>"

definition sanitizeLogRecord :: "js \<Rightarrow> js" where
  "sanitizeLogRecord record_value = sanitizeObservationRecord record_value"

definition sanitize_text :: "string \<Rightarrow> string" where
  "sanitize_text s = js_text (sanitizeLogRecord (JStr s))"

definition sanitizeErrorMetadata :: "js_fields \<Rightarrow> js_fields" where
  "sanitizeErrorMetadata source =
     map (\<lambda>(key, v). (key, case v of JStr s \<Rightarrow> sanitizeLogRecord v | _ \<Rightarrow> v)) (filter (\<lambda>(key, v). v \<noteq> JUndef) source)"

fun thrown_code :: "thrown \<Rightarrow> string \<Rightarrow> string" where
  "thrown_code (ThrownObject err) fallback =
     (if truthy (th_code err) then the (th_code err) else if truthy (th_errorCode err) then the (th_errorCode err) else fallback)"
| "thrown_code _ fallback = fallback"

fun raw_message :: "thrown \<Rightarrow> string \<Rightarrow> string" where
  "raw_message (ThrownObject err) _ =
     (if truthy (th_message err) then the (th_message err)
      else if truthy (th_errorMessage err) then the (th_errorMessage err) else th_text err)"
| "raw_message (ThrownText s) userMessage = (if s = [] then userMessage else s)"
| "raw_message ThrownFalsy userMessage = userMessage"

fun thrown_metadata :: "thrown \<Rightarrow> js_fields" where
  "thrown_metadata (ThrownObject err) = th_metadata err"
| "thrown_metadata _ = []"

definition normalizeInfrastructureError :: "thrown \<Rightarrow> string \<Rightarrow> js_fields" where
  "normalizeInfrastructureError err fallbackCode =
     (let spec = errorSpecForCode (normalizeErrorCode (thrown_code err fallbackCode)) in
      [(''code'', JStr (es_code spec)), (''area'', JStr (es_area spec)), (''severity'', JStr (es_severity spec)),
       (''retryable'', JBool (es_retryable spec)), (''userMessage'', JStr (es_userMessage spec)),
       (''message'', sanitizeLogRecord (JStr (raw_message err (es_userMessage spec)))),
       (''metadata'', JObj (sanitizeErrorMetadata (thrown_metadata err)))])"

fun workflowErrorMessage :: "thrown \<Rightarrow> string" where
  "workflowErrorMessage ThrownFalsy = ''workflow failed''"
| "workflowErrorMessage (ThrownText s) = (if s = [] then ''workflow failed'' else sanitize_text s)"
| "workflowErrorMessage (ThrownObject err) =
     sanitize_text (if truthy (th_message err) then the (th_message err) else th_text err)"

section \<open>Values stored with a job\<close>

fun object_value :: "js \<Rightarrow> bool" where
  "object_value (JArr vs) = True"
| "object_value (JObj fs) = True"
| "object_value _ = False"

fun sanitizeWorkflowValue :: "js \<Rightarrow> js" where
  "sanitizeWorkflowValue (JStr s) = sanitizeLogRecord (JStr s)"
| "sanitizeWorkflowValue (JArr vs) = JArr (map sanitizeWorkflowValue vs)"
| "sanitizeWorkflowValue (JObj fs) =
     JObj (map (\<lambda>(key, v). (key,
       if isSecretKey key \<and> \<not> nullish v \<and> \<not> object_value v then maskSecretValue v else sanitizeWorkflowValue v)) fs)"
| "sanitizeWorkflowValue v = v"

section \<open>Jobs\<close>

record job =
  jb_id :: string
  jb_type :: string
  jb_status :: workflow_status
  jb_targetType :: string
  jb_targetId :: string
  jb_payload :: js_fields
  jb_attempts :: int
  jb_maxAttempts :: int
  jb_runAfter :: ms
  jb_lockedBy :: "string option"
  jb_lockedAt :: "ms option"
  jb_createdAt :: time_text
  jb_updatedAt :: time_text

record job_input =
  ji_id :: "string option"
  ji_type :: "string option"
  ji_status :: js
  ji_targetType :: "string option"
  ji_targetId :: "string option"
  ji_deploymentId :: "string option"
  ji_serviceId :: "string option"
  ji_payload :: js_fields
  ji_attempts :: "int option"
  ji_maxAttempts :: "int option"
  ji_runAfter :: "time_text option"
  ji_lockedBy :: "string option"
  ji_lockedAt :: "time_text option"
  ji_createdAt :: "time_text option"
  ji_updatedAt :: "time_text option"

datatype workflow_error = TargetRequired | StatusUnknown lifecycle_error | JobNotFound string

definition or_text :: "string option \<Rightarrow> string \<Rightarrow> string" where
  "or_text v fallback = (if truthy v then the v else fallback)"

definition or_int :: "int option \<Rightarrow> int \<Rightarrow> int" where
  "or_int v fallback = (case v of Some n \<Rightarrow> if n = 0 then fallback else n | None \<Rightarrow> fallback)"

text \<open>The text of a time string, which identifiers are made of.\<close>

record wf_env = env +
  wf_time_string :: "time_text \<Rightarrow> string"

definition dateMillis :: "wf_env \<Rightarrow> time_text \<Rightarrow> ms" where
  "dateMillis e t = (case dateParse (zone e) t of Some m \<Rightarrow> m | None \<Rightarrow> 0)"

definition wf_now :: "wf_env \<Rightarrow> time_text" where
  "wf_now e = toISOString (now e)"

definition normalizeWorkflowStatus :: "js \<Rightarrow> (workflow_error, workflow_status) result" where
  "normalizeWorkflowStatus v = map_err StatusUnknown (parseWorkflowStatus v)"

definition createWorkflowJobRecord :: "wf_env \<Rightarrow> job_input \<Rightarrow> (workflow_error, job) result" where
  "createWorkflowJobRecord e input =
     (let type = or_text (ji_type input) ''build-and-deploy''; targetType = or_text (ji_targetType input) ''deployment'';
          targetId = or_text (ji_targetId input) (or_text (ji_deploymentId input) (or_text (ji_serviceId input) []));
          createdAt = (case ji_createdAt input of Some t \<Rightarrow> t | None \<Rightarrow> wf_now e) in
      bindE (ensure (targetId \<noteq> []) TargetRequired) (\<lambda>_.
      bindE (normalizeWorkflowStatus (if js_truthy (ji_status input) then ji_status input else JStr ''queued'')) (\<lambda>status.
      Inr \<lparr>jb_id = or_text (ji_id input) (stableId ''job'' [JStr type, JStr targetType, JStr targetId, JStr (wf_time_string e createdAt)]),
        jb_type = type, jb_status = status, jb_targetType = targetType, jb_targetId = targetId,
        jb_payload = (case as_object (sanitizeWorkflowValue (JObj (ji_payload input))) of Some fs \<Rightarrow> fs | None \<Rightarrow> []),
        jb_attempts = max 0 (or_int (ji_attempts input) 0), jb_maxAttempts = max 1 (or_int (ji_maxAttempts input) 3),
        jb_runAfter = (case ji_runAfter input of Some t \<Rightarrow> dateMillis e t | None \<Rightarrow> now e),
        jb_lockedBy = (if truthy (ji_lockedBy input) then ji_lockedBy input else None),
        jb_lockedAt = map_option (dateMillis e) (ji_lockedAt input),
        jb_createdAt = createdAt, jb_updatedAt = (case ji_updatedAt input of Some t \<Rightarrow> t | None \<Rightarrow> wf_now e)\<rparr>)))"

definition isWorkflowTerminal :: "job \<Rightarrow> bool" where
  "isWorkflowTerminal jb = workflow_terminal (jb_status jb)"

record wf_options =
  wo_now :: "time_text option"
  wo_leaseMs :: "int option"
  wo_leaseSeconds :: "int option"
  wo_workerId :: "string option"
  wo_worker :: "string option"
  wo_retryable :: "bool option"
  wo_retryDelayMs :: "int option"
  wo_maxRetryDelayMs :: "int option"
  wo_errorCode :: "string option"
  wo_maxJobs :: js
  wo_concurrency :: js

definition option_now :: "wf_env \<Rightarrow> wf_options \<Rightarrow> ms" where
  "option_now e options = (case wo_now options of Some t \<Rightarrow> dateMillis e t | None \<Rightarrow> now e)"

definition worker_name :: "wf_options \<Rightarrow> string" where
  "worker_name options = or_text (wo_workerId options) (or_text (wo_worker options) ''workflow-worker'')"

definition isWorkflowLockExpired :: "wf_env \<Rightarrow> wf_options \<Rightarrow> job \<Rightarrow> bool" where
  "isWorkflowLockExpired e options jb =
     (case jb_lockedAt jb of None \<Rightarrow> True
      | Some lockedAt \<Rightarrow>
          (let leaseMs = (case wo_leaseMs options of Some n \<Rightarrow> n | None \<Rightarrow> or_int (wo_leaseSeconds options) 300 * 1000) in
           lockedAt + leaseMs \<le> option_now e options))"

definition dedicated_types :: "string list" where
  "dedicated_types = [''public-health-observe'', ''resource.backup'', ''resource.restore'', ''github.preview-resolve'', ''github.preview-apply'']"

definition isWorkflowJobReady :: "wf_env \<Rightarrow> wf_options \<Rightarrow> job \<Rightarrow> bool" where
  "isWorkflowJobReady e options jb =
     (if jb_type jb \<in> set dedicated_types then False
      else if jb_status jb \<noteq> W_queued then False
      else if option_now e options < jb_runAfter jb then False
      else if jb_lockedAt jb = None then True
      else isWorkflowLockExpired e options jb)"

definition claimWorkflowJobRecord :: "wf_env \<Rightarrow> wf_options \<Rightarrow> job \<Rightarrow> job option" where
  "claimWorkflowJobRecord e options jb =
     (if \<not> isWorkflowJobReady e options jb then None
      else Some (jb\<lparr>jb_status := W_running, jb_attempts := max 0 (jb_attempts jb) + 1, jb_maxAttempts := max 1 (or_int (Some (jb_maxAttempts jb)) 3),
        jb_lockedBy := Some (worker_name options), jb_lockedAt := Some (option_now e options),
        jb_updatedAt := toISOString (option_now e options)\<rparr>))"

definition completeWorkflowJobRecord :: "wf_env \<Rightarrow> wf_options \<Rightarrow> js \<Rightarrow> job \<Rightarrow> job" where
  "completeWorkflowJobRecord e options result jb =
     jb\<lparr>jb_status := W_succeeded,
       jb_payload := map_put ''completedAt'' (JStr (wf_time_string e (toISOString (option_now e options))))
         (map_put ''lastResult'' (sanitizeWorkflowValue result) (jb_payload jb)),
       jb_lockedBy := None, jb_lockedAt := None, jb_updatedAt := toISOString (option_now e options)\<rparr>"

definition retryDelayMs :: "int \<Rightarrow> wf_options \<Rightarrow> int" where
  "retryDelayMs attempts options =
     (let base = (case wo_retryDelayMs options of Some n \<Rightarrow> n | None \<Rightarrow> 1000);
          limit = (case wo_maxRetryDelayMs options of Some n \<Rightarrow> n | None \<Rightarrow> 60000) in
      min limit (base * max 1 (2 ^ nat (max 0 (attempts - 1)))))"

definition retry_allowed :: "wf_options \<Rightarrow> job \<Rightarrow> bool" where
  "retry_allowed options jb \<longleftrightarrow> wo_retryable options \<noteq> Some False \<and>
     max 0 (jb_attempts jb) < max 1 (or_int (Some (jb_maxAttempts jb)) 3)"

definition failWorkflowJobRecord :: "wf_env \<Rightarrow> wf_options \<Rightarrow> thrown \<Rightarrow> job \<Rightarrow> job" where
  "failWorkflowJobRecord e options err jb =
     (let at = option_now e options; retryable = retry_allowed options jb; safeError = workflowErrorMessage err;
          errorSpec = normalizeInfrastructureError err (or_text (wo_errorCode options)
            (if has_infix ''no workflow handler registered'' safeError then ''WORKFLOW_HANDLER_MISSING'' else ''UNKNOWN_INFRA_ERROR'')) in
      jb\<lparr>jb_status := if retryable then W_queued else W_failed,
        jb_payload := map_put ''failedAt'' (JStr (wf_time_string e (toISOString at)))
          (map_put ''lastErrorSpec'' (JObj errorSpec) (map_put ''lastError'' (JStr safeError) (jb_payload jb))),
        jb_runAfter := if retryable then at + retryDelayMs (max 0 (jb_attempts jb)) options else at,
        jb_lockedBy := None, jb_lockedAt := None, jb_updatedAt := toISOString at\<rparr>)"

definition claimNextWorkflowJobFromList :: "wf_env \<Rightarrow> wf_options \<Rightarrow> job list \<Rightarrow> job option \<times> job list" where
  "claimNextWorkflowJobFromList e options jobs =
     (let ordered = sort_key (\<lambda>(i, jb). jb_runAfter jb) (filter (\<lambda>(i, jb). isWorkflowJobReady e options jb) (enumerate 0 jobs)) in
      case ordered of [] \<Rightarrow> (None, jobs)
      | (index, jb) # _ \<Rightarrow>
          (case claimWorkflowJobRecord e options jb of None \<Rightarrow> (None, jobs)
           | Some claimed \<Rightarrow> (Some claimed, jobs[index := claimed])))"

definition replaceWorkflowJob :: "job \<Rightarrow> job list \<Rightarrow> (workflow_error, job list) result" where
  "replaceWorkflowJob next_job jobs =
     (case find (\<lambda>jb. jb_id jb = jb_id next_job) jobs of
        None \<Rightarrow> Inl (JobNotFound (jb_id next_job))
      | Some _ \<Rightarrow> Inr (update_first (\<lambda>jb. jb_id jb = jb_id next_job) (\<lambda>_. next_job) jobs))"

section \<open>The queue of the store\<close>

record wf_state =
  wf_store :: store
  wf_jobs :: "job list"

type_synonym 'a wf_act = "(wf_state, workflow_error, 'a) act"

fun workflow_status_text :: "workflow_status \<Rightarrow> string" where
  "workflow_status_text W_queued = ''queued''"
| "workflow_status_text W_running = ''running''"
| "workflow_status_text W_succeeded = ''succeeded''"
| "workflow_status_text W_failed = ''failed''"
| "workflow_status_text W_cancelled = ''cancelled''"

definition wf_audit :: "wf_env \<Rightarrow> string \<Rightarrow> string \<Rightarrow> job \<Rightarrow> js_fields \<Rightarrow> unit wf_act" where
  "wf_audit e actor action jb metadata =
     change (\<lambda>s. s\<lparr>wf_store := audited (env.truncate e) actor action (jb_targetType jb) (jb_targetId jb)
       ([(''workflowJobId'', JStr (jb_id jb)), (''type'', JStr (jb_type jb))] @ metadata) (wf_store s)\<rparr>)"

definition enqueueWorkflowJob :: "wf_env \<Rightarrow> job_input \<Rightarrow> job wf_act" where
  "enqueueWorkflowJob e input =
     bindA (lift (createWorkflowJobRecord e input)) (\<lambda>row.
     bindA (change (\<lambda>s. s\<lparr>wf_jobs := wf_jobs s @ [row]\<rparr>)) (\<lambda>_.
     bindA (wf_audit e ''system'' ''workflow:enqueue'' row [(''status'', JStr (workflow_status_text (jb_status row)))]) (\<lambda>_.
     ret row)))"

definition claimNextWorkflowJob :: "wf_env \<Rightarrow> wf_options \<Rightarrow> job option wf_act" where
  "claimNextWorkflowJob e options =
     bindA (read (\<lambda>s. claimNextWorkflowJobFromList e options (wf_jobs s))) (\<lambda>(claimed, jobs).
     bindA (change (\<lambda>s. s\<lparr>wf_jobs := jobs\<rparr>)) (\<lambda>_.
     case claimed of None \<Rightarrow> ret None
     | Some jb \<Rightarrow>
         bindA (wf_audit e (worker_name options) ''workflow:claim'' jb [(''attempt'', JInt (jb_attempts jb))]) (\<lambda>_.
         ret (Some jb))))"

text \<open>
  \<open>completeWorkflowJob\<close> and \<open>failWorkflowJob\<close> with the \<open>record\<close> option, or computed from the current
  row without it.
\<close>

definition put_job :: "job \<Rightarrow> unit wf_act" where
  "put_job next_job =
     bindA get_state (\<lambda>s.
     bindA (lift (replaceWorkflowJob next_job (wf_jobs s))) (\<lambda>jobs.
     change (\<lambda>s. s\<lparr>wf_jobs := jobs\<rparr>)))"

definition completeWorkflowJob :: "wf_env \<Rightarrow> wf_options \<Rightarrow> string \<Rightarrow> js \<Rightarrow> job option \<Rightarrow> job wf_act" where
  "completeWorkflowJob e options jobId result record_option =
     bindA (read_or (JobNotFound jobId) (\<lambda>s. find (\<lambda>jb. jb_id jb = jobId) (wf_jobs s))) (\<lambda>current.
     let next_job = (case record_option of Some r \<Rightarrow> r | None \<Rightarrow> completeWorkflowJobRecord e options result current) in
     bindA (put_job next_job) (\<lambda>_.
     bindA (wf_audit e (worker_name options) ''workflow:complete'' next_job [(''status'', JStr (workflow_status_text (jb_status next_job)))]) (\<lambda>_.
     ret next_job)))"

definition failWorkflowJob :: "wf_env \<Rightarrow> wf_options \<Rightarrow> string \<Rightarrow> thrown \<Rightarrow> job option \<Rightarrow> job wf_act" where
  "failWorkflowJob e options jobId err record_option =
     bindA (read_or (JobNotFound jobId) (\<lambda>s. find (\<lambda>jb. jb_id jb = jobId) (wf_jobs s))) (\<lambda>current.
     let next_job = (case record_option of Some r \<Rightarrow> r | None \<Rightarrow> failWorkflowJobRecord e options err current) in
     bindA (put_job next_job) (\<lambda>_.
     bindA (wf_audit e (worker_name options) ''workflow:fail'' next_job
       [(''status'', JStr (workflow_status_text (jb_status next_job))), (''retryAt'', JStr (wf_time_string e (toISOString (jb_runAfter next_job))))]) (\<lambda>_.
     ret next_job)))"

section \<open>Processing\<close>

record process_result =
  pr_ok :: bool
  pr_job :: job
  pr_result :: js
  pr_error :: string

type_synonym handler = "job \<Rightarrow> (wf_state, thrown, js) act"

text \<open>The error that a queue operation throws inside the \<open>try\<close> of \<open>processNextWorkflowJob\<close>.\<close>

definition error_text :: "workflow_error \<Rightarrow> string" where
  "error_text err = (case err of JobNotFound jobId \<Rightarrow> ''workflow job not found: '' @ jobId
     | TargetRequired \<Rightarrow> ''workflow job targetId is required'' | StatusUnknown _ \<Rightarrow> ''unknown workflow status'')"

definition fail_claim :: "wf_env \<Rightarrow> wf_options \<Rightarrow> thrown \<Rightarrow> job \<Rightarrow> process_result wf_act" where
  "fail_claim e options err claim =
     (let failed = failWorkflowJobRecord e options err claim in
      bindA (failWorkflowJob e options (jb_id claim) err (Some failed)) (\<lambda>_.
      ret \<lparr>pr_ok = False, pr_job = failed, pr_result = JUndef, pr_error = workflowErrorMessage err\<rparr>))"

text \<open>What follows a claim: the handler, then the job is completed or failed.\<close>

definition process_claim :: "wf_env \<Rightarrow> wf_options \<Rightarrow> (string \<Rightarrow> handler option) \<Rightarrow> job \<Rightarrow> process_result wf_act" where
  "process_claim e options handlers claim s =
     (case (case handlers (jb_type claim) of Some h \<Rightarrow> Some h | None \<Rightarrow> handlers ''default'') of
        None \<Rightarrow> fail_claim e (options\<lparr>wo_retryable := Some False\<rparr>) (new_error (''no workflow handler registered for '' @ jb_type claim)) claim s
      | Some h \<Rightarrow>
          (case h claim s of
             (Inl err, t) \<Rightarrow> fail_claim e options err claim t
           | (Inr result, t) \<Rightarrow>
               let completed = completeWorkflowJobRecord e options result claim in
               (case completeWorkflowJob e options (jb_id claim) result (Some completed) t of
                  (Inl err, u) \<Rightarrow> fail_claim e options (new_error (error_text err)) claim u
                | (Inr _, u) \<Rightarrow>
                    (Inr \<lparr>pr_ok = True, pr_job = completed, pr_result = sanitizeWorkflowValue result, pr_error = []\<rparr>, u))))"

definition processNextWorkflowJob :: "wf_env \<Rightarrow> wf_options \<Rightarrow> (string \<Rightarrow> handler option) \<Rightarrow> process_result option wf_act" where
  "processNextWorkflowJob e options handlers =
     bindA (claimNextWorkflowJob e options) (\<lambda>claim.
     case claim of None \<Rightarrow> ret None
     | Some jb \<Rightarrow> bindA (process_claim e options handlers jb) (\<lambda>r. ret (Some r)))"

section \<open>Draining\<close>

definition parseInt :: "string \<Rightarrow> int option" where
  "parseInt t =
     (let s = dropWhile white_space t; negative = (s \<noteq> [] \<and> hd s = CHR ''-'');
          body = (if s \<noteq> [] \<and> (hd s = CHR ''-'' \<or> hd s = CHR ''+'') then tl s else s);
          digits = takeWhile digit body; n = foldl (\<lambda>n c. 10 * n + (int (code_unit c) - 48)) 0 digits in
      if digits = [] then None else Some (if negative then - n else n))"

definition boundedInteger :: "js \<Rightarrow> int \<Rightarrow> int \<Rightarrow> int \<Rightarrow> int" where
  "boundedInteger v fallback minimum maximum =
     (case parseInt (js_text (if nullish v then JInt fallback else v)) of None \<Rightarrow> fallback
      | Some parsed \<Rightarrow> max minimum (min maximum parsed))"

text \<open>
  The workers of \<open>drainWorkflowQueue\<close> run interleaved. A worker that is idle takes a reservation
  and claims a job in one step, as no other worker can run before the first suspension; a busy
  worker runs its handler to the end and pushes the result; an idle worker returns when the queue
  was found empty, the signal was aborted or all reservations are taken. When processing throws,
  the error leaves the worker and it is done.
\<close>

datatype worker = Idle | Busy job | Returned

record drain_state =
  dr_queue :: wf_state
  dr_reservations :: nat
  dr_exhausted :: bool
  dr_results :: "process_result list"
  dr_workers :: "worker list"

definition drain_start :: "wf_options \<Rightarrow> wf_state \<Rightarrow> drain_state" where
  "drain_start options q =
     (let maxJobs = boundedInteger (wo_maxJobs options) 25 1 100; concurrency = boundedInteger (wo_concurrency options) 4 1 16 in
      \<lparr>dr_queue = q, dr_reservations = 0, dr_exhausted = False, dr_results = [], dr_workers = replicate (nat (min concurrency maxJobs)) Idle\<rparr>)"

definition drain_limit :: "wf_options \<Rightarrow> nat" where
  "drain_limit options = nat (boundedInteger (wo_maxJobs options) 25 1 100)"

inductive drain_step :: "wf_options \<Rightarrow> (string \<Rightarrow> handler option) \<Rightarrow> drain_state \<Rightarrow> drain_state \<Rightarrow> bool"
  for options handlers where
  worker_claims: "i < length (dr_workers d) \<Longrightarrow> dr_workers d ! i = Idle \<Longrightarrow> \<not> dr_exhausted d \<Longrightarrow>
    dr_reservations d < drain_limit options \<Longrightarrow> claimNextWorkflowJob e options (dr_queue d) = (Inr (Some jb), q) \<Longrightarrow>
    drain_step options handlers d (d\<lparr>dr_queue := q, dr_reservations := dr_reservations d + 1, dr_workers := (dr_workers d)[i := Busy jb]\<rparr>)"
| worker_finds_none: "i < length (dr_workers d) \<Longrightarrow> dr_workers d ! i = Idle \<Longrightarrow> \<not> dr_exhausted d \<Longrightarrow>
    dr_reservations d < drain_limit options \<Longrightarrow> claimNextWorkflowJob e options (dr_queue d) = (Inr None, q) \<Longrightarrow>
    drain_step options handlers d (d\<lparr>dr_queue := q, dr_reservations := dr_reservations d + 1, dr_exhausted := True,
      dr_workers := (dr_workers d)[i := Returned]\<rparr>)"
| worker_finishes: "i < length (dr_workers d) \<Longrightarrow> dr_workers d ! i = Busy jb \<Longrightarrow>
    process_claim e options handlers jb (dr_queue d) = (Inr r, q) \<Longrightarrow>
    drain_step options handlers d (d\<lparr>dr_queue := q, dr_results := dr_results d @ [r], dr_workers := (dr_workers d)[i := Idle]\<rparr>)"
| worker_throws: "i < length (dr_workers d) \<Longrightarrow> dr_workers d ! i = Busy jb \<Longrightarrow>
    process_claim e options handlers jb (dr_queue d) = (Inl err, q) \<Longrightarrow>
    drain_step options handlers d (d\<lparr>dr_queue := q, dr_workers := (dr_workers d)[i := Returned]\<rparr>)"
| worker_returns: "i < length (dr_workers d) \<Longrightarrow> dr_workers d ! i = Idle \<Longrightarrow>
    dr_exhausted d \<or> aborted \<or> drain_limit options \<le> dr_reservations d \<Longrightarrow>
    drain_step options handlers d (d\<lparr>dr_workers := (dr_workers d)[i := Returned]\<rparr>)"

section \<open>The invariant of the queue\<close>

text \<open>
  A job that waits has attempts left, no job has used more attempts than it may, and a job is
  locked exactly while it runs.
\<close>

definition job_ok :: "job \<Rightarrow> bool" where
  "job_ok jb \<longleftrightarrow> 1 \<le> jb_maxAttempts jb \<and> 0 \<le> jb_attempts jb \<and> jb_attempts jb \<le> jb_maxAttempts jb \<and>
     (jb_status jb = W_queued \<longrightarrow> jb_attempts jb < jb_maxAttempts jb) \<and>
     (jb_lockedAt jb \<noteq> None \<longleftrightarrow> jb_status jb = W_running) \<and> (jb_lockedBy jb \<noteq> None \<longleftrightarrow> jb_status jb = W_running)"

definition queue_ok :: "wf_state \<Rightarrow> bool" where
  "queue_ok s \<longleftrightarrow> list_all job_ok (wf_jobs s)"

text \<open>An input that does not bring an execution state with it.\<close>

definition fresh_input :: "job_input \<Rightarrow> bool" where
  "fresh_input input \<longleftrightarrow> \<not> js_truthy (ji_status input) \<and> or_int (ji_attempts input) 0 \<le> 0 \<and> ji_lockedAt input = None \<and> \<not> truthy (ji_lockedBy input)"

lemma or_int_pos: "1 \<le> n \<Longrightarrow> or_int (Some n) k = n"
  by (simp add: or_int_def)

lemma ready_queued: "isWorkflowJobReady e options jb \<Longrightarrow> jb_status jb = W_queued"
  by (simp add: isWorkflowJobReady_def split: if_splits)

lemma claim_ok:
  assumes "claimWorkflowJobRecord e options jb = Some claimed" and "job_ok jb"
  shows "job_ok claimed" "jb_status claimed = W_running" "jb_attempts claimed = jb_attempts jb + 1"
  using assms ready_queued [of e options jb]
  by (auto simp: claimWorkflowJobRecord_def job_ok_def or_int_pos split: if_splits)

lemma complete_ok: "job_ok jb \<Longrightarrow> job_ok (completeWorkflowJobRecord e options result jb)"
  by (simp add: completeWorkflowJobRecord_def job_ok_def)

lemma fail_ok: "job_ok jb \<Longrightarrow> job_ok (failWorkflowJobRecord e options err jb)"
  by (simp add: failWorkflowJobRecord_def job_ok_def Let_def retry_allowed_def or_int_pos)

lemma create_ok:
  assumes "createWorkflowJobRecord e input = Inr jb" and "fresh_input input"
  shows "job_ok jb"
proof -
  have "parseWorkflowStatus (JStr ''queued'') = Inr W_queued" by code_simp
  with assms show ?thesis
    by (auto simp: createWorkflowJobRecord_def fresh_input_def Let_def result_simps normalizeWorkflowStatus_def job_ok_def)
qed

lemma claim_list_split:
  assumes "claimNextWorkflowJobFromList e options jobs = (r, jobs')"
  obtains "r = None" "jobs' = jobs" "\<forall>jb \<in> set jobs. \<not> isWorkflowJobReady e options jb"
  | i claimed where "i < length jobs" "isWorkflowJobReady e options (jobs ! i)"
      "claimWorkflowJobRecord e options (jobs ! i) = Some claimed" "r = Some claimed" "jobs' = jobs[i := claimed]"
      "\<forall>k < length jobs. isWorkflowJobReady e options (jobs ! k) \<longrightarrow> jb_runAfter (jobs ! i) \<le> jb_runAfter (jobs ! k)"
proof -
  define xs where "xs = filter (\<lambda>(i, jb). isWorkflowJobReady e options jb) (enumerate 0 jobs)"
  define ordered where "ordered = sort_key (\<lambda>(i, jb). jb_runAfter jb) xs"
  have set_xs: "set ordered = {(i, jobs ! i) | i. i < length jobs \<and> isWorkflowJobReady e options (jobs ! i)}"
    by (auto simp: ordered_def xs_def in_set_enumerate_eq)
  have sorted: "sorted (map (\<lambda>(i, jb). jb_runAfter jb) ordered)" by (simp add: ordered_def)
  show thesis
  proof (cases ordered)
    case Nil
    with set_xs have "\<forall>jb \<in> set jobs. \<not> isWorkflowJobReady e options jb" by (auto simp: in_set_conv_nth)
    then show thesis using assms Nil that(1)
      by (simp add: claimNextWorkflowJobFromList_def Let_def flip: xs_def ordered_def)
  next
    case (Cons p ps)
    obtain i where p: "p = (i, jobs ! i)" "i < length jobs" "isWorkflowJobReady e options (jobs ! i)"
      using set_xs Cons by auto
    then obtain claimed where c: "claimWorkflowJobRecord e options (jobs ! i) = Some claimed"
      by (simp add: claimWorkflowJobRecord_def)
    have least: "jb_runAfter (jobs ! i) \<le> jb_runAfter (jobs ! k)" if "k < length jobs" "isWorkflowJobReady e options (jobs ! k)" for k
    proof -
      have "(k, jobs ! k) \<in> set (p # ps)" using set_xs Cons that by auto
      with sorted Cons p(1) show ?thesis by auto
    qed
    have "r = Some claimed" "jobs' = jobs[i := claimed]"
      using assms Cons p(1) c
      by (simp_all add: claimNextWorkflowJobFromList_def Let_def flip: xs_def ordered_def)
    with p c least that(2) show thesis by blast
  qed
qed

lemma wf_audit_jobs: "wf_jobs (snd (wf_audit e actor action jb m s)) = wf_jobs s" "fst (wf_audit e actor action jb m s) = Inr ()"
  by (simp_all add: wf_audit_def)

lemma queue_ok_jobs: "wf_jobs s = wf_jobs t \<Longrightarrow> queue_ok s = queue_ok t"
  by (simp add: queue_ok_def)

lemma bindA_audit: "bindA (wf_audit e actor action jb m) k s = k () (snd (wf_audit e actor action jb m s))"
  by (simp add: wf_audit_def run_simps)

lemma audit_keeps [keeps_rules]: "keeps queue_ok (wf_audit e actor action jb m)"
  by (simp add: keeps_def wf_audit_jobs queue_ok_jobs [OF wf_audit_jobs(1)])

lemma enqueue_keeps: "fresh_input input \<Longrightarrow> keeps queue_ok (enqueueWorkflowJob e input)"
  unfolding enqueueWorkflowJob_def keeps_leads
  apply (intro leads_rules)
    apply assumption
   apply (simp add: queue_ok_def create_ok)
  apply (intro keeps_rules)
  done

lemma replace_ok:
  assumes "replaceWorkflowJob next_job jobs = Inr jobs'" and "list_all job_ok jobs" and "job_ok next_job"
  shows "list_all job_ok jobs'"
  using assms by (auto simp: replaceWorkflowJob_def list_all_iff split: option.splits dest!: in_update_first)

lemma put_job_keeps: "job_ok next_job \<Longrightarrow> keeps queue_ok (put_job next_job)"
  unfolding put_job_def keeps_leads
  by (intro leads_rules) (auto simp: queue_ok_def intro: replace_ok)

lemma find_job_ok: "queue_ok s \<Longrightarrow> find P (wf_jobs s) = Some jb \<Longrightarrow> job_ok jb"
  by (auto simp: queue_ok_def list_all_iff dest: find_SomeD)

lemma leads_found:
  assumes "\<And>jb. job_ok jb \<Longrightarrow> keeps queue_ok (k jb)"
  shows "keeps queue_ok (bindA (read_or err (\<lambda>s. find P (wf_jobs s))) k)"
  using assms by (auto simp: keeps_def run_simps split: option.split intro: find_job_ok)

lemma complete_keeps:
  "(\<And>r. record_option = Some r \<Longrightarrow> job_ok r) \<Longrightarrow> keeps queue_ok (completeWorkflowJob e options jobId result record_option)"
  unfolding completeWorkflowJob_def Let_def
  by (intro leads_found keeps_rules put_job_keeps) (auto simp: complete_ok split: option.split)

lemma fail_keeps:
  "(\<And>r. record_option = Some r \<Longrightarrow> job_ok r) \<Longrightarrow> keeps queue_ok (failWorkflowJob e options jobId err record_option)"
  unfolding failWorkflowJob_def Let_def
  by (intro leads_found keeps_rules put_job_keeps) (auto simp: fail_ok split: option.split)

definition handlers_ok :: "(string \<Rightarrow> handler option) \<Rightarrow> bool" where
  "handlers_ok handlers \<longleftrightarrow> (\<forall>type h claim. handlers type = Some h \<longrightarrow> keeps queue_ok (h claim))"

lemma fail_claim_keeps: "job_ok claim \<Longrightarrow> keeps queue_ok (fail_claim e options err claim)"
  unfolding fail_claim_def Let_def by (intro keeps_rules fail_keeps) (auto simp: fail_ok)

lemma process_claim_keeps:
  assumes "handlers_ok handlers" and "job_ok claim"
  shows "keeps queue_ok (process_claim e options handlers claim)"
  unfolding keeps_def
proof (intro allI impI)
  fix s assume s: "queue_ok s"
  have fail: "queue_ok t \<Longrightarrow> queue_ok (snd (fail_claim e options' err claim t))" for options' err t
    using fail_claim_keeps [OF assms(2)] by (rule keepsD)
  have complete: "queue_ok t \<Longrightarrow> queue_ok (snd (completeWorkflowJob e options (jb_id claim) result
      (Some (completeWorkflowJobRecord e options result claim)) t))" for result t
    by (rule keepsD [OF complete_keeps]) (auto simp: complete_ok assms(2))
  have h: "queue_ok (snd (h claim s))" if "handlers type = Some h" for type h
    using assms(1) s that by (auto simp: handlers_ok_def keeps_def)
  define found where "found = (case handlers (jb_type claim) of Some h \<Rightarrow> Some h | None \<Rightarrow> handlers ''default'')"
  show "queue_ok (snd (process_claim e options handlers claim s))"
  proof (cases found)
    case None
    with fail [OF s] show ?thesis by (simp add: process_claim_def flip: found_def)
  next
    case (Some handler)
    then obtain type where "handlers type = Some handler" by (auto simp: found_def split: option.splits)
    then have t: "queue_ok (snd (handler claim s))" by (rule h)
    obtain r t' where run: "handler claim s = (r, t')" by (metis surj_pair)
    show ?thesis
    proof (cases r)
      case (Inl err)
      with run t fail show ?thesis by (simp add: process_claim_def Some flip: found_def)
    next
      case (Inr result)
      obtain c u where outcome: "completeWorkflowJob e options (jb_id claim) result
          (Some (completeWorkflowJobRecord e options result claim)) t' = (c, u)" by (metis surj_pair)
      then have "queue_ok u" using complete [of t' result] run t by simp
      with run Inr outcome fail show ?thesis
        by (cases c) (simp_all add: process_claim_def Some Let_def flip: found_def)
    qed
  qed
qed

lemma claim_next_run:
  assumes "claimNextWorkflowJob e options s = (r, t)"
  shows "\<exists>claimed. r = Inr claimed \<and> claimNextWorkflowJobFromList e options (wf_jobs s) = (claimed, wf_jobs t)"
  using assms
  by (cases "claimNextWorkflowJobFromList e options (wf_jobs s)")
    (auto simp: claimNextWorkflowJob_def run_simps bindA_audit wf_audit_def split: option.splits)

lemma claim_next_ok:
  assumes "claimNextWorkflowJob e options s = (Inr claimed, t)" and "queue_ok s"
  shows "queue_ok t" and "\<And>jb. claimed = Some jb \<Longrightarrow> job_ok jb"
proof -
  have list: "claimNextWorkflowJobFromList e options (wf_jobs s) = (claimed, wf_jobs t)"
    using claim_next_run [OF assms(1)] by simp
  from list have "queue_ok t \<and> (\<forall>jb. claimed = Some jb \<longrightarrow> job_ok jb)"
  proof (cases rule: claim_list_split)
    case 1
    with assms(2) show ?thesis by (simp add: queue_ok_def)
  next
    case (2 i jb)
    then have "job_ok (wf_jobs s ! i)" using assms(2) by (simp add: queue_ok_def list_all_length)
    with 2 have "job_ok jb" by (blast intro: claim_ok)
    with 2 assms(2) show ?thesis by (auto simp: queue_ok_def list_all_iff dest!: subsetD [OF set_update_subset_insert])
  qed
  then show "queue_ok t" "\<And>jb. claimed = Some jb \<Longrightarrow> job_ok jb" by blast+
qed

lemma process_next_keeps: "handlers_ok handlers \<Longrightarrow> keeps queue_ok (processNextWorkflowJob e options handlers)"
  unfolding keeps_def
proof (intro allI impI)
  fix s assume h: "handlers_ok handlers" and s: "queue_ok s"
  obtain claimed t where c: "claimNextWorkflowJob e options s = (Inr claimed, t)"
    using claim_next_run by (metis surj_pair)
  note ok = claim_next_ok [OF c s]
  show "queue_ok (snd (processNextWorkflowJob e options handlers s))"
  proof (cases claimed)
    case None
    with c ok show ?thesis by (simp add: processNextWorkflowJob_def)
  next
    case (Some jb)
    have "keeps queue_ok (bindA (process_claim e options handlers jb) (\<lambda>r. ret (Some r)))"
      using ok(2) [OF Some] h by (intro keeps_rules process_claim_keeps)
    with c ok Some show ?thesis by (simp add: processNextWorkflowJob_def keeps_def)
  qed
qed

inductive wf_step :: "wf_state \<Rightarrow> wf_state \<Rightarrow> bool" where
  wf_enqueue: "fresh_input input \<Longrightarrow> enqueueWorkflowJob e input s = (r, t) \<Longrightarrow> wf_step s t"
| wf_process: "handlers_ok handlers \<Longrightarrow> processNextWorkflowJob e options handlers s = (p, t) \<Longrightarrow> wf_step s t"
| wf_complete: "completeWorkflowJob e options jobId result None s = (c, t) \<Longrightarrow> wf_step s t"
| wf_fail: "failWorkflowJob e options jobId err None s = (c, t) \<Longrightarrow> wf_step s t"

lemma keeps_run: "keeps I m \<Longrightarrow> m s = (r, t) \<Longrightarrow> I s \<Longrightarrow> I t"
  by (metis keepsD snd_conv)

lemma wf_step_ok: "wf_step s t \<Longrightarrow> queue_ok s \<Longrightarrow> queue_ok t"
proof (induction rule: wf_step.induct)
  case (wf_enqueue input e s r t)
  show ?case by (rule keeps_run [OF enqueue_keeps [OF wf_enqueue(1)] wf_enqueue(2,3)])
next
  case (wf_process handlers e options s p t)
  show ?case by (rule keeps_run [OF process_next_keeps [OF wf_process(1)] wf_process(2,3)])
next
  case (wf_complete e options jobId result s c t)
  show ?case by (rule keeps_run [OF complete_keeps wf_complete(1,2)]) simp
next
  case (wf_fail e options jobId err s c t)
  show ?case by (rule keeps_run [OF fail_keeps wf_fail(1,2)]) simp
qed

interpretation workflow_steps: step_invariant wf_step queue_ok
  by unfold_locales (rule wf_step_ok)

section \<open>The drain\<close>

definition busy :: "drain_state \<Rightarrow> nat" where
  "busy d = length (filter (\<lambda>w. case w of Busy _ \<Rightarrow> True | _ \<Rightarrow> False) (dr_workers d))"

definition live :: "drain_state \<Rightarrow> nat" where
  "live d = length (filter (\<lambda>w. w \<noteq> Returned) (dr_workers d))"

text \<open>What is left to do: two steps for a free reservation, one for a running job, one for a worker.\<close>

definition drain_measure :: "wf_options \<Rightarrow> drain_state \<Rightarrow> nat" where
  "drain_measure options d = 2 * (drain_limit options - dr_reservations d) + busy d + live d"

definition drain_ok :: "wf_options \<Rightarrow> drain_state \<Rightarrow> bool" where
  "drain_ok options d \<longleftrightarrow> queue_ok (dr_queue d) \<and> (\<forall>jb. Busy jb \<in> set (dr_workers d) \<longrightarrow> job_ok jb) \<and>
     length (dr_results d) + busy d \<le> dr_reservations d \<and> dr_reservations d \<le> drain_limit options"

lemma count_list_update:
  assumes "i < length xs"
  shows "int (length (filter P (xs[i := x]))) = int (length (filter P xs)) - of_bool (P (xs ! i)) + of_bool (P x)"
proof -
  have xs: "xs = take i xs @ xs ! i # drop (Suc i) xs" by (rule id_take_nth_drop [OF assms])
  have "xs[i := x] = take i xs @ x # drop (Suc i) xs" by (rule upd_conv_take_nth_drop [OF assms])
  moreover have "length (filter P xs) = length (filter P (take i xs)) + of_bool (P (xs ! i)) + length (filter P (drop (Suc i) xs))"
    by (subst xs) simp
  ultimately show ?thesis by simp
qed

lemma busy_update:
  "i < length (dr_workers d) \<Longrightarrow> int (busy (d\<lparr>dr_workers := (dr_workers d)[i := w]\<rparr>)) =
     int (busy d) - of_bool (case dr_workers d ! i of Busy _ \<Rightarrow> True | _ \<Rightarrow> False) + of_bool (case w of Busy _ \<Rightarrow> True | _ \<Rightarrow> False)"
  unfolding busy_def by (simp add: count_list_update)

lemma live_update:
  "i < length (dr_workers d) \<Longrightarrow> int (live (d\<lparr>dr_workers := (dr_workers d)[i := w]\<rparr>)) =
     int (live d) - of_bool (dr_workers d ! i \<noteq> Returned) + of_bool (w \<noteq> Returned)"
  unfolding live_def by (simp add: count_list_update)

lemma busy_workers: "dr_workers d = dr_workers d' \<Longrightarrow> busy d = busy d'"
  by (simp add: busy_def)

lemma live_workers: "dr_workers d = dr_workers d' \<Longrightarrow> live d = live d'"
  by (simp add: live_def)

lemma drain_decreases: "drain_step options handlers d d' \<Longrightarrow> drain_measure options d' < drain_measure options d"
proof (induction rule: drain_step.induct)
  case (worker_claims i d e jb q)
  with busy_update [of i d "Busy jb"] live_update [of i d "Busy jb"] show ?case
    by (simp add: drain_measure_def busy_def live_def)
next
  case (worker_finds_none i d e q)
  with busy_update [of i d Returned] live_update [of i d Returned] show ?case
    by (simp add: drain_measure_def busy_def live_def)
next
  case (worker_finishes i d jb e r q)
  with busy_update [of i d Idle] live_update [of i d Idle] show ?case
    by (simp add: drain_measure_def busy_def live_def)
next
  case (worker_throws i d jb e err q)
  with busy_update [of i d Returned] live_update [of i d Returned] show ?case
    by (simp add: drain_measure_def busy_def live_def)
next
  case (worker_returns i d aborted)
  with busy_update [of i d Returned] live_update [of i d Returned] show ?case
    by (simp add: drain_measure_def busy_def live_def)
qed

lemma in_workers_update: "Busy jb \<in> set (ws[i := w]) \<Longrightarrow> Busy jb = w \<or> Busy jb \<in> set ws"
  using set_update_subset_insert by fastforce

lemma nth_workers: "i < length ws \<Longrightarrow> ws ! i = Busy jb \<Longrightarrow> Busy jb \<in> set ws"
  by (metis nth_mem)

lemma drain_step_ok:
  assumes "drain_step options handlers d d'" and "handlers_ok handlers" and "drain_ok options d"
  shows "drain_ok options d'"
  using assms
proof (induction rule: drain_step.induct)
  case (worker_claims i d e jb q)
  have "queue_ok (dr_queue d)" using worker_claims(7) by (simp add: drain_ok_def)
  note ok = claim_next_ok [OF worker_claims(5) this]
  with worker_claims busy_update [of i d "Busy jb"] show ?case
    by (auto simp: drain_ok_def busy_def dest!: in_workers_update)
next
  case (worker_finds_none i d e q)
  have "queue_ok (dr_queue d)" using worker_finds_none(7) by (simp add: drain_ok_def)
  note ok = claim_next_ok [OF worker_finds_none(5) this]
  with worker_finds_none busy_update [of i d Returned] show ?case
    by (auto simp: drain_ok_def busy_def dest!: in_workers_update)
next
  case (worker_finishes i d jb e r q)
  then have "job_ok jb" "queue_ok (dr_queue d)" by (auto simp: drain_ok_def dest: nth_workers)
  then have "queue_ok q"
    using keeps_run [OF process_claim_keeps [OF worker_finishes(4)] worker_finishes(3)] by blast
  with worker_finishes busy_update [of i d Idle] show ?case
    by (auto simp: drain_ok_def busy_def dest!: in_workers_update)
next
  case (worker_throws i d jb e err q)
  then have "job_ok jb" "queue_ok (dr_queue d)" by (auto simp: drain_ok_def dest: nth_workers)
  then have "queue_ok q"
    using keeps_run [OF process_claim_keeps [OF worker_throws(4)] worker_throws(3)] by blast
  with worker_throws busy_update [of i d Returned] show ?case
    by (auto simp: drain_ok_def busy_def dest!: in_workers_update)
next
  case (worker_returns i d aborted)
  with busy_update [of i d Returned] show ?case
    by (auto simp: drain_ok_def busy_def dest!: in_workers_update)
qed

lemma drain_progress:
  assumes "w \<in> set (dr_workers d)" and "w \<noteq> Returned"
  shows "\<exists>d'. drain_step options handlers d d'"
proof -
  obtain i where i: "i < length (dr_workers d)" "dr_workers d ! i = w" using assms(1) by (auto simp: in_set_conv_nth)
  fix e :: wf_env
  show ?thesis
  proof (cases w)
    case Idle
    obtain claimed q where c: "claimNextWorkflowJob e options (dr_queue d) = (Inr claimed, q)"
      using claim_next_run by (metis surj_pair)
    show ?thesis
    proof (cases "dr_exhausted d \<or> drain_limit options \<le> dr_reservations d")
      case True
      with i Idle show ?thesis by (blast intro: worker_returns [where aborted = False])
    next
      case False
      with i Idle c show ?thesis
        by (cases claimed) (auto intro: worker_claims worker_finds_none simp: not_le)
    qed
  next
    case (Busy jb)
    obtain r q where "process_claim e options handlers jb (dr_queue d) = (r, q)" by (metis surj_pair)
    with i Busy show ?thesis by (cases r) (auto intro: worker_finishes worker_throws)
  qed (use assms(2) in simp)
qed

lemma boundedInteger_range:
  "lo \<le> fallback \<Longrightarrow> fallback \<le> hi \<Longrightarrow> lo \<le> boundedInteger v fallback lo hi \<and> boundedInteger v fallback lo hi \<le> hi"
  by (simp add: boundedInteger_def split: option.split)

lemma drain_limit_le: "drain_limit options \<le> 100"
  using boundedInteger_range [of 1 25 100 "wo_maxJobs options"] unfolding drain_limit_def by linarith

lemma drain_start_ok:
  assumes "queue_ok q"
  shows "drain_ok options (drain_start options q)" "drain_measure options (drain_start options q) \<le> 2 * drain_limit options + 16"
proof -
  have "boundedInteger (wo_concurrency options) 4 1 16 \<le> 16" using boundedInteger_range [of 1 4 16] by simp
  then have n: "nat (min (boundedInteger (wo_concurrency options) 4 1 16) m) \<le> 16" for m by linarith
  have w: "dr_workers (drain_start options q) = replicate (nat (min (boundedInteger (wo_concurrency options) 4 1 16)
      (boundedInteger (wo_maxJobs options) 25 1 100))) Idle" "dr_reservations (drain_start options q) = 0"
    "dr_results (drain_start options q) = []" "dr_queue (drain_start options q) = q"
    by (simp_all add: drain_start_def Let_def)
  have b: "busy (drain_start options q) = 0" by (simp add: busy_def w)
  have "live (drain_start options q) \<le> 16" unfolding live_def w using n by (metis filter_True length_filter_le length_replicate le_trans)
  with b w show "drain_measure options (drain_start options q) \<le> 2 * drain_limit options + 16"
    by (simp add: drain_measure_def)
  show "drain_ok options (drain_start options q)" using assms b w by (simp add: drain_ok_def)
qed

lemma drain_run:
  assumes "handlers_ok handlers" and "drain_ok options d0" and "(drain_step options handlers ^^ n) d0 d"
  shows "drain_ok options d \<and> drain_measure options d + n \<le> drain_measure options d0"
  using assms(3)
proof (induction n arbitrary: d)
  case 0
  with assms(2) show ?case by simp
next
  case (Suc n)
  then obtain d1 where d1: "(drain_step options handlers ^^ n) d0 d1" "drain_step options handlers d1 d"
    by (auto elim: relpowp_Suc_E)
  from Suc.IH [OF d1(1)] drain_decreases [OF d1(2)] drain_step_ok [OF d1(2) assms(1)] show ?case by linarith
qed

section \<open>A sample\<close>

definition sample_wf_env :: wf_env where
  "sample_wf_env = \<lparr>now = 5000, zone = 0, sha256_hex = (\<lambda>s. s), sha256_base64url = (\<lambda>s. s), wf_time_string = (\<lambda>_. ''1970-01-01T00:00:05.000Z'')\<rparr>"

definition sample_options :: wf_options where
  "sample_options = \<lparr>wo_now = None, wo_leaseMs = None, wo_leaseSeconds = None, wo_workerId = Some ''w1'', wo_worker = None,
     wo_retryable = None, wo_retryDelayMs = None, wo_maxRetryDelayMs = None, wo_errorCode = None, wo_maxJobs = JInt 2, wo_concurrency = JUndef\<rparr>"

definition sample_input :: job_input where
  "sample_input = \<lparr>ji_id = Some ''job-1'', ji_type = None, ji_status = JUndef, ji_targetType = None, ji_targetId = Some ''dep-1'',
     ji_deploymentId = None, ji_serviceId = None, ji_payload = [], ji_attempts = None, ji_maxAttempts = None, ji_runAfter = None,
     ji_lockedBy = None, ji_lockedAt = None, ji_createdAt = None, ji_updatedAt = None\<rparr>"

definition sample_job :: job where
  "sample_job = \<lparr>jb_id = ''job-1'', jb_type = ''build-and-deploy'', jb_status = W_queued, jb_targetType = ''deployment'', jb_targetId = ''dep-1'',
     jb_payload = [], jb_attempts = 0, jb_maxAttempts = 3, jb_runAfter = 5000, jb_lockedBy = None, jb_lockedAt = None,
     jb_createdAt = Instant 5000, jb_updatedAt = Instant 5000\<rparr>"

definition no_jobs :: wf_state where
  "no_jobs = \<lparr>wf_store = empty_store, wf_jobs = []\<rparr>"

definition sample_queue :: wf_state where
  "sample_queue = snd (enqueueWorkflowJob sample_wf_env sample_input no_jobs)"

lemma sample_record: "createWorkflowJobRecord sample_wf_env sample_input = Inr sample_job"
  by code_simp

lemma sample_queue_jobs: "wf_jobs sample_queue = [sample_job]"
  by (simp add: sample_queue_def enqueueWorkflowJob_def sample_record run_simps bindA_audit wf_audit_def no_jobs_def)

lemma sample_fresh: "fresh_input sample_input"
  by (simp add: fresh_input_def sample_input_def or_int_def)

lemma sample_queue_ok: "queue_ok sample_queue"
  by (simp add: queue_ok_def sample_queue_jobs sample_job_def job_ok_def)

text \<open>
  Identifiers are cut to 63 characters, and the creation time comes last: for a target with an
  identifier of some length two jobs that were created at different times have the same
  identifier, and completing one of them replaces the row of the other.
\<close>

definition later_wf_env :: wf_env where
  "later_wf_env = sample_wf_env\<lparr>now := 65000, wf_time_string := (\<lambda>_. ''1970-01-01T00:01:05.000Z'')\<rparr>"

lemma job_id_collision:
  "map_err (\<lambda>_. ()) (bindE (createWorkflowJobRecord sample_wf_env (sample_input\<lparr>ji_id := None, ji_targetId := Some ''dep-service-web-production-20261116-build''\<rparr>)) (\<lambda>jb. Inr (jb_id jb))) =
   map_err (\<lambda>_. ()) (bindE (createWorkflowJobRecord later_wf_env (sample_input\<lparr>ji_id := None, ji_targetId := Some ''dep-service-web-production-20261116-build''\<rparr>)) (\<lambda>jb. Inr (jb_id jb)))"
  by code_simp

section \<open>Properties\<close>



text \<open>
  A claim takes, of the jobs that are ready, one whose time came first; it marks it running
  and locked by the worker with one more attempt and changes no other job. It returns nothing only
  if no job is ready.
\<close>

theorem claim_earliest_ready:
  assumes "claimNextWorkflowJobFromList e options jobs = (r, jobs')"
  shows "(r = None \<and> jobs' = jobs \<and> (\<forall>jb \<in> set jobs. \<not> isWorkflowJobReady e options jb)) \<or>
    (\<exists>i claimed. i < length jobs \<and> r = Some claimed \<and> jobs' = jobs[i := claimed] \<and> isWorkflowJobReady e options (jobs ! i) \<and>
       (\<forall>k < length jobs. isWorkflowJobReady e options (jobs ! k) \<longrightarrow> jb_runAfter (jobs ! i) \<le> jb_runAfter (jobs ! k)) \<and>
       jb_id claimed = jb_id (jobs ! i) \<and> jb_status claimed = W_running \<and> jb_attempts claimed = max 0 (jb_attempts (jobs ! i)) + 1 \<and>
       jb_lockedBy claimed = Some (worker_name options) \<and> jb_lockedAt claimed = Some (option_now e options))"
  using assms
proof (cases rule: claim_list_split)
  case (2 i claimed)
  then have "jb_id claimed = jb_id (jobs ! i)" "jb_status claimed = W_running" "jb_attempts claimed = max 0 (jb_attempts (jobs ! i)) + 1"
    "jb_lockedBy claimed = Some (worker_name options)" "jb_lockedAt claimed = Some (option_now e options)"
    by (auto simp: claimWorkflowJobRecord_def split: if_splits)
  with 2 show ?thesis by blast
qed blast

theorem claim_earliest_ready_witness:
  "\<exists>claimed. claimNextWorkflowJobFromList sample_wf_env sample_options [sample_job] = (Some claimed, [claimed]) \<and>
     jb_status claimed = W_running \<and> jb_attempts claimed = 1 \<and> jb_lockedBy claimed = Some ''w1''"
proof -
  have ready: "isWorkflowJobReady sample_wf_env sample_options sample_job" by code_simp
  have worker: "worker_name sample_options = ''w1''" by code_simp
  obtain r jobs' where c: "claimNextWorkflowJobFromList sample_wf_env sample_options [sample_job] = (r, jobs')" by (metis surj_pair)
  from claim_earliest_ready [OF c] ready worker c show ?thesis by (auto simp: sample_job_def)
qed

text \<open>
  C24. Draining ends: with handlers that return, every interleaving of the workers makes at most
  two steps for each reservation and one for each worker, so at most 216; it only stops when all
  workers have returned. On the way no more jobs are in work or done than reservations were taken,
  at most the configured number and never more than a hundred, and the queue keeps its invariant.
\<close>

theorem drain_terminates:
  assumes "handlers_ok handlers" and "queue_ok q"
    and "(drain_step options handlers ^^ n) (drain_start options q) d"
  shows "n \<le> 2 * drain_limit options + 16 \<and> drain_limit options \<le> 100 \<and>
    length (dr_results d) + busy d \<le> drain_limit options \<and> queue_ok (dr_queue d) \<and>
    ((\<nexists>d'. drain_step options handlers d d') \<longrightarrow> set (dr_workers d) \<subseteq> {Returned})"
proof -
  note run = drain_run [OF assms(1) drain_start_ok(1) [OF assms(2)] assms(3)]
  have "set (dr_workers d) \<subseteq> {Returned}" if "\<nexists>d'. drain_step options handlers d d'"
    using drain_progress [of _ d options handlers] that by blast
  moreover have "length (dr_results d) + busy d \<le> drain_limit options" "queue_ok (dr_queue d)"
    using run by (auto simp: drain_ok_def)
  moreover have "n \<le> 2 * drain_limit options + 16" using run drain_start_ok(2) [OF assms(2), of options] by linarith
  ultimately show ?thesis using drain_limit_le by blast
qed

theorem drain_terminates_witness:
  "\<exists>d. (drain_step sample_options (\<lambda>_. None) ^^ 1) (drain_start sample_options sample_queue) d \<and> queue_ok (dr_queue d) \<and>
     length (dr_results d) + busy d \<le> drain_limit sample_options"
proof -
  have h: "handlers_ok (\<lambda>_. None)" by (simp add: handlers_ok_def)
  have "boundedInteger (wo_maxJobs sample_options) 25 1 100 = 2" "boundedInteger (wo_concurrency sample_options) 4 1 16 = 4"
    by code_simp+
  then have "Idle \<in> set (dr_workers (drain_start sample_options sample_queue))" by (simp add: drain_start_def)
  then obtain d where "drain_step sample_options (\<lambda>_. None) (drain_start sample_options sample_queue) d"
    using drain_progress [of Idle "drain_start sample_options sample_queue" sample_options "\<lambda>_. None"] by auto
  then have d: "(drain_step sample_options (\<lambda>_. None) ^^ 1) (drain_start sample_options sample_queue) d" by (simp add: relcompp_apply)
  with drain_terminates [OF h sample_queue_ok d] show ?thesis by blast
qed

end
