(* ===== verification/OAuth.thy ===== *)
theory OAuth
  imports JsValue
begin

text \<open>
  Authorization transactions (\<open>packages/core/src/oauth-transaction.ts\<close>): a sign-in with an external
  provider starts with a transaction that binds a state value, the browser it came from, the
  redirect URI and a PKCE challenge, and the callback consumes it once. The rows are the map of
  the in-memory store, keyed by the hash of the state.

  An \<open>oauth_env\<close> holds the clock, the random identifier of the call, the digests of
  \<open>node:crypto\<close>, the WHATWG URL parser and the order of \<open>localeCompare\<close>. The comparison of two
  digests in constant time is their equality.
\<close>

section \<open>Data\<close>

datatype oauth_error =
    Oauth_invalid | Oauth_missing | Oauth_exists | Oauth_expired | Oauth_mismatch | Oauth_replayed

fun statusCode :: "oauth_error \<Rightarrow> nat" where
  "statusCode Oauth_replayed = 409"
| "statusCode Oauth_exists = 409"
| "statusCode _ = 400"

record redirect_url =
  ur_protocol :: string
  ur_hostname :: string
  ur_username :: string
  ur_password :: string
  ur_hash :: string
  ur_search :: string

record oauth_env =
  oe_now :: int
  oe_uuid :: string
  oe_sha256_hex :: "string \<Rightarrow> string"
  oe_sha256_base64url :: "string \<Rightarrow> string"
  oe_hmac_hex :: "string \<Rightarrow> string \<Rightarrow> string"
  oe_parseUrl :: "string \<Rightarrow> redirect_url option"
  oe_locale_le :: "string \<Rightarrow> string \<Rightarrow> bool"

record oauth_binding_input =
  bi_state :: js
  bi_source :: js
  bi_sourceSecret :: js
  bi_redirectUri :: js
  bi_now :: js

record oauth_create_input = oauth_binding_input +
  ci_codeChallenge :: js
  ci_ttlMs :: js

record oauth_consume_input = oauth_binding_input +
  co_codeVerifier :: js

record oauth_row =
  oa_id :: string
  oa_stateHash :: string
  oa_sourceHash :: string
  oa_codeChallenge :: string
  oa_redirectUri :: string
  oa_createdAt :: int
  oa_expiresAt :: int
  oa_consumedAt :: "int option"
  oa_failureCode :: "oauth_error option"
  oa_failedAt :: "int option"

record oauth_binding =
  bd_stateHash :: string
  bd_sourceHash :: string
  bd_redirectUri :: string
  bd_now :: int

type_synonym oauth_rows = "(string \<times> oauth_row) list"

section \<open>Parsing the input\<close>

definition timestamp :: "oauth_env \<Rightarrow> js \<Rightarrow> (oauth_error, int) result" where
  "timestamp e v =
     (case (if v = JUndef then JInt (oe_now e) else v) of
        JInt n \<Rightarrow> if safe_integer (JInt n) \<and> 0 \<le> n \<and> n \<le> 8640000000000000 - 600000 then Inr n else Inl Oauth_invalid
      | _ \<Rightarrow> Inl Oauth_invalid)"

definition text_within :: "js \<Rightarrow> nat \<Rightarrow> nat \<Rightarrow> bool" where
  "text_within v lo hi = (case v of JStr s \<Rightarrow> lo \<le> length s \<and> length s \<le> hi | _ \<Rightarrow> False)"

definition base64url_char :: "char \<Rightarrow> bool" where
  "base64url_char c \<longleftrightarrow> alnum c \<or> one_of ''_-'' c"

definition state_pattern :: regex where
  "state_pattern = Rep base64url_char 32 128"

definition challenge_pattern :: regex where
  "challenge_pattern = Rep base64url_char 43 43"

definition verifier_pattern :: regex where
  "verifier_pattern = Rep (\<lambda>c. alnum c \<or> one_of ''._~-'' c) 43 128"

text \<open>
  43 characters of base64url hold 258 bits, and decoding keeps 256 of them: encoding the decoded
  bytes gives the text back exactly if the two lowest bits of the last character are zero.
\<close>

definition canonical_challenge :: "string \<Rightarrow> bool" where
  "canonical_challenge s \<longleftrightarrow> s \<noteq> [] \<and> one_of ''AEIMQUYcgkosw048'' (last s)"

definition redirect_allowed :: "redirect_url \<Rightarrow> bool" where
  "redirect_allowed u \<longleftrightarrow>
     (ur_protocol u = ''https:'' \<or> (ur_protocol u = ''http:'' \<and> ur_hostname u \<in> set [''localhost'', ''127.0.0.1'', ''[::1]''])) \<and>
     ur_username u = [] \<and> ur_password u = [] \<and> ur_hash u = [] \<and> ur_search u = []"

definition binding :: "oauth_env \<Rightarrow> 'a oauth_binding_input_scheme \<Rightarrow> (oauth_error, oauth_binding) result" where
  "binding e input =
     bindE (from_option Oauth_invalid (as_string (bi_state input))) (\<lambda>state.
     bindE (ensure (matches state_pattern state \<and> text_within (bi_source input) 1 512 \<and>
       text_within (bi_sourceSecret input) 32 512 \<and> text_within (bi_redirectUri input) 0 2048) Oauth_invalid) (\<lambda>_.
     bindE (from_option Oauth_invalid (oe_parseUrl e (js_text (bi_redirectUri input)))) (\<lambda>redirect.
     bindE (ensure (redirect_allowed redirect) Oauth_invalid) (\<lambda>_.
     bindE (timestamp e (bi_now input)) (\<lambda>at.
     Inr \<lparr>bd_stateHash = oe_sha256_hex e state,
       bd_sourceHash = oe_hmac_hex e (js_text (bi_sourceSecret input)) (''oauth-source'' @ [CHR 0x00] @ js_text (bi_source input)),
       bd_redirectUri = js_text (bi_redirectUri input), bd_now = at\<rparr>)))))"

definition newOAuthTransaction :: "oauth_env \<Rightarrow> oauth_create_input \<Rightarrow> (oauth_error, oauth_row) result" where
  "newOAuthTransaction e input =
     bindE (binding e input) (\<lambda>parsed.
     let ttlMs = (if nullish (ci_ttlMs input) then JInt 600000 else ci_ttlMs input) in
     bindE (from_option Oauth_invalid (case ttlMs of JInt n \<Rightarrow> if safe_integer ttlMs \<and> 1 \<le> n \<and> n \<le> 600000 then Some n else None | _ \<Rightarrow> None)) (\<lambda>ttl.
     bindE (from_option Oauth_invalid (as_string (ci_codeChallenge input))) (\<lambda>challenge.
     bindE (ensure (matches challenge_pattern challenge \<and> canonical_challenge challenge) Oauth_invalid) (\<lambda>_.
     Inr \<lparr>oa_id = oe_uuid e, oa_stateHash = bd_stateHash parsed, oa_sourceHash = bd_sourceHash parsed, oa_codeChallenge = challenge,
       oa_redirectUri = bd_redirectUri parsed, oa_createdAt = bd_now parsed, oa_expiresAt = bd_now parsed + ttl,
       oa_consumedAt = None, oa_failureCode = None, oa_failedAt = None\<rparr>))))"

definition parseOAuthConsume :: "oauth_env \<Rightarrow> oauth_consume_input \<Rightarrow> (oauth_error, oauth_binding \<times> string) result" where
  "parseOAuthConsume e input =
     bindE (binding e input) (\<lambda>parsed.
     bindE (from_option Oauth_invalid (as_string (co_codeVerifier input))) (\<lambda>verifier.
     bindE (ensure (matches verifier_pattern verifier) Oauth_invalid) (\<lambda>_.
     Inr (parsed, oe_sha256_base64url e verifier))))"

definition sameDigest :: "string \<Rightarrow> string \<Rightarrow> bool" where
  "sameDigest left right \<longleftrightarrow> length left = length right \<and> left = right"

definition oauthConsumeFailure :: "oauth_row option \<Rightarrow> oauth_binding \<Rightarrow> string \<Rightarrow> oauth_error option" where
  "oauthConsumeFailure row input codeChallenge =
     (case row of None \<Rightarrow> Some Oauth_missing
      | Some r \<Rightarrow>
          if oa_consumedAt r \<noteq> None then Some Oauth_replayed
          else if oa_expiresAt r \<le> bd_now input then Some Oauth_expired
          else if bd_now input < oa_createdAt r \<or> oa_redirectUri r \<noteq> bd_redirectUri input \<or>
            \<not> sameDigest (oa_sourceHash r) (bd_sourceHash input) \<or> \<not> sameDigest (oa_codeChallenge r) codeChallenge then Some Oauth_mismatch
          else None)"

definition parseOAuthCleanup :: "oauth_env \<Rightarrow> js \<Rightarrow> js \<Rightarrow> (oauth_error, int \<times> nat) result" where
  "parseOAuthCleanup e at limit =
     (case (if nullish limit then JInt 256 else limit) of
        JInt n \<Rightarrow>
          if safe_integer (JInt n) \<and> 1 \<le> n \<and> n \<le> 256 then bindE (timestamp e at) (\<lambda>t. Inr (t, nat n)) else Inl Oauth_invalid
      | _ \<Rightarrow> Inl Oauth_invalid)"

section \<open>The in-memory store\<close>

definition createMemoryOAuthTransaction :: "oauth_env \<Rightarrow> oauth_create_input \<Rightarrow> (oauth_rows, oauth_error, oauth_row) act" where
  "createMemoryOAuthTransaction e input =
     bindA (lift (newOAuthTransaction e input)) (\<lambda>row.
     bindA get_state (\<lambda>rows.
     bindA (guard (map_of rows (oa_stateHash row) = None) Oauth_exists) (\<lambda>_.
     bindA (change (map_put (oa_stateHash row) row)) (\<lambda>_.
     ret row))))"

definition consumeMemoryOAuthTransaction :: "oauth_env \<Rightarrow> oauth_consume_input \<Rightarrow> (oauth_rows, oauth_error, oauth_row) act" where
  "consumeMemoryOAuthTransaction e input =
     bindA (lift (parseOAuthConsume e input)) (\<lambda>(parsed, challenge).
     bindA (read (\<lambda>rows. map_of rows (bd_stateHash parsed))) (\<lambda>row.
     case oauthConsumeFailure row parsed challenge of
       Some failure \<Rightarrow>
         bindA (whenA (row \<noteq> None \<and> failure = Oauth_mismatch)
           (change (map_put (oa_stateHash (the row)) ((the row)\<lparr>oa_failureCode := Some failure, oa_failedAt := Some (bd_now parsed)\<rparr>)))) (\<lambda>_.
         fail failure)
     | None \<Rightarrow>
         bindA (lift (from_option Oauth_missing row)) (\<lambda>r.
         let consumed = r\<lparr>oa_consumedAt := Some (bd_now parsed)\<rparr> in
         bindA (change (map_put (oa_stateHash r) consumed)) (\<lambda>_.
         ret consumed))))"

definition expires_before :: "oauth_env \<Rightarrow> oauth_row \<Rightarrow> oauth_row \<Rightarrow> bool" where
  "expires_before e a b \<longleftrightarrow> oa_expiresAt a < oa_expiresAt b \<or>
     (oa_expiresAt a = oa_expiresAt b \<and> oe_locale_le e (oa_id a) (oa_id b) \<and> \<not> oe_locale_le e (oa_id b) (oa_id a))"

fun insert_expiring :: "oauth_env \<Rightarrow> oauth_row \<Rightarrow> oauth_row list \<Rightarrow> oauth_row list" where
  "insert_expiring e x [] = [x]"
| "insert_expiring e x (y # ys) = (if expires_before e y x then y # insert_expiring e x ys else x # y # ys)"

definition deleteMemoryOAuthTransactions :: "oauth_env \<Rightarrow> js \<Rightarrow> js \<Rightarrow> (oauth_rows, oauth_error, nat) act" where
  "deleteMemoryOAuthTransactions e at limit =
     bindA (lift (parseOAuthCleanup e at limit)) (\<lambda>(t, n).
     bindA (read (\<lambda>rows. take n (foldr (insert_expiring e) (filter (\<lambda>row. oa_expiresAt row \<le> t) (map snd rows)) []))) (\<lambda>expired.
     bindA (change (\<lambda>rows. foldl (\<lambda>m row. map_delete (oa_stateHash row) m) rows expired)) (\<lambda>_.
     ret (length expired))))"

section \<open>Steps\<close>

text \<open>
  Any of the three operations, whether it returns or throws. With \<open>Some h\<close> the steps are those
  that do not open a new transaction for the state with the hash \<open>h\<close>.
\<close>

inductive oauth_step :: "string option \<Rightarrow> oauth_rows \<Rightarrow> oauth_rows \<Rightarrow> bool" for h where
  oauth_create: "createMemoryOAuthTransaction e input rows = (r, rows') \<Longrightarrow>
    (\<And>row. r = Inr row \<Longrightarrow> h \<noteq> Some (oa_stateHash row)) \<Longrightarrow> oauth_step h rows rows'"
| oauth_consume: "consumeMemoryOAuthTransaction e input' rows = (r, rows') \<Longrightarrow> oauth_step h rows rows'"
| oauth_delete: "deleteMemoryOAuthTransactions e at limit rows = (d, rows') \<Longrightarrow> oauth_step h rows rows'"

definition oauth_ok :: "oauth_rows \<Rightarrow> bool" where
  "oauth_ok rows \<longleftrightarrow> (\<forall>k row. map_of rows k = Some row \<longrightarrow> oa_stateHash row = k \<and>
     oa_createdAt row < oa_expiresAt row \<and> oa_expiresAt row \<le> oa_createdAt row + 600000)"

definition spent :: "string \<Rightarrow> oauth_rows \<Rightarrow> bool" where
  "spent h rows \<longleftrightarrow> (\<forall>row. map_of rows h = Some row \<longrightarrow> oa_consumedAt row \<noteq> None)"

lemma create_run:
  assumes "createMemoryOAuthTransaction e input rows = (r, rows')"
  shows "((\<exists>f. r = Inl f) \<and> rows' = rows) \<or>
    (\<exists>row. r = Inr row \<and> newOAuthTransaction e input = Inr row \<and> map_of rows (oa_stateHash row) = None \<and> rows' = map_put (oa_stateHash row) row rows)"
proof (cases "newOAuthTransaction e input")
  case (Inl f)
  with assms have "r = Inl f" "rows' = rows" by (simp_all add: createMemoryOAuthTransaction_def run_simps)
  then show ?thesis by blast
next
  case (Inr row)
  with assms show ?thesis by (auto simp: createMemoryOAuthTransaction_def run_simps split: if_splits)
qed

lemma new_transaction:
  assumes "newOAuthTransaction e input = Inr row"
  shows "oa_consumedAt row = None" "oa_createdAt row < oa_expiresAt row" "oa_expiresAt row \<le> oa_createdAt row + 600000"
  using assms by (auto simp: newOAuthTransaction_def Let_def result_simps split: js.splits if_splits)

lemma consume_run:
  assumes "consumeMemoryOAuthTransaction e input rows = (r, rows')"
  shows "(\<exists>f. r = Inl f \<and> rows' = rows) \<or>
    (\<exists>p c row. parseOAuthConsume e input = Inr (p, c) \<and> map_of rows (bd_stateHash p) = Some row \<and> oa_consumedAt row = None \<and>
       r = Inl Oauth_mismatch \<and>
       rows' = map_put (oa_stateHash row) (row\<lparr>oa_failureCode := Some Oauth_mismatch, oa_failedAt := Some (bd_now p)\<rparr>) rows) \<or>
    (\<exists>p c row. parseOAuthConsume e input = Inr (p, c) \<and> map_of rows (bd_stateHash p) = Some row \<and>
       oauthConsumeFailure (Some row) p c = None \<and> r = Inr (row\<lparr>oa_consumedAt := Some (bd_now p)\<rparr>) \<and>
       rows' = map_put (oa_stateHash row) (row\<lparr>oa_consumedAt := Some (bd_now p)\<rparr>) rows)"
proof (cases "parseOAuthConsume e input")
  case (Inl f)
  with assms show ?thesis by (auto simp: consumeMemoryOAuthTransaction_def run_simps)
next
  case (Inr pc)
  obtain p c where pc: "pc = (p, c)" by (cases pc)
  show ?thesis
  proof (cases "oauthConsumeFailure (map_of rows (bd_stateHash p)) p c")
    case None
    then obtain row where "map_of rows (bd_stateHash p) = Some row"
      by (auto simp: oauthConsumeFailure_def split: option.splits)
    with assms Inr pc None show ?thesis
      by (auto simp: consumeMemoryOAuthTransaction_def run_simps Let_def)
  next
    case (Some f)
    have m: "f = Oauth_mismatch \<Longrightarrow> \<exists>row. map_of rows (bd_stateHash p) = Some row \<and> oa_consumedAt row = None"
      using Some by (auto simp: oauthConsumeFailure_def split: option.splits if_splits)
    show ?thesis
      using assms Inr pc Some m
      by (cases "f = Oauth_mismatch")
        (auto simp: consumeMemoryOAuthTransaction_def run_simps bindA_whenA)
  qed
qed

lemma delete_subset: "map_of (foldl (\<lambda>m row. map_delete (oa_stateHash row) m) rows xs) k = Some row \<Longrightarrow> map_of rows k = Some row"
proof (induction xs arbitrary: rows)
  case (Cons x xs)
  have "map_of (map_delete (oa_stateHash x) rows) k = Some row"
    by (rule Cons.IH) (use Cons.prems in simp)
  then show ?case by (simp split: if_splits)
qed simp

lemma delete_run:
  assumes "deleteMemoryOAuthTransactions e at limit rows = (d, rows')" and "map_of rows' k = Some row"
  shows "map_of rows k = Some row"
  using assms unfolding deleteMemoryOAuthTransactions_def
  by (elim run_elims) (auto simp: run_simps split: prod.splits dest: delete_subset)

lemma oauth_step_ok: "oauth_step h rows rows' \<Longrightarrow> oauth_ok rows \<Longrightarrow> oauth_ok rows'"
proof (induction rule: oauth_step.induct)
  case (oauth_create e input rows r rows')
  from create_run [OF oauth_create(1)] oauth_create(3) show ?case
    by (auto simp: oauth_ok_def split: if_splits dest: new_transaction)
next
  case (oauth_consume e input' rows r rows')
  from consume_run [OF oauth_consume(1)] oauth_consume(2) show ?case
    by (elim disjE exE conjE) (auto simp: oauth_ok_def split: if_splits)
next
  case (oauth_delete e at limit rows d rows')
  then show ?case unfolding oauth_ok_def by (blast dest: delete_run)
qed

lemma oauth_step_spent:
  assumes "oauth_step (Some h) rows rows'" and "oauth_ok rows" and "spent h rows"
  shows "spent h rows'"
  using assms
proof (induction rule: oauth_step.induct)
  case (oauth_create e input rows r rows')
  from create_run [OF oauth_create(1)] oauth_create(2,4) show ?case by (auto simp: spent_def split: if_splits)
next
  case (oauth_consume e input' rows r rows')
  from consume_run [OF oauth_consume(1)] oauth_consume(2,3) show ?case
    by (elim disjE exE conjE) (auto simp: spent_def oauth_ok_def split: if_splits)
next
  case (oauth_delete e at limit rows d rows')
  then show ?case unfolding spent_def by (blast dest: delete_run)
qed

interpretation oauth_steps: step_invariant "oauth_step h" oauth_ok for h
  by unfold_locales (rule oauth_step_ok)

interpretation spent_steps: step_invariant "oauth_step (Some h)" "\<lambda>rows. oauth_ok rows \<and> spent h rows" for h
  by unfold_locales (blast intro: oauth_step_ok oauth_step_spent)

lemma oauth_reachable_ok: "(oauth_step h)\<^sup>*\<^sup>* [] rows \<Longrightarrow> oauth_ok rows"
  by (rule oauth_steps.steps_keep) (auto simp: oauth_ok_def)

section \<open>A sample\<close>

definition sample_oauth_env :: oauth_env where
  "sample_oauth_env = \<lparr>oe_now = 5000, oe_uuid = ''t1'', oe_sha256_hex = (\<lambda>s. s), oe_sha256_base64url = take 43,
     oe_hmac_hex = (\<lambda>k s. k @ s), oe_parseUrl = (\<lambda>_. Some \<lparr>ur_protocol = ''https:'', ur_hostname = ''app.example.org'', ur_username = [],
       ur_password = [], ur_hash = [], ur_search = []\<rparr>), oe_locale_le = (\<lambda>_ _. True)\<rparr>"

definition sample_binding :: oauth_binding_input where
  "sample_binding = \<lparr>bi_state = JStr (replicate 32 CHR ''s''), bi_source = JStr ''browser'', bi_sourceSecret = JStr (replicate 32 CHR ''k''),
     bi_redirectUri = JStr ''https://app.example.org/cb'', bi_now = JUndef\<rparr>"

definition sample_create_input :: oauth_create_input where
  "sample_create_input = oauth_binding_input.extend sample_binding \<lparr>ci_codeChallenge = JStr (replicate 43 CHR ''A''), ci_ttlMs = JUndef\<rparr>"

definition sample_consume_input :: oauth_consume_input where
  "sample_consume_input = oauth_binding_input.extend sample_binding \<lparr>co_codeVerifier = JStr (replicate 43 CHR ''A'')\<rparr>"

definition sample_transaction :: oauth_row where
  "sample_transaction = \<lparr>oa_id = ''t1'', oa_stateHash = replicate 32 CHR ''s'', oa_sourceHash = replicate 32 CHR ''k'' @ ''oauth-source'' @ [CHR 0x00] @ ''browser'',
     oa_codeChallenge = replicate 43 CHR ''A'', oa_redirectUri = ''https://app.example.org/cb'', oa_createdAt = 5000, oa_expiresAt = 605000,
     oa_consumedAt = None, oa_failureCode = None, oa_failedAt = None\<rparr>"

definition sample_transactions :: oauth_rows where
  "sample_transactions = [(oa_stateHash sample_transaction, sample_transaction)]"

definition sample_consumed :: oauth_row where
  "sample_consumed = sample_transaction\<lparr>oa_consumedAt := Some 5000\<rparr>"

lemma sample_oauth_created: "createMemoryOAuthTransaction sample_oauth_env sample_create_input [] = (Inr sample_transaction, sample_transactions)"
  by code_simp

lemma sample_consumes: "consumeMemoryOAuthTransaction sample_oauth_env sample_consume_input sample_transactions =
    (Inr sample_consumed, [(oa_stateHash sample_transaction, sample_consumed)])"
  by code_simp

lemma sample_oauth_reachable: "(oauth_step None)\<^sup>*\<^sup>* [] sample_transactions"
  by (rule r_into_rtranclp, rule oauth_create [OF sample_oauth_created]) simp

section \<open>Properties\<close>

text \<open>
  C16. A transaction is consumed at most once: after a successful callback, whatever else happens,
  no callback with the same state succeeds again unless a new transaction was opened for that
  state; it is answered as replayed or, after the cleanup, as missing.
\<close>

theorem oauth_single_use:
  assumes "(oauth_step None)\<^sup>*\<^sup>* [] rows" and "consumeMemoryOAuthTransaction e input rows = (Inr row, rows1)"
    and "(oauth_step (Some (oa_stateHash row)))\<^sup>*\<^sup>* rows1 rows2"
    and "parseOAuthConsume e' input' = Inr (parsed, challenge)" and "bd_stateHash parsed = oa_stateHash row"
  shows "fst (consumeMemoryOAuthTransaction e' input' rows2) \<in> {Inl Oauth_replayed, Inl Oauth_missing}"
proof -
  have ok: "oauth_ok rows" by (rule oauth_reachable_ok [OF assms(1)])
  then have "oauth_ok rows1" by (rule oauth_step_ok [OF oauth_consume [where h = None, OF assms(2)]])
  moreover have "spent (oa_stateHash row) rows1"
    using consume_run [OF assms(2)] by (auto simp: spent_def)
  ultimately have "spent (oa_stateHash row) rows2"
    using spent_steps.steps_keep [OF assms(3)] by blast
  then show ?thesis
    using assms(4,5)
    by (auto simp: consumeMemoryOAuthTransaction_def run_simps spent_def oauthConsumeFailure_def bindA_whenA split: option.split)
qed

theorem oauth_single_use_witness:
  "fst (consumeMemoryOAuthTransaction sample_oauth_env sample_consume_input [(oa_stateHash sample_transaction, sample_consumed)])
     \<in> {Inl Oauth_replayed, Inl Oauth_missing}"
proof -
  have p: "parseOAuthConsume sample_oauth_env sample_consume_input =
    Inr (\<lparr>bd_stateHash = replicate 32 CHR ''s'', bd_sourceHash = oa_sourceHash sample_transaction, bd_redirectUri = ''https://app.example.org/cb'', bd_now = 5000\<rparr>,
      replicate 43 CHR ''A'')" by code_simp
  show ?thesis
    by (rule oauth_single_use [OF sample_oauth_reachable sample_consumes rtranclp.rtrancl_refl p])
      (simp add: sample_consumed_def sample_transaction_def)
qed

text \<open>
  C21. A callback succeeds only for a transaction that was opened at most ten minutes before and
  is still open, from the browser that opened it, with the redirect URI it was opened for and a
  code verifier whose digest is the challenge it was opened with. It marks that transaction as
  consumed and changes no other.
\<close>

theorem oauth_consume_bound:
  assumes "(oauth_step None)\<^sup>*\<^sup>* [] rows" and "consumeMemoryOAuthTransaction e input rows = (Inr consumed, rows')"
  shows "\<exists>row state verifier at. bi_state input = JStr state \<and> co_codeVerifier input = JStr verifier \<and>
    map_of rows (oe_sha256_hex e state) = Some row \<and> oa_consumedAt row = None \<and>
    oa_createdAt row \<le> at \<and> at < oa_expiresAt row \<and> oa_expiresAt row \<le> oa_createdAt row + 600000 \<and>
    oa_codeChallenge row = oe_sha256_base64url e verifier \<and> oa_redirectUri row = js_text (bi_redirectUri input) \<and>
    oa_sourceHash row = oe_hmac_hex e (js_text (bi_sourceSecret input)) (''oauth-source'' @ [CHR 0x00] @ js_text (bi_source input)) \<and>
    consumed = row\<lparr>oa_consumedAt := Some at\<rparr> \<and> map_of rows' = (map_of rows)(oe_sha256_hex e state \<mapsto> consumed)"
proof -
  obtain p c row where r: "parseOAuthConsume e input = Inr (p, c)" "map_of rows (bd_stateHash p) = Some row"
      "oauthConsumeFailure (Some row) p c = None" "consumed = row\<lparr>oa_consumedAt := Some (bd_now p)\<rparr>"
      "rows' = map_put (oa_stateHash row) consumed rows"
    using consume_run [OF assms(2)] by auto
  obtain state verifier where b: "bi_state input = JStr state" "co_codeVerifier input = JStr verifier" "c = oe_sha256_base64url e verifier"
      "bd_stateHash p = oe_sha256_hex e state" "bd_redirectUri p = js_text (bi_redirectUri input)"
      "bd_sourceHash p = oe_hmac_hex e (js_text (bi_sourceSecret input)) (''oauth-source'' @ [CHR 0x00] @ js_text (bi_source input))"
    using r(1) by (auto simp: parseOAuthConsume_def binding_def result_simps elim!: as_string.elims)
  have "oa_stateHash row = bd_stateHash p" "oa_expiresAt row \<le> oa_createdAt row + 600000"
    using oauth_reachable_ok [OF assms(1)] r(2) by (auto simp: oauth_ok_def)
  with r b show ?thesis
    by (intro exI [of _ row] exI [of _ state] exI [of _ verifier] exI [of _ "bd_now p"])
      (auto simp: oauthConsumeFailure_def sameDigest_def split: if_splits)
qed

theorem oauth_consume_bound_witness:
  "\<exists>row. map_of sample_transactions (replicate 32 CHR ''s'') = Some row \<and> oa_consumedAt row = None \<and>
     oa_codeChallenge row = replicate 43 CHR ''A'' \<and> oa_expiresAt row \<le> oa_createdAt row + 600000"
  using oauth_consume_bound [OF sample_oauth_reachable sample_consumes]
  by (auto simp: sample_oauth_env_def sample_consume_input_def sample_binding_def oauth_binding_input.defs)

end
