(* ===== verification/Sessions.thy ===== *)
theory Sessions
  imports Invites
begin

text \<open>
  Identities and sessions (\<open>packages/core/src/identity.ts\<close> and \<open>auth.ts\<close>): password hashes, the
  policy for new accounts, session tokens and the authorisation of requests.

  An \<open>auth_env\<close> holds the clock, the offset of the local zone, the random identifier of the call,
  HMAC-SHA-256 in base64url, \<open>scrypt\<close> with the random salt of the call, and the base64url encoding
  of JSON texts with its inverse (\<open>None\<close> where \<open>JSON.parse\<close> throws); \<open>scrypt\<close> is \<open>None\<close> where it
  rejects its parameters. Numbers in tokens, hashes and options are decimal integers.
  \<open>localeCompare\<close> on identifiers is a parameter too.
\<close>

section \<open>Environment and errors\<close>

datatype auth_error = Unauthorized string | Forbidden string | PlainError string nat

record auth_env =
  au_now :: ms
  au_zone :: ms
  au_uuid :: string
  au_salt :: string
  au_hmac :: "string \<Rightarrow> string \<Rightarrow> string"
  au_scrypt :: "string \<Rightarrow> string \<Rightarrow> int \<Rightarrow> string option"
  au_encode :: "js_fields \<Rightarrow> string"
  au_decode :: "string \<Rightarrow> js option"
  au_locale_le :: "string \<Rightarrow> string \<Rightarrow> bool"

text \<open>\<open>a || b\<close> on values, \<open>Number(v)\<close> (\<open>None\<close> is NaN), and a property of a parsed JSON value.\<close>

definition or_js :: "js \<Rightarrow> js \<Rightarrow> js" where
  "or_js a b = (if js_truthy a then a else b)"

definition decimal :: "string \<Rightarrow> int" where
  "decimal s = foldl (\<lambda>n c. 10 * n + (int (code_unit c) - 48)) 0 s"

definition number_text :: "string \<Rightarrow> int option" where
  "number_text s =
     (let t = trim s in
      if t = [] then Some 0
      else if list_all digit t then Some (decimal t)
      else if hd t = CHR ''-'' \<and> tl t \<noteq> [] \<and> list_all digit (tl t) then Some (- decimal (tl t)) else None)"

fun js_number :: "js \<Rightarrow> int option" where
  "js_number (JInt n) = Some n"
| "js_number (JBool b) = Some (if b then 1 else 0)"
| "js_number JNull = Some 0"
| "js_number (JStr s) = number_text s"
| "js_number (JArr vs) = number_text (js_text (JArr vs))"
| "js_number _ = None"

definition property :: "js \<Rightarrow> string \<Rightarrow> (auth_error, js) result" where
  "property v k = (case v of JObj fs \<Rightarrow> Inr (js_get fs k)
     | JNull \<Rightarrow> Inl (PlainError ''cannot read properties of null'' 500)
     | JUndef \<Rightarrow> Inl (PlainError ''cannot read properties of undefined'' 500) | _ \<Rightarrow> Inr JUndef)"

fun split_at :: "char \<Rightarrow> string \<Rightarrow> string list" where
  "split_at d [] = [[]]"
| "split_at d (c # cs) = (if c = d then [] # split_at d cs else (c # hd (split_at d cs)) # tl (split_at d cs))"

definition segment :: "string list \<Rightarrow> nat \<Rightarrow> string" where
  "segment parts i = (if i < length parts then parts ! i else [])"

section \<open>Passwords\<close>

definition DUMMY_PASSWORD_HASH :: string where
  "DUMMY_PASSWORD_HASH = ''scrypt:v1:16384:raibitserver-login-dummy-v1:JppfEKtMgGpjjcApqHiLK-1Cno0OpvqN1hdYNu6zdQg''"

definition assertPasswordStrength :: "string \<Rightarrow> (auth_error, unit) result" where
  "assertPasswordStrength password = ensure (8 \<le> length password) (PlainError ''password must be at least 8 characters'' 400)"

definition scrypt :: "auth_env \<Rightarrow> string \<Rightarrow> string \<Rightarrow> int option \<Rightarrow> (auth_error, string) result" where
  "scrypt e password salt cost = from_option (PlainError ''invalid scrypt parameters'' 500) (Option.bind cost (au_scrypt e password salt))"

definition hashPassword :: "auth_env \<Rightarrow> string \<Rightarrow> string option \<Rightarrow> int \<Rightarrow> (auth_error, string) result" where
  "hashPassword e password salt_option cost_option =
     bindE (assertPasswordStrength password) (\<lambda>_.
     let salt = (if truthy salt_option then the salt_option else au_salt e); cost = (if cost_option = 0 then 16384 else cost_option) in
     bindE (scrypt e password salt (Some cost)) (\<lambda>hash.
     Inr (''scrypt:v1:'' @ int_text cost @ '':'' @ salt @ '':'' @ hash)))"

text \<open>The asynchronous variant differs in when it returns only.\<close>

definition hashPasswordAsync :: "auth_env \<Rightarrow> string \<Rightarrow> string option \<Rightarrow> int \<Rightarrow> (auth_error, string) result" where
  "hashPasswordAsync e password salt_option cost_option = hashPassword e password salt_option cost_option"

definition verifyPassword :: "auth_env \<Rightarrow> string \<Rightarrow> string \<Rightarrow> (auth_error, bool) result" where
  "verifyPassword e password encoded =
     (let parts = split_at CHR '':'' encoded; salt = segment parts 3; expected = segment parts 4 in
      if segment parts 0 \<noteq> ''scrypt'' \<or> segment parts 1 \<noteq> ''v1'' \<or> salt = [] \<or> expected = [] then Inr False
      else bindE (scrypt e password salt (js_number (or_js (JStr (segment parts 2)) (JInt 16384)))) (\<lambda>actual. Inr (actual = expected)))"

definition validPasswordHashForVerification :: "string \<Rightarrow> bool" where
  "validPasswordHashForVerification encoded =
     (let parts = split_at CHR '':'' encoded in
      segment parts 0 = ''scrypt'' \<and> segment parts 1 = ''v1'' \<and> segment parts 3 \<noteq> [] \<and>
      matches (Rep (\<lambda>c. alnum c \<or> one_of ''_-'' c) 43 43) (segment parts 4) \<and>
      js_number (JStr (segment parts 2)) \<in> set (map Some [1024, 2048, 4096, 8192, 16384]))"

definition verifyPasswordAsync :: "auth_env \<Rightarrow> string \<Rightarrow> string option \<Rightarrow> (auth_error, bool) result" where
  "verifyPasswordAsync e password encoded =
     (let candidate = (case encoded of Some h \<Rightarrow> if validPasswordHashForVerification h then h else DUMMY_PASSWORD_HASH | None \<Rightarrow> DUMMY_PASSWORD_HASH);
          parts = split_at CHR '':'' candidate in
      bindE (scrypt e password (segment parts 3) (js_number (or_js (JStr (segment parts 2)) (JInt 16384)))) (\<lambda>actual.
      Inr (actual = segment parts 4)))"

section \<open>Sessions\<close>

definition DEFAULT_SESSION_TTL_SECONDS :: int where
  "DEFAULT_SESSION_TTL_SECONDS = 3600"

definition MAX_SESSION_TTL_SECONDS :: int where
  "MAX_SESSION_TTL_SECONDS = 24 * 60 * 60"

definition sessionPayloadForUser :: "user_row \<Rightarrow> member_row list \<Rightarrow> js_fields" where
  "sessionPayloadForUser user memberships =
     (let organizationIds = filter (\<lambda>i. i \<noteq> []) (map mb_organizationId memberships);
          rolesByOrganization = foldl (\<lambda>m (k, v). map_put k v m) []
            (map (\<lambda>m. (mb_organizationId m, JStr (mb_role m))) (filter (\<lambda>m. mb_organizationId m \<noteq> [] \<and> mb_role m \<noteq> []) memberships)) in
      [(''sub'', JStr (usr_id user)), (''email'', JStr (usr_email user)),
       (''role'', case memberships of m # _ \<Rightarrow> JStr (if mb_role m = [] then ''developer'' else mb_role m) | [] \<Rightarrow> JStr ''developer''),
       (''organizationId'', case organizationIds of i # _ \<Rightarrow> JStr i | [] \<Rightarrow> JNull),
       (''organizationIds'', JArr (map JStr organizationIds)), (''rolesByOrganization'', JObj rolesByOrganization),
       (''accountType'', JStr (if usr_accountType user = [] then ''NON_CLUB'' else usr_accountType user)),
       (''approvalStatus'', JStr (if usr_approvalStatus user = [] then ''PENDING'' else usr_approvalStatus user)),
       (''sessionVersion'', JInt (usr_sessionVersion user)),
       (''userRole'', JStr (if usr_role user = [] then ''USER'' else usr_role user)),
       (''emailVerified'', JBool (usr_emailVerifiedAt user \<noteq> None))])"

text \<open>The configured numbers: an option that is absent or zero is passed over; \<open>None\<close> is NaN.\<close>

definition sessionTtlSeconds :: "js \<Rightarrow> js \<Rightarrow> js \<Rightarrow> int" where
  "sessionTtlSeconds ttl_option expires_option configured =
     (case js_number (or_js ttl_option (or_js expires_option (or_js configured (JInt DEFAULT_SESSION_TTL_SECONDS)))) of
        None \<Rightarrow> DEFAULT_SESSION_TTL_SECONDS
      | Some n \<Rightarrow> if n \<le> 0 then DEFAULT_SESSION_TTL_SECONDS else max 60 (min n MAX_SESSION_TTL_SECONDS))"

section \<open>Signed tokens\<close>

definition reserved_claims :: "string list" where
  "reserved_claims = [''exp'', ''iat'', ''nbf'', ''iss'', ''aud'', ''jti'']"

definition jwt_header :: js_fields where
  "jwt_header = [(''alg'', JStr ''HS256''), (''typ'', JStr ''JWT'')]"

definition jwt_body :: "auth_env \<Rightarrow> js_fields \<Rightarrow> int \<Rightarrow> string \<Rightarrow> string \<Rightarrow> js_fields" where
  "jwt_body e payload expiresInSeconds issuer audience =
     (let at = au_now e div 1000; ttl = max 60 (min (if expiresInSeconds = 0 then 3600 else expiresInSeconds) (24 * 60 * 60)) in
      filter (\<lambda>f. fst f \<notin> set reserved_claims) payload @
      [(''iss'', JStr issuer), (''aud'', JStr audience), (''jti'', JStr (au_uuid e)), (''iat'', JInt at), (''exp'', JInt (at + ttl))])"

definition signJwtHs256 :: "auth_env \<Rightarrow> js_fields \<Rightarrow> string \<Rightarrow> int \<Rightarrow> string \<Rightarrow> string \<Rightarrow> (auth_error, string) result" where
  "signJwtHs256 e payload secret expiresInSeconds issuer audience =
     bindE (ensure (secret \<noteq> []) (PlainError ''jwt secret is required'' 500)) (\<lambda>_.
     let encodedHeader = au_encode e jwt_header; encodedBody = au_encode e (jwt_body e payload expiresInSeconds issuer audience) in
     Inr (encodedHeader @ ''.'' @ encodedBody @ ''.'' @ au_hmac e secret (encodedHeader @ ''.'' @ encodedBody)))"

definition createSessionToken :: "auth_env \<Rightarrow> user_row \<Rightarrow> member_row list \<Rightarrow> string \<Rightarrow> string option \<Rightarrow> int \<Rightarrow> (auth_error, string) result" where
  "createSessionToken e user memberships jwtSecret issuer ttl =
     signJwtHs256 e (sessionPayloadForUser user memberships) jwtSecret ttl (if truthy issuer then the issuer else ''raibitserver'') ''raibitserver-api''"

definition parseJsonSegment :: "auth_env \<Rightarrow> string \<Rightarrow> (auth_error, js) result" where
  "parseJsonSegment e s = from_option (Unauthorized ''invalid bearer token payload'') (au_decode e s)"

text \<open>The checks on the claims of a token whose signature is good.\<close>

definition check_claims :: "auth_env \<Rightarrow> string \<Rightarrow> string \<Rightarrow> js \<Rightarrow> (auth_error, js) result" where
  "check_claims e issuer audience payload =
     (let at = au_now e div 1000 in
      bindE (property payload ''exp'') (\<lambda>exp.
      bindE (ensure (js_truthy exp) (Unauthorized ''missing bearer token expiration'')) (\<lambda>_.
      bindE (ensure (\<not> (case js_number exp of Some n \<Rightarrow> n \<le> at | None \<Rightarrow> False)) (Unauthorized ''expired bearer token'')) (\<lambda>_.
      bindE (property payload ''nbf'') (\<lambda>nbf.
      bindE (ensure (\<not> (js_truthy nbf \<and> (case js_number nbf of Some n \<Rightarrow> at < n | None \<Rightarrow> False)))
        (Unauthorized ''bearer token is not active yet'')) (\<lambda>_.
      bindE (property payload ''iss'') (\<lambda>iss.
      bindE (ensure (issuer = [] \<or> iss = JStr issuer) (Unauthorized ''invalid token issuer'')) (\<lambda>_.
      bindE (property payload ''aud'') (\<lambda>aud.
      bindE (ensure (audience = [] \<or> aud = JStr audience) (Unauthorized ''invalid token audience'')) (\<lambda>_.
      bindE (property payload ''jti'') (\<lambda>jti.
      bindE (ensure (js_truthy jti) (Unauthorized ''missing token id'')) (\<lambda>_.
      Inr payload))))))))))))"

definition verifyJwtHs256 :: "auth_env \<Rightarrow> string \<Rightarrow> string \<Rightarrow> string \<Rightarrow> string \<Rightarrow> (auth_error, js) result" where
  "verifyJwtHs256 e token secret issuer audience =
     bindE (ensure (secret \<noteq> []) (Unauthorized ''jwt auth is not configured'')) (\<lambda>_.
     let parts = split_at CHR ''.'' token; headerSegment = segment parts 0; payloadSegment = segment parts 1; signature = segment parts 2 in
     bindE (ensure (headerSegment \<noteq> [] \<and> payloadSegment \<noteq> [] \<and> signature \<noteq> []) (Unauthorized ''invalid bearer token'')) (\<lambda>_.
     bindE (parseJsonSegment e headerSegment) (\<lambda>header.
     bindE (property header ''alg'') (\<lambda>alg.
     bindE (ensure (alg = JStr ''HS256'') (Unauthorized ''unsupported jwt algorithm'')) (\<lambda>_.
     bindE (ensure (signature = au_hmac e secret (headerSegment @ ''.'' @ payloadSegment)) (Unauthorized ''invalid bearer token signature'')) (\<lambda>_.
     bindE (parseJsonSegment e payloadSegment) (\<lambda>payload.
     check_claims e issuer audience payload)))))))"

section \<open>New accounts\<close>

record identity_settings =
  st_production :: bool
  st_adminEmails :: string
  st_bootstrapToken :: string

record signup_policy =
  sp_isAdminBootstrap :: bool
  sp_bootstrapReason :: "string option"
  sp_role :: string
  sp_accountType :: string
  sp_approvalStatus :: string

definition personalOrganizationSlug :: "string \<Rightarrow> string" where
  "personalOrganizationSlug email =
     (let name = segment (split_at CHR 0x40 email) 0 in slugify (JStr (if name = [] then ''user'' else name)) ''item'')"

definition configuredAdminEmails :: "identity_settings \<Rightarrow> string list" where
  "configuredAdminEmails settings = filter (\<lambda>v. v \<noteq> []) (map (\<lambda>v. toLowerCase (trim v)) (split_at CHR '','' (st_adminEmails settings)))"

definition signupPolicyForAccount :: "identity_settings \<Rightarrow> js_fields \<Rightarrow> string \<Rightarrow> bool \<Rightarrow> signup_policy" where
  "signupPolicyForAccount settings input email firstUser =
     (let isAdminEmail = toLowerCase email \<in> set (configuredAdminEmails settings) in
      if st_production settings then
        let token = text_or_empty (or_js (js_get input ''bootstrapToken'') (js_get input ''adminBootstrapToken''));
            expected = st_bootstrapToken settings;
            isAdminBootstrap = (expected \<noteq> [] \<and> token \<noteq> [] \<and> token = expected \<and> isAdminEmail) in
        \<lparr>sp_isAdminBootstrap = isAdminBootstrap, sp_bootstrapReason = (if isAdminBootstrap then Some ''admin-invite-token'' else None),
         sp_role = (if isAdminBootstrap then ''ADMIN'' else ''USER''), sp_accountType = ''NON_CLUB'',
         sp_approvalStatus = (if isAdminBootstrap then ''APPROVED'' else ''PENDING'')\<rparr>
      else if firstUser \<or> isAdminEmail then
        \<lparr>sp_isAdminBootstrap = True, sp_bootstrapReason = Some (if firstUser then ''first-user'' else ''admin-email''),
         sp_role = ''ADMIN'', sp_accountType = ''NON_CLUB'', sp_approvalStatus = ''APPROVED''\<rparr>
      else
        \<lparr>sp_isAdminBootstrap = False, sp_bootstrapReason = None, sp_role = ''USER'', sp_accountType = ''NON_CLUB'', sp_approvalStatus = ''PENDING''\<rparr>)"

definition sameUser :: "user_row \<Rightarrow> user_row \<Rightarrow> bool" where
  "sameUser a b =
     (if usr_id a \<noteq> [] \<and> usr_id b \<noteq> [] \<and> usr_id a = usr_id b then True
      else usr_email a \<noteq> [] \<and> usr_email b \<noteq> [] \<and> toLowerCase (usr_email a) = toLowerCase (usr_email b))"

definition user_time :: "auth_env \<Rightarrow> user_row \<Rightarrow> ms" where
  "user_time e u = (case dateParse (au_zone e) (usr_createdAt u) of Some m \<Rightarrow> m | None \<Rightarrow> 0)"

definition user_key :: "user_row \<Rightarrow> string" where
  "user_key u = (if usr_id u = [] then usr_email u else usr_id u)"

definition compareUsersByCreation :: "auth_env \<Rightarrow> user_row \<Rightarrow> user_row \<Rightarrow> bool" where
  "compareUsersByCreation e a b =
     (if user_time e a \<noteq> user_time e b then user_time e a < user_time e b
      else au_locale_le e (user_key a) (user_key b) \<and> \<not> au_locale_le e (user_key b) (user_key a))"

fun first_user :: "auth_env \<Rightarrow> user_row list \<Rightarrow> user_row option" where
  "first_user e [] = None"
| "first_user e (u # us) = (case first_user e us of None \<Rightarrow> Some u | Some v \<Rightarrow> Some (if compareUsersByCreation e v u then v else u))"

definition shouldPromoteFirstLogin :: "auth_env \<Rightarrow> identity_settings \<Rightarrow> user_row option \<Rightarrow> user_row list \<Rightarrow> bool" where
  "shouldPromoteFirstLogin e settings user candidates =
     (if st_production settings then False
      else case user of None \<Rightarrow> False
      | Some u \<Rightarrow>
          if usr_role u = ''ADMIN'' \<or> candidates = [] \<or> list_ex (\<lambda>c. usr_role c = ''ADMIN'') candidates then False
          else case first_user e candidates of None \<Rightarrow> False | Some first \<Rightarrow> sameUser first u)"

section \<open>The subject of a request\<close>

record subject =
  sub_id :: js
  sub_role :: js
  sub_organizationId :: js
  sub_organizationIds :: js
  sub_rolesByOrganization :: "js_fields option"
  sub_projectId :: js
  sub_projectIds :: js
  sub_global :: bool
  sub_authMode :: string
  sub_accountType :: js
  sub_approvalStatus :: js
  sub_sessionVersion :: js
  sub_userRole :: js
  sub_claims :: js
  sub_requestAction :: "string option"
  sub_resolved :: "string option"

record auth_config =
  ac_mode :: "string option"
  ac_jwtSecret :: string
  ac_allowDisabled :: bool
  ac_defaultRole :: js
  ac_allowDevHeaders :: bool
  ac_issuer :: "string option"
  ac_audience :: "string option"
  ac_currentUser :: "(js \<Rightarrow> user_row option) option"

definition roleMap :: "js \<Rightarrow> js_fields option" where
  "roleMap v = map_option (filter (\<lambda>(organizationId, role). organizationId \<noteq> [] \<and> (case role of JStr r \<Rightarrow> trim r \<noteq> [] | _ \<Rightarrow> False))) (as_object v)"

definition isUserBanned :: "auth_env \<Rightarrow> user_row \<Rightarrow> bool" where
  "isUserBanned e user =
     (if usr_bannedAt user = None then False
      else case usr_banExpiresAt user of None \<Rightarrow> True
      | Some t \<Rightarrow> (case dateParse (au_zone e) t of None \<Rightarrow> True | Some expiresAt \<Rightarrow> au_now e < expiresAt))"

definition claim :: "js \<Rightarrow> string \<Rightarrow> js" where
  "claim claims k = (case claims of JObj fs \<Rightarrow> js_get fs k | _ \<Rightarrow> JUndef)"

definition global_subject :: "subject \<Rightarrow> bool" where
  "global_subject s \<longleftrightarrow> sub_global s \<or> claim (sub_claims s) ''global'' = JBool True"

definition assertCurrentSession :: "auth_env \<Rightarrow> subject \<Rightarrow> user_row option \<Rightarrow> (auth_error, bool) result" where
  "assertCurrentSession e s user =
     (if sub_authMode s \<noteq> ''jwt'' \<or> global_subject s then Inr True
      else
        bindE (from_option (Unauthorized ''session user no longer exists'') user) (\<lambda>u.
        bindE (ensure (\<not> isUserBanned e u) (Unauthorized ''account is banned'')) (\<lambda>_.
        bindE (ensure (toUpperCase (if usr_approvalStatus u = [] then ''PENDING'' else usr_approvalStatus u) = ''APPROVED'')
          (Unauthorized ''account is not approved'')) (\<lambda>_.
        bindE (ensure (js_number (or_js (claim (sub_claims s) ''sessionVersion'') (JInt 0)) = Some (usr_sessionVersion u))
          (Unauthorized ''session has been revoked'')) (\<lambda>_.
        Inr True)))))"

definition bearer_token :: "js_fields \<Rightarrow> string option" where
  "bearer_token headers =
     (let authorization = text_or_empty (or_js (js_get headers ''authorization'') (js_get headers ''Authorization'')) in
      if starts_with authorization ''Bearer '' \<and> drop 7 authorization \<noteq> [] then Some (drop 7 authorization) else None)"

definition plain_subject :: "js \<Rightarrow> js \<Rightarrow> js \<Rightarrow> js \<Rightarrow> bool \<Rightarrow> string \<Rightarrow> subject" where
  "plain_subject who role organizationId projectId global mode =
     \<lparr>sub_id = who, sub_role = role, sub_organizationId = organizationId, sub_organizationIds = JUndef, sub_rolesByOrganization = None,
      sub_projectId = projectId, sub_projectIds = JUndef, sub_global = global, sub_authMode = mode, sub_accountType = JUndef,
      sub_approvalStatus = JUndef, sub_sessionVersion = JUndef, sub_userRole = JUndef, sub_claims = JUndef, sub_requestAction = None,
      sub_resolved = None\<rparr>"

definition token_subject :: "js \<Rightarrow> subject" where
  "token_subject payload =
     \<lparr>sub_id = or_js (claim payload ''sub'') (or_js (claim payload ''userId'') (or_js (claim payload ''email'') (JStr ''user''))),
      sub_role = or_js (claim payload ''role'') (or_js (claim payload ''orgRole'') (JStr ''viewer'')),
      sub_organizationId = or_js (claim payload ''organizationId'') (or_js (claim payload ''orgId'') JNull),
      sub_organizationIds = or_js (claim payload ''organizationIds'') JNull, sub_rolesByOrganization = roleMap (claim payload ''rolesByOrganization''),
      sub_projectId = or_js (claim payload ''projectId'') JNull, sub_projectIds = or_js (claim payload ''projectIds'') JNull,
      sub_global = (claim payload ''global'' = JBool True), sub_authMode = ''jwt'', sub_accountType = or_js (claim payload ''accountType'') JNull,
      sub_approvalStatus = or_js (claim payload ''approvalStatus'') JNull,
      sub_sessionVersion = (if claim payload ''sessionVersion'' = JUndef then JNull
        else case js_number (claim payload ''sessionVersion'') of Some n \<Rightarrow> JInt n | None \<Rightarrow> JNum ''NaN''),
      sub_userRole = or_js (claim payload ''userRole'') JNull, sub_claims = payload, sub_requestAction = None, sub_resolved = None\<rparr>"

definition subjectFromRequest :: "auth_env \<Rightarrow> js_fields \<Rightarrow> auth_config \<Rightarrow> (auth_error, subject) result" where
  "subjectFromRequest e headers auth =
     (if ac_mode auth = Some ''disabled'' then
        bindE (ensure (ac_allowDisabled auth) (Unauthorized ''disabled auth mode requires explicit allowDisabled=true'')) (\<lambda>_.
        Inr (plain_subject (JStr ''system'') (or_js (ac_defaultRole auth) (JStr ''owner'')) JUndef JUndef True ''disabled''))
      else
        case bearer_token headers of
          None \<Rightarrow>
            if ac_allowDevHeaders auth then
              Inr (plain_subject (or_js (js_get headers ''x-raibitserver-user'') (JStr ''dev-user''))
                (or_js (js_get headers ''x-raibitserver-role'') (JStr ''developer'')) (or_js (js_get headers ''x-raibitserver-organization'') JNull)
                (or_js (js_get headers ''x-raibitserver-project'') JNull) False ''dev-header'')
            else Inl (Unauthorized ''missing bearer token'')
        | Some token \<Rightarrow>
            bindE (verifyJwtHs256 e token (ac_jwtSecret auth) (if truthy (ac_issuer auth) then the (ac_issuer auth) else ''raibitserver'')
              (if truthy (ac_audience auth) then the (ac_audience auth) else ''raibitserver-api'')) (\<lambda>payload.
            let s = token_subject payload in
            case ac_currentUser auth of
              None \<Rightarrow> Inr s
            | Some lookup \<Rightarrow> bindE (assertCurrentSession e s (lookup (sub_id s))) (\<lambda>_. Inr s)))"

section \<open>Authorisation\<close>

text \<open>\<open>requireAction\<close> and \<open>requireScope\<close> record the action and the resolved organisation on the subject, which is their state.\<close>

type_synonym 'a check = "(subject, auth_error, 'a) act"

definition normalizeRole :: "js \<Rightarrow> js" where
  "normalizeRole role = JStr (toLowerCase (trim (js_text (or_js role (JStr ''viewer'')))))"

definition scope_organization :: "js_fields \<Rightarrow> js" where
  "scope_organization scope = or_js (js_get scope ''organizationId'') (or_js (js_get scope ''orgId'') JNull)"

definition matchesScope :: "js \<Rightarrow> js \<Rightarrow> js \<Rightarrow> bool" where
  "matchesScope single many expected =
     (js_truthy single \<and> js_text single = js_text expected \<or>
      (case many of JArr vs \<Rightarrow> js_text expected \<in> set (map js_text vs) | _ \<Rightarrow> False))"

definition subject_organizations :: "subject \<Rightarrow> string list" where
  "subject_organizations s = remdups (map js_text (filter js_truthy
     (sub_organizationId s # (case sub_organizationIds s of JArr vs \<Rightarrow> vs | _ \<Rightarrow> []))))"

definition roleForOrganization :: "subject \<Rightarrow> js \<Rightarrow> js" where
  "roleForOrganization s organizationId =
     (let expected = js_text organizationId;
          named = (case sub_rolesByOrganization s of Some roles \<Rightarrow> js_get roles expected | None \<Rightarrow> JUndef) in
      if js_truthy named then named
      else if (sub_rolesByOrganization s = None \<or> sub_rolesByOrganization s = Some []) \<and> subject_organizations s = [expected] then sub_role s
      else JNull)"

definition request_roles :: "subject \<Rightarrow> js list" where
  "request_roles s =
     (if truthy (sub_resolved s) then [sub_role s]
      else sub_role s # map snd (case sub_rolesByOrganization s of Some roles \<Rightarrow> roles | None \<Rightarrow> []))"

definition requireAction :: "string \<Rightarrow> bool check" where
  "requireAction action =
     bindA (change (\<lambda>s. s\<lparr>sub_requestAction := Some action\<rparr>)) (\<lambda>_.
     bindA get_state (\<lambda>s.
     bindA (guard (list_ex (\<lambda>role. can (normalizeRole role) action) (request_roles s))
       (PlainError (''role '' @ js_text (sub_role s) @ '' cannot perform '' @ action) 403)) (\<lambda>_.
     ret True)))"

definition resolve_organization :: "js \<Rightarrow> unit check" where
  "resolve_organization organizationId =
     bindA get_state (\<lambda>s.
     bindA (guard (matchesScope (sub_organizationId s) (sub_organizationIds s) organizationId)
       (Forbidden (''subject is not scoped to organization '' @ js_text organizationId))) (\<lambda>_.
     let organizationRole = roleForOrganization s organizationId in
     bindA (guard (js_truthy organizationRole) (Forbidden (''subject has no role in organization '' @ js_text organizationId))) (\<lambda>_.
     bindA (change (\<lambda>s. s\<lparr>sub_role := organizationRole, sub_resolved := Some (js_text organizationId)\<rparr>)) (\<lambda>_.
     guard (\<not> truthy (sub_requestAction s) \<or> can (normalizeRole organizationRole) (the (sub_requestAction s)))
       (Forbidden (''role '' @ js_text organizationRole @ '' cannot perform '' @ the (sub_requestAction s)))))))"

definition requireScope :: "js_fields \<Rightarrow> bool check" where
  "requireScope scope =
     bindA get_state (\<lambda>s.
     if global_subject s \<or> sub_authMode s = ''disabled'' then ret True
     else
       let organizationId = scope_organization scope; projectId = or_js (js_get scope ''projectId'') JNull in
       bindA (whenA (js_truthy organizationId) (resolve_organization organizationId)) (\<lambda>_.
       bindA (guard (\<not> js_truthy projectId \<or> matchesScope (sub_projectId s) (sub_projectIds s) projectId)
         (Forbidden (''subject is not scoped to project '' @ js_text projectId))) (\<lambda>_.
       ret True)))"

definition authorizeSubject :: "string \<Rightarrow> js_fields \<Rightarrow> subject check" where
  "authorizeSubject action scope =
     (let organizationId = scope_organization scope in
      bindA (whenA (js_truthy organizationId) (requireScope scope)) (\<lambda>_.
      bindA (requireAction action) (\<lambda>_.
      bindA (whenA (\<not> js_truthy organizationId) (requireScope scope)) (\<lambda>_.
      get_state))))"

definition authorizeRequest :: "auth_env \<Rightarrow> js_fields \<Rightarrow> js_fields \<Rightarrow> string \<Rightarrow> auth_config \<Rightarrow> js_fields \<Rightarrow> (auth_error, subject) result" where
  "authorizeRequest e headers params action auth scope =
     bindE (subjectFromRequest e headers auth) (\<lambda>s.
     fst (authorizeSubject action (foldl (\<lambda>m (k, v). map_put k v m) params scope) s))"

section \<open>Splitting and numbers\<close>

lemma split_at_segment: "d \<notin> set a \<Longrightarrow> split_at d (a @ d # b) = a # split_at d b"
  by (induction a) auto

lemma split_at_last: "d \<notin> set a \<Longrightarrow> split_at d a = [a]"
  by (induction a) auto

lemma segment_Cons [simp]: "segment (x # xs) 0 = x" "segment (x # xs) (Suc n) = segment xs n"
  by (simp_all add: segment_def)

lemma segment_third: "segment xs 2 \<noteq> [] \<Longrightarrow> \<exists>a b c rest. xs = a # b # c # rest"
  by (cases xs; cases "tl xs"; cases "tl (tl xs)") (auto simp: segment_def split: if_splits)

lemma pending_not_approved: "toUpperCase ''PENDING'' \<noteq> ''APPROVED''"
  by code_simp

lemma decimal_snoc: "decimal (s @ [c]) = 10 * decimal s + (int (code_unit c) - 48)"
  by (simp add: decimal_def)

lemma digit_code: "n < 10 \<Longrightarrow> digit (char_of (48 + n) :: char) \<and> code_unit (char_of (48 + n) :: char) = 48 + n"
  by (simp add: digit_def char_range_def code_unit_def of_char_of take_bit_nat_eq_self)

lemma digits_of_text: "list_all digit (digits_of n) \<and> digits_of n \<noteq> [] \<and> decimal (digits_of n) = int n"
proof (induction n rule: digits_of.induct)
  case (1 n)
  show ?case
  proof (cases "n < 10")
    case True
    then show ?thesis using digit_code [of n] by (simp add: digits_of.simps [of n] decimal_def)
  next
    case False
    have "int n = 10 * int (n div 10) + int (n mod 10)" by presburger
    then show ?thesis using False 1 digit_code [of "n mod 10"] by (simp add: digits_of.simps [of n] decimal_snoc)
  qed
qed

lemma trim_digits: "list_all digit s \<Longrightarrow> trim s = s"
  using trim_slug [of s] by (auto simp: list_all_iff slug_char_def char_class_defs)

lemma number_int_text: "number_text (int_text n) = Some n" if "0 \<le> n"
  using that digits_of_text [of "nat n"] trim_digits [of "digits_of (nat n)"] by (simp add: number_text_def int_text_def Let_def)

lemma no_colon_int_text: "0 \<le> n \<Longrightarrow> CHR '':'' \<notin> set (int_text n)"
  using digits_of_text [of "nat n"] by (auto simp: int_text_def list_all_iff digit_def char_range_def code_unit_def)

section \<open>Passwords verify against their own hash\<close>

definition demo_hashing :: auth_env where
  "demo_hashing = \<lparr>au_now = 0, au_zone = 0, au_uuid = ''uuid'', au_salt = ''salt'', au_hmac = (\<lambda>key m. ''sig''),
     au_scrypt = (\<lambda>p salt c. if p = [] \<or> CHR '':'' \<in> set p then None else Some p), au_encode = (\<lambda>fs. []), au_decode = (\<lambda>t. None),
     au_locale_le = (\<lambda>a b. True)\<rparr>"

lemma demo_hash: "hashPassword demo_hashing ''correct horse'' None 8 = Inr ''scrypt:v1:8:salt:correct horse''"
  by code_simp


text \<open>C22. A password verifies against the hash made of it, and another password verifies against that hash exactly when
  \<open>scrypt\<close> gives it the same key under the salt and the cost written in the hash.\<close>

theorem password_round_trip:
  assumes "hashPassword e password salt_option cost_option = Inr encoded" and "0 \<le> cost_option"
    and salt: "salt = (if truthy salt_option then the salt_option else au_salt e)" "salt \<noteq> []" "CHR '':'' \<notin> set salt"
    and keys: "\<forall>p c k. au_scrypt e p salt c = Some k \<longrightarrow> k \<noteq> [] \<and> CHR '':'' \<notin> set k"
  shows "verifyPassword e password encoded = Inr True \<and>
    (\<exists>cost key. au_scrypt e password salt cost = Some key \<and> 8 \<le> length password \<and>
      verifyPassword e guess encoded = (case au_scrypt e guess salt cost of Some k \<Rightarrow> Inr (k = key)
        | None \<Rightarrow> Inl (PlainError ''invalid scrypt parameters'' 500)))"
proof -
  define cost where "cost = (if cost_option = 0 then 16384 else cost_option)"
  obtain key where key: "au_scrypt e password salt cost = Some key" "8 \<le> length password"
    and encoded: "encoded = ''scrypt:v1:'' @ int_text cost @ '':'' @ salt @ '':'' @ key"
    using assms(1) unfolding hashPassword_def assertPasswordStrength_def scrypt_def salt(1) [symmetric] cost_def [symmetric] Let_def
    by (auto simp: result_simps bind_eq_Some_conv)
  have cost: "0 \<le> cost" "0 < cost" "int_text cost \<noteq> []"
    using assms(2) digits_of_text [of "nat cost"] by (auto simp: cost_def int_text_def)
  have parts: "split_at CHR '':'' encoded = [''scrypt'', ''v1'', int_text cost, salt, key]"
    using split_at_segment [OF no_colon_int_text [OF cost(1)]] split_at_segment [OF salt(3)] split_at_last keys key(1)
    by (simp add: encoded)
  have verify: "verifyPassword e p encoded = (case au_scrypt e p salt cost of Some k \<Rightarrow> Inr (k = key)
      | None \<Rightarrow> Inl (PlainError ''invalid scrypt parameters'' 500))" for p
    using keys key(1) salt cost
    by (simp add: verifyPassword_def parts eval_nat_numeral or_js_def number_int_text scrypt_def from_option_def split: option.split)
  then show ?thesis using key by auto
qed

theorem password_round_trip_witness:
  "hashPassword demo_hashing ''correct horse'' None 8 = Inr ''scrypt:v1:8:salt:correct horse'' \<and>
   verifyPassword demo_hashing ''correct horse'' ''scrypt:v1:8:salt:correct horse'' = Inr True \<and>
   (\<exists>cost key. au_scrypt demo_hashing ''correct horse'' ''salt'' cost = Some key \<and> 8 \<le> length ''correct horse'' \<and>
     verifyPassword demo_hashing ''wrong'' ''scrypt:v1:8:salt:correct horse'' = (case au_scrypt demo_hashing ''wrong'' ''salt'' cost of
       Some k \<Rightarrow> Inr (k = key) | None \<Rightarrow> Inl (PlainError ''invalid scrypt parameters'' 500)))"
proof -
  have keys: "\<forall>p c k. au_scrypt demo_hashing p ''salt'' c = Some k \<longrightarrow> k \<noteq> [] \<and> CHR '':'' \<notin> set k"
    by (auto simp: demo_hashing_def split: if_splits)
  have salt: "(0 :: int) \<le> 8" "''salt'' = (if truthy None then the None else au_salt demo_hashing)" "''salt'' \<noteq> []" "CHR '':'' \<notin> set ''salt''"
    by (simp_all add: demo_hashing_def)
  show ?thesis using password_round_trip [OF demo_hash salt keys, where guess = "''wrong''"] demo_hash by blast
qed

section \<open>Tokens\<close>

lemma verifyJwt_Inr:
  assumes "verifyJwtHs256 e token secret issuer audience = Inr payload"
  obtains headerSegment payloadSegment rest fs where
    "split_at CHR ''.'' token = headerSegment # payloadSegment # au_hmac e secret (headerSegment @ ''.'' @ payloadSegment) # rest"
    "au_decode e payloadSegment = Some payload" "payload = JObj fs" "secret \<noteq> []"
    "check_claims e issuer audience payload = Inr payload"
proof -
  obtain h where parts: "segment (split_at CHR ''.'' token) 2 = au_hmac e secret (segment (split_at CHR ''.'' token) 0 @ ''.'' @ segment (split_at CHR ''.'' token) 1)"
      "segment (split_at CHR ''.'' token) 2 \<noteq> []" "au_decode e (segment (split_at CHR ''.'' token) 1) = Some h" "secret \<noteq> []"
      and claims: "check_claims e issuer audience h = Inr payload"
    using assms by (auto simp: verifyJwtHs256_def parseJsonSegment_def Let_def result_simps)
  obtain fs where same: "h = payload" "payload = JObj fs"
    using claims by (cases h) (auto simp: check_claims_def property_def Let_def result_simps)
  obtain a b c rest where "split_at CHR ''.'' token = a # b # c # rest"
    using segment_third [OF parts(2)] by blast
  then show thesis using that [of a b rest fs] parts claims same by (simp add: eval_nat_numeral)
qed

lemma check_claims_JObj:
  assumes "exp \<noteq> 0" "au_now e div 1000 < exp" "js_get fs ''exp'' = JInt exp" "js_get fs ''nbf'' = JUndef"
    "js_get fs ''iss'' = JStr issuer" "js_get fs ''aud'' = JStr audience" "js_truthy (js_get fs ''jti'')"
  shows "check_claims e issuer audience (JObj fs) = Inr (JObj fs)"
  using assms by (simp add: check_claims_def property_def Let_def)

text \<open>
  What the signing and the encoding of a record promise: the base64url text of its JSON form
  decodes to it, and neither that text nor a signature contains a dot or is empty. The former is
  the round trip of \<open>JSON.stringify\<close> on values without \<open>undefined\<close>.
\<close>

definition encodes :: "auth_env \<Rightarrow> js_fields \<Rightarrow> bool" where
  "encodes e fs \<longleftrightarrow> au_decode e (au_encode e fs) = Some (JObj fs) \<and> au_encode e fs \<noteq> [] \<and> CHR ''.'' \<notin> set (au_encode e fs)"

definition signs :: "auth_env \<Rightarrow> bool" where
  "signs e \<longleftrightarrow> (\<forall>key m. au_hmac e key m \<noteq> [] \<and> CHR ''.'' \<notin> set (au_hmac e key m))"

lemma js_get_jwt_body:
  "js_get (jwt_body e payload ttl issuer audience) k =
     (if k = ''iss'' then JStr issuer else if k = ''aud'' then JStr audience else if k = ''jti'' then JStr (au_uuid e)
      else if k = ''iat'' then JInt (au_now e div 1000)
      else if k = ''exp'' then JInt (au_now e div 1000 + max 60 (min (if ttl = 0 then 3600 else ttl) 86400))
      else if k = ''nbf'' then JUndef else js_get payload k)"
proof -
  have "map_of (filter (\<lambda>f. fst f \<notin> set reserved_claims) payload) k = (if k \<in> set reserved_claims then None else map_of payload k)"
    by (induction payload) auto
  then show ?thesis by (auto simp: jwt_body_def js_get_def map_add_def reserved_claims_def Let_def split: option.split)
qed

lemma sign_verify:
  assumes "signJwtHs256 e payload secret ttl issuer audience = Inr token" "signs e" "encodes e jwt_header"
    and body: "body = jwt_body e payload ttl issuer audience" "encodes e body" and "au_uuid e \<noteq> []"
    and alive: "0 \<le> au_now e" "t div 1000 < au_now e div 1000 + max 60 (min (if ttl = 0 then 3600 else ttl) 86400)"
  shows "verifyJwtHs256 (e\<lparr>au_now := t\<rparr>) token secret issuer audience = Inr (JObj body)"
proof -
  have token: "token = au_encode e jwt_header @ ''.'' @ au_encode e body @ ''.'' @ au_hmac e secret (au_encode e jwt_header @ ''.'' @ au_encode e body)"
    and secret: "secret \<noteq> []"
    using assms(1) by (auto simp: signJwtHs256_def body(1) Let_def result_simps)
  have dots: "au_hmac e key m \<noteq> []" "CHR ''.'' \<notin> set (au_hmac e key m)" for key m
    using assms(2) by (simp_all add: signs_def)
  have "split_at CHR ''.'' token = [au_encode e jwt_header, au_encode e body, au_hmac e secret (au_encode e jwt_header @ ''.'' @ au_encode e body)]"
    using assms(3) body(2) dots by (simp add: token encodes_def split_at_segment split_at_last)
  moreover have "check_claims (e\<lparr>au_now := t\<rparr>) issuer audience (JObj body) = Inr (JObj body)"
    using alive \<open>au_uuid e \<noteq> []\<close> pos_imp_zdiv_nonneg_iff [of 1000 "au_now e"]
    by (intro check_claims_JObj) (auto simp: body(1) js_get_jwt_body)
  ultimately show ?thesis using secret dots assms(3) body(2)
    by (simp add: verifyJwtHs256_def Let_def eval_nat_numeral encodes_def parseJsonSegment_def property_def jwt_header_def js_get_def)
qed

section \<open>A concrete environment\<close>

definition demo_account :: user_row where
  "demo_account = \<lparr>usr_id = ''usr_1'', usr_name = JStr ''Ada'', usr_studentId = JNull, usr_clubMemberClaim = False, usr_email = ''ada@example.org'',
     usr_avatarUrl = None, usr_githubId = None, usr_passwordHash = None, usr_role = ''USER'', usr_accountType = ''NON_CLUB'',
     usr_approvalStatus = ''APPROVED'', usr_sessionVersion = 3, usr_bannedAt = None, usr_banExpiresAt = None, usr_banReason = None,
     usr_bannedByUserId = None, usr_emailVerifiedAt = None, usr_createdAt = Instant 0, usr_updatedAt = Instant 0\<rparr>"

definition demo_clock :: auth_env where
  "demo_clock = \<lparr>au_now = 1000, au_zone = 0, au_uuid = ''uuid'', au_salt = ''salt'', au_hmac = (\<lambda>key m. ''sig''),
     au_scrypt = (\<lambda>p salt c. Some p), au_encode = (\<lambda>fs. []), au_decode = (\<lambda>t. None), au_locale_le = (\<lambda>a b. True)\<rparr>"

definition demo_body :: js_fields where
  "demo_body = jwt_body demo_clock (sessionPayloadForUser demo_account []) 0 ''raibitserver'' ''raibitserver-api''"

definition demo_auth :: auth_env where
  "demo_auth = demo_clock\<lparr>au_encode := (\<lambda>fs. if fs = jwt_header then ''h'' else ''b''),
     au_decode := (\<lambda>t. if t = ''h'' then Some (JObj jwt_header) else if t = ''b'' then Some (JObj demo_body) else None)\<rparr>"

definition demo_config :: auth_config where
  "demo_config = \<lparr>ac_mode = None, ac_jwtSecret = ''secret'', ac_allowDisabled = False, ac_defaultRole = JUndef, ac_allowDevHeaders = False,
     ac_issuer = None, ac_audience = None, ac_currentUser = Some (\<lambda>who. if who = JStr ''usr_1'' then Some demo_account else None)\<rparr>"

definition demo_member :: subject where
  "demo_member = (plain_subject (JStr ''usr_1'') (JStr ''OWNER'') (JStr ''org_a'') JNull False ''jwt'')
     \<lparr>sub_organizationIds := JArr [JStr ''org_a'', JStr ''org_b''],
      sub_rolesByOrganization := Some [(''org_a'', JStr ''OWNER''), (''org_b'', JStr ''DEVELOPER'')]\<rparr>"

lemma demo_header: "demo_body \<noteq> jwt_header"
  by (simp add: demo_body_def jwt_body_def jwt_header_def sessionPayloadForUser_def Let_def)

lemma demo_codec: "signs demo_auth" "encodes demo_auth jwt_header" "encodes demo_auth demo_body"
  using demo_header by (simp_all add: signs_def encodes_def demo_auth_def demo_clock_def)

lemma demo_token: "createSessionToken demo_auth demo_account [] ''secret'' None 0 = Inr ''h.b.sig''"
  using demo_header by (simp add: createSessionToken_def signJwtHs256_def demo_auth_def demo_body_def demo_clock_def jwt_body_def Let_def)

section \<open>Sessions are current\<close>

text \<open>C12. A request that presents a token is accepted only with a signature by the configured secret over its own header and payload and,
  unless the token is global, only while the account it names exists, is approved and not banned, and still has the session version the
  token was issued with.\<close>

theorem accepted_session_current:
  assumes "subjectFromRequest e headers auth = Inr s" and "sub_authMode s = ''jwt''" and "ac_currentUser auth = Some lookup"
  shows "\<exists>token h p rest. bearer_token headers = Some token \<and> split_at CHR ''.'' token = h # p # au_hmac e (ac_jwtSecret auth) (h @ ''.'' @ p) # rest \<and>
    au_decode e p = Some (sub_claims s) \<and> ac_jwtSecret auth \<noteq> [] \<and>
    (claim (sub_claims s) ''global'' = JBool True \<or>
     (\<exists>u. lookup (sub_id s) = Some u \<and> \<not> isUserBanned e u \<and> toUpperCase (usr_approvalStatus u) = ''APPROVED'' \<and>
       js_number (or_js (claim (sub_claims s) ''sessionVersion'') (JInt 0)) = Some (usr_sessionVersion u)))"
proof -
  obtain token payload where token: "bearer_token headers = Some token"
    and jwt: "\<exists>i a. verifyJwtHs256 e token (ac_jwtSecret auth) i a = Inr payload"
    and s: "s = token_subject payload" and live: "\<exists>b. assertCurrentSession e s (lookup (sub_id s)) = Inr b"
    using assms
    by (cases "ac_mode auth = Some ''disabled''"; cases "bearer_token headers"; cases "ac_allowDevHeaders auth")
       (auto simp: subjectFromRequest_def plain_subject_def Let_def bindE_Inr_iff ensure_Inr_iff)
  have claims: "sub_claims s = payload" "sub_global s = (claim payload ''global'' = JBool True)" by (simp_all add: s token_subject_def)
  have "claim payload ''global'' = JBool True \<or> (\<exists>u. lookup (sub_id s) = Some u \<and> \<not> isUserBanned e u \<and>
      toUpperCase (usr_approvalStatus u) = ''APPROVED'' \<and> js_number (or_js (claim payload ''sessionVersion'') (JInt 0)) = Some (usr_sessionVersion u))"
    using live assms(2) claims pending_not_approved by (auto simp: assertCurrentSession_def global_subject_def result_simps split: if_splits)
  moreover obtain i a where "verifyJwtHs256 e token (ac_jwtSecret auth) i a = Inr payload" using jwt by blast
  ultimately show ?thesis using token claims by (elim verifyJwt_Inr) auto
qed

lemma demo_request:
  "subjectFromRequest demo_auth [(''authorization'', JStr ''Bearer h.b.sig'')] demo_config = Inr (token_subject (JObj demo_body))"
  by code_simp

theorem accepted_session_current_witness:
  "subjectFromRequest demo_auth [(''authorization'', JStr ''Bearer h.b.sig'')] demo_config = Inr (token_subject (JObj demo_body)) \<and>
   (\<exists>u. the (ac_currentUser demo_config) (JStr ''usr_1'') = Some u \<and> \<not> isUserBanned demo_auth u \<and> usr_sessionVersion u = 3)"
proof -
  have "sub_authMode (token_subject (JObj demo_body)) = ''jwt''" "sub_id (token_subject (JObj demo_body)) = JStr ''usr_1''"
    "claim (sub_claims (token_subject (JObj demo_body))) ''global'' \<noteq> JBool True"
    "js_number (or_js (claim (sub_claims (token_subject (JObj demo_body))) ''sessionVersion'') (JInt 0)) = Some 3"
    by code_simp+
  then show ?thesis
    using accepted_session_current [OF demo_request, of "the (ac_currentUser demo_config)"] demo_request by (auto simp: demo_config_def)
qed



section \<open>Authority is that of the organisation\<close>

text \<open>C14. A subject that is not global is authorised for an action in an organisation only if it is scoped to that organisation, holds a role there,
  and that role, not one it holds elsewhere, may perform the action; it then acts with that role. A project in the scope must be its own as well.\<close>

theorem authorized_by_organization_role:
  assumes "authorizeSubject action scope s = (Inr r, t)" and "\<not> global_subject s" "sub_authMode s \<noteq> ''disabled''"
    and org: "organizationId = scope_organization scope" "js_truthy organizationId" "js_text organizationId \<noteq> []"
  shows "matchesScope (sub_organizationId s) (sub_organizationIds s) organizationId \<and>
    js_truthy (roleForOrganization s organizationId) \<and> can (normalizeRole (roleForOrganization s organizationId)) action \<and>
    r = t \<and> sub_role r = roleForOrganization s organizationId \<and>
    (js_truthy (js_get scope ''projectId'') \<longrightarrow> matchesScope (sub_projectId s) (sub_projectIds s) (js_get scope ''projectId''))"
  using assms
  by (auto simp: authorizeSubject_def requireScope_def resolve_organization_def requireAction_def request_roles_def Let_def
      bindA_whenA run_simps or_js_def ensure_def ret_def get_state_def split: if_splits)

theorem authorized_by_organization_role_witness:
  "(\<exists>r t. authorizeSubject ''deploy:run'' [(''organizationId'', JStr ''org_b'')] demo_member = (Inr r, t)) \<and>
   can (normalizeRole (roleForOrganization demo_member (JStr ''org_b''))) ''deploy:run'' \<and>
   fst (authorizeSubject ''project:delete'' [(''organizationId'', JStr ''org_b'')] demo_member) =
     Inl (PlainError ''role DEVELOPER cannot perform project:delete'' 403)"
proof -
  define r where "r = demo_member\<lparr>sub_role := JStr ''DEVELOPER'', sub_requestAction := Some ''deploy:run'', sub_resolved := Some ''org_b''\<rparr>"
  have run: "authorizeSubject ''deploy:run'' [(''organizationId'', JStr ''org_b'')] demo_member = (Inr r, r)"
    unfolding r_def by code_simp
  have "\<not> global_subject demo_member" "sub_authMode demo_member \<noteq> ''disabled''"
    "JStr ''org_b'' = scope_organization [(''organizationId'', JStr ''org_b'')]" by code_simp+
  moreover have "fst (authorizeSubject ''project:delete'' [(''organizationId'', JStr ''org_b'')] demo_member) =
      Inl (PlainError ''role DEVELOPER cannot perform project:delete'' 403)" by code_simp
  ultimately show ?thesis using authorized_by_organization_role [OF run] run by auto
qed

end
