(* ===== verification/Codes.thy ===== *)
theory Codes
  imports Sessions
begin

text \<open>
  Rate limits and one-time codes of the store (\<open>ControlPlaneStore\<close> in \<open>packages/core/src/store.ts\<close>):
  the counters of authentication attempts, the e-mail codes with their replacement, lookup and
  consumption, and the two transactions a code authorises, the creation of an account and the
  reset of a password.

  A row found by a query is the object that is then updated, so a query gives the position of the
  row. Rows are created with an ISO time, and the order of those texts is that of the times.
\<close>

section \<open>Rate limits\<close>

definition AUTH_RETENTION_PRUNE_BATCH_SIZE :: nat where
  "AUTH_RETENTION_PRUNE_BATCH_SIZE = 256"

record rate_result =
  ra_allowed :: bool
  ra_count :: int
  ra_remaining :: int
  ra_resetAt :: ms

definition limit_key :: "string \<Rightarrow> string" where
  "limit_key k = (if k = [] then ''global'' else k)"

fun prune_limits :: "nat \<Rightarrow> ms \<Rightarrow> (string \<times> rate_row) list \<Rightarrow> (string \<times> rate_row) list" where
  "prune_limits budget timestamp [] = []"
| "prune_limits budget timestamp (entry # rest) =
     (if budget = 0 then entry # rest
      else if timestamp < rl_expiresAt (snd entry) then entry # prune_limits budget timestamp rest
      else prune_limits (budget - 1) timestamp rest)"

definition consumeAuthRateLimit :: "string \<Rightarrow> int \<Rightarrow> ms \<Rightarrow> ms \<Rightarrow> rate_result op" where
  "consumeAuthRateLimit k limit windowMs timestamp =
     bindA (change (\<lambda>s. s\<lparr>authRateLimits := prune_limits AUTH_RETENTION_PRUNE_BATCH_SIZE timestamp (authRateLimits s)\<rparr>)) (\<lambda>_.
     bindA (read (\<lambda>s. map_of (authRateLimits s) (limit_key k))) (\<lambda>current.
     let resetWindow = (case current of None \<Rightarrow> True | Some r \<Rightarrow> rl_expiresAt r \<le> timestamp);
         allowed = (resetWindow \<or> rl_count (the current) < limit);
         row = (if resetWindow then \<lparr>rl_key = limit_key k, rl_count = 1, rl_windowStartedAt = timestamp, rl_expiresAt = timestamp + windowMs\<rparr>
                else if allowed then (the current)\<lparr>rl_count := rl_count (the current) + 1\<rparr> else the current) in
     bindA (change (\<lambda>s. s\<lparr>authRateLimits := map_put (limit_key k) row (authRateLimits s)\<rparr>)) (\<lambda>_.
     ret \<lparr>ra_allowed = allowed, ra_count = rl_count row, ra_remaining = max 0 (limit - rl_count row), ra_resetAt = rl_expiresAt row\<rparr>)))"

definition peekAuthRateLimit :: "string \<Rightarrow> int \<Rightarrow> ms \<Rightarrow> store \<Rightarrow> rate_result" where
  "peekAuthRateLimit k limit timestamp s =
     (case map_of (authRateLimits s) (limit_key k) of
        None \<Rightarrow> \<lparr>ra_allowed = True, ra_count = 0, ra_remaining = limit, ra_resetAt = timestamp\<rparr>
      | Some row \<Rightarrow>
          if rl_expiresAt row \<le> timestamp then \<lparr>ra_allowed = True, ra_count = 0, ra_remaining = limit, ra_resetAt = timestamp\<rparr>
          else \<lparr>ra_allowed = rl_count row < limit, ra_count = rl_count row, ra_remaining = max 0 (limit - rl_count row), ra_resetAt = rl_expiresAt row\<rparr>)"

definition resetAuthRateLimit :: "string \<Rightarrow> bool op" where
  "resetAuthRateLimit k =
     bindA (change (\<lambda>s. s\<lparr>authRateLimits := map_delete (limit_key k) (authRateLimits s)\<rparr>)) (\<lambda>_. ret True)"

section \<open>Codes\<close>

record new_code =
  nc_userId :: "string option"
  nc_email :: string
  nc_purpose :: string
  nc_payload :: js
  nc_codeHash :: string
  nc_codeSalt :: string
  nc_expiresAt :: time_text
  nc_sentAt :: "time_text option"
  nc_attempts :: int

definition consumed_at :: "time_text \<Rightarrow> code_row \<Rightarrow> code_row" where
  "consumed_at t row = row\<lparr>evc_consumedAt := Some t, evc_updatedAt := t\<rparr>"

definition code_row_of :: "env \<Rightarrow> new_code \<Rightarrow> nat \<Rightarrow> code_row" where
  "code_row_of e input n =
     \<lparr>evc_id = stableId ''evc'' [opt_js (nc_userId input), JStr (nc_email input), JInt (now e), JInt (int n)],
      evc_userId = (if truthy (nc_userId input) then nc_userId input else None), evc_email = toLowerCase (nc_email input),
      evc_purpose = (if nc_purpose input = [] then ''signup'' else nc_purpose input),
      evc_payload = (if js_truthy (nc_payload input) then nc_payload input else JNull), evc_codeHash = nc_codeHash input,
      evc_codeSalt = nc_codeSalt input, evc_expiresAt = nc_expiresAt input,
      evc_sentAt = (case nc_sentAt input of Some t \<Rightarrow> t | None \<Rightarrow> nowIso e), evc_consumedAt = None, evc_attempts = nc_attempts input,
      evc_createdAt = nowIso e, evc_updatedAt = nowIso e\<rparr>"

definition createEmailVerificationCode :: "env \<Rightarrow> new_code \<Rightarrow> code_row op" where
  "createEmailVerificationCode e input =
     bindA (read (\<lambda>s. code_row_of e input (length (emailVerificationCodes s)))) (\<lambda>row.
     bindA (change (\<lambda>s. s\<lparr>emailVerificationCodes := emailVerificationCodes s @ [row]\<rparr>)) (\<lambda>_.
     ret row))"

fun prune_codes :: "env \<Rightarrow> nat \<Rightarrow> code_row list \<Rightarrow> code_row list" where
  "prune_codes e pruned [] = []"
| "prune_codes e pruned (row # rows) =
     (if AUTH_RETENTION_PRUNE_BATCH_SIZE \<le> pruned \<or> lt_ms (Some (now e)) (dateParse (zone e) (evc_expiresAt row))
      then row # prune_codes e pruned rows else prune_codes e (Suc pruned) rows)"

definition superseded_by :: "code_row \<Rightarrow> code_row \<Rightarrow> bool" where
  "superseded_by replacement row \<longleftrightarrow> evc_id row \<noteq> evc_id replacement \<and> evc_email row = evc_email replacement \<and>
     evc_purpose row = evc_purpose replacement \<and> evc_consumedAt row = None"

definition replaceEmailVerificationCode :: "env \<Rightarrow> new_code \<Rightarrow> code_row op" where
  "replaceEmailVerificationCode e input =
     bindA (change (\<lambda>s. s\<lparr>emailVerificationCodes := prune_codes e 0 (emailVerificationCodes s)\<rparr>)) (\<lambda>_.
     bindA (createEmailVerificationCode e input) (\<lambda>replacement.
     bindA (change (\<lambda>s. s\<lparr>emailVerificationCodes :=
       map (\<lambda>row. if superseded_by replacement row then consumed_at (nowIso e) row else row) (emailVerificationCodes s)\<rparr>)) (\<lambda>_.
     ret replacement)))"

definition invalidatePendingEmailVerificationCodes :: "env \<Rightarrow> string \<Rightarrow> bool op" where
  "invalidatePendingEmailVerificationCodes e email =
     bindA (change (\<lambda>s. s\<lparr>emailVerificationCodes := map (\<lambda>row. if evc_email row = toLowerCase email \<and> evc_consumedAt row = None
       then consumed_at (nowIso e) row else row) (emailVerificationCodes s)\<rparr>)) (\<lambda>_.
     ret True)"

text \<open>The first of the newest rows that satisfy a condition: the head of the stable sort by descending creation time.\<close>

definition created_ms :: "code_row \<Rightarrow> ms" where
  "created_ms row = (case evc_createdAt row of Instant t \<Rightarrow> t | WallClock t \<Rightarrow> t | NotADate \<Rightarrow> 0)"

fun newest :: "(code_row \<Rightarrow> bool) \<Rightarrow> code_row list \<Rightarrow> nat option" where
  "newest P [] = None"
| "newest P (row # rows) =
     (case newest P rows of
        None \<Rightarrow> if P row then Some 0 else None
      | Some i \<Rightarrow> if P row \<and> created_ms (rows ! i) \<le> created_ms row then Some 0 else Some (Suc i))"

definition purpose_or_signup :: "string \<Rightarrow> string" where
  "purpose_or_signup p = (if p = [] then ''signup'' else p)"

definition findPendingEmailVerificationCode :: "env \<Rightarrow> string \<Rightarrow> string \<Rightarrow> store \<Rightarrow> code_row option" where
  "findPendingEmailVerificationCode e email purpose s =
     map_option (\<lambda>i. emailVerificationCodes s ! i)
       (newest (\<lambda>row. evc_email row = toLowerCase email \<and> evc_consumedAt row = None \<and>
          purpose_or_signup (evc_purpose row) = purpose_or_signup purpose \<and>
          lt_ms (Some (now e)) (dateParse (zone e) (evc_expiresAt row))) (emailVerificationCodes s))"

definition code_not_found :: "string \<Rightarrow> http_error" where
  "code_not_found codeId = HttpError (''email verification code not found: '' @ codeId) 404"

definition update_code :: "string \<Rightarrow> (code_row \<Rightarrow> code_row) \<Rightarrow> code_row op" where
  "update_code codeId f =
     bindA (read_or (code_not_found codeId) (\<lambda>s. find (\<lambda>row. evc_id row = codeId) (emailVerificationCodes s))) (\<lambda>row.
     bindA (change (\<lambda>s. s\<lparr>emailVerificationCodes := update_first (\<lambda>row. evc_id row = codeId) f (emailVerificationCodes s)\<rparr>)) (\<lambda>_.
     ret (f row)))"

definition incrementEmailVerificationAttempts :: "env \<Rightarrow> string \<Rightarrow> code_row op" where
  "incrementEmailVerificationAttempts e codeId =
     update_code codeId (\<lambda>row. row\<lparr>evc_attempts := evc_attempts row + 1, evc_updatedAt := nowIso e\<rparr>)"

definition consumeEmailVerificationCode :: "env \<Rightarrow> string \<Rightarrow> time_text option \<Rightarrow> code_row op" where
  "consumeEmailVerificationCode e codeId consumedAt =
     update_code codeId (consumed_at (case consumedAt of Some t \<Rightarrow> t | None \<Rightarrow> nowIso e))"

record delivery_input =
  di_from :: string
  di_to :: string
  di_subject :: string
  di_text :: string
  di_purpose :: string
  di_deliveryMode :: string
  di_messageId :: "string option"
  di_sentAt :: "time_text option"

definition recordEmailDelivery :: "env \<Rightarrow> delivery_input \<Rightarrow> delivery_row op" where
  "recordEmailDelivery e input =
     (let purpose = (if di_purpose input = [] then ''email'' else di_purpose input) in
      bindA (read (\<lambda>s. \<lparr>eml_id = stableId ''eml'' [JStr (di_to input), JStr purpose, JInt (now e), JInt (int (length (emailDeliveries s)))],
        eml_from = (if di_from input = [] then None else Some (di_from input)), eml_to = toLowerCase (di_to input),
        eml_subject = di_subject input, eml_text = di_text input, eml_purpose = purpose,
        eml_deliveryMode = (if di_deliveryMode input = [] then ''console'' else di_deliveryMode input),
        eml_messageId = (if truthy (di_messageId input) then di_messageId input else None),
        eml_sentAt = (case di_sentAt input of Some t \<Rightarrow> t | None \<Rightarrow> nowIso e), eml_createdAt = nowIso e\<rparr>)) (\<lambda>row.
      bindA (change (\<lambda>s. s\<lparr>emailDeliveries := emailDeliveries s @ [row]\<rparr>)) (\<lambda>_.
      ret row)))"

section \<open>Transactions authorised by a code\<close>

text \<open>The function that compares a code may throw. A missing limit of attempts is five.\<close>

type_synonym verifier = "code_row \<Rightarrow> (http_error, bool) result"

definition attempt_limit :: "int \<Rightarrow> int" where
  "attempt_limit n = max 1 (if n = 0 then 5 else n)"

definition set_code :: "nat \<Rightarrow> (code_row \<Rightarrow> code_row) \<Rightarrow> store \<Rightarrow> store" where
  "set_code i f s = s\<lparr>emailVerificationCodes := (emailVerificationCodes s)[i := f (emailVerificationCodes s ! i)]\<rparr>"

definition wrong_guess :: "int \<Rightarrow> ms \<Rightarrow> code_row \<Rightarrow> code_row" where
  "wrong_guess maxAttempts t row = row\<lparr>evc_attempts := min maxAttempts (evc_attempts row + 1), evc_updatedAt := toISOString t\<rparr>"

definition verified :: "verifier option \<Rightarrow> code_row \<Rightarrow> (http_error, bool) result" where
  "verified verifyCode row = (case verifyCode of None \<Rightarrow> Inr False | Some verify \<Rightarrow> verify row)"

record signup_completion_input =
  si_email :: string
  si_purpose :: string
  si_now :: "ms option"
  si_maxAttempts :: int
  si_verifyCode :: "verifier option"
  si_resolvePolicy :: "(js \<Rightarrow> bool \<Rightarrow> js) option"

datatype signup_completion =
    SignupInvalid
  | SignupVerified user_row org_row member_row "member_row list" time_text

definition text_given :: "js \<Rightarrow> string \<Rightarrow> string" where
  "text_given v fallback = (if v = JUndef then fallback else js_text v)"

definition signup_account :: "env \<Rightarrow> string \<Rightarrow> js \<Rightarrow> js \<Rightarrow> time_text \<Rightarrow> (user_row \<times> org_row \<times> member_row) op" where
  "signup_account e email payload policy verifiedAt =
     bindA (createOrganization e [(''name'', or_js (claim payload ''organizationName'') (claim payload ''organizationSlug'')),
       (''slug'', claim payload ''organizationSlug''), (''plan'', or_js (claim payload ''plan'') (JStr ''free''))]) (\<lambda>organization.
     bindA (createUser e \<lparr>nu_name = or_js (claim payload ''name'') (JStr email), nu_studentId = or_js (claim payload ''studentId'') (JStr []),
       nu_clubMemberClaim = JBool (js_truthy (claim payload ''clubMemberClaim'')), nu_email = JStr email, nu_githubId = None,
       nu_passwordHash = as_string (claim payload ''passwordHash''), nu_role = text_given (claim policy ''role'') ''USER'',
       nu_accountType = (if claim policy ''accountType'' = JUndef then JStr ''NON_CLUB'' else claim policy ''accountType''),
       nu_approvalStatus = text_given (claim policy ''approvalStatus'') ''PENDING'', nu_avatarUrl = None,
       nu_emailVerifiedAt = Some (Some verifiedAt), nu_bannedAt = None, nu_banExpiresAt = None, nu_banReason = None,
       nu_bannedByUserId = None\<rparr>) (\<lambda>user.
     bindA (addMember e (org_id organization) (usr_id user) (JStr ''owner'') JUndef) (\<lambda>membership.
     ret (user, organization, membership))))"

definition completeSignupEmailVerification :: "env \<Rightarrow> signup_completion_input \<Rightarrow> signup_completion op" where
  "completeSignupEmailVerification e input =
     (let email = toLowerCase (trim (si_email input)); purpose = purpose_or_signup (si_purpose input);
          at = (case si_now input of Some t \<Rightarrow> t | None \<Rightarrow> now e); maxAttempts = attempt_limit (si_maxAttempts input) in
      bindA (read (\<lambda>s. newest (\<lambda>c. evc_email c = email \<and> purpose_or_signup (evc_purpose c) = purpose \<and> evc_consumedAt c = None)
        (emailVerificationCodes s))) (\<lambda>found.
      case found of
        None \<Rightarrow> ret SignupInvalid
      | Some i \<Rightarrow>
          bindA (read (\<lambda>s. emailVerificationCodes s ! i)) (\<lambda>row.
          if le_ms (dateParse (zone e) (evc_expiresAt row)) (Some at) \<or> maxAttempts \<le> evc_attempts row then ret SignupInvalid
          else
            bindA (lift (verified (si_verifyCode input) row)) (\<lambda>correct.
            if \<not> correct then bindA (change (set_code i (wrong_guess maxAttempts at))) (\<lambda>_. ret SignupInvalid)
            else if claim (evc_payload row) ''kind'' \<noteq> JStr ''signup'' then ret SignupInvalid
            else
              let payload = evc_payload row in
              bindA (lift (organizationSlugForCreate [(''slug'', claim payload ''organizationSlug'')])) (\<lambda>organizationSlug.
              bindA get_state (\<lambda>s.
              bindA (guard (findUserByEmail (JStr email) s = None) (HttpError ''user_already_exists'' 409)) (\<lambda>_.
              bindA (guard (findOrganizationBySlug (JStr organizationSlug) s = None) (HttpError ''organization_slug_already_exists'' 409)) (\<lambda>_.
              bindA (guard (map_of (users s) (stableId ''usr'' [JStr email]) = None) (HttpError ''user_identity_collision'' 409)) (\<lambda>_.
              let policy = (case si_resolvePolicy input of Some resolve \<Rightarrow> resolve payload (users s = [])
                    | None \<Rightarrow> or_js (claim payload ''policy'') (JObj []));
                  verifiedAt = toISOString at in
              bindA (signup_account e email payload policy verifiedAt) (\<lambda>(user, organization, membership).
              bindA (change (set_code i (consumed_at verifiedAt))) (\<lambda>_.
              bindA (read (listMembershipsForUser (usr_id user))) (\<lambda>memberships.
              ret (SignupVerified user organization membership memberships verifiedAt)))))))))))))"

definition passwordRecoveryUserEligible :: "env \<Rightarrow> user_row \<Rightarrow> ms \<Rightarrow> bool" where
  "passwordRecoveryUserEligible e user t =
     (if \<not> truthy (usr_passwordHash user) \<or> usr_emailVerifiedAt user = None \<or>
         toUpperCase (if usr_approvalStatus user = [] then ''PENDING'' else usr_approvalStatus user) \<noteq> ''APPROVED'' then False
      else if usr_bannedAt user = None then True
      else case usr_banExpiresAt user of None \<Rightarrow> False
      | Some until \<Rightarrow> le_ms (dateParse (zone e) until) (Some t))"

record password_completion_input =
  pc_email :: string
  pc_purpose :: string
  pc_passwordHash :: string
  pc_now :: "ms option"
  pc_maxAttempts :: int
  pc_verifyCode :: "verifier option"

datatype password_completion = ResetInvalid | ResetDone user_row time_text

definition pending_code :: "string \<Rightarrow> string \<Rightarrow> code_row \<Rightarrow> bool" where
  "pending_code email purpose c \<longleftrightarrow> evc_email c = email \<and> evc_purpose c = purpose \<and> evc_consumedAt c = None"

definition reset_user :: "string \<Rightarrow> time_text \<Rightarrow> user_row \<Rightarrow> user_row" where
  "reset_user passwordHash t user =
     user\<lparr>usr_passwordHash := Some passwordHash, usr_sessionVersion := usr_sessionVersion user + 1, usr_updatedAt := t\<rparr>"

definition store_completePasswordRecovery :: "env \<Rightarrow> password_completion_input \<Rightarrow> password_completion op" where
  "store_completePasswordRecovery e input =
     (let email = toLowerCase (trim (pc_email input)); purpose = (if pc_purpose input = [] then ''password-reset'' else pc_purpose input);
          at = (case pc_now input of Some t \<Rightarrow> t | None \<Rightarrow> now e); maxAttempts = attempt_limit (pc_maxAttempts input); consumedAt = toISOString at in
      bindA (read (\<lambda>s. newest (pending_code email purpose) (emailVerificationCodes s))) (\<lambda>found.
      case found of
        None \<Rightarrow> ret ResetInvalid
      | Some i \<Rightarrow>
          bindA (read (\<lambda>s. emailVerificationCodes s ! i)) (\<lambda>row.
          if le_ms (dateParse (zone e) (evc_expiresAt row)) (Some at) \<or> maxAttempts \<le> evc_attempts row then ret ResetInvalid
          else
            bindA (lift (verified (pc_verifyCode input) row)) (\<lambda>correct.
            if \<not> correct then bindA (change (set_code i (wrong_guess maxAttempts at))) (\<lambda>_. ret ResetInvalid)
            else
              let userId = text_or_empty (claim (evc_payload row) ''userId'') in
              bindA (read (\<lambda>s. map_of (users s) userId)) (\<lambda>account.
              case account of
                Some user \<Rightarrow>
                  if claim (evc_payload row) ''kind'' = JStr purpose \<and> usr_email user = email \<and> passwordRecoveryUserEligible e user at then
                    bindA (change (\<lambda>s. s\<lparr>emailVerificationCodes := map (\<lambda>c. if pending_code email purpose c then consumed_at consumedAt c else c)
                      (emailVerificationCodes s)\<rparr>)) (\<lambda>_.
                    bindA (change (\<lambda>s. s\<lparr>users := map_put userId (reset_user (pc_passwordHash input) consumedAt user) (users s)\<rparr>)) (\<lambda>_.
                    bindA (audit e (usr_id user) ''user.password:reset'' ''user'' (usr_id user) []) (\<lambda>_.
                    ret (ResetDone (redactUser (reset_user (pc_passwordHash input) consumedAt user)) consumedAt))))
                  else bindA (change (set_code i (consumed_at consumedAt))) (\<lambda>_. ret ResetInvalid)
              | None \<Rightarrow> bindA (change (set_code i (consumed_at consumedAt))) (\<lambda>_. ret ResetInvalid))))))"

definition failPasswordRecoveryDelivery :: "env \<Rightarrow> string \<Rightarrow> time_text option \<Rightarrow> unit op" where
  "failPasswordRecoveryDelivery e challengeId failedAt =
     bindA (change (\<lambda>s. s\<lparr>emailVerificationCodes := update_first (\<lambda>c. evc_id c = challengeId)
       (\<lambda>c. if evc_consumedAt c = None then consumed_at (case failedAt of Some t \<Rightarrow> t | None \<Rightarrow> nowIso e) c else c)
       (emailVerificationCodes s)\<rparr>)) (\<lambda>_.
     audit e ''system'' ''user.password-reset:delivery-failed'' ''email-verification-code'' (if challengeId = [] then ''unknown'' else challengeId)
       [(''reasonCode'', JStr ''password_reset_delivery_failed'')])"

section \<open>A limited key\<close>

record rate_call =
  ca_key :: string
  ca_limit :: int
  ca_windowMs :: ms
  ca_now :: ms

primrec consume_calls :: "rate_call list \<Rightarrow> store \<Rightarrow> (string \<times> bool) list" where
  "consume_calls [] s = []"
| "consume_calls (c # cs) s =
     (case consumeAuthRateLimit (ca_key c) (ca_limit c) (ca_windowMs c) (ca_now c) s of
        (Inr r, t) \<Rightarrow> (limit_key (ca_key c), ra_allowed r) # consume_calls cs t
      | (Inl _, t) \<Rightarrow> consume_calls cs t)"

definition allowed_calls :: "string \<Rightarrow> (string \<times> bool) list \<Rightarrow> nat" where
  "allowed_calls k answers = length (filter (\<lambda>a. a = (limit_key k, True)) answers)"

definition calls_of :: "string \<Rightarrow> rate_call list \<Rightarrow> nat" where
  "calls_of k calls = length (filter (\<lambda>c. limit_key (ca_key c) = limit_key k) calls)"

lemma prune_live: "map_of m k = Some r \<Longrightarrow> t < rl_expiresAt r \<Longrightarrow> map_of (prune_limits n t m) k = Some r"
  by (induction n t m rule: prune_limits.induct) (auto split: if_splits)

lemma prune_subset: "set (prune_limits n t m) \<subseteq> set m"
  by (induction n t m rule: prune_limits.induct) auto

lemma prune_distinct: "distinct (map fst m) \<Longrightarrow> distinct (map fst (prune_limits n t m))"
  by (induction n t m rule: prune_limits.induct) (auto dest: subsetD [OF prune_subset])

lemma prune_fresh:
  assumes "distinct (map fst m)" and "\<forall>r. map_of m k = Some r \<longrightarrow> rl_expiresAt r \<le> t"
  shows "\<forall>r. map_of (prune_limits n t m) k = Some r \<longrightarrow> rl_expiresAt r \<le> t"
  using assms prune_distinct [OF assms(1)] prune_subset [of n t m] by (auto simp: map_of_eq_Some_iff dest: subsetD)

lemma consume_in_window:
  assumes "map_of (authRateLimits s) (limit_key k) = Some r" and "t < rl_expiresAt r"
  shows "\<exists>a s'. consumeAuthRateLimit k' limit w t s = (Inr a, s') \<and>
    (limit_key k' = limit_key k \<longrightarrow> ra_allowed a = (rl_count r < limit)) \<and>
    map_of (authRateLimits s') (limit_key k) =
      Some (if limit_key k' = limit_key k \<and> rl_count r < limit then r\<lparr>rl_count := rl_count r + 1\<rparr> else r)"
  using assms prune_live [OF assms] by (auto simp: consumeAuthRateLimit_def run_simps Let_def ret_def)

lemma allowed_in_window:
  assumes "map_of (authRateLimits s) (limit_key k) = Some r"
    and "\<forall>c \<in> set calls. ca_now c < rl_expiresAt r \<and> (limit_key (ca_key c) = limit_key k \<longrightarrow> ca_limit c = limit)"
  shows "allowed_calls k (consume_calls calls s) = min (calls_of k calls) (nat (limit - rl_count r))"
  using assms
proof (induction calls arbitrary: s r)
  case Nil
  then show ?case by (simp add: allowed_calls_def calls_of_def)
next
  case (Cons c cs)
  obtain a t where step: "consumeAuthRateLimit (ca_key c) (ca_limit c) (ca_windowMs c) (ca_now c) s = (Inr a, t)"
      "limit_key (ca_key c) = limit_key k \<longrightarrow> ra_allowed a = (rl_count r < ca_limit c)"
      "map_of (authRateLimits t) (limit_key k) =
        Some (if limit_key (ca_key c) = limit_key k \<and> rl_count r < ca_limit c then r\<lparr>rl_count := rl_count r + 1\<rparr> else r)"
    using consume_in_window [of s k r "ca_now c" "ca_key c" "ca_limit c" "ca_windowMs c"] Cons.prems by auto
  show ?case
    using Cons.IH [OF step(3)] Cons.prems step
    by (cases "limit_key (ca_key c) = limit_key k"; cases "rl_count r < limit") (auto simp: allowed_calls_def calls_of_def nat_diff_distrib)
qed

text \<open>C20. Once a call opens a window for a key, exactly the first \<open>limit\<close> calls for that key are allowed until the window ends (the opening
  call always is), whatever calls for other keys come between and however many expired rows those remove.\<close>

theorem rate_limit_window:
  assumes "distinct (map fst (authRateLimits s))" "\<forall>r. map_of (authRateLimits s) (limit_key (ca_key c)) = Some r \<longrightarrow> rl_expiresAt r \<le> ca_now c"
    and "\<forall>d \<in> set calls. ca_now d < ca_now c + ca_windowMs c \<and> (limit_key (ca_key d) = limit_key (ca_key c) \<longrightarrow> ca_limit d = ca_limit c)"
  shows "allowed_calls (ca_key c) (consume_calls (c # calls) s) = 1 + min (calls_of (ca_key c) calls) (nat (ca_limit c - 1))"
proof -
  define row where "row = \<lparr>rl_key = limit_key (ca_key c), rl_count = 1, rl_windowStartedAt = ca_now c, rl_expiresAt = ca_now c + ca_windowMs c\<rparr>"
  obtain a t where "consumeAuthRateLimit (ca_key c) (ca_limit c) (ca_windowMs c) (ca_now c) s = (Inr a, t)" "ra_allowed a"
      "map_of (authRateLimits t) (limit_key (ca_key c)) = Some row"
    using prune_fresh [OF assms(1,2), of AUTH_RETENTION_PRUNE_BATCH_SIZE]
    by (auto simp: consumeAuthRateLimit_def run_simps Let_def ret_def row_def split: option.split)
  then show ?thesis
    using allowed_in_window [of t "ca_key c" row calls "ca_limit c"] assms(3) by (simp add: row_def allowed_calls_def)
qed

definition demo_call :: "string \<Rightarrow> ms \<Rightarrow> rate_call" where
  "demo_call k t = \<lparr>ca_key = k, ca_limit = 2, ca_windowMs = 60000, ca_now = t\<rparr>"

theorem rate_limit_window_witness:
  "allowed_calls ''ip'' (consume_calls [demo_call ''ip'' 0, demo_call ''ip'' 1, demo_call ''other'' 1, demo_call ''ip'' 2, demo_call ''ip'' 3] empty_store) = 2"
  using rate_limit_window [of empty_store "demo_call ''ip'' 0" "[demo_call ''ip'' 1, demo_call ''other'' 1, demo_call ''ip'' 2, demo_call ''ip'' 3]"]
  by (simp add: demo_call_def empty_store_def calls_of_def limit_key_def)

section \<open>Identifiers of codes\<close>

text \<open>The identifier of a code is cut at 63 characters before the time, so two codes for a long address can share it.\<close>

definition long_address_code :: new_code where
  "long_address_code = \<lparr>nc_userId = None, nc_email = replicate 60 CHR ''a'' @ [CHR 0x40] @ ''b.c'', nc_purpose = ''signup'', nc_payload = JNull,
     nc_codeHash = [], nc_codeSalt = [], nc_expiresAt = Instant 10, nc_sentAt = None, nc_attempts = 0\<rparr>"

lemma code_identifier_collision:
  "evc_id (code_row_of (sample_env\<lparr>now := 1\<rparr>) long_address_code 0) = evc_id (code_row_of (sample_env\<lparr>now := 2\<rparr>) long_address_code 1)"
  by code_simp

section \<open>The newest row\<close>

lemma newest_None: "newest P rows = None \<longleftrightarrow> (\<forall>row \<in> set rows. \<not> P row)"
  by (induction rows) (auto split: option.split)

lemma newest_Some:
  assumes "newest P rows = Some i"
  shows "i < length rows \<and> P (rows ! i) \<and> (\<forall>row \<in> set rows. P row \<longrightarrow> created_ms row \<le> created_ms (rows ! i))"
  using assms
proof (induction rows arbitrary: i)
  case (Cons row rows)
  then show ?case by (auto simp: newest_None split: option.splits if_splits)
qed simp

lemma newest_cong:
  "list_all2 (\<lambda>a b. P a = Q b \<and> created_ms a = created_ms b) rows rows' \<Longrightarrow> newest P rows = newest Q rows'"
proof (induction rule: list_all2_induct)
  case (Cons a rows b rows')
  have "created_ms (rows ! i) = created_ms (rows' ! i)" if "newest Q rows' = Some i" for i
    using newest_Some [OF that] Cons(2) by (simp add: list_all2_conv_all_nth)
  then show ?case using Cons by (auto split: option.splits)
qed simp

lemma newest_update:
  assumes "i < length rows" "P (f (rows ! i)) = P (rows ! i)" "created_ms (f (rows ! i)) = created_ms (rows ! i)"
  shows "newest P (rows[i := f (rows ! i)]) = newest P rows"
  using assms by (intro newest_cong) (auto simp: list_all2_conv_all_nth nth_list_update)

section \<open>Guessing a reset code\<close>

definition reset_time :: "env \<Rightarrow> password_completion_input \<Rightarrow> ms" where
  "reset_time e input = (case pc_now input of Some t \<Rightarrow> t | None \<Rightarrow> now e)"

definition reset_target :: "password_completion_input \<Rightarrow> string \<times> string" where
  "reset_target input = (toLowerCase (trim (pc_email input)), if pc_purpose input = [] then ''password-reset'' else pc_purpose input)"

definition target_pending :: "string \<times> string \<Rightarrow> code_row \<Rightarrow> bool" where
  "target_pending target = pending_code (fst target) (snd target)"

definition blocked :: "env \<Rightarrow> password_completion_input \<Rightarrow> code_row \<Rightarrow> bool" where
  "blocked e input row \<longleftrightarrow>
     le_ms (dateParse (zone e) (evc_expiresAt row)) (Some (reset_time e input)) \<or> attempt_limit (pc_maxAttempts input) \<le> evc_attempts row"

definition same_secret :: "code_row \<Rightarrow> code_row \<Rightarrow> bool" where
  "same_secret a b \<longleftrightarrow> evc_codeHash a = evc_codeHash b \<and> evc_codeSalt a = evc_codeSalt b"

definition wrong_for :: "password_completion_input \<Rightarrow> code_row \<Rightarrow> bool" where
  "wrong_for input row \<longleftrightarrow> (\<forall>r. same_secret r row \<longrightarrow> verified (pc_verifyCode input) r = Inr False)"

lemma reset_no_code:
  assumes "newest (target_pending (reset_target input)) (emailVerificationCodes s) = None"
  shows "store_completePasswordRecovery e input s = (Inr ResetInvalid, s)"
  using assms by (simp add: store_completePasswordRecovery_def target_pending_def reset_target_def run_simps Let_def ret_def)

lemma reset_blocked:
  assumes "newest (target_pending (reset_target input)) (emailVerificationCodes s) = Some i" "blocked e input (emailVerificationCodes s ! i)"
  shows "store_completePasswordRecovery e input s = (Inr ResetInvalid, s)"
  using assms
  by (auto simp: store_completePasswordRecovery_def target_pending_def reset_target_def blocked_def reset_time_def run_simps Let_def ret_def)

lemma reset_wrong:
  assumes "newest (target_pending (reset_target input)) (emailVerificationCodes s) = Some i" "\<not> blocked e input (emailVerificationCodes s ! i)"
    and "verified (pc_verifyCode input) (emailVerificationCodes s ! i) = Inr False"
  shows "store_completePasswordRecovery e input s =
    (Inr ResetInvalid, set_code i (wrong_guess (attempt_limit (pc_maxAttempts input)) (reset_time e input)) s)"
  using assms
  by (auto simp: store_completePasswordRecovery_def target_pending_def reset_target_def blocked_def reset_time_def run_simps Let_def ret_def)

lemma wrong_guess_row [simp]:
  "target_pending p (wrong_guess m t row) = target_pending p row" "created_ms (wrong_guess m t row) = created_ms row"
  "evc_expiresAt (wrong_guess m t row) = evc_expiresAt row" "evc_attempts (wrong_guess m t row) = min m (evc_attempts row + 1)"
  "same_secret r (wrong_guess m t row) = same_secret r row"
  by (simp_all add: target_pending_def pending_code_def wrong_guess_def created_ms_def same_secret_def)

lemma lockout_step:
  assumes "newest (target_pending (reset_target g)) (emailVerificationCodes s) = Some i" "row = emailVerificationCodes s ! i" "wrong_for g row"
    and "t = snd (store_completePasswordRecovery e g s)" "row' = emailVerificationCodes t ! i"
  shows "newest (target_pending (reset_target g)) (emailVerificationCodes t) = Some i \<and> evc_expiresAt row' = evc_expiresAt row \<and>
    (\<forall>r. same_secret r row' = same_secret r row) \<and>
    evc_attempts row' = (if blocked e g row then evc_attempts row else min (attempt_limit (pc_maxAttempts g)) (evc_attempts row + 1))"
proof (cases "blocked e g row")
  case True
  then show ?thesis using assms reset_blocked [OF assms(1)] by simp
next
  case False
  have "verified (pc_verifyCode g) row = Inr False" using assms(3) by (simp add: wrong_for_def same_secret_def)
  then show ?thesis using False assms reset_wrong [OF assms(1)] newest_Some [OF assms(1)]
    by (simp add: set_code_def newest_update)
qed

definition demo_code_row :: code_row where
  "demo_code_row = \<lparr>evc_id = ''evc-1'', evc_userId = Some ''usr_1'', evc_email = ''ada@example.org'', evc_purpose = ''password-reset'',
     evc_payload = JObj [(''kind'', JStr ''password-reset''), (''userId'', JStr ''usr_1'')], evc_codeHash = ''right'', evc_codeSalt = ''salt'',
     evc_expiresAt = Instant 600000, evc_sentAt = Instant 0, evc_consumedAt = None, evc_attempts = 0, evc_createdAt = Instant 0, evc_updatedAt = Instant 0\<rparr>"

definition demo_reset_store :: store where
  "demo_reset_store = empty_store\<lparr>emailVerificationCodes := [demo_code_row],
     users := [(''usr_1'', demo_account\<lparr>usr_passwordHash := Some ''old'', usr_emailVerifiedAt := Some (Instant 0)\<rparr>)]\<rparr>"

definition demo_guess :: "string \<Rightarrow> password_completion_input" where
  "demo_guess given_hash = \<lparr>pc_email = ''ada@example.org'', pc_purpose = [], pc_passwordHash = ''new'', pc_now = Some 1000, pc_maxAttempts = 5,
     pc_verifyCode = Some (\<lambda>row. Inr (evc_codeHash row = given_hash))\<rparr>"

lemma demo_newest: "newest (target_pending (reset_target (demo_guess g))) (emailVerificationCodes demo_reset_store) = Some 0"
  by (auto simp: demo_reset_store_def demo_code_row_def target_pending_def pending_code_def reset_target_def demo_guess_def)
     code_simp+

lemma demo_reset:
  "fst (store_completePasswordRecovery sample_env (demo_guess ''right'') demo_reset_store) =
     Inr (ResetDone (redactUser (reset_user ''new'' (Instant 1000) (demo_account\<lparr>usr_passwordHash := Some ''old'', usr_emailVerifiedAt := Some (Instant 0)\<rparr>))) (Instant 1000))"
  by code_simp

abbreviation guessed :: "env \<Rightarrow> password_completion_input list \<Rightarrow> store \<Rightarrow> store" where
  "guessed e guesses s \<equiv> foldl (\<lambda>u g. snd (store_completePasswordRecovery e g u)) s guesses"

definition hopeless :: "env \<Rightarrow> password_completion_input \<Rightarrow> nat \<Rightarrow> code_row \<Rightarrow> bool" where
  "hopeless e input n row \<longleftrightarrow> le_ms (dateParse (zone e) (evc_expiresAt row)) (Some (reset_time e input)) \<or>
     attempt_limit (pc_maxAttempts input) \<le> evc_attempts row + int n"

lemma hopeless_step:
  assumes "hopeless e input (Suc n) row" "pc_maxAttempts g = pc_maxAttempts input" "reset_time e g \<le> reset_time e input"
    and "evc_expiresAt row' = evc_expiresAt row"
      "evc_attempts row' = (if blocked e g row then evc_attempts row else min (attempt_limit (pc_maxAttempts g)) (evc_attempts row + 1))"
  shows "hopeless e input n row'"
  using assms by (auto simp: hopeless_def blocked_def le_ms_def split: option.splits if_splits)

lemma lockout_run:
  assumes "newest (target_pending (reset_target input)) (emailVerificationCodes s) = Some i"
    and "hopeless e input (length guesses) (emailVerificationCodes s ! i)"
    and "\<forall>g \<in> set guesses. wrong_for g (emailVerificationCodes s ! i)"
    and "\<forall>g \<in> set guesses. reset_target g = reset_target input \<and> pc_maxAttempts g = pc_maxAttempts input \<and> reset_time e g \<le> reset_time e input"
  shows "store_completePasswordRecovery e input (guessed e guesses s) = (Inr ResetInvalid, guessed e guesses s)"
  using assms
proof (induction guesses arbitrary: s)
  case Nil
  then show ?case by (auto intro!: reset_blocked simp: blocked_def hopeless_def)
next
  case (Cons g guesses)
  define row t where "row = emailVerificationCodes s ! i" and "t = snd (store_completePasswordRecovery e g s)"
  have g: "reset_target g = reset_target input" "pc_maxAttempts g = pc_maxAttempts input" "reset_time e g \<le> reset_time e input"
    using Cons.prems(4) by simp_all
  note step = lockout_step [of g s i row t e, OF _ row_def _ t_def refl, unfolded g(1), OF Cons.prems(1)]
  have wrong: "wrong_for g row" using Cons.prems(3) by (simp add: row_def)
  have "hopeless e input (length guesses) (emailVerificationCodes t ! i)"
    using Cons.prems(2) g(2,3) step [OF wrong] by (intro hopeless_step [of e input "length guesses" row g]) (auto simp: row_def)
  moreover have "\<forall>g \<in> set guesses. wrong_for g (emailVerificationCodes t ! i)"
    using Cons.prems(3) step [OF wrong] by (auto simp: wrong_for_def row_def)
  ultimately show ?case using Cons.IH [of t] Cons.prems(4) step [OF wrong] by (simp add: t_def)
qed

text \<open>C17. After as many wrong guesses at a reset code as attempts are allowed, no guess is accepted any more, not even the right code; the state
  no longer changes. The guesses may be made at any times up to that of the last one.\<close>

theorem reset_code_lockout:
  assumes "\<forall>g \<in> set guesses. reset_target g = reset_target input \<and> pc_maxAttempts g = pc_maxAttempts input \<and> reset_time e g \<le> reset_time e input"
    and "\<forall>i. newest (target_pending (reset_target input)) (emailVerificationCodes s) = Some i \<longrightarrow>
      attempt_limit (pc_maxAttempts input) \<le> evc_attempts (emailVerificationCodes s ! i) + int (length guesses) \<and>
      (\<forall>g \<in> set guesses. wrong_for g (emailVerificationCodes s ! i))"
    and "t = guessed e guesses s"
  shows "store_completePasswordRecovery e input t = (Inr ResetInvalid, t)"
proof (cases "newest (target_pending (reset_target input)) (emailVerificationCodes s)")
  case None
  then have "t = s" using assms(1,3) by (induction guesses arbitrary: t) (auto simp: reset_no_code)
  then show ?thesis using None by (simp add: reset_no_code)
next
  case (Some i)
  then show ?thesis using assms lockout_run [OF Some] by (simp add: hopeless_def)
qed

theorem reset_code_lockout_witness:
  "fst (store_completePasswordRecovery sample_env (demo_guess ''right'') demo_reset_store) \<noteq> Inr ResetInvalid \<and>
   store_completePasswordRecovery sample_env (demo_guess ''right'') (guessed sample_env (replicate 5 (demo_guess ''wrong'')) demo_reset_store) =
     (Inr ResetInvalid, guessed sample_env (replicate 5 (demo_guess ''wrong'')) demo_reset_store)"
proof -
  have "wrong_for (demo_guess ''wrong'') demo_code_row"
    by (auto simp: wrong_for_def same_secret_def verified_def demo_guess_def demo_code_row_def)
  moreover have "emailVerificationCodes demo_reset_store ! 0 = demo_code_row" "attempt_limit 5 \<le> evc_attempts demo_code_row + 5"
    by (simp_all add: demo_reset_store_def demo_code_row_def attempt_limit_def)
  ultimately show ?thesis
    using demo_reset demo_newest reset_code_lockout [of "replicate 5 (demo_guess ''wrong'')" "demo_guess ''right''" sample_env demo_reset_store, OF _ _ refl]
    by (simp add: demo_guess_def reset_target_def reset_time_def)
qed

section \<open>What a reset does\<close>

text \<open>C19. A reset is done only for the newest pending code of the address, unexpired, within its attempts and verified, and for an eligible
  account with that address. It replaces the password of that account alone, revokes its sessions by raising the session version, and leaves no
  pending code for the address, so that the code cannot be used again.\<close>

theorem password_reset_spec:
  assumes "store_completePasswordRecovery e input s = (Inr (ResetDone view resetAt), t)"
  shows "\<exists>i userId user. newest (target_pending (reset_target input)) (emailVerificationCodes s) = Some i \<and>
      \<not> blocked e input (emailVerificationCodes s ! i) \<and> verified (pc_verifyCode input) (emailVerificationCodes s ! i) = Inr True \<and>
      userId = text_or_empty (claim (evc_payload (emailVerificationCodes s ! i)) ''userId'') \<and>
      map_of (users s) userId = Some user \<and> usr_email user = fst (reset_target input) \<and> passwordRecoveryUserEligible e user (reset_time e input) \<and>
      users t = map_put userId (reset_user (pc_passwordHash input) resetAt user) (users s) \<and> usr_passwordHash view = None \<and>
      organizations t = organizations s \<and> members t = members s \<and>
      (\<forall>again. reset_target again = reset_target input \<longrightarrow> store_completePasswordRecovery e again t = (Inr ResetInvalid, t))"
proof (cases "newest (target_pending (reset_target input)) (emailVerificationCodes s)")
  case None
  then show ?thesis using assms by (simp add: reset_no_code)
next
  case (Some i)
  let ?row = "emailVerificationCodes s ! i" and ?userId = "text_or_empty (claim (evc_payload (emailVerificationCodes s ! i)) ''userId'')"
  have live: "\<not> blocked e input ?row" using assms reset_blocked [OF Some] by fastforce
  obtain user where user: "verified (pc_verifyCode input) ?row = Inr True" "map_of (users s) ?userId = Some user" "usr_email user = fst (reset_target input)"
      "passwordRecoveryUserEligible e user (reset_time e input)"
      "view = redactUser (reset_user (pc_passwordHash input) resetAt user)"
      "users t = map_put ?userId (reset_user (pc_passwordHash input) resetAt user) (users s)"
      "organizations t = organizations s" "members t = members s"
      "emailVerificationCodes t = map (\<lambda>c. if target_pending (reset_target input) c then consumed_at resetAt c else c) (emailVerificationCodes s)"
    using assms Some live
    by (auto simp: store_completePasswordRecovery_def target_pending_def reset_target_def blocked_def reset_time_def run_simps Let_def ret_def audited_def
        split: sum.splits if_splits option.splits)
  have "newest (target_pending (reset_target input)) (emailVerificationCodes t) = None"
    by (auto simp: newest_None user(9) target_pending_def pending_code_def consumed_at_def)
  then have "store_completePasswordRecovery e again t = (Inr ResetInvalid, t)" if "reset_target again = reset_target input" for again
    using that by (simp add: reset_no_code)
  then show ?thesis using Some live user by (auto simp: redactUser_def)
qed

theorem password_reset_spec_witness:
  "\<exists>view t. store_completePasswordRecovery sample_env (demo_guess ''right'') demo_reset_store = (Inr (ResetDone view (Instant 1000)), t) \<and>
     store_completePasswordRecovery sample_env (demo_guess ''right'') t = (Inr ResetInvalid, t)"
proof -
  obtain view t where "store_completePasswordRecovery sample_env (demo_guess ''right'') demo_reset_store = (Inr (ResetDone view (Instant 1000)), t)"
    using demo_reset by (cases "store_completePasswordRecovery sample_env (demo_guess ''right'') demo_reset_store") auto
  then show ?thesis using password_reset_spec by blast
qed

end
