(* ===== verification/Credentials.thy ===== *)
theory Credentials
  imports Codes
begin

text \<open>
  Sign-up by e-mail code and recovery of passwords (\<open>packages/core/src/email-verification.ts\<close> and
  \<open>password-recovery.ts\<close>) on the in-memory store.

  A \<open>mail_settings\<close> holds the variables of the process environment that the code reads. The random
  number and the salt of a call are in \<open>mail_env\<close>, with the answer of \<open>new URL\<close> on the webhook
  address (its protocol) and of the request to the webhook. The texts of the messages are Korean
  and are left to a parameter \<open>compose\<close>. A delivery that is scheduled for later is an operation of
  its own, so that it can be interleaved with the requests; what its closure captured is returned
  by the operation that schedules it.
\<close>

section \<open>Settings\<close>

record mail_settings =
  cf_production :: bool
  cf_ttlSeconds :: js
  cf_testCode :: string
  cf_secret :: string
  cf_from :: string
  cf_emailDomain :: string
  cf_raibitBaseDomain :: string
  cf_baseDomain :: string
  cf_webhookUrl :: string
  cf_deliveryMode :: string
  cf_authIssuer :: string
  cf_sessionTtl :: js
  cf_identity :: identity_settings

datatype fetch_outcome = Answered nat "string option" "string option" | Aborted | Failed http_error

record mail_env =
  me_env :: env
  me_auth :: auth_env
  me_random :: nat
  me_salt :: string
  me_protocol :: "string \<Rightarrow> string option"
  me_fetch :: fetch_outcome

definition DEFAULT_EMAIL_VERIFICATION_TTL_SECONDS :: int where
  "DEFAULT_EMAIL_VERIFICATION_TTL_SECONDS = 10 * 60"

definition MAX_EMAIL_VERIFICATION_TTL_SECONDS :: int where
  "MAX_EMAIL_VERIFICATION_TTL_SECONDS = 24 * 60 * 60"

definition MAX_EMAIL_VERIFICATION_ATTEMPTS :: int where
  "MAX_EMAIL_VERIFICATION_ATTEMPTS = 5"

definition DEFAULT_EMAIL_VERIFICATION_SENDER_LOCAL_PART :: string where
  "DEFAULT_EMAIL_VERIFICATION_SENDER_LOCAL_PART = ''email-verification''"

definition DEFAULT_EMAIL_VERIFICATION_SENDER_DOMAIN :: string where
  "DEFAULT_EMAIL_VERIFICATION_SENDER_DOMAIN = ''raibitserver.local''"

section \<open>Codes and their hashes\<close>

definition normalizeEmailVerificationCode :: "js \<Rightarrow> (http_error, string) result" where
  "normalizeEmailVerificationCode code =
     (let v = trim (text_or_empty code) in
      if matches (Rep digit 6 6) v then Inr v else Inl (HttpError ''email_verification_code_must_be_6_digits'' 400))"

definition emailVerificationTtlSeconds :: "mail_settings \<Rightarrow> int" where
  "emailVerificationTtlSeconds c =
     (case js_number (or_js (cf_ttlSeconds c) (JInt DEFAULT_EMAIL_VERIFICATION_TTL_SECONDS)) of
        None \<Rightarrow> DEFAULT_EMAIL_VERIFICATION_TTL_SECONDS
      | Some configured \<Rightarrow>
          if configured \<le> 0 then DEFAULT_EMAIL_VERIFICATION_TTL_SECONDS else max 60 (min configured MAX_EMAIL_VERIFICATION_TTL_SECONDS))"

definition pad_start :: "nat \<Rightarrow> string \<Rightarrow> string" where
  "pad_start n s = replicate (n - length s) CHR ''0'' @ s"

definition generateEmailVerificationCode :: "mail_settings \<Rightarrow> nat \<Rightarrow> (http_error, string) result" where
  "generateEmailVerificationCode c random =
     (let testCode = trim (cf_testCode c) in
      if testCode \<noteq> [] \<and> \<not> cf_production c then normalizeEmailVerificationCode (JStr testCode)
      else Inr (pad_start 6 (digits_of random)))"

definition emailVerificationSecret :: "string \<Rightarrow> mail_settings \<Rightarrow> (http_error, string) result" where
  "emailVerificationSecret jwtSecret c =
     (let secret = (if cf_secret c \<noteq> [] then cf_secret c else jwtSecret) in
      bindE (ensure (secret \<noteq> []) (HttpError ''email_verification_secret_not_configured'' 500)) (\<lambda>_. Inr secret))"

definition hashEmailVerificationCode :: "auth_env \<Rightarrow> string \<Rightarrow> string \<Rightarrow> string \<Rightarrow> string \<Rightarrow> (http_error, string) result" where
  "hashEmailVerificationCode a email_input code_input codeSalt secret =
     bindE (normalizeEmail email_input) (\<lambda>email.
     bindE (normalizeEmailVerificationCode (JStr code_input)) (\<lambda>code.
     bindE (ensure (codeSalt \<noteq> []) (HttpError ''email_verification_salt_required'' 500)) (\<lambda>_.
     Inr (au_hmac a secret (email @ '':'' @ code @ '':'' @ codeSalt)))))"

definition verifyEmailVerificationCodeHash :: "auth_env \<Rightarrow> string \<Rightarrow> string \<Rightarrow> string \<Rightarrow> code_row \<Rightarrow> (http_error, bool) result" where
  "verifyEmailVerificationCodeHash a email code secret row =
     bindE (hashEmailVerificationCode a email code (evc_codeSalt row) secret) (\<lambda>actual. Inr (actual = evc_codeHash row))"

section \<open>The sender\<close>

definition sender_error :: http_error where
  "sender_error = HttpError ''email_sender_domain_invalid'' 500"

definition normalizeEmailSenderDomain :: "string \<Rightarrow> (http_error, string) result" where
  "normalizeEmailSenderDomain v =
     (let trimmed = toLowerCase (trim v);
          bare = (if starts_with trimmed ''http://'' then drop 7 trimmed else if starts_with trimmed ''https://'' then drop 8 trimmed else trimmed);
          domain = segment (split_at CHR '':'' (segment (split_at CHR ''/'' bare) 0)) 0 in
      if trimmed = [] then Inr []
      else if domain = [] \<or> starts_with domain ''.'' \<or> ends_with domain ''.'' \<or> has_infix ''..'' domain then Inl sender_error
      else if \<not> list_all (\<lambda>c. lower_alnum c \<or> one_of ''.-'' c) domain then Inl sender_error
      else Inr domain)"

definition isLocalEmailSenderDomain :: "string \<Rightarrow> bool" where
  "isLocalEmailSenderDomain domain \<longleftrightarrow> domain = ''localhost'' \<or> ends_with domain ''.local''"

text \<open>The address between the last angle brackets, when the text ends with them.\<close>

definition angle_address :: "string \<Rightarrow> string option" where
  "angle_address sender =
     (let body = rev (butlast sender); address = takeWhile (\<lambda>c. \<not> one_of ''<>'' c) body; before = dropWhile (\<lambda>c. \<not> one_of ''<>'' c) body in
      if ends_with sender ''>'' \<and> address \<noteq> [] \<and> starts_with before ''<'' then Some (rev address) else None)"

definition address_part :: "char \<Rightarrow> bool" where
  "address_part c \<longleftrightarrow> \<not> white_space c \<and> \<not> one_of [CHR 0x40, CHR ''<'', CHR ''>''] c"

definition sanitizeEmailSenderHeader :: "string \<Rightarrow> (http_error, string) result" where
  "sanitizeEmailSenderHeader v =
     (let sender = trim v; address = (case angle_address sender of Some inner \<Rightarrow> inner | None \<Rightarrow> sender) in
      if sender = [] then Inr []
      else if CHR 0x0A \<in> set sender \<or> CHR 0x0D \<in> set sender then Inl (HttpError ''email_sender_invalid'' 500)
      else if \<not> matches (Seq (plus_of address_part) (Seq (lit [CHR 0x40]) (plus_of address_part))) address then Inl (HttpError ''email_sender_invalid'' 500)
      else bindE (normalizeEmailSenderDomain (segment (split_at CHR 0x40 address) 1)) (\<lambda>_. Inr sender))"

definition emailVerificationSenderDomainFromEnv :: "mail_settings \<Rightarrow> (http_error, string) result" where
  "emailVerificationSenderDomainFromEnv c =
     bindE (normalizeEmailSenderDomain (cf_emailDomain c)) (\<lambda>a.
     if a \<noteq> [] then Inr a
     else bindE (normalizeEmailSenderDomain (cf_raibitBaseDomain c)) (\<lambda>b.
       if b \<noteq> [] then Inr b else normalizeEmailSenderDomain (cf_baseDomain c)))"

definition formatEmailVerificationSender :: "string \<Rightarrow> (http_error, string) result" where
  "formatEmailVerificationSender domain =
     bindE (normalizeEmailSenderDomain domain) (\<lambda>normalizedDomain.
     bindE (ensure (normalizedDomain \<noteq> []) sender_error) (\<lambda>_.
     Inr (''RAIBITSERVER <'' @ DEFAULT_EMAIL_VERIFICATION_SENDER_LOCAL_PART @ [CHR 0x40] @ normalizedDomain @ ''>'')))"

definition emailVerificationSenderFromEnv :: "mail_settings \<Rightarrow> (http_error, string) result" where
  "emailVerificationSenderFromEnv c =
     bindE (sanitizeEmailSenderHeader (cf_from c)) (\<lambda>configuredFrom.
     if configuredFrom \<noteq> [] then Inr configuredFrom
     else bindE (emailVerificationSenderDomainFromEnv c) (\<lambda>domain.
       bindE (ensure (\<not> ((domain = [] \<or> isLocalEmailSenderDomain domain) \<and> cf_production c)) (HttpError ''email_sender_not_configured'' 500)) (\<lambda>_.
       formatEmailVerificationSender (if domain = [] then DEFAULT_EMAIL_VERIFICATION_SENDER_DOMAIN else domain))))"

section \<open>Delivery\<close>

definition delivery_mode :: "mail_settings \<Rightarrow> string" where
  "delivery_mode c =
     (let configuredMode = toLowerCase (trim (cf_deliveryMode c)) in
      if configuredMode \<noteq> [] then configuredMode else if trim (cf_webhookUrl c) \<noteq> [] then ''webhook'' else ''console'')"

definition assertEmailDeliveryConfigured :: "mail_env \<Rightarrow> mail_settings \<Rightarrow> (http_error, bool) result" where
  "assertEmailDeliveryConfigured m c =
     (let webhookUrl = trim (cf_webhookUrl c); mode = delivery_mode c in
      bindE (ensure (\<not> (cf_production c \<and> webhookUrl = [])) (HttpError ''email_delivery_not_configured'' 500)) (\<lambda>_.
      bindE (ensure (mode \<in> set [''webhook'', ''console'', ''log'', ''stdout'']) (HttpError (''unsupported_email_delivery_mode:'' @ mode) 500)) (\<lambda>_.
      bindE (ensure (\<not> (cf_production c \<and> mode \<noteq> ''webhook'')) (HttpError ''production_email_delivery_mode_must_be_webhook'' 500)) (\<lambda>_.
      bindE (if mode = ''webhook'' then
          bindE (ensure (webhookUrl \<noteq> []) (HttpError ''email_webhook_url_required'' 500)) (\<lambda>_.
          ensure (me_protocol m webhookUrl \<in> set [Some ''http:'', Some ''https:'']) (HttpError ''email_webhook_url_invalid'' 500))
        else Inr ()) (\<lambda>_.
      bindE (emailVerificationSenderFromEnv c) (\<lambda>_.
      Inr True))))))"

record delivery_outcome =
  do_mode :: string
  do_messageId :: "string option"

definition deliverEmailVerificationMessage :: "mail_env \<Rightarrow> mail_settings \<Rightarrow> (http_error, delivery_outcome) result" where
  "deliverEmailVerificationMessage m c =
     bindE (assertEmailDeliveryConfigured m c) (\<lambda>_.
     let mode = delivery_mode c in
     if mode = ''webhook'' then
       bindE (ensure (trim (cf_webhookUrl c) \<noteq> []) (HttpError ''email_webhook_url_required'' 500)) (\<lambda>_.
       case me_fetch m of
         Aborted \<Rightarrow> Inl (HttpError ''email_delivery_timeout'' 504)
       | Failed err \<Rightarrow> Inl err
       | Answered code messageId requestId \<Rightarrow>
           bindE (ensure (200 \<le> code \<and> code < 300) (HttpError (''email_delivery_failed:'' @ digits_of code) 502)) (\<lambda>_.
           Inr \<lparr>do_mode = ''webhook'', do_messageId = (if truthy messageId then messageId else if truthy requestId then requestId else None)\<rparr>))
     else if mode \<in> set [''console'', ''log'', ''stdout''] then Inr \<lparr>do_mode = ''console'', do_messageId = None\<rparr>
     else Inl (HttpError (''unsupported_email_delivery_mode:'' @ mode) 500))"

record mail_message =
  mm_from :: string
  mm_to :: string
  mm_subject :: string
  mm_text :: string

type_synonym composer = "string \<Rightarrow> string \<Rightarrow> time_text \<Rightarrow> (http_error, mail_message) result"

definition delivery_of :: "mail_message \<Rightarrow> string \<Rightarrow> delivery_outcome \<Rightarrow> time_text \<Rightarrow> delivery_input" where
  "delivery_of message purpose delivery sentAt =
     \<lparr>di_from = mm_from message, di_to = mm_to message, di_subject = mm_subject message, di_text = mm_text message, di_purpose = purpose,
      di_deliveryMode = do_mode delivery, di_messageId = do_messageId delivery, di_sentAt = Some sentAt\<rparr>"

section \<open>Sign-up\<close>

definition requiredSignupString :: "js \<Rightarrow> string \<Rightarrow> (http_error, string) result" where
  "requiredSignupString v field =
     (case v of
        JStr s \<Rightarrow> if trim s = [] then Inl (HttpError (field @ ''_is_required'') 400) else Inr (trim s)
      | _ \<Rightarrow> Inl (HttpError (field @ ''_is_required'') 400))"

definition normalizeClubMemberClaim :: "js \<Rightarrow> bool" where
  "normalizeClubMemberClaim v \<longleftrightarrow>
     v = JBool True \<or> toLowerCase (trim (text_or_empty v)) \<in> set [''1'', ''true'', ''yes'', ''club_member'']"

definition emailVerificationPaddingPayload :: js where
  "emailVerificationPaddingPayload = JObj
     [(''kind'', JStr ''request-padding''), (''name'', JStr []), (''studentId'', JStr []), (''clubMemberClaim'', JBool False), (''email'', JStr []),
      (''passwordHash'', JStr []), (''organizationSlug'', JStr []), (''organizationName'', JStr []), (''plan'', JStr ''free''), (''policy'', JObj [])]"

definition countUsersForRepository :: "store \<Rightarrow> int" where
  "countUsersForRepository s = min (countUsers 1 s) 1"

definition policy_js :: "signup_policy \<Rightarrow> js" where
  "policy_js p = JObj [(''isAdminBootstrap'', JBool (sp_isAdminBootstrap p)), (''bootstrapReason'', opt_js (sp_bootstrapReason p)),
     (''role'', JStr (sp_role p)), (''accountType'', JStr (sp_accountType p)), (''approvalStatus'', JStr (sp_approvalStatus p))]"

definition http_of :: "auth_error \<Rightarrow> http_error" where
  "http_of err = (case err of Unauthorized msg \<Rightarrow> HttpError msg 401 | Forbidden msg \<Rightarrow> HttpError msg 403 | PlainError msg code \<Rightarrow> HttpError msg code)"

definition issueEmailVerificationChallenge :: "mail_env \<Rightarrow> mail_settings \<Rightarrow> string \<Rightarrow> string \<Rightarrow> js \<Rightarrow> (code_row \<times> string) op" where
  "issueEmailVerificationChallenge m c jwtSecret email payload =
     bindA (lift (emailVerificationSecret jwtSecret c)) (\<lambda>secret.
     bindA (lift (generateEmailVerificationCode c (me_random m))) (\<lambda>code.
     bindA (lift (hashEmailVerificationCode (me_auth m) email code (me_salt m) secret)) (\<lambda>codeHash.
     let at = now (me_env m) in
     bindA (replaceEmailVerificationCode (me_env m)
       \<lparr>nc_userId = as_string (claim payload ''userId''), nc_email = email, nc_purpose = text_or_empty (or_js (claim payload ''kind'') (JStr ''signup'')),
        nc_payload = payload, nc_codeHash = codeHash, nc_codeSalt = me_salt m, nc_expiresAt = toISOString (at + emailVerificationTtlSeconds c * 1000),
        nc_sentAt = Some (toISOString at), nc_attempts = 0\<rparr>) (\<lambda>row.
     ret (row, code)))))"

definition email_delivery_task :: "composer \<Rightarrow> mail_env \<Rightarrow> mail_settings \<Rightarrow> bool \<Rightarrow> code_row \<Rightarrow> string \<Rightarrow> unit op" where
  "email_delivery_task compose m c deliverable row code =
     (if \<not> deliverable then ret ()
      else case bindE (compose (evc_email row) code (evc_expiresAt row)) (\<lambda>message.
          bindE (deliverEmailVerificationMessage m c) (\<lambda>delivery. Inr (message, delivery))) of
        Inl _ \<Rightarrow> ret ()
      | Inr (message, delivery) \<Rightarrow>
          bindA (recordEmailDelivery (me_env m) (delivery_of message ''email-verification'' delivery (evc_sentAt row))) (\<lambda>_. ret ()))"

definition signup_slug :: "js_fields \<Rightarrow> string \<Rightarrow> (http_error, js) result" where
  "signup_slug input email =
     (let organizationSlug = (if ''organizationSlug'' \<in> set (js_keys input) then js_get input ''organizationSlug''
          else if ''orgSlug'' \<in> set (js_keys input) then js_get input ''orgSlug'' else JStr (personalOrganizationSlug email)) in
      if ''organizationSlug'' \<in> set (js_keys input) \<or> ''orgSlug'' \<in> set (js_keys input)
      then bindE (map_err (\<lambda>code. HttpError (slug_error_code code) 400) (parseOrganizationRouteSlug organizationSlug)) (\<lambda>_. Inr organizationSlug)
      else Inr organizationSlug)"

definition issueSignupEmailVerificationCode :: "mail_env \<Rightarrow> mail_settings \<Rightarrow> string \<Rightarrow> js_fields \<Rightarrow> (bool \<times> code_row \<times> string) op" where
  "issueSignupEmailVerificationCode m c jwtSecret input =
     bindA (lift (normalizeEmail (text_or_empty (js_get input ''email'')))) (\<lambda>email.
     bindA (lift (requiredSignupString (js_get input ''name'') ''name'')) (\<lambda>name.
     bindA (lift (requiredSignupString (js_get input ''studentId'') ''student_id'')) (\<lambda>studentId.
     bindA (lift (signup_slug input email)) (\<lambda>organizationSlug.
     bindA (read countUsersForRepository) (\<lambda>userCount.
     bindA (lift (map_err http_of (hashPasswordAsync (me_auth m) (text_or_empty (js_get input ''password'')) None 0))) (\<lambda>passwordHash.
     bindA (read (findUserByEmail (JStr email))) (\<lambda>existing.
     bindA (read (findOrganizationBySlug organizationSlug)) (\<lambda>existingOrganization.
     let policy = signupPolicyForAccount (cf_identity c) input email (userCount = 0);
         payload = JObj [(''kind'', JStr ''signup''), (''name'', JStr name), (''studentId'', JStr studentId),
           (''clubMemberClaim'', JBool (normalizeClubMemberClaim (js_get input ''clubMemberClaim''))), (''email'', JStr email),
           (''passwordHash'', JStr passwordHash), (''organizationSlug'', organizationSlug),
           (''organizationName'', or_js (js_get input ''organizationName'') organizationSlug), (''plan'', or_js (js_get input ''plan'') (JStr ''free'')),
           (''policy'', policy_js policy)];
         deliverable = (existing = None \<and> existingOrganization = None) in
     bindA (issueEmailVerificationChallenge m c jwtSecret email (if deliverable then payload else emailVerificationPaddingPayload)) (\<lambda>(row, code).
     ret (deliverable, row, code))))))))))"

definition resendEmailVerificationCode :: "mail_env \<Rightarrow> mail_settings \<Rightarrow> string \<Rightarrow> js_fields \<Rightarrow> (bool \<times> code_row \<times> string) op" where
  "resendEmailVerificationCode m c jwtSecret input =
     bindA (lift (normalizeEmail (text_or_empty (js_get input ''email'')))) (\<lambda>email.
     bindA (read (findUserByEmail (JStr email))) (\<lambda>existing.
     bindA (read (findPendingEmailVerificationCode (me_env m) email ''signup'')) (\<lambda>found.
     let kept = (case found of Some row \<Rightarrow> evc_payload row | None \<Rightarrow> JUndef);
         deliverable = (existing = None \<and> claim kept ''kind'' = JStr ''signup'') in
     bindA (issueEmailVerificationChallenge m c jwtSecret email (if deliverable then kept else emailVerificationPaddingPayload)) (\<lambda>(row, code).
     ret (deliverable, row, code)))))"

definition resolved_policy :: "mail_settings \<Rightarrow> string \<Rightarrow> js \<Rightarrow> bool \<Rightarrow> js" where
  "resolved_policy c email payload firstUser =
     (let policy = claim payload ''policy''; fresh = policy_js (signupPolicyForAccount (cf_identity c) [] email firstUser) in
      if claim policy ''bootstrapReason'' = JStr ''first-user'' then fresh else or_js policy fresh)"

definition verifyEmailCodeAndCreateSession ::
  "mail_env \<Rightarrow> mail_settings \<Rightarrow> string \<Rightarrow> string option \<Rightarrow> js \<Rightarrow> js_fields \<Rightarrow> (signup_completion \<times> string) op" where
  "verifyEmailCodeAndCreateSession m c jwtSecret issuer ttl_option input =
     bindA (lift (emailVerificationSecret jwtSecret c)) (\<lambda>secret.
     bindA (lift (normalizeEmail (text_or_empty (js_get input ''email'')))) (\<lambda>email.
     bindA (lift (normalizeEmailVerificationCode (js_get input ''code''))) (\<lambda>code.
     bindA (completeSignupEmailVerification (me_env m)
       \<lparr>si_email = email, si_purpose = ''signup'', si_now = Some (now (me_env m)), si_maxAttempts = MAX_EMAIL_VERIFICATION_ATTEMPTS,
        si_verifyCode = Some (verifyEmailVerificationCodeHash (me_auth m) email code secret), si_resolvePolicy = Some (resolved_policy c email)\<rparr>) (\<lambda>completion.
     case completion of
       SignupInvalid \<Rightarrow> fail (HttpError ''invalid_or_expired_email_verification_code'' 403)
     | SignupVerified user organization membership memberships verifiedAt \<Rightarrow>
         bindA (lift (map_err http_of (createSessionToken (me_auth m) user memberships jwtSecret
           (Some (if truthy issuer then the issuer else if cf_authIssuer c \<noteq> [] then cf_authIssuer c else ''raibitserver''))
           (sessionTtlSeconds JUndef (JInt (sessionTtlSeconds ttl_option JUndef (cf_sessionTtl c))) (cf_sessionTtl c))))) (\<lambda>token.
         ret (completion, token))))))"

definition assertUserEmailVerified :: "user_row \<Rightarrow> (http_error, bool) result" where
  "assertUserEmailVerified user = (if usr_emailVerifiedAt user = None then Inl (HttpError ''email_not_verified'' 403) else Inr True)"

definition maskEmailAddress :: "string \<Rightarrow> (http_error, string) result" where
  "maskEmailAddress email =
     bindE (normalizeEmail email) (\<lambda>address.
     let parts = split_at CHR 0x40 address; name = segment parts 0;
         maskedName = (if length name \<le> 2 then (if name = [] then ''*'' else take 1 name) @ ''*'' else take 2 name @ ''***'' @ [last name]) in
     Inr (maskedName @ [CHR 0x40] @ segment parts 1))"

section \<open>Recovery of a password\<close>

definition PASSWORD_RESET_PURPOSE :: string where
  "PASSWORD_RESET_PURPOSE = ''password-reset''"

definition PASSWORD_RESET_TTL_SECONDS :: int where
  "PASSWORD_RESET_TTL_SECONDS = 10 * 60"

definition PASSWORD_RESET_MAX_ATTEMPTS :: int where
  "PASSWORD_RESET_MAX_ATTEMPTS = 5"

definition activeBan :: "env \<Rightarrow> user_row \<Rightarrow> ms \<Rightarrow> bool" where
  "activeBan e user t =
     (if usr_bannedAt user = None then False
      else case usr_banExpiresAt user of None \<Rightarrow> True
      | Some until \<Rightarrow> (case dateParse (zone e) until of None \<Rightarrow> True | Some expiresAt \<Rightarrow> t < expiresAt))"

definition passwordRecoveryUser :: "env \<Rightarrow> user_row option \<Rightarrow> ms \<Rightarrow> string option" where
  "passwordRecoveryUser e candidate t =
     (case candidate of
        None \<Rightarrow> None
      | Some user \<Rightarrow>
          if \<not> truthy (usr_passwordHash user) \<or> usr_emailVerifiedAt user = None \<or> toUpperCase (usr_approvalStatus user) \<noteq> ''APPROVED'' \<or>
             activeBan e user t then None
          else Some (usr_id user))"

definition requestPasswordRecovery :: "mail_env \<Rightarrow> mail_settings \<Rightarrow> string \<Rightarrow> ms option \<Rightarrow> string \<Rightarrow> (string option \<times> code_row \<times> string) op" where
  "requestPasswordRecovery m c jwtSecret given_now email_input =
     (let at = (case given_now of Some t \<Rightarrow> t | None \<Rightarrow> now (me_env m)) in
      bindA (lift (normalizeEmail email_input)) (\<lambda>email.
      bindA (read (findUserByEmail (JStr email))) (\<lambda>user.
      let deliverableUser = passwordRecoveryUser (me_env m) user at in
      bindA (lift (generateEmailVerificationCode c (me_random m))) (\<lambda>code.
      bindA (lift (emailVerificationSecret jwtSecret c)) (\<lambda>secret.
      bindA (lift (hashEmailVerificationCode (me_auth m) email code (me_salt m) secret)) (\<lambda>codeHash.
      bindA (replaceEmailVerificationCode (me_env m)
        \<lparr>nc_userId = deliverableUser, nc_email = email, nc_purpose = PASSWORD_RESET_PURPOSE,
         nc_payload = (case deliverableUser of Some uid \<Rightarrow> JObj [(''kind'', JStr PASSWORD_RESET_PURPOSE), (''userId'', JStr uid)]
           | None \<Rightarrow> JObj [(''kind'', JStr ''request-padding'')]),
         nc_codeHash = codeHash, nc_codeSalt = me_salt m, nc_expiresAt = toISOString (at + PASSWORD_RESET_TTL_SECONDS * 1000),
         nc_sentAt = Some (toISOString at), nc_attempts = 0\<rparr>) (\<lambda>challenge.
      ret (deliverableUser, challenge, code))))))))"

definition password_delivery_task :: "composer \<Rightarrow> mail_env \<Rightarrow> mail_settings \<Rightarrow> string option \<Rightarrow> code_row \<Rightarrow> string \<Rightarrow> unit op" where
  "password_delivery_task compose m c deliverableUser challenge code =
     (if deliverableUser = None then ret ()
      else case bindE (compose (evc_email challenge) code (evc_expiresAt challenge)) (\<lambda>message.
          bindE (deliverEmailVerificationMessage m c) (\<lambda>delivery. Inr (message, delivery))) of
        Inl _ \<Rightarrow> failPasswordRecoveryDelivery (me_env m) (evc_id challenge) (Some (nowIso (me_env m)))
      | Inr (message, delivery) \<Rightarrow>
          bindA (recordEmailDelivery (me_env m) (delivery_of message PASSWORD_RESET_PURPOSE delivery (evc_sentAt challenge))) (\<lambda>_. ret ()))"

definition completePasswordRecovery :: "mail_env \<Rightarrow> mail_settings \<Rightarrow> string \<Rightarrow> ms option \<Rightarrow> string \<Rightarrow> js \<Rightarrow> string \<Rightarrow> bool op" where
  "completePasswordRecovery m c jwtSecret given_now email_input code_input newPassword =
     bindA (lift (normalizeEmail email_input)) (\<lambda>email.
     bindA (lift (normalizeEmailVerificationCode code_input)) (\<lambda>code.
     bindA (lift (map_err http_of (hashPasswordAsync (me_auth m) newPassword None 0))) (\<lambda>passwordHash.
     bindA (lift (emailVerificationSecret jwtSecret c)) (\<lambda>secret.
     bindA (store_completePasswordRecovery (me_env m)
       \<lparr>pc_email = email, pc_purpose = PASSWORD_RESET_PURPOSE, pc_passwordHash = passwordHash,
        pc_now = Some (case given_now of Some t \<Rightarrow> t | None \<Rightarrow> now (me_env m)), pc_maxAttempts = PASSWORD_RESET_MAX_ATTEMPTS,
        pc_verifyCode = Some (verifyEmailVerificationCodeHash (me_auth m) email code secret)\<rparr>) (\<lambda>outcome.
     case outcome of
       ResetInvalid \<Rightarrow> fail (HttpError ''invalid_or_expired_password_reset_code'' 403)
     | ResetDone _ _ \<Rightarrow> ret True)))))"

section \<open>Normal forms\<close>

lemma normalizeEmail_normal:
  assumes "normalizeEmail x = Inr y"
  shows "normalizeEmail y = Inr y" "toLowerCase (trim y) = y" "toLowerCase y = y" "y \<noteq> []"
proof -
  have y: "y = toLowerCase (trim x)" "matches EMAIL_RE y" using assms by (auto simp: normalizeEmail_def Let_def split: if_splits)
  have "within (\<lambda>c. \<not> white_space c) EMAIL_RE"
    by (simp add: EMAIL_RE_def plus_of_def email_part_def white_space_def)
  then have "\<forall>c \<in> set y. \<not> white_space c" using matches_within y(2) by metis
  then have "dropWhile white_space y = y" "dropWhile white_space (rev y) = rev y"
    by (auto simp: dropWhile_eq_self_iff hd_rev)
  then have "trim y = y" by (simp add: trim_def)
  then show low: "toLowerCase (trim y) = y" "toLowerCase y = y" by (simp_all add: y(1) toLowerCase_idem)
  then show "normalizeEmail y = Inr y" using y(2) by (simp add: normalizeEmail_def)
  show "y \<noteq> []" using y(2) by (auto simp: EMAIL_RE_def plus_of_def matches_lang Nil_in_conc)
qed

lemma length_digits_of: "n < 10 ^ Suc k \<Longrightarrow> length (digits_of n) \<le> Suc k"
proof (induction k arbitrary: n)
  case 0
  then show ?case by (simp add: digits_of.simps)
next
  case (Suc k)
  have "n div 10 < 10 ^ Suc k" using Suc.prems by (simp add: div_less_iff_less_mult mult.commute)
  then show ?case using Suc.IH [of "n div 10"] by (simp add: digits_of.simps [of n])
qed

lemma code_normal: "normalizeEmailVerificationCode v = Inr code \<Longrightarrow> normalizeEmailVerificationCode (JStr code) = Inr code"
  by (auto simp: normalizeEmailVerificationCode_def Let_def regex_simps text_or_empty_def trim_digits list_all_iff split: if_splits)

lemma generated_code_normal:
  assumes "generateEmailVerificationCode c n = Inr code" "n < 1000000"
  shows "normalizeEmailVerificationCode (JStr code) = Inr code"
proof (cases "trim (cf_testCode c) \<noteq> [] \<and> \<not> cf_production c")
  case True
  then show ?thesis using assms code_normal by (simp add: generateEmailVerificationCode_def Let_def)
next
  case False
  then have code: "code = pad_start 6 (digits_of (n))" using assms by (auto simp: generateEmailVerificationCode_def Let_def)
  have "length (digits_of (n)) \<le> 6" using length_digits_of [of n 5] assms(2) by simp
  moreover have "digit CHR ''0''" by (simp add: char_class_defs)
  ultimately have "length code = 6" "list_all digit code"
    using digits_of_text [of n] by (auto simp: code pad_start_def list_all_iff)
  then show ?thesis by (auto simp: normalizeEmailVerificationCode_def text_or_empty_def trim_digits regex_simps list_all_iff)
qed

section \<open>The replacement is the newest code\<close>

lemma prune_codes_subset: "set (prune_codes e n rows) \<subseteq> set rows"
  by (induction e n rows rule: prune_codes.induct) auto

lemma replacement_newest:
  assumes "replaceEmailVerificationCode e input s = (Inr row, t)" and old: "\<forall>c \<in> set (emailVerificationCodes s). created_ms c < now e"
  shows "\<exists>i n. newest (pending_code (evc_email row) (evc_purpose row)) (emailVerificationCodes t) = Some i \<and> emailVerificationCodes t ! i = row \<and>
    row = code_row_of e input n \<and> users t = users s"
proof -
  let ?g = "\<lambda>c. if superseded_by row c then consumed_at (nowIso e) c else c"
  obtain n where t: "row = code_row_of e input n" "users t = users s"
      "emailVerificationCodes t = map ?g (prune_codes e 0 (emailVerificationCodes s)) @ [row]"
    using assms(1) by (auto simp: replaceEmailVerificationCode_def createEmailVerificationCode_def run_simps ret_def superseded_by_def)
  let ?P = "pending_code (evc_email row) (evc_purpose row)"
  have row: "?P row" "created_ms row = now e" by (simp_all add: t(1) pending_code_def code_row_of_def created_ms_def nowIso_def toISOString_def)
  obtain i where i: "newest ?P (emailVerificationCodes t) = Some i"
    using row(1) newest_None [of ?P "emailVerificationCodes t"] t(3) by (cases "newest ?P (emailVerificationCodes t)") auto
  have "created_ms (consumed_at (nowIso e) c) = created_ms c" for c by (simp add: created_ms_def consumed_at_def)
  then have "c = row \<or> created_ms c < now e" if "c \<in> set (emailVerificationCodes t)" for c
    using that old prune_codes_subset [of e 0 "emailVerificationCodes s"] by (auto simp: t(3))
  moreover have "row \<in> set (emailVerificationCodes t)" by (simp add: t(3))
  then have "emailVerificationCodes t ! i \<in> set (emailVerificationCodes t)" "now e \<le> created_ms (emailVerificationCodes t ! i)"
    using newest_Some [OF i] row by auto
  ultimately have "emailVerificationCodes t ! i = row" by force
  then show ?thesis using i t by blast
qed

section \<open>A forgotten password can be reset\<close>

lemma recovery_user_eligible:
  assumes "passwordRecoveryUser e (Some user) t = Some userId" "t \<le> t'"
  shows "userId = usr_id user \<and> passwordRecoveryUserEligible e user t'"
proof -
  have "toUpperCase [] \<noteq> ''APPROVED''" by code_simp
  then show ?thesis using assms
    by (auto simp: passwordRecoveryUser_def passwordRecoveryUserEligible_def activeBan_def le_ms_def split: if_splits option.splits)
qed

definition keyed_users :: "store \<Rightarrow> bool" where
  "keyed_users s \<longleftrightarrow> distinct (map fst (users s)) \<and> list_all (\<lambda>(k, u). k = usr_id u \<and> k \<noteq> []) (users s)"

lemma keyed_found:
  assumes "keyed_users s" "findUserByEmail v s = Some user"
  shows "map_of (users s) (usr_id user) = Some user" "usr_id user \<noteq> []" "usr_email user = toLowerCase (text_or_empty v)"
proof -
  have "user \<in> set (map snd (users s))" "usr_email user = toLowerCase (text_or_empty v)"
    using assms(2) by (auto simp: findUserByEmail_def Let_def find_Some_iff)
  moreover then obtain k where "(k, user) \<in> set (users s)" by auto
  ultimately show "map_of (users s) (usr_id user) = Some user" "usr_id user \<noteq> []" "usr_email user = toLowerCase (text_or_empty v)"
    using assms(1) by (auto simp: keyed_users_def list_all_iff)
qed

lemma request_recovery_Inr:
  assumes "requestPasswordRecovery m c jwtSecret (Some asked) email_input s = (Inr (Some userId, challenge, code), s1)"
    and "keyed_users s" "\<forall>row \<in> set (emailVerificationCodes s). created_ms row < now (me_env m)" and "me_random m < 1000000"
  obtains email user secret i where "normalizeEmail email_input = Inr email" "emailVerificationSecret jwtSecret c = Inr secret"
    "normalizeEmailVerificationCode (JStr code) = Inr code" "passwordRecoveryUser (me_env m) (Some user) asked = Some userId"
    "map_of (users s) userId = Some user" "usr_email user = email" "userId \<noteq> []" "users s1 = users s" "me_salt m \<noteq> []"
    "newest (target_pending (email, PASSWORD_RESET_PURPOSE)) (emailVerificationCodes s1) = Some i"
    "emailVerificationCodes s1 ! i = challenge" "evc_codeSalt challenge = me_salt m" "evc_attempts challenge = 0"
    "evc_codeHash challenge = au_hmac (me_auth m) secret (email @ '':'' @ code @ '':'' @ me_salt m)"
    "evc_expiresAt challenge = Instant (asked + 600000)"
    "evc_payload challenge = JObj [(''kind'', JStr PASSWORD_RESET_PURPOSE), (''userId'', JStr userId)]"
proof -
  obtain email code' secret codeHash where parts: "normalizeEmail email_input = Inr email" "generateEmailVerificationCode c (me_random m) = Inr code"
      "emailVerificationSecret jwtSecret c = Inr secret" "hashEmailVerificationCode (me_auth m) email code (me_salt m) secret = Inr codeHash"
      "passwordRecoveryUser (me_env m) (findUserByEmail (JStr email) s) asked = Some userId"
      and replace: "replaceEmailVerificationCode (me_env m)
        \<lparr>nc_userId = Some userId, nc_email = email, nc_purpose = PASSWORD_RESET_PURPOSE,
         nc_payload = JObj [(''kind'', JStr PASSWORD_RESET_PURPOSE), (''userId'', JStr userId)],
         nc_codeHash = codeHash, nc_codeSalt = me_salt m, nc_expiresAt = toISOString (asked + PASSWORD_RESET_TTL_SECONDS * 1000),
         nc_sentAt = Some (toISOString asked), nc_attempts = 0\<rparr> s = (Inr challenge, s1)"
    using assms(1)
    by (auto simp: requestPasswordRecovery_def run_simps Let_def ret_def bindA_def split: sum.splits prod.splits)
  note email = normalizeEmail_normal [OF parts(1)] and code = generated_code_normal [OF parts(2) assms(4)]
  obtain user where user: "findUserByEmail (JStr email) s = Some user" using parts(5) by (cases "findUserByEmail (JStr email) s") (auto simp: passwordRecoveryUser_def)
  have userId: "userId = usr_id user" using recovery_user_eligible [of "me_env m" user asked userId asked] parts(5) user by simp
  have hash: "codeHash = au_hmac (me_auth m) secret (email @ '':'' @ code @ '':'' @ me_salt m)" "me_salt m \<noteq> []"
    using parts(4) email(1) code by (auto simp: hashEmailVerificationCode_def result_simps)
  obtain i n where row: "newest (pending_code (evc_email challenge) (evc_purpose challenge)) (emailVerificationCodes s1) = Some i"
      "emailVerificationCodes s1 ! i = challenge" "users s1 = users s" and challenge: "challenge = code_row_of (me_env m)
        \<lparr>nc_userId = Some userId, nc_email = email, nc_purpose = PASSWORD_RESET_PURPOSE,
         nc_payload = JObj [(''kind'', JStr PASSWORD_RESET_PURPOSE), (''userId'', JStr userId)],
         nc_codeHash = codeHash, nc_codeSalt = me_salt m, nc_expiresAt = toISOString (asked + PASSWORD_RESET_TTL_SECONDS * 1000),
         nc_sentAt = Some (toISOString asked), nc_attempts = 0\<rparr> n"
    using replacement_newest [OF replace assms(3)] by blast
  show thesis
    using that [of email secret user i] parts email code user keyed_found [OF assms(2) user] row hash userId
    by (simp add: challenge code_row_of_def target_pending_def PASSWORD_RESET_PURPOSE_def PASSWORD_RESET_TTL_SECONDS_def toISOString_def text_or_empty_def)
qed

text \<open>C18. Within ten minutes of a recovery request for an eligible account, the code that was generated resets the password of that account to the
  hash of the new one and revokes its sessions, while a code with another hash is refused and changes no account.\<close>

theorem password_recovery_round_trip:
  assumes "requestPasswordRecovery m c jwtSecret (Some asked) email_input s = (Inr (Some userId, challenge, code), s1)"
    and "keyed_users s" "\<forall>row \<in> set (emailVerificationCodes s). created_ms row < now (me_env m)" and "me_random m < 1000000"
    and "asked \<le> entered" "entered < asked + 600000" and "hashPassword (me_auth m) newPassword None 0 = Inr passwordHash"
  shows "\<exists>user s2. map_of (users s) userId = Some user \<and>
    completePasswordRecovery m c jwtSecret (Some entered) email_input (JStr code) newPassword s1 = (Inr True, s2) \<and>
    users s2 = map_put userId (reset_user passwordHash (Instant entered) user) (users s) \<and>
    (\<forall>other guess secret email. normalizeEmailVerificationCode other = Inr guess \<and> emailVerificationSecret jwtSecret c = Inr secret \<and>
      normalizeEmail email_input = Inr email \<and> au_hmac (me_auth m) secret (email @ '':'' @ guess @ '':'' @ me_salt m) \<noteq> evc_codeHash challenge \<longrightarrow>
      (\<exists>s3. completePasswordRecovery m c jwtSecret (Some entered) email_input other newPassword s1 =
        (Inl (HttpError ''invalid_or_expired_password_reset_code'' 403), s3) \<and> users s3 = users s))"
proof -
  obtain email user secret i where request: "normalizeEmail email_input = Inr email" "emailVerificationSecret jwtSecret c = Inr secret"
    "normalizeEmailVerificationCode (JStr code) = Inr code" "passwordRecoveryUser (me_env m) (Some user) asked = Some userId"
    "map_of (users s) userId = Some user" "usr_email user = email" "userId \<noteq> []" "users s1 = users s" "me_salt m \<noteq> []"
    and row: "newest (target_pending (email, PASSWORD_RESET_PURPOSE)) (emailVerificationCodes s1) = Some i"
    "emailVerificationCodes s1 ! i = challenge" "evc_codeSalt challenge = me_salt m" "evc_attempts challenge = 0"
    "evc_codeHash challenge = au_hmac (me_auth m) secret (email @ '':'' @ code @ '':'' @ me_salt m)"
    "evc_expiresAt challenge = Instant (asked + 600000)"
    "evc_payload challenge = JObj [(''kind'', JStr PASSWORD_RESET_PURPOSE), (''userId'', JStr userId)]"
    using request_recovery_Inr [OF assms(1-4)] .
  note eligible = recovery_user_eligible [OF request(4) assms(5)]
  have verify: "verifyEmailVerificationCodeHash (me_auth m) email guess secret challenge =
      Inr (au_hmac (me_auth m) secret (email @ '':'' @ guess @ '':'' @ me_salt m) = evc_codeHash challenge)"
    if "normalizeEmailVerificationCode v = Inr guess" for v guess
    using code_normal [OF that] request normalizeEmail_normal [OF request(1)] row(3)
    by (simp add: verifyEmailVerificationCodeHash_def hashEmailVerificationCode_def)
  note run = completePasswordRecovery_def store_completePasswordRecovery_def hashPasswordAsync_def attempt_limit_def
    PASSWORD_RESET_MAX_ATTEMPTS_def verified_def target_pending_def
  show ?thesis
    using assms(5-7) request row eligible verify normalizeEmail_normal [OF request(1)]
    by (auto simp: run run_simps Let_def ret_def bindA_def set_code_def claim_def js_get_def text_or_empty_def PASSWORD_RESET_PURPOSE_def toISOString_def)
qed

definition demo_mail :: mail_env where
  "demo_mail = \<lparr>me_env = sample_env\<lparr>now := 5\<rparr>, me_auth = demo_hashing\<lparr>au_hmac := (\<lambda>key m. key @ m)\<rparr>, me_random = 42, me_salt = ''salt'',
     me_protocol = (\<lambda>url. Some ''https:''), me_fetch = Answered 202 None None\<rparr>"

definition demo_settings :: mail_settings where
  "demo_settings = \<lparr>cf_production = True, cf_ttlSeconds = JUndef, cf_testCode = [], cf_secret = [], cf_from = [], cf_emailDomain = ''raibit.kr'',
     cf_raibitBaseDomain = [], cf_baseDomain = [], cf_webhookUrl = ''https://mail'', cf_deliveryMode = [], cf_authIssuer = [], cf_sessionTtl = JUndef,
     cf_identity = \<lparr>st_production = True, st_adminEmails = [], st_bootstrapToken = []\<rparr>\<rparr>"

definition demo_forgotten :: store where
  "demo_forgotten = demo_reset_store\<lparr>emailVerificationCodes := []\<rparr>"

lemma demo_recovery_request:
  "fst (requestPasswordRecovery demo_mail demo_settings ''secret'' (Some 0) ''Ada'' demo_forgotten) = Inl (HttpError ''valid email is required'' 400) \<and>
   (case fst (requestPasswordRecovery demo_mail demo_settings ''secret'' (Some 0) ''ada@example.org'' demo_forgotten) of
      Inr (who, row, code) \<Rightarrow> who = Some ''usr_1'' \<and> code = ''000042'' | Inl _ \<Rightarrow> False)"
  by code_simp

theorem password_recovery_round_trip_witness:
  "\<exists>challenge s1 s2. requestPasswordRecovery demo_mail demo_settings ''secret'' (Some 0) ''ada@example.org'' demo_forgotten =
     (Inr (Some ''usr_1'', challenge, ''000042''), s1) \<and>
     completePasswordRecovery demo_mail demo_settings ''secret'' (Some 1000) ''ada@example.org'' (JStr ''000042'') ''new password'' s1 = (Inr True, s2)"
proof -
  obtain challenge s1 where request: "requestPasswordRecovery demo_mail demo_settings ''secret'' (Some 0) ''ada@example.org'' demo_forgotten =
      (Inr (Some ''usr_1'', challenge, ''000042''), s1)"
    using demo_recovery_request
    by (cases "requestPasswordRecovery demo_mail demo_settings ''secret'' (Some 0) ''ada@example.org'' demo_forgotten") (auto split: sum.splits prod.splits)
  obtain h where "hashPassword (me_auth demo_mail) ''new password'' None 0 = Inr h"
    by (simp add: hashPassword_def assertPasswordStrength_def scrypt_def demo_mail_def demo_hashing_def Let_def)
  moreover have "keyed_users demo_forgotten"
    by (simp add: keyed_users_def demo_forgotten_def demo_reset_store_def demo_account_def)
  moreover have "\<forall>row \<in> set (emailVerificationCodes demo_forgotten). created_ms row < now (me_env demo_mail)"
    by (simp add: demo_forgotten_def)
  moreover have "me_random demo_mail < 1000000" by (simp add: demo_mail_def)
  ultimately show ?thesis using password_recovery_round_trip [OF request, where entered = 1000] request by fastforce
qed

end
