(* ===== verification/Moderation.thy ===== *)
theory Moderation
  imports Sessions
begin

text \<open>
  Moderation of accounts by administrators (\<open>ControlPlaneStore\<close> in \<open>packages/core/src/store.ts\<close>):
  approval with the default quota, rejection, bans and their removal, and what they do to the
  sessions of the account.

  The state is the store with its map of quotas. A quota row is its fields in the order of the
  source with the two times apart.
\<close>

section \<open>Quotas\<close>

record quota_row =
  qt_fields :: js_fields
  qt_createdAt :: time_text
  qt_updatedAt :: time_text

record moderated =
  md_store :: store
  md_quotas :: "(string \<times> quota_row) list"

type_synonym 'a mod_op = "(moderated, http_error, 'a) act"

definition on_store :: "'a op \<Rightarrow> 'a mod_op" where
  "on_store m = (\<lambda>s. case m (md_store s) of (r, t) \<Rightarrow> (r, s\<lparr>md_store := t\<rparr>))"

definition default_limits :: js_fields where
  "default_limits = [(''maxProjects'', JInt 1), (''maxServices'', JInt 2), (''maxDeploymentsPerDay'', JInt 3), (''maxPreviewDeployments'', JInt 1),
     (''maxCpuMillicores'', JInt 500), (''maxMemoryMb'', JInt 512), (''maxDbStorageMb'', JInt 512), (''maxObjectStorageMb'', JInt 1024),
     (''maxBuildMinutesPerMonth'', JInt 60), (''maxRuntimeHoursPerMonth'', JInt 120)]"

definition setQuota :: "env \<Rightarrow> string \<Rightarrow> js \<Rightarrow> js_fields \<Rightarrow> quota_row mod_op" where
  "setQuota e userId accountType limits =
     bindA (lift (normalizeAccountType (if accountType = JUndef then JStr ''NON_CLUB'' else accountType) ''NON_CLUB'')) (\<lambda>normalized.
     let quotaId = stableId ''quota'' [JStr userId, JStr normalized] in
     bindA (read (\<lambda>s. map_of (md_quotas s) quotaId)) (\<lambda>existing.
     let row = \<lparr>qt_fields = foldl (\<lambda>m (k, v). map_put k v m)
             ([(''id'', JStr quotaId), (''userId'', JStr userId), (''accountType'', JStr normalized)] @ default_limits) limits,
           qt_createdAt = (case existing of Some q \<Rightarrow> qt_createdAt q | None \<Rightarrow> nowIso e), qt_updatedAt = nowIso e\<rparr> in
     bindA (change (\<lambda>s. s\<lparr>md_quotas := map_put quotaId row (md_quotas s)\<rparr>)) (\<lambda>_.
     bindA (on_store (audit e ''system'' ''quota:set'' ''user'' userId [(''accountType'', JStr normalized), (''limits'', JObj limits)])) (\<lambda>_.
     ret row))))"

section \<open>Approval and rejection\<close>

definition user_not_found :: "string \<Rightarrow> http_error" where
  "user_not_found userId = HttpError (''user not found: '' @ userId) 404"

definition put_user :: "string \<Rightarrow> user_row \<Rightarrow> unit op" where
  "put_user userId user = change (\<lambda>s. s\<lparr>users := map_put userId user (users s)\<rparr>)"

definition approveUser :: "env \<Rightarrow> string \<Rightarrow> js \<Rightarrow> string option \<Rightarrow> string \<Rightarrow> user_row mod_op" where
  "approveUser e userId accountType role actorUserId =
     bindA (on_store (read_or (user_not_found userId) (\<lambda>s. map_of (users s) userId))) (\<lambda>user.
     bindA (lift (normalizeAccountType accountType (if usr_accountType user = [] then ''NON_CLUB'' else usr_accountType user))) (\<lambda>nextAccountType.
     let user' = user\<lparr>usr_approvalStatus := ''APPROVED'', usr_sessionVersion := usr_sessionVersion user + 1, usr_accountType := nextAccountType,
           usr_role := (if truthy role then the role else usr_role user), usr_updatedAt := nowIso e\<rparr> in
     bindA (on_store (put_user userId user')) (\<lambda>_.
     bindA (whenA (nextAccountType = ''NON_CLUB'') (setQuota e userId (JStr nextAccountType) [])) (\<lambda>_.
     bindA (on_store (audit e actorUserId ''user:approve'' ''user'' userId [(''accountType'', JStr nextAccountType)])) (\<lambda>_.
     ret (redactUser user'))))))"

definition rejectUser :: "env \<Rightarrow> string \<Rightarrow> string \<Rightarrow> user_row op" where
  "rejectUser e userId actorUserId =
     bindA (read_or (user_not_found userId) (\<lambda>s. map_of (users s) userId)) (\<lambda>user.
     let user' = user\<lparr>usr_approvalStatus := ''REJECTED'', usr_sessionVersion := usr_sessionVersion user + 1, usr_updatedAt := nowIso e\<rparr> in
     bindA (put_user userId user') (\<lambda>_.
     bindA (audit e actorUserId ''user:reject'' ''user'' userId []) (\<lambda>_.
     ret (redactUser user'))))"

section \<open>Bans\<close>

definition normalizeBanReason :: "js \<Rightarrow> (http_error, string) result" where
  "normalizeBanReason v =
     (let reason = trim (text_or_empty v) in
      if reason = [] \<or> 500 < length reason then Inl (HttpError ''ban reason must be between 1 and 500 characters'' 400) else Inr reason)"

text \<open>An expiration that is missing, null or blank is \<open>None\<close>.\<close>

definition normalizeBanExpiresAt :: "env \<Rightarrow> time_text option \<Rightarrow> (http_error, time_text option) result" where
  "normalizeBanExpiresAt e v =
     (case v of
        None \<Rightarrow> Inr None
      | Some t \<Rightarrow>
          (case dateParse (zone e) t of
             None \<Rightarrow> Inl (HttpError ''ban expiration must be a valid future date'' 400)
           | Some at \<Rightarrow> if at \<le> now e then Inl (HttpError ''ban expiration must be a valid future date'' 400) else Inr (Some (toISOString at))))"

definition time_js :: "(time_text \<Rightarrow> string) \<Rightarrow> time_text option \<Rightarrow> js" where
  "time_js print t = (case t of None \<Rightarrow> JNull | Some x \<Rightarrow> JStr (print x))"

definition banUser :: "env \<Rightarrow> (time_text \<Rightarrow> string) \<Rightarrow> string \<Rightarrow> js \<Rightarrow> js \<Rightarrow> time_text option \<Rightarrow> user_row op" where
  "banUser e print userId actor reason_input expires_input =
     bindA (read_or (user_not_found userId) (\<lambda>s. map_of (users s) userId)) (\<lambda>user.
     let actorUserId = (if js_truthy actor then js_text actor else ''system'') in
     bindA (guard (actorUserId \<noteq> userId) (HttpError ''administrators cannot ban themselves'' 403)) (\<lambda>_.
     bindA (lift (normalizeBanReason reason_input)) (\<lambda>reason.
     bindA (lift (normalizeBanExpiresAt e expires_input)) (\<lambda>expiresAt.
     let user' = user\<lparr>usr_bannedAt := Some (nowIso e), usr_banExpiresAt := expiresAt, usr_banReason := Some reason,
           usr_bannedByUserId := (if actorUserId = ''system'' then None else Some actorUserId),
           usr_sessionVersion := usr_sessionVersion user + 1, usr_updatedAt := nowIso e\<rparr> in
     bindA (put_user userId user') (\<lambda>_.
     bindA (audit e actorUserId ''user:ban'' ''user'' userId
       [(''reason'', JStr reason), (''expiresAt'', time_js print expiresAt), (''permanent'', JBool (expiresAt = None))]) (\<lambda>_.
     ret (redactUser user')))))))"

definition unbanUser :: "env \<Rightarrow> string \<Rightarrow> js \<Rightarrow> user_row op" where
  "unbanUser e userId actor =
     bindA (read_or (user_not_found userId) (\<lambda>s. map_of (users s) userId)) (\<lambda>user.
     let user' = user\<lparr>usr_bannedAt := None, usr_banExpiresAt := None, usr_banReason := None, usr_bannedByUserId := None,
           usr_sessionVersion := usr_sessionVersion user + 1, usr_updatedAt := nowIso e\<rparr> in
     bindA (put_user userId user') (\<lambda>_.
     bindA (audit e (if js_truthy actor then js_text actor else ''system'') ''user:unban'' ''user'' userId []) (\<lambda>_.
     ret (redactUser user'))))"

section \<open>Decisions end sessions\<close>

datatype decision =
    Approve js "string option" string
  | Reject string
  | Ban js js "time_text option"
  | Unban js

fun moderate :: "env \<Rightarrow> (time_text \<Rightarrow> string) \<Rightarrow> decision \<Rightarrow> string \<Rightarrow> user_row mod_op" where
  "moderate e print (Approve accountType role actor) userId = approveUser e userId accountType role actor"
| "moderate e print (Reject actor) userId = on_store (rejectUser e userId actor)"
| "moderate e print (Ban actor reason expiresAt) userId = on_store (banUser e print userId actor reason expiresAt)"
| "moderate e print (Unban actor) userId = on_store (unbanUser e userId actor)"

definition account_of :: "moderated \<Rightarrow> js \<Rightarrow> user_row option" where
  "account_of s who = (case who of JStr userId \<Rightarrow> findUserById userId (md_store s) | _ \<Rightarrow> None)"

lemma on_store_audit: "on_store (audit e actor action ttype tid metadata) s = (Inr (), s\<lparr>md_store := audited e actor action ttype tid metadata (md_store s)\<rparr>)"
  by (simp add: on_store_def run_simps)

lemma setQuota_users: "setQuota e userId accountType limits s = (r, t) \<Longrightarrow> users (md_store t) = users (md_store s)"
  by (auto simp: setQuota_def run_simps Let_def on_store_audit bindA_def ret_def change_def read_def split: sum.splits prod.splits)

lemma moderate_run:
  assumes "moderate e print decision userId s = (Inr view, t)"
  shows "\<exists>user user'. map_of (users (md_store s)) userId = Some user \<and> users (md_store t) = map_put userId user' (users (md_store s)) \<and>
    usr_sessionVersion user' = usr_sessionVersion user + 1 \<and> view = redactUser user'"
proof (cases decision)
  case (Approve accountType role actor)
  then show ?thesis using assms
    by (auto simp: approveUser_def on_store_def put_user_def run_simps Let_def whenA_def ret_def bindA_def read_or_def from_option_def
        dest!: setQuota_users split: option.splits prod.splits sum.splits if_splits)
next
  case (Reject actor)
  then show ?thesis using assms
    by (auto simp: rejectUser_def on_store_def put_user_def run_simps Let_def ret_def split: option.splits prod.splits)
next
  case (Ban actor reason expiresAt)
  then show ?thesis using assms
    by (auto simp: banUser_def on_store_def put_user_def run_simps Let_def ret_def split: option.splits prod.splits sum.splits if_splits)
next
  case (Unban actor)
  then show ?thesis using assms
    by (auto simp: unbanUser_def on_store_def put_user_def run_simps Let_def ret_def split: option.splits prod.splits)
qed

lemma assertCurrentSession_value: "assertCurrentSession e s u = Inr b \<Longrightarrow> b = True"
  by (auto simp: assertCurrentSession_def result_simps split: if_splits)

lemma subjectFromRequest_lookup:
  assumes "subjectFromRequest e headers (auth\<lparr>ac_currentUser := Some lookup\<rparr>) = Inr s" "sub_authMode s = ''jwt''"
  shows "assertCurrentSession e s (lookup (sub_id s)) = Inr True \<and>
    subjectFromRequest e headers (auth\<lparr>ac_currentUser := Some lookup'\<rparr>) = bindE (assertCurrentSession e s (lookup' (sub_id s))) (\<lambda>_. Inr s)"
  using assms
  by (cases "ac_mode auth = Some ''disabled''"; cases "bearer_token headers"; cases "ac_allowDevHeaders auth")
     (auto simp: subjectFromRequest_def plain_subject_def Let_def bindE_Inr_iff ensure_Inr_iff dest: assertCurrentSession_value)

text \<open>C15. Approving, rejecting, banning or unbanning an account ends its sessions at once: a request that was accepted before the decision as that
  account, other than with a global token, is refused with status 401 after it.\<close>

theorem decision_ends_sessions:
  assumes "subjectFromRequest a headers (auth\<lparr>ac_currentUser := Some (account_of s)\<rparr>) = Inr who"
    and "sub_authMode who = ''jwt''" "\<not> global_subject who" "sub_id who = JStr userId"
    and "moderate e print decision userId s = (Inr view, t)"
  shows "\<exists>reason. subjectFromRequest a headers (auth\<lparr>ac_currentUser := Some (account_of t)\<rparr>) = Inl (Unauthorized reason)"
proof -
  obtain user user' where step: "map_of (users (md_store s)) userId = Some user" "users (md_store t) = map_put userId user' (users (md_store s))"
      "usr_sessionVersion user' = usr_sessionVersion user + 1"
    using moderate_run [OF assms(5)] by blast
  note lookup = subjectFromRequest_lookup [OF assms(1,2), where lookup' = "account_of t"]
  have "account_of s (sub_id who) = Some user" "account_of t (sub_id who) = Some user'"
    using step assms(4) by (simp_all add: account_of_def findUserById_def)
  then show ?thesis using lookup assms(2,3) step(3)
    by (auto simp: assertCurrentSession_def ensure_def result_simps split: if_splits)
qed

definition demo_moderated :: moderated where
  "demo_moderated = \<lparr>md_store = empty_store\<lparr>users := [(''usr_1'', demo_account)]\<rparr>, md_quotas = []\<rparr>"

lemma demo_accepted:
  "subjectFromRequest demo_auth [(''authorization'', JStr ''Bearer h.b.sig'')] (demo_config\<lparr>ac_currentUser := Some (account_of demo_moderated)\<rparr>) =
     Inr (token_subject (JObj demo_body))"
  by code_simp

theorem decision_ends_sessions_witness:
  "\<exists>view t. moderate sample_env (\<lambda>_. []) (Ban (JStr ''adm'') (JStr ''spam'') None) ''usr_1'' demo_moderated = (Inr view, t) \<and>
     (\<exists>reason. subjectFromRequest demo_auth [(''authorization'', JStr ''Bearer h.b.sig'')]
       (demo_config\<lparr>ac_currentUser := Some (account_of t)\<rparr>) = Inl (Unauthorized reason))"
proof -
  have "isl (fst (moderate sample_env (\<lambda>_. []) (Ban (JStr ''adm'') (JStr ''spam'') None) ''usr_1'' demo_moderated)) = False"
    by code_simp
  then obtain view t where ban: "moderate sample_env (\<lambda>_. []) (Ban (JStr ''adm'') (JStr ''spam'') None) ''usr_1'' demo_moderated = (Inr view, t)"
    by (metis isl_def prod.collapse sum.collapse(2))
  have "sub_authMode (token_subject (JObj demo_body)) = ''jwt''" "\<not> global_subject (token_subject (JObj demo_body))"
      "sub_id (token_subject (JObj demo_body)) = JStr ''usr_1''" by code_simp+
  from decision_ends_sessions [OF demo_accepted this ban] ban show ?thesis by blast
qed

end
