(* ===== verification/Spec2Isabelle.thy ===== *)
theory Spec2Isabelle
  imports Account_Safety Recovery_Listing Rentals Workflows OAuth Credentials Moderation
begin

text \<open>
  \<^bold>\<open>Verification of the RaibitServer control plane\<close>

  RaibitServer is a platform for student clubs that builds, deploys and serves applications. Its
  control plane is written in TypeScript; the sources verified here are in
  \<open>src/packages/core/src\<close> and \<open>src/packages/schemas/src\<close> and are named below without that path.
  The control plane keeps accounts, organizations and their members, hands out sessions, queues
  jobs for workers, backs resources up and restores them, and rents host names.

  \<^bold>\<open>How the parts interact.\<close> A request carries a token. \<open>auth.ts\<close> verifies it, looks the account
  up in the store, and authorises the action by the role the account holds in the organization
  (\<open>rbac.ts\<close>). The operations then work on the state of \<open>ControlPlaneStore\<close> (\<open>store.ts\<close>) or of the
  in-memory repository of their component. Everything that revokes an authority (a role change,
  a removal, a password reset, a ban) raises the session version of the account, which the
  verification of the next request compares.

  \<^bold>\<open>Style of the model.\<close> Functions that may throw return a sum (\<open>Inl\<close> the error). Operations on a
  state are \<open>act\<close>s, functions from a state to a result and the next state, also when they throw, so
  that what a failed operation leaves behind is part of the model. They are composed with
  \<open>bindA\<close> in the order of the source. A JavaScript \<open>Map\<close> is an association list in insertion order,
  an array a list, an unchecked value a \<open>js\<close>. Dates are milliseconds and, where the source keeps
  texts, values of \<open>time_text\<close>. The clock, random values, hashes, URL parsing, \<open>localeCompare\<close> and
  answers of other services are fields of an environment record or arguments.

  \<^bold>\<open>Foundations.\<close>
  \<^item> \<open>Prelude\<close>: results, \<open>act\<close>s with the collections \<open>result_simps\<close>, \<open>run_simps\<close>, \<open>run_elims\<close>,
    \<open>leads_rules\<close> and \<open>keeps_rules\<close>, maps and tables (\<open>row_simps\<close>), times, and the locales
    \<open>step_invariant\<close> and \<open>step_monotone\<close> for properties of all reachable states.
  \<^item> \<open>JsRegex\<close>: regular expressions with a matcher by derivatives, proved equal to the language.
  \<^item> \<open>JsValue\<close>: JavaScript values, strings, truthiness and printing, on Latin-1 characters.
  \<^item> \<open>Ids\<close>: \<open>slugify\<close> and \<open>stableId\<close> of \<open>ids.ts\<close>.

  \<^bold>\<open>Accounts and organizations.\<close>
  \<^item> \<open>Lifecycle\<close>: the machines of \<open>lifecycle-v1.json\<close> and the status parsers and transition checks of
    \<open>lifecycle.ts\<close>, \<open>deployments.ts\<close> and the schemas package, in the locale \<open>lifecycle_machine\<close>. The two
    packages parse alike, terminal statuses are exact, a cleaned-up deployment stays so.
  \<^item> \<open>Secrets\<close>: masking of \<open>secrets.ts\<close>; a masked value depends on its ends only.
  \<^item> \<open>Rbac\<close>: roles, slugs and permissions of \<open>rbac.ts\<close> and the schemas package, which agree.
  \<^item> \<open>Store\<close>, \<open>Organizations\<close>: the tables of \<open>ControlPlaneStore\<close> and its operations on users,
    organizations and members with \<open>organization-creation.ts\<close>. An organization is created by an
    eligible account that becomes its owner; the identifier derived from a long slug can take an
    existing organization over, which is proved as it is.
  \<^item> \<open>Membership\<close>: \<open>membership-transition.ts\<close> against the interface \<open>membership_repository\<close>, and its
    provider \<open>membership-transition-memory.ts\<close>: who may change a role, and what a failure leaves.
  \<^item> \<open>Invites\<close>: \<open>organization-invite.ts\<close> and \<open>organization-invite-memory.ts\<close>.
  \<^item> \<open>Account_Safety\<close>: one step relation over all of these operations. An organization never loses
    its last owner, an invite token is used once, session versions never fall, and at most one
    invite per address is open.

  \<^bold>\<open>Sessions and credentials.\<close>
  \<^item> \<open>Sessions\<close>: \<open>identity.ts\<close> and \<open>auth.ts\<close>: password hashes, the policy for new accounts, signed
    tokens, \<open>subjectFromRequest\<close>, \<open>authorizeSubject\<close>. A token is accepted exactly as long as it has
    not expired and its account is current; an action in an organization is authorised by the role
    held there only. Numbers in tokens are integers.
  \<^item> \<open>OAuth\<close>: \<open>oauth-transaction.ts\<close>. A transaction is consumed once, and only by the browser,
    redirect URI and verifier it was opened for.
  \<^item> \<open>Codes\<close>: rate limits and one-time codes of \<open>store.ts\<close>, and the two transactions a code
    authorises, \<open>completeSignupEmailVerification\<close> and \<open>completePasswordRecovery\<close> (here
    \<open>store_completePasswordRecovery\<close>). A window lets exactly the limit through; wrong guesses lock a
    code; a reset changes one account and ends its sessions.
  \<^item> \<open>Credentials\<close>: \<open>email-verification.ts\<close> and \<open>password-recovery.ts\<close> on that store. The code of a
    recovery request resets the password. A delivery that the source schedules for later is an
    operation of its own (\<open>email_delivery_task\<close>, \<open>password_delivery_task\<close>).
  \<^item> \<open>Moderation\<close>: \<open>approveUser\<close>, \<open>rejectUser\<close>, \<open>banUser\<close>, \<open>unbanUser\<close>, \<open>setQuota\<close> of \<open>store.ts\<close>. Each
    decision refuses at once the sessions accepted before.

  \<^bold>\<open>Recovery of resources\<close> (\<open>resource-recovery*.ts\<close>).
  \<^item> \<open>Recovery_Types\<close>, \<open>Recovery_State\<close>: the tables, provenance, request bodies, canonical JSON, object
    keys, replays and views.
  \<^item> \<open>Recovery_Worker\<close>: claims with leases and attempts, fencing, mutations, cleanup.
  \<^item> \<open>Recovery_Repository\<close>: creation of backups and restores, cancellation, expiry, deletion,
    retirement, and the transaction of \<open>resource-recovery-memory.ts\<close>.
  \<^item> \<open>Recovery_Invariant\<close>, \<open>Recovery_Safety\<close>, \<open>Recovery_Properties\<close>: the invariant and the properties of
    all interleavings of these operations: fitting jobs, bounded attempts, pinned sources of open
    restores, fenced workers, distinct artifact keys, idempotent requests, progress of claims, and
    refinement of the lifecycle contract, with the one move that leaves it.
  \<^item> \<open>Recovery_Listing\<close>: cursors and pages of \<open>listBackups\<close>.

  \<^bold>\<open>Services.\<close>
  \<^item> \<open>Rentals\<close>: \<open>domain-rentals.ts\<close>. Rented names are unique and unreserved, resolve to their target,
    and redirects are safe and within the quota.
  \<^item> \<open>Workflows\<close>: \<open>workflows.ts\<close>, \<open>error-spec.ts\<close> and the queue of the store. Attempts are bounded and
    draining terminates in every interleaving of its workers.
  \<^item> \<open>Redaction\<close>: \<open>observability-redaction.ts\<close>. Open secrets, credentials of URLs and secret
    assignments are masked, and the record sanitizer returns observation values.

  \<^bold>\<open>Bounds.\<close> No model uses fuel: every loop is a total recursion, and the loop of workers in
  \<open>Workflows\<close> is a step relation with a measure. The limits that occur are those of the source (256
  rows pruned per call, five guesses per code, three recovery attempts, 63 characters of an
  identifier).

  \<^bold>\<open>Not modelled.\<close>
  \<^item> Database access through Prisma and SQL (\<open>persistence.ts\<close>, the \<open>*-postgres.ts\<close> files): the meaning of
    its operations is that of the database.
  \<^item> The HTTP layer (\<open>api.ts\<close> but for its account lookup, \<open>apps/api\<close>), the dashboard, the scripts: they
    route requests and render pages.
  \<^item> Building and running applications (\<open>build-executor.ts\<close>, \<open>kubernetes.ts\<close>, \<open>provisioner.ts\<close>,
    \<open>registry.ts\<close>, \<open>github-*.ts\<close> and what they call): they drive Docker, Kubernetes and GitHub.
  \<^item> The parts of \<open>store.ts\<close> on projects, services, deployments, resources, GitHub catalogs and custom
    domains, which serve those.
  \<^item> Cryptography of \<open>node:crypto\<close> (AES-GCM sealing in \<open>secret-vault.ts\<close>, HMAC, scrypt): parameters.
  \<^item> The Korean texts of messages (\<open>buildEmailVerificationMessage\<close>, \<open>passwordResetMessage\<close>): characters
    beyond Latin-1; a parameter \<open>compose\<close> stands for them.
  \<^item> The branch of \<open>verifyEmailCodeAndCreateSession\<close> for repositories without
    \<open>completeSignupEmailVerification\<close>; the store has that operation.
\<close>

end
